(* ===== verification/Prelude.thy ===== *)
theory Prelude
  imports Main "HOL-Library.AList"
begin

text \<open>
  Shared foundations of the development: the collections of rewrite rules the component
  theories fill (\<open>error_simps\<close>, \<open>status_simps\<close>, \<open>mark_simps\<close>, \<open>row_simps\<close>), the shape of a
  computation that reads and writes a state and may fail, and the generic facts on lists,
  association lists and finite maps used by more than one component.
\<close>

named_theorems error_simps "classification and text of errors"
named_theorems status_simps "job status constants and their distinctness"
named_theorems mark_simps "defining equations of the job transition methods"
named_theorems row_simps "row conversions and column projections"
named_theorems repo_defs "definitions of repository operations"

section \<open>Computations over a state\<close>

text \<open>
  A call that touches the world is a function from the world to a result and the world
  after the call; a call that returns a Go \<open>error\<close> has a sum as its result, \<open>Inl\<close> for a
  non-nil error.
\<close>

definition keeps :: "('s \<Rightarrow> bool) \<Rightarrow> ('s \<Rightarrow> 'v) \<Rightarrow> ('s \<Rightarrow> 'a \<times> 's) \<Rightarrow> bool" where
  "keeps ok view f \<longleftrightarrow> (\<forall>s. ok s \<longrightarrow> ok (snd (f s)) \<and> view (snd (f s)) = view s)"

lemma keepsI:
  assumes "\<And>s r s'. ok s \<Longrightarrow> f s = (r, s') \<Longrightarrow> ok s' \<and> view s' = view s"
  shows "keeps ok view f"
  unfolding keeps_def using assms by (metis prod.collapse)

lemma keepsD:
  assumes "keeps ok view f" and "ok s" and "f s = (r, s')"
  shows "ok s'" and "view s' = view s"
  using assms by (auto simp: keeps_def dest!: spec [where x = s])

lemma keeps_snd: "keeps ok view f \<Longrightarrow> ok s \<Longrightarrow> ok (snd (f s)) \<and> view (snd (f s)) = view s"
  by (simp add: keeps_def)

lemma Inr_keeps: "keeps ok view (\<lambda>h. (Inr x, h))"
  by (simp add: keeps_def)

text \<open>
  Rules that follow the shape of a function: steps one after the other, the branches on a
  result, and the values returned with the state. The collection \<open>keeps_intros\<close> proves
  that a composed call keeps the view from the same fact for its parts.
\<close>

named_theorems keeps_intros "the view is kept, by the shape of the call"

lemma keeps_bind [keeps_intros]:
  "keeps ok view f \<Longrightarrow> (\<And>x. keeps ok view (g x)) \<Longrightarrow> keeps ok view (\<lambda>s. case f s of (x, s') \<Rightarrow> g x s')"
  unfolding keeps_def by (metis (mono_tags, lifting) prod.case_eq_if)

lemma keeps_const [keeps_intros]: "keeps ok view (\<lambda>s. (c, s))"
  by (simp add: keeps_def)

lemma keeps_effect [keeps_intros]: "keeps ok view f \<Longrightarrow> keeps ok view (\<lambda>s. (c, snd (f s)))"
  by (simp add: keeps_def)

lemma keeps_sum [keeps_intros]:
  "(\<And>e. keeps ok view (f e)) \<Longrightarrow> (\<And>x. keeps ok view (g x)) \<Longrightarrow>
     keeps ok view (\<lambda>s. case r of Inl e \<Rightarrow> f e s | Inr x \<Rightarrow> g x s)"
  by (cases r) simp_all

lemma keeps_option [keeps_intros]:
  "keeps ok view f \<Longrightarrow> (\<And>x. keeps ok view (g x)) \<Longrightarrow>
     keeps ok view (\<lambda>s. case r of None \<Rightarrow> f s | Some x \<Rightarrow> g x s)"
  by (cases r) simp_all

lemma keeps_if [keeps_intros]:
  "keeps ok view f \<Longrightarrow> keeps ok view g \<Longrightarrow> keeps ok view (\<lambda>s. if b then f s else g s)"
  by (cases b) simp_all

lemma keeps_prod [keeps_intros]:
  "(\<And>a b. keeps ok view (f a b)) \<Longrightarrow> keeps ok view (\<lambda>s. case p of (a, b) \<Rightarrow> f a b s)"
  by (cases p) simp

lemma keeps_prod_fun [keeps_intros]:
  "(\<And>a b. keeps ok view (f a b)) \<Longrightarrow> keeps ok view (case p of (a, b) \<Rightarrow> f a b)"
  by (cases p) simp

section \<open>Association lists\<close>

text \<open>A Go map with string keys is an association list with distinct keys.\<close>

definition keyed :: "('k \<times> 'v) list \<Rightarrow> bool" where
  "keyed m \<longleftrightarrow> distinct (map fst m)"

lemma keyed_Nil [simp]: "keyed []"
  by (simp add: keyed_def)

lemma keyed_update [simp, intro]: "keyed m \<Longrightarrow> keyed (AList.update k v m)"
  by (simp add: keyed_def distinct_update)

lemma keyed_delete [simp, intro]: "keyed m \<Longrightarrow> keyed (AList.delete k m)"
  by (simp add: keyed_def distinct_delete)

lemma keyed_map_of: "keyed m \<Longrightarrow> (k, v) \<in> set m \<longleftrightarrow> map_of m k = Some v"
  by (simp add: keyed_def)

lemma keyed_inj_values:
  assumes "keyed m" and "\<And>k v. (k, v) \<in> set m \<Longrightarrow> f v = k"
  shows "distinct (map f (map snd m))"
proof -
  have "map f (map snd m) = map fst m"
    using assms(2) by auto
  moreover have "distinct (map fst m)"
    using assms(1) by (simp add: keyed_def)
  ultimately show ?thesis by (simp only:)
qed

section \<open>Lists and finite maps\<close>

lemma length_filter_card:
  assumes "distinct (map f xs)"
  shows "length (filter P xs) = card (f ` {x \<in> set xs. P x})"
proof -
  have d: "distinct (map f (filter P xs))"
    using assms by (rule distinct_map_filter)
  then have "length (filter P xs) = card (set (map f (filter P xs)))"
    by (metis distinct_card length_map)
  then show ?thesis by simp
qed

lemma map_of_key_filter:
  assumes "distinct (map f xs)"
  shows "map_of (map (\<lambda>x. (f x, x)) xs) k = Some x \<longleftrightarrow> x \<in> set xs \<and> f x = k"
proof -
  have "distinct (map fst (map (\<lambda>x. (f x, x)) xs))"
    using assms by (simp add: comp_def)
  then have "map_of (map (\<lambda>x. (f x, x)) xs) k = Some x
      \<longleftrightarrow> (k, x) \<in> set (map (\<lambda>x. (f x, x)) xs)"
    by (rule map_of_eq_Some_iff)
  then show ?thesis by auto
qed

lemma card_fun_upd_le:
  fixes m :: "'k \<rightharpoonup> 'v"
  assumes fin: "finite (dom m)" and imp: "P w \<Longrightarrow> \<exists>v. m k = Some v \<and> P v"
  shows "card {i. \<exists>v. (m(k \<mapsto> w)) i = Some v \<and> P v} \<le> card {i. \<exists>v. m i = Some v \<and> P v}"
proof (rule card_mono)
  show "finite {i. \<exists>v. m i = Some v \<and> P v}"
    by (rule finite_subset [OF _ fin]) auto
  show "{i. \<exists>v. (m(k \<mapsto> w)) i = Some v \<and> P v} \<subseteq> {i. \<exists>v. m i = Some v \<and> P v}"
    using imp by auto
qed

lemma sorted_key_rev_take:
  "sorted (map f xs) \<Longrightarrow> sorted (map f (take n xs))"
  by (simp add: take_map [symmetric] sorted_wrt_take)

end
