(* ===== verification/Go_Base.thy ===== *)
theory Go_Base
  imports Prelude "HOL-Library.Word"
begin

text \<open>
  The parts of the Go language and its standard library that every component uses: error
  values with wrapping and \<open>errors.Is\<close>, the sentinel errors of \<open>core/domain/errors.go\<close>,
  instants of time and 64-bit durations.
\<close>

section \<open>Errors\<close>

text \<open>
  \<open>core/domain/errors.go\<close> declares five sentinel errors. An error value is one of them, a
  value of another package known only by its text, or a \<open>fmt.Errorf\<close> value whose format
  wraps another error with the \<open>w\<close> verb; its text is the rendered message.
\<close>

datatype sentinel = NotFound | Conflict | Forbidden | InvalidState | InvalidInput

datatype go_error =
    Sentinel sentinel
  | Opaque string
  | Wrapped string go_error

definition ErrNotFound :: go_error where "ErrNotFound = Sentinel NotFound"
definition ErrConflict :: go_error where "ErrConflict = Sentinel Conflict"
definition ErrForbidden :: go_error where "ErrForbidden = Sentinel Forbidden"
definition ErrInvalidState :: go_error where "ErrInvalidState = Sentinel InvalidState"
definition ErrInvalidInput :: go_error where "ErrInvalidInput = Sentinel InvalidInput"

fun sentinel_text :: "sentinel \<Rightarrow> string" where
  "sentinel_text NotFound = ''not found''"
| "sentinel_text Conflict = ''conflict''"
| "sentinel_text Forbidden = ''forbidden''"
| "sentinel_text InvalidState = ''invalid state transition''"
| "sentinel_text InvalidInput = ''invalid input''"

text \<open>\<open>err.Error()\<close> and \<open>errors.Is(err, target)\<close> for a sentinel target.\<close>

fun error_text :: "go_error \<Rightarrow> string" where
  "error_text (Sentinel k) = sentinel_text k"
| "error_text (Opaque t) = t"
| "error_text (Wrapped t _) = t"

fun errors_Is :: "go_error \<Rightarrow> sentinel \<Rightarrow> bool" where
  "errors_Is (Sentinel k) t = (k = t)"
| "errors_Is (Opaque _) t = False"
| "errors_Is (Wrapped _ e) t = errors_Is e t"

lemmas sentinel_error_defs =
  ErrNotFound_def ErrConflict_def ErrForbidden_def ErrInvalidState_def ErrInvalidInput_def

lemma errors_Is_sentinels [error_simps, simp]:
  "errors_Is ErrNotFound k \<longleftrightarrow> k = NotFound"
  "errors_Is ErrConflict k \<longleftrightarrow> k = Conflict"
  "errors_Is ErrForbidden k \<longleftrightarrow> k = Forbidden"
  "errors_Is ErrInvalidState k \<longleftrightarrow> k = InvalidState"
  "errors_Is ErrInvalidInput k \<longleftrightarrow> k = InvalidInput"
  by (auto simp: sentinel_error_defs)

lemma errors_Is_unique: "errors_Is e k \<Longrightarrow> errors_Is e k' \<Longrightarrow> k = k'"
  by (induction e) auto

text \<open>A call that may fail: an error, or a value; the state after the call either way.\<close>

type_synonym ('s, 'a) act = "'s \<Rightarrow> (go_error + 'a) \<times> 's"

text \<open>
  Sequencing with the idiom \<open>if err != nil { return err }\<close>: the first error ends the
  function with the state reached so far.
\<close>

definition try_then :: "('s, 'a) act \<Rightarrow> ('a \<Rightarrow> ('s, 'b) act) \<Rightarrow> ('s, 'b) act" where
  "try_then f g s = (case f s of (Inl e, s') \<Rightarrow> (Inl e, s') | (Inr x, s') \<Rightarrow> g x s')"

lemma try_then_cases:
  assumes "try_then f g s = (r, s')"
  obtains (err) e where "f s = (Inl e, s')" and "r = Inl e"
  | (val) x s1 where "f s = (Inr x, s1)" and "g x s1 = (r, s')"
  using assms by (auto simp: try_then_def split: prod.splits sum.splits)

lemma try_then_keeps:
  assumes f: "keeps ok view f" and g: "\<And>x. keeps ok view (g x)"
  shows "keeps ok view (try_then f g)"
proof (rule keepsI)
  fix s r s'
  assume ok: "ok s" and "try_then f g s = (r, s')"
  from this(2) show "ok s' \<and> view s' = view s"
  proof (cases rule: try_then_cases)
    case (err e)
    then show ?thesis using keepsD [OF f ok] by blast
  next
    case (val x s1)
    note k = keepsD [OF f ok val(1)]
    show ?thesis using keepsD [OF g k(1) val(2)] k by simp
  qed
qed

section \<open>Time\<close>

text \<open>
  \<open>time.Time\<close> is an instant, counted in nanoseconds from the zero time (year 1, UTC), so
  that \<open>IsZero\<close> is \<open>= 0\<close>; \<open>Before\<close> and \<open>After\<close> are the orders. \<open>time.Duration\<close> is an
  \<open>int64\<close> of nanoseconds: arithmetic on it wraps.
\<close>

type_synonym time = int
type_synonym duration = "64 word"

definition zero_time :: time where "zero_time = 0"
definition IsZero :: "time \<Rightarrow> bool" where "IsZero t \<longleftrightarrow> t = zero_time"
definition Before :: "time \<Rightarrow> time \<Rightarrow> bool" where "Before a b \<longleftrightarrow> a < b"
definition After :: "time \<Rightarrow> time \<Rightarrow> bool" where "After a b \<longleftrightarrow> a > b"

definition Second :: int where "Second = 1000000000"
definition Minute :: int where "Minute = 60 * Second"
definition Hour :: int where "Hour = 60 * Minute"

text \<open>\<open>t.Sub(u)\<close> saturates at the largest and smallest duration instead of wrapping.\<close>

definition max_duration :: int where "max_duration = 2 ^ 63 - 1"
definition min_duration :: int where "min_duration = - (2 ^ 63)"

definition time_Sub :: "time \<Rightarrow> time \<Rightarrow> int" where
  "time_Sub t u = max min_duration (min max_duration (t - u))"

lemma time_Sub_exceeds:
  assumes "0 \<le> w" and "w < max_duration"
  shows "time_Sub t u > w \<longleftrightarrow> t - u > w"
  using assms by (auto simp: time_Sub_def max_duration_def min_duration_def)

end
