(* ===== verification/Domain.thy ===== *)
theory Domain
  imports Go_Base
begin

text \<open>
  The entities of \<open>core/domain\<close>: specs, credentials, users, API keys, and the job with its
  life cycle. A Go struct is a record whose fields carry the struct's name; a method with a
  pointer receiver returns the struct after the call together with its error. The life
  cycle is also given abstractly, as a relation on statuses, and every transition method
  is shown to follow it.
\<close>

section \<open>Specs, credentials, users and API keys\<close>

type_synonym UserID = string
type_synonym JobID = string
type_synonym APIKeyID = string
type_synonym APIKeyHash = string
type_synonym SourceType = string
type_synonym JobStatus = string

definition SourceTypeInline :: SourceType where "SourceTypeInline = ''inline''"
definition SourceTypePath :: SourceType where "SourceTypePath = ''path''"
definition SourceTypeURL :: SourceType where "SourceTypeURL = ''url''"

record SpecSource =
  Spec_Type :: SourceType
  Spec_Value :: string

definition SpecSource_Valid :: "SpecSource \<Rightarrow> bool" where
  "SpecSource_Valid s =
     (if Spec_Value s = '''' then False
      else Spec_Type s = SourceTypeInline \<or> Spec_Type s = SourceTypePath
             \<or> Spec_Type s = SourceTypeURL)"

record GitCreds =
  GitCreds_Token :: string
  GitCreds_ExpiresAt :: time

definition GitCreds_Expired :: "GitCreds \<Rightarrow> time \<Rightarrow> bool" where
  "GitCreds_Expired c now =
     (if IsZero (GitCreds_ExpiresAt c) then False else \<not> Before now (GitCreds_ExpiresAt c))"

record AnthropicCreds =
  AnthropicCreds_APIKey :: string

record User =
  User_ID :: UserID
  User_DisplayName :: string
  User_CreatedAt :: time

definition NewUser :: "UserID \<Rightarrow> string \<Rightarrow> time \<Rightarrow> User" where
  "NewUser uid displayName now =
     \<lparr>User_ID = uid, User_DisplayName = displayName, User_CreatedAt = now\<rparr>"

record APIKey =
  APIKey_ID :: APIKeyID
  APIKey_UserID :: UserID
  APIKey_Name :: string
  APIKey_Prefix :: string
  APIKey_Hash :: APIKeyHash
  APIKey_LastUsedAt :: "time option"
  APIKey_CreatedAt :: time

definition NewAPIKey ::
  "APIKeyID \<Rightarrow> UserID \<Rightarrow> string \<Rightarrow> string \<Rightarrow> APIKeyHash \<Rightarrow> time \<Rightarrow> APIKey" where
  "NewAPIKey kid userID name prefix hash now =
     \<lparr>APIKey_ID = kid, APIKey_UserID = userID, APIKey_Name = name, APIKey_Prefix = prefix,
      APIKey_Hash = hash, APIKey_LastUsedAt = None, APIKey_CreatedAt = now\<rparr>"

definition APIKey_RecordUsed :: "APIKey \<Rightarrow> time \<Rightarrow> APIKey" where
  "APIKey_RecordUsed k now = k\<lparr>APIKey_LastUsedAt := Some now\<rparr>"

section \<open>Jobs\<close>

definition JobStatusQueued :: JobStatus where "JobStatusQueued = ''queued''"
definition JobStatusRunning :: JobStatus where "JobStatusRunning = ''running''"
definition JobStatusSucceeded :: JobStatus where "JobStatusSucceeded = ''succeeded''"
definition JobStatusFailed :: JobStatus where "JobStatusFailed = ''failed''"
definition JobStatusCancelled :: JobStatus where "JobStatusCancelled = ''cancelled''"

lemmas JobStatus_defs =
  JobStatusQueued_def JobStatusRunning_def JobStatusSucceeded_def
  JobStatusFailed_def JobStatusCancelled_def

lemma JobStatus_distinct [status_simps, simp]:
  "JobStatusQueued \<noteq> JobStatusRunning" "JobStatusRunning \<noteq> JobStatusQueued"
  "JobStatusQueued \<noteq> JobStatusSucceeded" "JobStatusSucceeded \<noteq> JobStatusQueued"
  "JobStatusQueued \<noteq> JobStatusFailed" "JobStatusFailed \<noteq> JobStatusQueued"
  "JobStatusQueued \<noteq> JobStatusCancelled" "JobStatusCancelled \<noteq> JobStatusQueued"
  "JobStatusRunning \<noteq> JobStatusSucceeded" "JobStatusSucceeded \<noteq> JobStatusRunning"
  "JobStatusRunning \<noteq> JobStatusFailed" "JobStatusFailed \<noteq> JobStatusRunning"
  "JobStatusRunning \<noteq> JobStatusCancelled" "JobStatusCancelled \<noteq> JobStatusRunning"
  "JobStatusSucceeded \<noteq> JobStatusFailed" "JobStatusFailed \<noteq> JobStatusSucceeded"
  "JobStatusSucceeded \<noteq> JobStatusCancelled" "JobStatusCancelled \<noteq> JobStatusSucceeded"
  "JobStatusFailed \<noteq> JobStatusCancelled" "JobStatusCancelled \<noteq> JobStatusFailed"
  by (simp_all add: JobStatus_defs)

record Job =
  Job_ID :: JobID
  Job_UserID :: UserID
  Job_Status :: JobStatus
  Job_Repo :: string
  Job_BaseBranch :: string
  Job_WorkBranch :: string
  Job_Spec :: SpecSource
  Job_ModelOverride :: string
  Job_ContainerID :: string
  Job_PRURL :: string
  Job_Error :: string
  Job_LogPath :: string
  Job_CreatedAt :: time
  Job_StartedAt :: "time option"
  Job_FinishedAt :: "time option"

definition NewJob ::
  "JobID \<Rightarrow> UserID \<Rightarrow> string \<Rightarrow> string \<Rightarrow> string \<Rightarrow> SpecSource \<Rightarrow> string \<Rightarrow> time \<Rightarrow> Job" where
  "NewJob jid userID repo baseBranch workBranch spec modelOverride now =
     \<lparr>Job_ID = jid, Job_UserID = userID, Job_Status = JobStatusQueued, Job_Repo = repo,
      Job_BaseBranch = baseBranch, Job_WorkBranch = workBranch, Job_Spec = spec,
      Job_ModelOverride = modelOverride, Job_ContainerID = '''', Job_PRURL = '''',
      Job_Error = '''', Job_LogPath = '''', Job_CreatedAt = now, Job_StartedAt = None,
      Job_FinishedAt = None\<rparr>"

definition IsTerminal :: "Job \<Rightarrow> bool" where
  "IsTerminal j \<longleftrightarrow>
     Job_Status j = JobStatusSucceeded \<or> Job_Status j = JobStatusFailed
       \<or> Job_Status j = JobStatusCancelled"

text \<open>
  The transition methods of \<open>*Job\<close>. Each returns its error (\<open>None\<close> for nil) and the job
  after the call, which is the job unchanged when the guard rejects the transition.
\<close>

definition MarkRunning :: "Job \<Rightarrow> string \<Rightarrow> time \<Rightarrow> go_error option \<times> Job" where
  "MarkRunning j containerID now =
     (if Job_Status j \<noteq> JobStatusQueued then (Some ErrInvalidState, j)
      else (None, j\<lparr>Job_Status := JobStatusRunning, Job_ContainerID := containerID,
                    Job_StartedAt := Some now\<rparr>))"

definition MarkSucceeded :: "Job \<Rightarrow> string \<Rightarrow> time \<Rightarrow> go_error option \<times> Job" where
  "MarkSucceeded j prURL now =
     (if Job_Status j \<noteq> JobStatusRunning then (Some ErrInvalidState, j)
      else (None, j\<lparr>Job_Status := JobStatusSucceeded, Job_PRURL := prURL,
                    Job_FinishedAt := Some now\<rparr>))"

definition MarkFailed :: "Job \<Rightarrow> string \<Rightarrow> time \<Rightarrow> go_error option \<times> Job" where
  "MarkFailed j reason now =
     (if IsTerminal j then (Some ErrInvalidState, j)
      else (None, j\<lparr>Job_Status := JobStatusFailed, Job_Error := reason,
                    Job_FinishedAt := Some now\<rparr>))"

definition MarkCancelled :: "Job \<Rightarrow> time \<Rightarrow> go_error option \<times> Job" where
  "MarkCancelled j now =
     (if Job_Status j \<noteq> JobStatusQueued \<and> Job_Status j \<noteq> JobStatusRunning
      then (Some ErrInvalidState, j)
      else (None, j\<lparr>Job_Status := JobStatusCancelled, Job_FinishedAt := Some now\<rparr>))"

lemmas Mark_defs [mark_simps] =
  MarkRunning_def MarkSucceeded_def MarkFailed_def MarkCancelled_def

text \<open>A job counts against the concurrency caps while it is queued or running.\<close>

definition active_status :: "JobStatus \<Rightarrow> bool" where
  "active_status st \<longleftrightarrow> st = JobStatusQueued \<or> st = JobStatusRunning"

section \<open>The life cycle, abstractly\<close>

inductive lifecycle :: "JobStatus \<Rightarrow> JobStatus \<Rightarrow> bool" where
  start: "lifecycle JobStatusQueued JobStatusRunning"
| fail_queued: "lifecycle JobStatusQueued JobStatusFailed"
| cancel_queued: "lifecycle JobStatusQueued JobStatusCancelled"
| succeed: "lifecycle JobStatusRunning JobStatusSucceeded"
| fail_running: "lifecycle JobStatusRunning JobStatusFailed"
| cancel_running: "lifecycle JobStatusRunning JobStatusCancelled"

inductive_simps lifecycle_simps: "lifecycle a b"

lemma lifecycle_active: "lifecycle a b \<Longrightarrow> active_status a"
  by (auto simp: lifecycle_simps active_status_def)

lemma lifecycle_acyclic: "\<not> lifecycle\<^sup>+\<^sup>+ a a"
proof
  define rank :: "JobStatus \<Rightarrow> nat" where
    "rank st = (if st = JobStatusQueued then 0 else if st = JobStatusRunning then 1 else 2)" for st
  have step: "lifecycle x y \<Longrightarrow> rank x < rank y" for x y
    by (auto simp: lifecycle_simps rank_def)
  have "lifecycle\<^sup>+\<^sup>+ x y \<Longrightarrow> rank x < rank y" for x y
    by (induction rule: tranclp.induct) (auto dest: step)
  moreover assume "lifecycle\<^sup>+\<^sup>+ a a"
  ultimately show False by blast
qed

text \<open>The five statuses the code writes, and the shape of a job in each of them.\<close>

definition known_status :: "JobStatus \<Rightarrow> bool" where
  "known_status st \<longleftrightarrow>
     st \<in> {JobStatusQueued, JobStatusRunning, JobStatusSucceeded, JobStatusFailed,
           JobStatusCancelled}"

definition wf_job :: "Job \<Rightarrow> bool" where
  "wf_job j =
     (if Job_Status j = JobStatusQueued then
        Job_ContainerID j = '''' \<and> Job_StartedAt j = None \<and> Job_FinishedAt j = None
        \<and> Job_PRURL j = '''' \<and> Job_Error j = ''''
      else if Job_Status j = JobStatusRunning then
        Job_StartedAt j \<noteq> None \<and> Job_FinishedAt j = None \<and> Job_PRURL j = ''''
        \<and> Job_Error j = ''''
      else if Job_Status j = JobStatusSucceeded then
        Job_StartedAt j \<noteq> None \<and> Job_FinishedAt j \<noteq> None \<and> Job_Error j = ''''
      else if Job_Status j = JobStatusFailed then
        Job_FinishedAt j \<noteq> None \<and> Job_PRURL j = ''''
      else
        Job_Status j = JobStatusCancelled \<and> Job_FinishedAt j \<noteq> None
        \<and> Job_PRURL j = '''' \<and> Job_Error j = '''')"

lemma wf_job_known: "wf_job j \<Longrightarrow> known_status (Job_Status j)"
  by (simp add: wf_job_def known_status_def split: if_splits)

lemma wf_job_queued:
  "wf_job j \<Longrightarrow> Job_Status j = JobStatusQueued \<Longrightarrow>
     Job_ContainerID j = '''' \<and> Job_StartedAt j = None \<and> Job_FinishedAt j = None
     \<and> Job_PRURL j = '''' \<and> Job_Error j = ''''"
  by (simp add: wf_job_def)

lemma wf_job_running:
  "wf_job j \<Longrightarrow> Job_Status j = JobStatusRunning \<Longrightarrow>
     Job_StartedAt j \<noteq> None \<and> Job_FinishedAt j = None \<and> Job_PRURL j = '''' \<and> Job_Error j = ''''"
  by (simp add: wf_job_def)

lemma IsTerminal_iff:
  "known_status (Job_Status j) \<Longrightarrow> IsTerminal j \<longleftrightarrow> \<not> active_status (Job_Status j)"
  by (auto simp: known_status_def IsTerminal_def active_status_def)

text \<open>
  What a transition may change: the status along the life cycle and the outcome fields;
  never the identity, the request or the creation data of the job.
\<close>

definition same_request :: "Job \<Rightarrow> Job \<Rightarrow> bool" where
  "same_request j j' \<longleftrightarrow>
     Job_ID j' = Job_ID j \<and> Job_UserID j' = Job_UserID j \<and> Job_Repo j' = Job_Repo j
     \<and> Job_BaseBranch j' = Job_BaseBranch j \<and> Job_WorkBranch j' = Job_WorkBranch j
     \<and> Job_Spec j' = Job_Spec j \<and> Job_ModelOverride j' = Job_ModelOverride j
     \<and> Job_LogPath j' = Job_LogPath j \<and> Job_CreatedAt j' = Job_CreatedAt j"

definition job_advance :: "Job \<Rightarrow> Job \<Rightarrow> bool" where
  "job_advance j j' \<longleftrightarrow>
     lifecycle (Job_Status j) (Job_Status j') \<and> same_request j j' \<and> wf_job j'"

lemma same_request_refl [simp]: "same_request j j"
  by (simp add: same_request_def)

lemma wf_NewJob [simp]: "wf_job (NewJob i u r b w sp m t)"
  by (simp add: wf_job_def NewJob_def known_status_def)

lemma job_advanceI:
  "lifecycle (Job_Status j) (Job_Status j') \<Longrightarrow> same_request j j' \<Longrightarrow> wf_job j' \<Longrightarrow> job_advance j j'"
  by (simp add: job_advance_def)

lemma wf_job_active_outcome:
  assumes "wf_job j" and "active_status (Job_Status j)"
  shows "Job_PRURL j = ''''" and "Job_Error j = ''''" and "Job_FinishedAt j = None"
  using assms by (auto simp: active_status_def dest: wf_job_queued wf_job_running)

lemma lifecycle_end:
  "active_status a \<Longrightarrow> lifecycle a JobStatusFailed"
  "active_status a \<Longrightarrow> lifecycle a JobStatusCancelled"
  by (auto simp: active_status_def lifecycle_simps)

lemma MarkRunning_advance:
  assumes "wf_job j" and "MarkRunning j c t = (None, j')"
  shows "job_advance j j'"
proof (rule job_advanceI)
  have st: "Job_Status j = JobStatusQueued"
    and j': "j' = j\<lparr>Job_Status := JobStatusRunning, Job_ContainerID := c, Job_StartedAt := Some t\<rparr>"
    using assms(2) by (simp_all add: MarkRunning_def split: if_splits)
  show "lifecycle (Job_Status j) (Job_Status j')" by (simp add: st j' lifecycle_simps)
  show "same_request j j'" by (simp add: j' same_request_def)
  show "wf_job j'" using wf_job_queued [OF assms(1) st] by (simp add: j' wf_job_def)
qed

lemma MarkSucceeded_advance:
  assumes "wf_job j" and "MarkSucceeded j u t = (None, j')"
  shows "job_advance j j'"
proof (rule job_advanceI)
  have st: "Job_Status j = JobStatusRunning"
    and j': "j' = j\<lparr>Job_Status := JobStatusSucceeded, Job_PRURL := u, Job_FinishedAt := Some t\<rparr>"
    using assms(2) by (simp_all add: MarkSucceeded_def split: if_splits)
  show "lifecycle (Job_Status j) (Job_Status j')" by (simp add: st j' lifecycle_simps)
  show "same_request j j'" by (simp add: j' same_request_def)
  show "wf_job j'" using wf_job_running [OF assms(1) st] by (simp add: j' wf_job_def)
qed

lemma MarkFailed_advance:
  assumes "wf_job j" and "MarkFailed j r t = (None, j')"
  shows "job_advance j j'"
proof (rule job_advanceI)
  have nt: "\<not> IsTerminal j"
    and j': "j' = j\<lparr>Job_Status := JobStatusFailed, Job_Error := r, Job_FinishedAt := Some t\<rparr>"
    using assms(2) by (simp_all add: MarkFailed_def split: if_splits)
  have act: "active_status (Job_Status j)"
    using nt wf_job_known [OF assms(1)] by (simp add: IsTerminal_iff)
  show "lifecycle (Job_Status j) (Job_Status j')" using act by (simp add: j' lifecycle_end)
  show "same_request j j'" by (simp add: j' same_request_def)
  show "wf_job j'" using wf_job_active_outcome [OF assms(1) act] by (simp add: j' wf_job_def)
qed

lemma MarkCancelled_advance:
  assumes "wf_job j" and "MarkCancelled j t = (None, j')"
  shows "job_advance j j'"
proof (rule job_advanceI)
  have act: "active_status (Job_Status j)"
    and j': "j' = j\<lparr>Job_Status := JobStatusCancelled, Job_FinishedAt := Some t\<rparr>"
    using assms(2) by (auto simp: MarkCancelled_def active_status_def split: if_splits)
  show "lifecycle (Job_Status j) (Job_Status j')" using act by (simp add: j' lifecycle_end)
  show "same_request j j'" by (simp add: j' same_request_def)
  show "wf_job j'" using wf_job_active_outcome [OF assms(1) act] by (simp add: j' wf_job_def)
qed

lemmas Mark_advance =
  MarkRunning_advance MarkSucceeded_advance MarkFailed_advance MarkCancelled_advance

lemma Mark_error_unchanged:
  "MarkRunning j c t = (Some e, j') \<Longrightarrow> j' = j"
  "MarkSucceeded j c t = (Some e, j') \<Longrightarrow> j' = j"
  "MarkFailed j c t = (Some e, j') \<Longrightarrow> j' = j"
  "MarkCancelled j t = (Some e, j') \<Longrightarrow> j' = j"
  by (auto simp: mark_simps split: if_splits)

text \<open>
  C15. Each transition method of a job advances a well-formed job along the life cycle or
  answers the invalid-state error and leaves it as it was; the guards admit exactly the
  documented source statuses.
\<close>

theorem job_transitions:
  assumes "wf_job j"
  shows "(\<forall>m \<in> {MarkRunning j c t, MarkSucceeded j u t, MarkFailed j r t, MarkCancelled j t}.
           case m of (None, j') \<Rightarrow> job_advance j j' | (Some e, j') \<Rightarrow> e = ErrInvalidState \<and> j' = j)
    \<and> (fst (MarkRunning j c t) = None \<longleftrightarrow> Job_Status j = JobStatusQueued)
    \<and> (fst (MarkSucceeded j u t) = None \<longleftrightarrow> Job_Status j = JobStatusRunning)
    \<and> (fst (MarkFailed j r t) = None \<longleftrightarrow> active_status (Job_Status j))
    \<and> (fst (MarkCancelled j t) = None \<longleftrightarrow> active_status (Job_Status j))"
proof -
  have "\<forall>m \<in> {MarkRunning j c t, MarkSucceeded j u t, MarkFailed j r t, MarkCancelled j t}.
      case m of (None, j') \<Rightarrow> job_advance j j' | (Some e, j') \<Rightarrow> e = ErrInvalidState \<and> j' = j"
    using Mark_advance [OF assms] by (auto simp: Mark_defs split: if_splits)
  moreover have "IsTerminal j \<longleftrightarrow> \<not> active_status (Job_Status j)"
    using IsTerminal_iff wf_job_known [OF assms] by blast
  ultimately show ?thesis
    by (simp add: MarkRunning_def MarkSucceeded_def MarkFailed_def MarkCancelled_def active_status_def)
qed

theorem job_transitions_witness:
  "job_advance (NewJob ''j'' ''u'' ''r'' ''b'' ''w'' \<lparr>Spec_Type = ''inline'', Spec_Value = ''x''\<rparr> ''m'' 1)
     (snd (MarkRunning (NewJob ''j'' ''u'' ''r'' ''b'' ''w'' \<lparr>Spec_Type = ''inline'', Spec_Value = ''x''\<rparr> ''m'' 1) ''c'' 2))"
  using job_transitions [where c = "''c''" and t = 2,
      OF wf_NewJob [of "''j''" "''u''" "''r''" "''b''" "''w''" "\<lparr>Spec_Type = ''inline'', Spec_Value = ''x''\<rparr>" "''m''" 1]]
  by (simp add: MarkRunning_def NewJob_def)

end
