(* ===== verification/Ports.thy ===== *)
theory Ports
  imports Domain
begin

text \<open>
  The outbound ports of \<open>core/usecase/ports\<close>. A Go interface is a record of functions over
  an arbitrary state \<open>'s\<close>, so the use cases are written once for every adapter. The laws a
  caller relies on, stated in the interfaces' comments, are locales: each relates the
  operations to an abstract view of the state. Adapters interpret them in their theories.
\<close>

section \<open>Data exchanged with the runner\<close>

record RunnerStartSpec =
  RunnerStartSpec_JobID :: JobID
  RunnerStartSpec_Repo :: string
  RunnerStartSpec_BaseBranch :: string
  RunnerStartSpec_WorkBranch :: string
  RunnerStartSpec_Spec :: SpecSource
  RunnerStartSpec_GitCreds :: GitCreds
  RunnerStartSpec_Anthropic :: AnthropicCreds
  RunnerStartSpec_Model :: string
  RunnerStartSpec_LogPath :: string

record RunnerResult =
  RunnerResult_JobID :: JobID
  RunnerResult_ExitCode :: int
  RunnerResult_PRURL :: string
  RunnerResult_Error :: string
  RunnerResult_NotificationWebhook :: string
  RunnerResult_LogTail :: string

section \<open>The interfaces\<close>

record 's JobsRepository =
  Jobs_Create :: "Job \<Rightarrow> ('s, unit) act"
  Jobs_Get :: "JobID \<Rightarrow> ('s, Job) act"
  Jobs_GetForUser :: "JobID \<Rightarrow> UserID \<Rightarrow> ('s, Job) act"
  Jobs_ListForUser :: "UserID \<Rightarrow> int \<Rightarrow> ('s, Job list) act"
  Jobs_ListByStatus :: "JobStatus \<Rightarrow> ('s, Job list) act"
  Jobs_Update :: "Job \<Rightarrow> ('s, unit) act"
  Jobs_CountActiveForUser :: "UserID \<Rightarrow> ('s, int) act"
  Jobs_CountActiveGlobal :: "('s, int) act"

record 's APIKeysRepository =
  Keys_Create :: "APIKey \<Rightarrow> ('s, unit) act"
  Keys_GetByPrefix :: "string \<Rightarrow> ('s, APIKey list) act"
  Keys_ListForUser :: "UserID \<Rightarrow> ('s, APIKey list) act"
  Keys_Delete :: "APIKeyID \<Rightarrow> UserID \<Rightarrow> ('s, unit) act"
  Keys_RecordUsed :: "APIKeyID \<Rightarrow> time \<Rightarrow> ('s, unit) act"

record 's SecretsRepository =
  Secrets_SetAnthropicCreds :: "UserID \<Rightarrow> AnthropicCreds \<Rightarrow> ('s, unit) act"
  Secrets_GetAnthropicCreds :: "UserID \<Rightarrow> ('s, AnthropicCreds) act"
  Secrets_DeleteAnthropicCreds :: "UserID \<Rightarrow> ('s, unit) act"

record 's Clock =
  Clock_Now :: "'s \<Rightarrow> time \<times> 's"

record 's IDGenerator =
  IDGen_NewJobID :: "'s \<Rightarrow> string \<times> 's"
  IDGen_NewAPIKeyID :: "'s \<Rightarrow> string \<times> 's"
  IDGen_NewUserID :: "'s \<Rightarrow> string \<times> 's"
  IDGen_NewAPIKeyPlaintext :: "'s \<Rightarrow> (string \<times> string) \<times> 's"

record 's RepoCredentialsProvider =
  RepoCreds_For :: "UserID \<Rightarrow> string \<Rightarrow> ('s, GitCreds) act"

record 's AnthropicCredentialsProvider =
  AnthropicCreds_For :: "UserID \<Rightarrow> ('s, AnthropicCreds) act"

text \<open>
  \<open>Start\<close> also takes the completion callback in Go. The adapter never calls it before
  \<open>Start\<close> returns control to another goroutine, so the callback is not an argument here:
  a completion is a later event of the system that runs \<open>HandleRunnerCompletion\<close>.
\<close>

record 's RunnerService =
  Runner_Start :: "RunnerStartSpec \<Rightarrow> ('s, string) act"
  Runner_Inspect :: "string \<Rightarrow> ('s, bool) act"
  Runner_Stop :: "string \<Rightarrow> ('s, unit) act"

record 's WebhookDispatcher =
  Dispatcher_Dispatch :: "string \<Rightarrow> string \<Rightarrow> ('s, unit) act"

section \<open>The contract of a jobs repository\<close>

definition user_jobs :: "(JobID \<rightharpoonup> Job) \<Rightarrow> UserID \<Rightarrow> Job set" where
  "user_jobs m u = {j \<in> ran m. Job_UserID j = u}"

definition active_jobs :: "(JobID \<rightharpoonup> Job) \<Rightarrow> (Job \<Rightarrow> bool) \<Rightarrow> JobID set" where
  "active_jobs m P = {i. \<exists>j. m i = Some j \<and> active_status (Job_Status j) \<and> P j}"

definition newest_first :: "Job list \<Rightarrow> bool" where
  "newest_first js \<longleftrightarrow> sorted_wrt (\<lambda>a b. Job_CreatedAt a \<ge> Job_CreatedAt b) js"

locale jobs_port =
  fixes repo :: "'s JobsRepository"
    and jobs_of :: "'s \<Rightarrow> JobID \<rightharpoonup> Job"
    and ok :: "'s \<Rightarrow> bool"
  assumes finite_jobs: "ok s \<Longrightarrow> finite (dom (jobs_of s))"
    and job_key: "ok s \<Longrightarrow> jobs_of s i = Some j \<Longrightarrow> Job_ID j = i"
    and Create_ok: "ok s \<Longrightarrow> Jobs_Create repo j s = (Inr x, s') \<Longrightarrow>
      ok s' \<and> jobs_of s (Job_ID j) = None \<and> jobs_of s' = (jobs_of s)(Job_ID j \<mapsto> j)"
    and Create_err: "ok s \<Longrightarrow> Jobs_Create repo j s = (Inl e, s') \<Longrightarrow>
      ok s' \<and> jobs_of s' = jobs_of s"
    and Get_keeps: "keeps ok jobs_of (Jobs_Get repo i)"
    and Get_ok: "ok s \<Longrightarrow> Jobs_Get repo i s = (Inr j, s') \<Longrightarrow> jobs_of s i = Some j"
    and Get_missing: "ok s \<Longrightarrow> Jobs_Get repo i s = (Inl e, s') \<Longrightarrow> errors_Is e NotFound \<Longrightarrow>
      jobs_of s i = None"
    and GetForUser_keeps: "keeps ok jobs_of (Jobs_GetForUser repo i u)"
    and GetForUser_ok: "ok s \<Longrightarrow> Jobs_GetForUser repo i u s = (Inr j, s') \<Longrightarrow>
      jobs_of s i = Some j \<and> Job_UserID j = u"
    and GetForUser_missing: "ok s \<Longrightarrow> Jobs_GetForUser repo i u s = (Inl e, s') \<Longrightarrow>
      errors_Is e NotFound \<Longrightarrow> \<not> (\<exists>j. jobs_of s i = Some j \<and> Job_UserID j = u)"
    and ListForUser_keeps: "keeps ok jobs_of (Jobs_ListForUser repo u limit)"
    and ListForUser_ok: "ok s \<Longrightarrow> Jobs_ListForUser repo u limit s = (Inr js, s') \<Longrightarrow>
      newest_first js \<and> distinct (map Job_ID js) \<and> set js \<subseteq> user_jobs (jobs_of s) u
      \<and> (limit > 0 \<longrightarrow> int (length js) = min limit (int (card (user_jobs (jobs_of s) u))))
      \<and> (limit \<le> 0 \<longrightarrow> length js = card (user_jobs (jobs_of s) u))
      \<and> (\<forall>j \<in> set js. \<forall>k \<in> user_jobs (jobs_of s) u - set js. Job_CreatedAt k \<le> Job_CreatedAt j)"
    and ListByStatus_keeps: "keeps ok jobs_of (Jobs_ListByStatus repo st)"
    and ListByStatus_ok: "ok s \<Longrightarrow> Jobs_ListByStatus repo st s = (Inr js, s') \<Longrightarrow>
      distinct (map Job_ID js) \<and> set js = {j \<in> ran (jobs_of s). Job_Status j = st}"
    and Update_ok: "ok s \<Longrightarrow> Jobs_Update repo j s = (Inr x, s') \<Longrightarrow>
      ok s' \<and> jobs_of s (Job_ID j) \<noteq> None \<and> jobs_of s' = (jobs_of s)(Job_ID j \<mapsto> j)"
    and Update_err: "ok s \<Longrightarrow> Jobs_Update repo j s = (Inl e, s') \<Longrightarrow>
      ok s' \<and> jobs_of s' = jobs_of s \<and> (errors_Is e NotFound \<longrightarrow> jobs_of s (Job_ID j) = None)"
    and CountForUser_keeps: "keeps ok jobs_of (Jobs_CountActiveForUser repo u)"
    and CountForUser_ok: "ok s \<Longrightarrow> Jobs_CountActiveForUser repo u s = (Inr n, s') \<Longrightarrow>
      n = int (card (active_jobs (jobs_of s) (\<lambda>j. Job_UserID j = u)))"
    and CountGlobal_keeps: "keeps ok jobs_of (Jobs_CountActiveGlobal repo)"
    and CountGlobal_ok: "ok s \<Longrightarrow> Jobs_CountActiveGlobal repo s = (Inr n, s') \<Longrightarrow>
      n = int (card (active_jobs (jobs_of s) (\<lambda>_. True)))"
begin

lemmas read_keeps =
  Get_keeps GetForUser_keeps ListForUser_keeps ListByStatus_keeps
  CountForUser_keeps CountGlobal_keeps

lemma Create_effect:
  assumes "ok s" and "Jobs_Create repo j s = (r, s')"
  shows "ok s'" and "jobs_of s' = (if isl r then jobs_of s else (jobs_of s)(Job_ID j \<mapsto> j))"
  using assms by (cases r; auto dest: Create_ok Create_err)+

lemma Update_effect:
  assumes "ok s" and "Jobs_Update repo j s = (r, s')"
  shows "ok s'" and "jobs_of s' = (if isl r then jobs_of s else (jobs_of s)(Job_ID j \<mapsto> j))"
  using assms by (cases r; auto dest: Update_ok Update_err)+

text \<open>Read your writes: a job just created or updated is what a later read returns.\<close>

lemma Get_after_Create:
  assumes "ok s" and "Jobs_Create repo j s = (Inr x, s1)"
    and "Jobs_Get repo (Job_ID j) s1 = (Inr j', s2)"
  shows "j' = j"
  using Create_ok [OF assms(1,2)] Get_ok [OF _ assms(3)] by auto

lemma Get_after_Update:
  assumes "ok s" and "Jobs_Update repo j s = (Inr x, s1)"
    and "Jobs_Get repo (Job_ID j) s1 = (Inr j', s2)"
  shows "j' = j"
  using Update_ok [OF assms(1,2)] Get_ok [OF _ assms(3)] by auto

text \<open>Tenant isolation of the user-scoped reads.\<close>

lemma GetForUser_isolates:
  assumes "ok s" and "jobs_of s i = Some j" and "Job_UserID j \<noteq> u"
  shows "isl (fst (Jobs_GetForUser repo i u s))"
proof (cases "fst (Jobs_GetForUser repo i u s)")
  case (Inr k)
  then have "jobs_of s i = Some k \<and> Job_UserID k = u"
    using GetForUser_ok [OF assms(1)] by (metis prod.collapse)
  then show ?thesis using assms(2,3) by simp
qed simp

lemma ListForUser_isolates:
  assumes "ok s" and "Jobs_ListForUser repo u limit s = (Inr js, s')" and "j \<in> set js"
  shows "Job_UserID j = u" and "jobs_of s (Job_ID j) = Some j"
proof -
  have "set js \<subseteq> user_jobs (jobs_of s) u"
    using ListForUser_ok [OF assms(1,2)] by simp
  then have "j \<in> user_jobs (jobs_of s) u"
    using assms(3) by auto
  then show "Job_UserID j = u" and "jobs_of s (Job_ID j) = Some j"
    using job_key [OF assms(1)] by (auto simp: user_jobs_def ran_def)
qed

lemma ListByStatus_stored:
  assumes "ok s" and "Jobs_ListByStatus repo st s = (Inr js, s')" and "j \<in> set js"
  shows "jobs_of s (Job_ID j) = Some j" and "Job_Status j = st"
proof -
  have "set js = {j \<in> ran (jobs_of s). Job_Status j = st}"
    using ListByStatus_ok [OF assms(1,2)] by simp
  then have "j \<in> ran (jobs_of s)" and "Job_Status j = st"
    using assms(3) by auto
  then show "jobs_of s (Job_ID j) = Some j" and "Job_Status j = st"
    using job_key [OF assms(1)] by (auto simp: ran_def)
qed

end

section \<open>The environment of the job use cases\<close>

text \<open>
  Beside the repository the job use cases call a clock, an identifier generator, two
  credential providers, the runner and the webhook dispatcher. None of them writes jobs:
  that is all the safety of the store needs from them.
\<close>

locale job_env = jobs_port repo jobs_of ok
  for repo :: "'s JobsRepository" and jobs_of :: "'s \<Rightarrow> JobID \<rightharpoonup> Job" and ok :: "'s \<Rightarrow> bool" +
  fixes clock :: "'s Clock"
    and idgen :: "'s IDGenerator"
    and repoCreds :: "'s RepoCredentialsProvider"
    and anthropicCreds :: "'s AnthropicCredentialsProvider"
    and runner :: "'s RunnerService"
    and dispatcher :: "'s WebhookDispatcher"
  assumes Now_keeps: "keeps ok jobs_of (Clock_Now clock)"
    and NewJobID_keeps: "keeps ok jobs_of (IDGen_NewJobID idgen)"
    and RepoCreds_keeps: "keeps ok jobs_of (RepoCreds_For repoCreds u r)"
    and AnthropicCreds_keeps: "keeps ok jobs_of (AnthropicCreds_For anthropicCreds u)"
    and Start_keeps: "keeps ok jobs_of (Runner_Start runner spec)"
    and Inspect_keeps: "keeps ok jobs_of (Runner_Inspect runner c)"
    and Stop_keeps: "keeps ok jobs_of (Runner_Stop runner c)"
    and Dispatch_keeps: "keeps ok jobs_of (Dispatcher_Dispatch dispatcher url body)"
begin

lemmas env_keeps =
  read_keeps Now_keeps NewJobID_keeps RepoCreds_keeps AnthropicCreds_keeps
  Start_keeps Inspect_keeps Stop_keeps Dispatch_keeps

end

section \<open>The contracts of the key and secret repositories\<close>

locale keys_port =
  fixes repo :: "'s APIKeysRepository"
    and keys_of :: "'s \<Rightarrow> APIKeyID \<rightharpoonup> APIKey"
    and ok :: "'s \<Rightarrow> bool"
  assumes finite_keys: "ok s \<Longrightarrow> finite (dom (keys_of s))"
    and key_key: "ok s \<Longrightarrow> keys_of s i = Some k \<Longrightarrow> APIKey_ID k = i"
    and KCreate_ok: "ok s \<Longrightarrow> Keys_Create repo k s = (Inr x, s') \<Longrightarrow>
      ok s' \<and> keys_of s (APIKey_ID k) = None \<and> keys_of s' = (keys_of s)(APIKey_ID k \<mapsto> k)"
    and KCreate_err: "ok s \<Longrightarrow> Keys_Create repo k s = (Inl e, s') \<Longrightarrow>
      ok s' \<and> keys_of s' = keys_of s"
    and GetByPrefix_keeps: "keeps ok keys_of (Keys_GetByPrefix repo p)"
    and GetByPrefix_ok: "ok s \<Longrightarrow> Keys_GetByPrefix repo p s = (Inr ks, s') \<Longrightarrow>
      distinct (map APIKey_ID ks) \<and> set ks = {k \<in> ran (keys_of s). APIKey_Prefix k = p}"
    and KListForUser_keeps: "keeps ok keys_of (Keys_ListForUser repo u)"
    and KListForUser_ok: "ok s \<Longrightarrow> Keys_ListForUser repo u s = (Inr ks, s') \<Longrightarrow>
      distinct (map APIKey_ID ks) \<and> set ks = {k \<in> ran (keys_of s). APIKey_UserID k = u}"
    and KDelete_ok: "ok s \<Longrightarrow> Keys_Delete repo i u s = (Inr x, s') \<Longrightarrow>
      ok s' \<and> (\<exists>k. keys_of s i = Some k \<and> APIKey_UserID k = u) \<and> keys_of s' = (keys_of s)(i := None)"
    and KDelete_err: "ok s \<Longrightarrow> Keys_Delete repo i u s = (Inl e, s') \<Longrightarrow>
      ok s' \<and> keys_of s' = keys_of s
      \<and> (errors_Is e NotFound \<longrightarrow> \<not> (\<exists>k. keys_of s i = Some k \<and> APIKey_UserID k = u))"
    and RecordUsed_ok: "ok s \<Longrightarrow> Keys_RecordUsed repo i t s = (Inr x, s') \<Longrightarrow>
      ok s' \<and> (\<exists>k. keys_of s i = Some k \<and>
                   keys_of s' = (keys_of s)(i \<mapsto> k\<lparr>APIKey_LastUsedAt := Some t\<rparr>))"
    and RecordUsed_err: "ok s \<Longrightarrow> Keys_RecordUsed repo i t s = (Inl e, s') \<Longrightarrow>
      ok s' \<and> keys_of s' = keys_of s"
begin

text \<open>A user can delete only keys of their own.\<close>

lemma KDelete_isolates:
  assumes "ok s" and "Keys_Delete repo i u s = (r, s')"
    and "keys_of s i' = Some k" and "APIKey_UserID k \<noteq> u"
  shows "keys_of s' i' = Some k"
proof (cases r)
  case (Inl e)
  then show ?thesis using KDelete_err [OF assms(1)] assms(2,3) by simp
next
  case (Inr x)
  then have "Keys_Delete repo i u s = (Inr x, s')" using assms(2) by simp
  note del = KDelete_ok [OF assms(1) this]
  then have "i' \<noteq> i" using assms(3,4) by auto
  then show ?thesis using del assms(3) by simp
qed

end

locale secrets_port =
  fixes repo :: "'s SecretsRepository"
    and secrets_of :: "'s \<Rightarrow> UserID \<rightharpoonup> AnthropicCreds"
    and ok :: "'s \<Rightarrow> bool"
  assumes Set_ok: "ok s \<Longrightarrow> Secrets_SetAnthropicCreds repo u c s = (Inr x, s') \<Longrightarrow>
      ok s' \<and> secrets_of s' = (secrets_of s)(u \<mapsto> c)"
    and Set_err: "ok s \<Longrightarrow> Secrets_SetAnthropicCreds repo u c s = (Inl e, s') \<Longrightarrow>
      ok s' \<and> secrets_of s' = secrets_of s"
    and SGet_keeps: "keeps ok secrets_of (Secrets_GetAnthropicCreds repo u)"
    and SGet_ok: "ok s \<Longrightarrow> Secrets_GetAnthropicCreds repo u s = (Inr c, s') \<Longrightarrow>
      secrets_of s u = Some c"
    and SGet_missing: "ok s \<Longrightarrow> Secrets_GetAnthropicCreds repo u s = (Inl e, s') \<Longrightarrow>
      errors_Is e NotFound \<Longrightarrow> secrets_of s u = None"
    and SDelete_ok: "ok s \<Longrightarrow> Secrets_DeleteAnthropicCreds repo u s = (Inr x, s') \<Longrightarrow>
      ok s' \<and> secrets_of s' = (secrets_of s)(u := None)"
    and SDelete_err: "ok s \<Longrightarrow> Secrets_DeleteAnthropicCreds repo u s = (Inl e, s') \<Longrightarrow>
      ok s' \<and> secrets_of s' = secrets_of s"
begin

lemma SGet_after_Set:
  assumes "ok s" and "Secrets_SetAnthropicCreds repo u c s = (Inr x, s1)"
    and "Secrets_GetAnthropicCreds repo u s1 = (Inr c', s2)"
  shows "c' = c"
  using Set_ok [OF assms(1,2)] SGet_ok [OF _ assms(3)] by auto

end

end
