(* ===== verification/Job_Store.thy ===== *)
theory Job_Store
  imports Ports
begin

text \<open>
  The abstract specification of the delegator's job store: a finite map of jobs that
  changes in three ways only. A fresh queued job is submitted; a queued job is started,
  when the admission test of the concurrency caps holds; a job is finished (succeeded,
  failed or cancelled). The use cases are shown to refine it; its consequences are proved
  here once.
\<close>

type_synonym store = "JobID \<rightharpoonup> Job"

definition wf_store :: "store \<Rightarrow> bool" where
  "wf_store m \<longleftrightarrow> finite (dom m) \<and> (\<forall>i j. m i = Some j \<longrightarrow> wf_job j \<and> Job_ID j = i)"

definition running_jobs :: "store \<Rightarrow> (Job \<Rightarrow> bool) \<Rightarrow> JobID set" where
  "running_jobs m P = {i. \<exists>j. m i = Some j \<and> Job_Status j = JobStatusRunning \<and> P j}"

text \<open>The admission test: a cap of 0 (or less) means unlimited.\<close>

definition admitted :: "int \<Rightarrow> int \<Rightarrow> store \<Rightarrow> UserID \<Rightarrow> bool" where
  "admitted maxU maxG m u \<longleftrightarrow>
     (maxU > 0 \<longrightarrow> int (card (active_jobs m (\<lambda>j. Job_UserID j = u))) \<le> maxU)
     \<and> (maxG > 0 \<longrightarrow> int (card (active_jobs m (\<lambda>_. True))) \<le> maxG)"

definition within_caps :: "int \<Rightarrow> int \<Rightarrow> store \<Rightarrow> bool" where
  "within_caps maxU maxG m \<longleftrightarrow>
     (maxU > 0 \<longrightarrow> (\<forall>u. int (card (running_jobs m (\<lambda>j. Job_UserID j = u))) \<le> maxU))
     \<and> (maxG > 0 \<longrightarrow> int (card (running_jobs m (\<lambda>_. True))) \<le> maxG)"

inductive store_step :: "int \<Rightarrow> int \<Rightarrow> store \<Rightarrow> store \<Rightarrow> bool" for maxU maxG where
  submit: "m (Job_ID j) = None \<Longrightarrow> wf_job j \<Longrightarrow> Job_Status j = JobStatusQueued \<Longrightarrow>
     store_step maxU maxG m (m(Job_ID j \<mapsto> j))"
| start: "m (Job_ID j) = Some j \<Longrightarrow> job_advance j j' \<Longrightarrow> Job_Status j' = JobStatusRunning \<Longrightarrow>
     admitted maxU maxG m (Job_UserID j) \<Longrightarrow>
     store_step maxU maxG m (m(Job_ID j \<mapsto> j'))"
| finish: "m (Job_ID j) = Some j \<Longrightarrow> job_advance j j' \<Longrightarrow> IsTerminal j' \<Longrightarrow>
     store_step maxU maxG m (m(Job_ID j \<mapsto> j'))"

abbreviation store_steps :: "int \<Rightarrow> int \<Rightarrow> store \<Rightarrow> store \<Rightarrow> bool" where
  "store_steps maxU maxG \<equiv> (store_step maxU maxG)\<^sup>*\<^sup>*"

lemma wf_storeD: "wf_store m \<Longrightarrow> m i = Some j \<Longrightarrow> wf_job j \<and> Job_ID j = i"
  by (simp add: wf_store_def)

lemma wf_store_empty [simp]: "wf_store Map.empty"
  by (simp add: wf_store_def)

lemma same_requestD:
  "same_request j j' \<Longrightarrow> Job_ID j' = Job_ID j" "same_request j j' \<Longrightarrow> Job_UserID j' = Job_UserID j"
  by (simp_all add: same_request_def)

lemma same_request_trans: "same_request a b \<Longrightarrow> same_request b c \<Longrightarrow> same_request a c"
  by (simp add: same_request_def)

lemma job_advanceD:
  assumes "job_advance j j'"
  shows "Job_ID j' = Job_ID j" and "Job_UserID j' = Job_UserID j" and "wf_job j'"
    and "same_request j j'" and "active_status (Job_Status j)"
  using assms by (auto simp: job_advance_def same_request_def lifecycle_active)

text \<open>Well-formedness is kept.\<close>

lemma wf_store_upd:
  "wf_store m \<Longrightarrow> wf_job j \<Longrightarrow> wf_store (m(Job_ID j \<mapsto> j))"
  by (auto simp: wf_store_def)

lemma store_step_wf: "store_step maxU maxG m m' \<Longrightarrow> wf_store m \<Longrightarrow> wf_store m'"
  by (induction rule: store_step.induct) (metis wf_store_upd job_advanceD(1,3))+

lemma store_steps_wf: "store_steps maxU maxG m m' \<Longrightarrow> wf_store m \<Longrightarrow> wf_store m'"
  by (induction rule: rtranclp_induct) (auto dest: store_step_wf)

text \<open>No job is lost, and no job changes its owner or its request.\<close>

lemma store_step_request:
  assumes "store_step maxU maxG m m'" and "m i = Some j"
  shows "\<exists>j'. m' i = Some j' \<and> same_request j j'"
  using assms by (cases rule: store_step.cases) (auto simp: job_advanceD(4))

lemma store_steps_request:
  assumes "store_steps maxU maxG m m'" and "m i = Some j"
  shows "\<exists>j'. m' i = Some j' \<and> same_request j j'"
  using assms
proof (induction rule: rtranclp_induct)
  case base
  then show ?case by simp
next
  case (step y z)
  then show ?case by (meson same_request_trans store_step_request)
qed

text \<open>The status of a job only ever moves along the life cycle.\<close>

lemma store_step_status:
  assumes "store_step maxU maxG m m'" and "m i = Some j" and "m' i = Some j'"
  shows "lifecycle\<^sup>*\<^sup>* (Job_Status j) (Job_Status j')"
  using assms by (cases rule: store_step.cases) (auto simp: job_advance_def split: if_splits)

lemma store_steps_status:
  assumes "store_steps maxU maxG m m'" and "m i = Some j" and "m' i = Some j'"
  shows "lifecycle\<^sup>*\<^sup>* (Job_Status j) (Job_Status j')"
  using assms
proof (induction arbitrary: j' rule: rtranclp_induct)
  case base
  then show ?case by simp
next
  case (step y z)
  obtain k where k: "y i = Some k" using store_steps_request [OF step.hyps(1) step.prems(1)] by blast
  show ?case
    using step.IH [OF step.prems(1) k] store_step_status [OF step.hyps(2) k step.prems(2)]
    by (meson rtranclp_trans)
qed

text \<open>A terminal job is frozen.\<close>

lemma terminal_not_active: "IsTerminal j \<Longrightarrow> \<not> active_status (Job_Status j)"
  by (auto simp: IsTerminal_def active_status_def)

lemma store_step_terminal:
  assumes "store_step maxU maxG m m'" and "m i = Some j" and "IsTerminal j"
  shows "m' i = Some j"
  using assms(1)
proof (cases rule: store_step.cases)
  case (submit k)
  then show ?thesis using assms(2) by auto
next
  case (start k k')
  then have "Job_ID k \<noteq> i"
    using assms(2) terminal_not_active [OF assms(3)] job_advanceD(5) by (metis option.inject)
  then show ?thesis using assms(2) start by simp
next
  case (finish k k')
  then have "Job_ID k \<noteq> i"
    using assms(2) terminal_not_active [OF assms(3)] job_advanceD(5) by (metis option.inject)
  then show ?thesis using assms(2) finish by simp
qed

lemma store_steps_terminal:
  assumes "store_steps maxU maxG m m'" and "m i = Some j" and "IsTerminal j"
  shows "m' i = Some j"
  using assms
  by (induction rule: rtranclp_induct) (auto dest: store_step_terminal)

section \<open>The concurrency caps\<close>

lemma running_active: "running_jobs m P \<subseteq> active_jobs m P"
  by (auto simp: running_jobs_def active_jobs_def active_status_def)

lemma running_subset_dom: "running_jobs m P \<subseteq> dom m"
  by (auto simp: running_jobs_def)

lemma active_subset_dom: "active_jobs m P \<subseteq> dom m"
  by (auto simp: active_jobs_def)

lemma card_running_active:
  assumes "finite (dom m)"
  shows "card (running_jobs m P) \<le> card (active_jobs m P)"
  by (rule card_mono [OF finite_subset [OF active_subset_dom assms] running_active])

text \<open>
  Starting an admitted job keeps the set of active jobs, which bounds the running ones; a
  step that starts nothing only shrinks the set of running jobs.
\<close>

lemma running_jobs_upd_other:
  assumes "Job_Status j' \<noteq> JobStatusRunning"
  shows "running_jobs (m(i \<mapsto> j')) P \<subseteq> running_jobs m P"
  using assms by (auto simp: running_jobs_def split: if_splits)

lemma within_caps_mono:
  assumes "finite (dom m)" and "\<And>P. running_jobs m' P \<subseteq> running_jobs m P"
    and "within_caps maxU maxG m"
  shows "within_caps maxU maxG m'"
proof -
  have "card (running_jobs m' P) \<le> card (running_jobs m P)" for P
    by (rule card_mono [OF finite_subset [OF running_subset_dom assms(1)] assms(2)])
  then show ?thesis
    using assms(3) unfolding within_caps_def by (meson of_nat_mono order_trans)
qed

lemma active_jobs_start:
  assumes "m (Job_ID j) = Some j" and "job_advance j j'" and "Job_Status j' = JobStatusRunning"
    and "P j' \<Longrightarrow> P j" and "P j \<Longrightarrow> P j'"
  shows "active_jobs (m(Job_ID j \<mapsto> j')) P = active_jobs m P"
  using assms job_advanceD(5) [OF assms(2)]
  by (auto simp: active_jobs_def active_status_def split: if_splits)

lemma running_jobs_other_user:
  assumes "\<not> P j'"
  shows "running_jobs (m(i \<mapsto> j')) P \<subseteq> running_jobs m P"
  using assms by (auto simp: running_jobs_def split: if_splits)

lemma start_within_caps:
  assumes wf: "wf_store m" and j: "m (Job_ID j) = Some j" and adv: "job_advance j j'"
    and run: "Job_Status j' = JobStatusRunning" and adm: "admitted maxU maxG m (Job_UserID j)"
    and caps: "within_caps maxU maxG m"
  shows "within_caps maxU maxG (m(Job_ID j \<mapsto> j'))"
proof -
  let ?m = "m(Job_ID j \<mapsto> j')"
  have fin: "finite (dom m)" using wf by (simp add: wf_store_def)
  have bound: "card (running_jobs ?m P) \<le> card (active_jobs m P)" if "P j' \<longleftrightarrow> P j" for P
    using card_running_active [of ?m P] fin active_jobs_start [of m j j' P] j adv run that by simp
  have own: "int (card (running_jobs ?m (\<lambda>k. Job_UserID k = Job_UserID j))) \<le> maxU" if "maxU > 0"
    using bound [of "\<lambda>k. Job_UserID k = Job_UserID j"] adm that job_advanceD(2) [OF adv]
    by (simp add: admitted_def)
  have other: "int (card (running_jobs ?m (\<lambda>k. Job_UserID k = u))) \<le> maxU"
    if "maxU > 0" and "u \<noteq> Job_UserID j" for u
  proof -
    have "running_jobs ?m (\<lambda>k. Job_UserID k = u) \<subseteq> running_jobs m (\<lambda>k. Job_UserID k = u)"
      by (rule running_jobs_other_user) (use that(2) job_advanceD(2) [OF adv] in simp)
    then have "card (running_jobs ?m (\<lambda>k. Job_UserID k = u)) \<le> card (running_jobs m (\<lambda>k. Job_UserID k = u))"
      by (rule card_mono [OF finite_subset [OF running_subset_dom fin]])
    then show ?thesis using caps that(1) unfolding within_caps_def by (meson of_nat_mono order_trans)
  qed
  have global: "int (card (running_jobs ?m (\<lambda>_. True))) \<le> maxG" if "maxG > 0"
    using bound [of "\<lambda>_. True"] adm that by (simp add: admitted_def)
  show ?thesis
    unfolding within_caps_def using own other global by metis
qed

lemma not_started_within_caps:
  assumes "wf_store m" and "Job_Status j \<noteq> JobStatusRunning" and "within_caps maxU maxG m"
  shows "within_caps maxU maxG (m(i \<mapsto> j))"
proof (rule within_caps_mono)
  show "finite (dom m)" using assms(1) by (simp add: wf_store_def)
  show "running_jobs (m(i \<mapsto> j)) P \<subseteq> running_jobs m P" for P
    by (rule running_jobs_upd_other [OF assms(2)])
qed (rule assms(3))

lemma store_step_caps:
  assumes "store_step maxU maxG m m'" and "wf_store m" and "within_caps maxU maxG m"
  shows "within_caps maxU maxG m'"
  using assms(1)
proof (cases rule: store_step.cases)
  case (submit j)
  then show ?thesis using not_started_within_caps [OF assms(2) _ assms(3)] by simp
next
  case (start j j')
  then show ?thesis using assms(2,3) start_within_caps by simp
next
  case (finish j j')
  then have "Job_Status j' \<noteq> JobStatusRunning" by (auto simp: IsTerminal_def)
  then show ?thesis using finish(1) not_started_within_caps [OF assms(2) _ assms(3)] by simp
qed

lemma store_steps_caps:
  assumes "store_steps maxU maxG m m'" and "wf_store m" and "within_caps maxU maxG m"
  shows "within_caps maxU maxG m'"
  using assms
proof (induction rule: rtranclp_induct)
  case base
  then show ?case by simp
next
  case (step y z)
  then show ?case using store_step_caps store_steps_wf by blast
qed

end
