(* ===== verification/Go_Text.thy ===== *)
theory Go_Text
  imports Go_Base "HOL-Library.Char_ord" "HOL-Library.Sublist"
begin

text \<open>
  The functions of Go's \<open>strings\<close>, \<open>strconv\<close>, \<open>unicode/utf8\<close> and \<open>path/filepath\<close> that the
  program calls. A Go string is a sequence of bytes, here a list of characters of one byte
  each. Ranging over a string and trimming white space decode UTF-8, with U+FFFD standing
  for an invalid byte.
\<close>

section \<open>Prefixes, suffixes, splitting and joining\<close>

definition HasPrefix :: "string \<Rightarrow> string \<Rightarrow> bool" where
  "HasPrefix s p \<longleftrightarrow> take (length p) s = p"

definition TrimPrefix :: "string \<Rightarrow> string \<Rightarrow> string" where
  "TrimPrefix s p = (if HasPrefix s p then drop (length p) s else s)"

definition HasSuffix :: "string \<Rightarrow> string \<Rightarrow> bool" where
  "HasSuffix s p \<longleftrightarrow> length p \<le> length s \<and> drop (length s - length p) s = p"

definition TrimSuffix :: "string \<Rightarrow> string \<Rightarrow> string" where
  "TrimSuffix s p = (if HasSuffix s p then take (length s - length p) s else s)"

lemma HasPrefix_iff: "HasPrefix s p \<longleftrightarrow> (\<exists>t. s = p @ t)"
  by (auto simp: HasPrefix_def) (metis append_take_drop_id)

lemma HasPrefix_append [simp]: "HasPrefix (p @ s) p"
  by (simp add: HasPrefix_def)

lemma TrimPrefix_append [simp]: "TrimPrefix (p @ s) p = s"
  by (simp add: TrimPrefix_def)

lemma HasSuffix_append [simp]: "HasSuffix (s @ p) p"
  by (simp add: HasSuffix_def)

lemma TrimSuffix_append [simp]: "TrimSuffix (s @ p) p = s"
  by (simp add: TrimSuffix_def)

lemma HasSuffix_split: "HasSuffix s p \<Longrightarrow> s = TrimSuffix s p @ p"
  by (auto simp: HasSuffix_def TrimSuffix_def) (metis append_take_drop_id)

text \<open>\<open>strings.Split\<close> on one byte and \<open>strings.Join\<close>.\<close>

fun split_on :: "char \<Rightarrow> string \<Rightarrow> string list" where
  "split_on d [] = ['''']"
| "split_on d (c # cs) =
     (if c = d then '''' # split_on d cs
      else (case split_on d cs of [] \<Rightarrow> [[c]] | w # ws \<Rightarrow> (c # w) # ws))"

fun str_join :: "string \<Rightarrow> string list \<Rightarrow> string" where
  "str_join sep [] = ''''"
| "str_join sep [w] = w"
| "str_join sep (w # ws) = w @ sep @ str_join sep ws"

lemma split_on_not_Nil [simp]: "split_on d s \<noteq> []"
  by (induction s) (auto split: list.splits)

lemma str_join_Cons: "ws \<noteq> [] \<Longrightarrow> str_join sep (w # ws) = w @ sep @ str_join sep ws"
  by (cases ws) auto

lemma str_join_split: "str_join [d] (split_on d s) = s"
proof (induction s)
  case (Cons c cs)
  then show ?case
    by (cases "split_on d cs") (auto simp: str_join_Cons, metis append_Cons neq_Nil_conv str_join.simps(2) str_join_Cons)
qed simp

lemma split_on_no_sep: "w \<in> set (split_on d s) \<Longrightarrow> d \<notin> set w"
  by (induction s arbitrary: w) (auto split: if_splits list.splits)

section \<open>UTF-8\<close>

definition byte :: "char \<Rightarrow> nat" where "byte c = of_char c"

definition between :: "nat \<Rightarrow> nat \<Rightarrow> char \<Rightarrow> bool" where
  "between lo hi c \<longleftrightarrow> lo \<le> byte c \<and> byte c \<le> hi"

text \<open>
  \<open>rune_tail c cs\<close> is the number of continuation bytes of the well-formed sequence that
  starts with \<open>c\<close> and goes on in \<open>cs\<close>, by the acceptance ranges of \<open>unicode/utf8\<close>.
\<close>

definition cont_seq :: "nat \<Rightarrow> nat \<Rightarrow> nat \<Rightarrow> string \<Rightarrow> nat option" where
  "cont_seq k lo hi cs =
     (if length cs < k then None
      else if between lo hi (cs ! 0) \<and> (\<forall>i \<in> {1..<k}. between 128 191 (cs ! i)) then Some k
      else None)"

definition rune_tail :: "char \<Rightarrow> string \<Rightarrow> nat option" where
  "rune_tail c cs =
     (let b = byte c in
      if b < 128 then Some 0
      else if 194 \<le> b \<and> b \<le> 223 then cont_seq 1 128 191 cs
      else if b = 224 then cont_seq 2 160 191 cs
      else if b = 237 then cont_seq 2 128 159 cs
      else if 225 \<le> b \<and> b \<le> 239 then cont_seq 2 128 191 cs
      else if b = 240 then cont_seq 3 144 191 cs
      else if 241 \<le> b \<and> b \<le> 243 then cont_seq 3 128 191 cs
      else if b = 244 then cont_seq 3 128 143 cs
      else None)"

text \<open>The runes of a string: each with whether it is well formed, and its bytes.\<close>

function runes :: "string \<Rightarrow> (bool \<times> string) list" where
  "runes [] = []"
| "runes (c # cs) =
     (case rune_tail c cs of
        None \<Rightarrow> (False, [c]) # runes cs
      | Some k \<Rightarrow> (True, c # take k cs) # runes (drop k cs))"
  by pat_completeness auto
termination by (relation "measure length") auto

text \<open>\<open>string(r)\<close> for a rune \<open>r\<close> obtained by ranging over a string.\<close>

definition replacement_char :: string where
  "replacement_char = [char_of (239::nat), char_of (191::nat), char_of (189::nat)]"

definition rune_string :: "bool \<times> string \<Rightarrow> string" where
  "rune_string r = (if fst r then snd r else replacement_char)"

definition ValidString :: "string \<Rightarrow> bool" where
  "ValidString s \<longleftrightarrow> (\<forall>r \<in> set (runes s). fst r)"

lemma concat_runes: "concat (map snd (runes s)) = s"
  by (induction s rule: runes.induct) (auto split: option.splits)

lemma valid_runes_string: "ValidString s \<Longrightarrow> concat (map rune_string (runes s)) = s"
proof -
  assume "ValidString s"
  then have "map rune_string (runes s) = map snd (runes s)"
    by (auto simp: ValidString_def rune_string_def)
  then show ?thesis by (metis concat_runes)
qed

definition ascii :: "string \<Rightarrow> bool" where
  "ascii s \<longleftrightarrow> (\<forall>c \<in> set s. byte c < 128)"

lemma runes_ascii: "ascii s \<Longrightarrow> runes s = map (\<lambda>c. (True, [c])) s"
  by (induction s) (auto simp: ascii_def rune_tail_def)

lemma ascii_valid: "ascii s \<Longrightarrow> ValidString s"
  by (auto simp: ValidString_def runes_ascii)

text \<open>\<open>strings.TrimSpace\<close>: the white space of \<open>unicode.IsSpace\<close>, as UTF-8 bytes.\<close>

definition is_space :: "string \<Rightarrow> bool" where
  "is_space r \<longleftrightarrow>
     (let bs = map byte r in
      bs \<in> {[9], [10], [11], [12], [13], [32], [194, 133], [194, 160], [225, 154, 128],
            [226, 128, 168], [226, 128, 169], [226, 128, 175], [226, 129, 159], [227, 128, 128]}
      \<or> (length bs = 3 \<and> take 2 bs = [226, 128] \<and> 128 \<le> bs ! 2 \<and> bs ! 2 \<le> 138))"

definition TrimSpace :: "string \<Rightarrow> string" where
  "TrimSpace s =
     concat (map snd (rev (dropWhile (is_space \<circ> snd)
       (rev (dropWhile (is_space \<circ> snd) (runes s))))))"

section \<open>Decimal numbers\<close>

definition digit :: "nat \<Rightarrow> char" where "digit d = char_of (48 + d)"

fun show_nat :: "nat \<Rightarrow> string" where
  "show_nat n = (if n < 10 then [digit n] else show_nat (n div 10) @ [digit (n mod 10)])"

declare show_nat.simps [simp del]

definition Itoa :: "int \<Rightarrow> string" where
  "Itoa i = (if i < 0 then CHR ''-'' # show_nat (nat (- i)) else show_nat (nat i))"

definition is_digit :: "char \<Rightarrow> bool" where "is_digit c \<longleftrightarrow> between 48 57 c"

definition digits_value :: "string \<Rightarrow> nat" where
  "digits_value ds = foldl (\<lambda>v c. 10 * v + (byte c - 48)) 0 ds"

definition int64_range :: "int \<Rightarrow> bool" where
  "int64_range i \<longleftrightarrow> - (2 ^ 63) \<le> i \<and> i < 2 ^ 63"

text \<open>
  \<open>strconv.ParseInt(v, 10, 64)\<close>, which \<open>strconv.Atoi\<close> agrees with on a 64-bit machine: an
  optional sign, one or more decimal digits, and a value in range; \<open>None\<close> for an error.
\<close>

definition ParseInt64 :: "string \<Rightarrow> int option" where
  "ParseInt64 s =
     (let neg = HasPrefix s ''-'';
          ds = (if neg \<or> HasPrefix s ''+'' then tl s else s)
      in if ds = '''' \<or> \<not> list_all is_digit ds then None
         else let v = (if neg then - int (digits_value ds) else int (digits_value ds))
              in if int64_range v then Some v else None)"

lemma byte_digit [simp]: "d < 10 \<Longrightarrow> byte (digit d) = 48 + d"
  by (simp add: byte_def digit_def)

lemma digits_value_snoc:
  "digits_value (ds @ [c]) = 10 * digits_value ds + (byte c - 48)"
  by (simp add: digits_value_def)

lemma show_nat_not_Nil [simp]: "show_nat n \<noteq> ''''"
  by (subst show_nat.simps) simp

lemma show_nat_digits: "list_all is_digit (show_nat n)"
proof (induction n rule: show_nat.induct)
  case (1 n)
  show ?case
  proof (cases "n < 10")
    case True
    then show ?thesis by (subst show_nat.simps) (simp add: is_digit_def between_def)
  next
    case False
    have "is_digit (digit (n mod 10))" by (simp add: is_digit_def between_def)
    with False 1 show ?thesis by (subst show_nat.simps) simp
  qed
qed

lemma digits_value_show_nat: "digits_value (show_nat n) = n"
proof (induction n rule: show_nat.induct)
  case (1 n)
  show ?case
  proof (cases "n < 10")
    case True
    then show ?thesis by (subst show_nat.simps) (simp add: digits_value_def)
  next
    case False
    then have "digits_value (show_nat n) = digits_value (show_nat (n div 10) @ [digit (n mod 10)])"
      by (subst show_nat.simps) simp
    also have "\<dots> = 10 * (n div 10) + n mod 10"
      using 1 False by (simp add: digits_value_snoc)
    finally show ?thesis by simp
  qed
qed

lemma is_digit_not_sign: "is_digit c \<Longrightarrow> c \<noteq> CHR ''-'' \<and> c \<noteq> CHR ''+''"
  by (auto simp: is_digit_def between_def byte_def)

lemma show_nat_hd: "is_digit (hd (show_nat n))"
  using show_nat_digits [of n] by (cases "show_nat n") (auto simp: show_nat_not_Nil)

lemma show_nat_no_sign:
  "\<not> HasPrefix (show_nat n) ''-''" "\<not> HasPrefix (show_nat n) ''+''"
  using is_digit_not_sign [OF show_nat_hd [of n]]
  by (cases "show_nat n"; simp add: HasPrefix_def)+

lemma ParseInt64_Itoa: "int64_range i \<Longrightarrow> ParseInt64 (Itoa i) = Some i"
proof (cases "i < 0")
  case True
  have "HasPrefix (CHR ''-'' # show_nat (nat (- i))) ''-''" by (simp add: HasPrefix_def)
  moreover assume "int64_range i"
  ultimately show ?thesis
    using True by (simp add: ParseInt64_def Itoa_def show_nat_digits digits_value_show_nat)
next
  case False
  moreover assume "int64_range i"
  ultimately show ?thesis
    by (simp add: ParseInt64_def Itoa_def show_nat_no_sign show_nat_digits digits_value_show_nat)
qed

lemma ParseInt64_range: "ParseInt64 s = Some i \<Longrightarrow> int64_range i"
  by (auto simp: ParseInt64_def Let_def split: if_splits)

section \<open>Paths\<close>

text \<open>\<open>filepath.Clean\<close> and \<open>filepath.Join\<close> on Unix, lexically as the library does it.\<close>

fun clean_elems :: "bool \<Rightarrow> string list \<Rightarrow> string list \<Rightarrow> string list" where
  "clean_elems rooted out [] = rev out"
| "clean_elems rooted out (e # es) =
     (if e = '''' \<or> e = ''.'' then clean_elems rooted out es
      else if e = ''..'' then
        (case out of
           [] \<Rightarrow> if rooted then clean_elems rooted [] es else clean_elems rooted [''..''] es
         | a # as \<Rightarrow> if a = ''..'' then clean_elems rooted (''..'' # out) es
                     else clean_elems rooted as es)
      else clean_elems rooted (e # out) es)"

definition Clean :: "string \<Rightarrow> string" where
  "Clean p =
     (if p = '''' then ''.''
      else let rooted = HasPrefix p ''/'';
               es = clean_elems rooted [] (split_on (CHR ''/'') p)
           in if rooted then ''/'' @ str_join ''/'' es
              else if es = [] then ''.'' else str_join ''/'' es)"

definition filepath_Join :: "string list \<Rightarrow> string" where
  "filepath_Join es =
     (case dropWhile (\<lambda>e. e = '''') es of [] \<Rightarrow> '''' | rest \<Rightarrow> Clean (str_join ''/'' rest))"

text \<open>A plain name: one path element that is neither special nor contains a separator.\<close>

definition plain_name :: "string \<Rightarrow> bool" where
  "plain_name n \<longleftrightarrow> n \<noteq> '''' \<and> n \<noteq> ''.'' \<and> n \<noteq> ''..'' \<and> CHR ''/'' \<notin> set n"

lemma clean_elems_nonempty: "'''' \<notin> set out \<Longrightarrow> '''' \<notin> set (clean_elems r out es)"
proof (induction es arbitrary: out)
  case (Cons e es)
  show ?case
  proof (cases "e = '''' \<or> e = ''.''")
    case True
    then show ?thesis using Cons by simp
  next
    case special: False
    show ?thesis
    proof (cases "e = ''..''")
      case True
      then show ?thesis using special Cons by (cases out; cases r) simp_all
    next
      case False
      then show ?thesis using special Cons.IH [of "e # out"] Cons.prems by auto
    qed
  qed
qed simp

lemma str_join_not_Nil: "es \<noteq> [] \<Longrightarrow> '''' \<notin> set es \<Longrightarrow> str_join sep es \<noteq> ''''"
  by (induction sep es rule: str_join.induct) auto

lemma Clean_not_Nil: "Clean p \<noteq> ''''"
  using clean_elems_nonempty [of "[]"] by (simp add: Clean_def Let_def str_join_not_Nil)

lemma filepath_Join_not_Nil: "filepath_Join [d, n] = '''' \<longleftrightarrow> d = '''' \<and> n = ''''"
  by (auto simp: filepath_Join_def Clean_not_Nil)

end
