(* ===== verification/Go_Time.thy ===== *)
theory Go_Time
  imports Go_Text
begin

text \<open>
  The text of an instant, as \<open>time.Time\<close> writes it into JSON: the civil date and clock of a time zone,
  nanoseconds without trailing zeros and the offset. The zone is the offset, in seconds, that the host
  applies to an instant; it is a parameter. Year numbers above 9999 and offsets of a day or more are the
  errors of \<open>Time.MarshalJSON\<close>.
\<close>

type_synonym time_zone = "time \<Rightarrow> int"

section \<open>The civil calendar\<close>

text \<open>Days are counted from the first of January of year 1; a cycle of 400 years has 146097 of them.\<close>

definition year_and_day :: "int \<Rightarrow> int \<times> int" where
  "year_and_day d =
     (let n400 = d div 146097; r400 = d mod 146097;
          n100 = min 3 (r400 div 36524); r100 = r400 - 36524 * n100;
          n4 = r100 div 1461; r4 = r100 mod 1461;
          n1 = min 3 (r4 div 365)
      in (400 * n400 + 100 * n100 + 4 * n4 + n1 + 1, r4 - 365 * n1))"

definition leap :: "int \<Rightarrow> bool" where
  "leap y \<longleftrightarrow> y mod 4 = 0 \<and> (y mod 100 \<noteq> 0 \<or> y mod 400 = 0)"

definition month_lengths :: "int \<Rightarrow> int list" where
  "month_lengths y = [31, if leap y then 29 else 28, 31, 30, 31, 30, 31, 31, 30, 31, 30, 31]"

fun month_and_day :: "int \<Rightarrow> int \<Rightarrow> int list \<Rightarrow> int \<times> int" where
  "month_and_day m d [] = (m, d + 1)"
| "month_and_day m d (l # ls) = (if d < l then (m, d + 1) else month_and_day (m + 1) (d - l) ls)"

definition civil :: "int \<Rightarrow> int \<times> int \<times> int" where
  "civil d = (let (y, yday) = year_and_day d in (y, month_and_day 1 yday (month_lengths y)))"

text \<open>The days before a year, and the day of the year, give the number of the day back.\<close>

definition days_before_year :: "int \<Rightarrow> int" where
  "days_before_year y = 365 * (y - 1) + (y - 1) div 4 - (y - 1) div 100 + (y - 1) div 400"

lemma capped_quotient:
  fixes r L :: int
  assumes "0 < L" and "0 \<le> r" and "r \<le> 4 * L"
  defines "n \<equiv> min 3 (r div L)"
  shows "0 \<le> n" and "n \<le> 3" and "0 \<le> r - L * n" and "r - L * n \<le> L"
    and "n < 3 \<or> r < 4 * L \<Longrightarrow> r - L * n < L"
proof -
  have split: "L * (r div L) + r mod L = r" "0 \<le> r mod L" "r mod L < L"
    using assms(1) by simp_all
  have q: "0 \<le> r div L" "L * (r div L) \<le> r" "r < L * (r div L) + L"
    using assms(1,2) split by (simp add: pos_imp_zdiv_nonneg_iff, linarith+)
  have "L * 3 \<le> L * (r div L)" if "3 \<le> r div L" using that assms(1) by simp
  then have ge: "L * 3 \<le> r" if "3 \<le> r div L" using that q(2) by simp
  show "0 \<le> n" "n \<le> 3" using q by (auto simp: n_def)
  show "0 \<le> r - L * n" "r - L * n \<le> L" using q ge assms(3) by (auto simp: n_def min_def)
  show "r - L * n < L" if "n < 3 \<or> r < 4 * L" using q that by (auto simp: n_def min_def split: if_splits)
qed

lemma year_and_day_sound:
  assumes "year_and_day d = (y, yday)"
  shows "days_before_year y + yday = d" and "0 \<le> yday" and "yday < (if leap y then 366 else 365)"
proof -
  define n400 r400 where "n400 = d div 146097" and "r400 = d mod 146097"
  define n100 r100 where "n100 = min 3 (r400 div 36524)" and "r100 = r400 - 36524 * n100"
  define n4 r4 where "n4 = r100 div 1461" and "r4 = r100 mod 1461"
  define n1 where "n1 = min 3 (r4 div 365)"
  note defs = n400_def r400_def n100_def r100_def n4_def r4_def n1_def
  have y: "y = 400 * n400 + 100 * n100 + 4 * n4 + n1 + 1" and yday: "yday = r4 - 365 * n1"
    using assms unfolding year_and_day_def Let_def defs by (simp_all only: prod.inject)
  have "146097 * n400 + r400 = d" "1461 * n4 + r4 = r100" unfolding n400_def r400_def n4_def r4_def
    by (simp_all only: mult_div_mod_eq)
  then have d: "d = 146097 * n400 + 36524 * n100 + 1461 * n4 + r4"
    unfolding r100_def by linarith
  have r400: "0 \<le> r400" "r400 < 146097" by (simp_all add: r400_def)
  then have n100: "0 \<le> n100" "n100 \<le> 3" "0 \<le> r100" "r100 \<le> 36524" "n100 < 3 \<Longrightarrow> r100 < 36524"
    using capped_quotient [of 36524 r400] unfolding n100_def r100_def by auto
  have r100: "1461 * n4 + r4 = r100" "0 \<le> r4" "r4 < 1461" by (simp_all add: n4_def r4_def)
  have n4: "0 \<le> n4" "n4 \<le> 24" "r100 < 36524 \<Longrightarrow> n4 = 24 \<Longrightarrow> r4 < 1460"
    using n100 r100 by linarith+
  then have n1: "0 \<le> n1" "n1 \<le> 3" "0 \<le> yday" "yday < 366" "n1 < 3 \<Longrightarrow> yday < 365"
    "r4 < 1460 \<Longrightarrow> yday < 365"
    using capped_quotient [of 365 r4] r100 unfolding yday n1_def by auto
  have "(y - 1) div 4 = 100 * n400 + 25 * n100 + n4"
    by (rule int_div_pos_eq [of _ _ _ n1]) (use y n1(1,2) in simp_all)
  moreover have "(y - 1) div 100 = 4 * n400 + n100"
    by (rule int_div_pos_eq [of _ _ _ "4 * n4 + n1"]) (use y n4(1,2) n1(1,2) in simp_all)
  moreover have "(y - 1) div 400 = n400"
    by (rule int_div_pos_eq [of _ _ _ "100 * n100 + 4 * n4 + n1"]) (use y n100(1,2) n4(1,2) n1(1,2) in simp_all)
  ultimately have "days_before_year y = 365 * (y - 1) + (100 * n400 + 25 * n100 + n4) - (4 * n400 + n100) + n400"
    by (simp only: days_before_year_def)
  then show "days_before_year y + yday = d" by (simp add: y yday d)
  show "0 \<le> yday" using n1 by simp
  have low: "y mod 4 = n1 + 1" if "n1 < 3"
    by (rule int_mod_pos_eq [of _ _ "100 * n400 + 25 * n100 + n4"]) (use y n1 that in simp_all)
  have mid: "y mod 100 = 4 * n4 + 4" if "n1 = 3" "n4 < 24"
    by (rule int_mod_pos_eq [of _ _ "4 * n400 + n100"]) (use y n4 that in simp_all)
  have high: "y mod 400 = 0" if "n1 = 3" "n4 = 24" "n100 = 3"
    by (rule int_mod_pos_eq [of _ _ "n400 + 1"]) (use y that in simp_all)
  have "y mod 4 = 0" if "n1 = 3"
    by (rule int_mod_pos_eq [of _ _ "100 * n400 + 25 * n100 + n4 + 1"]) (use y that in simp_all)
  then have "leap y" if "n1 = 3" "n4 \<noteq> 24 \<or> n100 = 3"
    using low mid high n4(1,2) that unfolding leap_def by fastforce
  then show "yday < (if leap y then 366 else 365)" using n100 n4 n1 by (cases "n1 = 3"; cases "n4 = 24"; cases "n100 = 3") auto
qed

section \<open>RFC 3339\<close>

definition pad :: "nat \<Rightarrow> int \<Rightarrow> string" where
  "pad n i = replicate (n - length (Itoa i)) (CHR ''0'') @ Itoa i"

definition fraction :: "int \<Rightarrow> string" where
  "fraction ns =
     (let ds = rev (dropWhile (\<lambda>c. c = CHR ''0'') (rev (pad 9 ns)))
      in if ds = '''' then '''' else ''.'' @ ds)"

definition offset_text :: "int \<Rightarrow> string" where
  "offset_text off =
     (let m = \<bar>off\<bar> div 60
      in if off = 0 then ''Z''
         else (if off < 0 \<and> 0 < m then ''-'' else ''+'') @ pad 2 (m div 60) @ '':'' @ pad 2 (m mod 60))"

definition RFC3339Nano :: "int \<Rightarrow> time \<Rightarrow> string" where
  "RFC3339Nano off t =
     (let local = t + off * Second;
          (y, m, d) = civil (local div (24 * Hour));
          s = local mod (24 * Hour) div Second
      in pad 4 y @ ''-'' @ pad 2 m @ ''-'' @ pad 2 d @ ''T'' @
         pad 2 (s div 3600) @ '':'' @ pad 2 (s div 60 mod 60) @ '':'' @ pad 2 (s mod 60) @
         fraction (local mod Second) @ offset_text off)"

definition Time_MarshalJSON :: "time_zone \<Rightarrow> time \<Rightarrow> string + string" where
  "Time_MarshalJSON tz t =
     (let y = fst (civil ((t + tz t * Second) div (24 * Hour)))
      in if y < 0 \<or> 9999 < y then Inl ''Time.MarshalJSON: year outside of range [0,9999]''
         else if 24 \<le> \<bar>tz t\<bar> div 3600 then Inl ''Time.MarshalJSON: timezone hour outside of range [0,23]''
         else Inr (RFC3339Nano (tz t) t))"

end
