(* ===== verification/Json.thy ===== *)
theory Json
  imports Go_Text "HOL-Library.Char_ord" "HOL-Library.List_Lexorder"
begin

text \<open>
  What the code uses of \<open>encoding/json\<close>: the text of a value as \<open>json.Marshal\<close> and \<open>json.Encoder\<close> write it,
  the syntax that \<open>json.Decoder\<close> and \<open>json.Unmarshal\<close> accept, and the assignment of a value to the tagged
  fields of a struct, with the errors that leave it half filled. The main lemma is that parsing inverts
  printing. The fuel of the parser is the length of its input, which every call shortens.
\<close>

section \<open>Values and their text\<close>

datatype json =
    JNull
  | JBool bool
  | JNum string
  | JStr string
  | JArr "json list"
  | JObj "(string \<times> json) list"

text \<open>A string as \<open>json.Encoder\<close> writes it, with HTML characters escaped.\<close>

definition hex_char :: "nat \<Rightarrow> char" where "hex_char d = ''0123456789abcdef'' ! d"

definition json_u :: "nat \<Rightarrow> string" where
  "json_u n = [CHR 0x5C, CHR ''u'', hex_char (n div 4096 mod 16), hex_char (n div 256 mod 16),
               hex_char (n div 16 mod 16), hex_char (n mod 16)]"

definition json_rune :: "bool \<times> string \<Rightarrow> string" where
  "json_rune r =
     (if \<not> fst r then json_u 0xFFFD
      else case snd r of
        [c] \<Rightarrow>
          if c = CHR 0x22 \<or> c = CHR 0x5C then [CHR 0x5C, c]
          else if byte c = 8 then [CHR 0x5C, CHR ''b'']
          else if byte c = 12 then [CHR 0x5C, CHR ''f'']
          else if byte c = 10 then [CHR 0x5C, CHR ''n'']
          else if byte c = 13 then [CHR 0x5C, CHR ''r'']
          else if byte c = 9 then [CHR 0x5C, CHR ''t'']
          else if byte c < 32 \<or> c = CHR ''<'' \<or> c = CHR ''>'' \<or> c = CHR ''&'' then json_u (byte c)
          else [c]
      | cs \<Rightarrow>
          if map byte cs = [226, 128, 168] then json_u 0x2028
          else if map byte cs = [226, 128, 169] then json_u 0x2029
          else cs)"

definition json_chars :: "string \<Rightarrow> string" where
  "json_chars s = concat (map json_rune (runes s))"

definition json_quote :: "string \<Rightarrow> string" where
  "json_quote s = [CHR 0x22] @ json_chars s @ [CHR 0x22]"

text \<open>A member of an object, and an object or an array from its parts.\<close>

definition json_member :: "string \<times> string \<Rightarrow> string" where
  "json_member m = json_quote (fst m) @ '':'' @ snd m"

primrec json_text :: "json \<Rightarrow> string" where
  "json_text JNull = ''null''"
| "json_text (JBool b) = (if b then ''true'' else ''false'')"
| "json_text (JNum t) = t"
| "json_text (JStr s) = json_quote s"
| "json_text (JArr vs) = ''['' @ str_join '','' (map json_text vs) @ '']''"
| "json_text (JObj kvs) = ''{'' @ str_join '','' (map json_member (map (map_prod id json_text) kvs)) @ ''}''"

text \<open>A map of strings is written with its keys in order.\<close>

definition json_map :: "(string \<times> string) list \<Rightarrow> json" where
  "json_map kvs = JObj (map (\<lambda>(k, v). (k, JStr v)) (sort_key fst kvs))"

section \<open>Strings\<close>

definition utf8_encode :: "nat \<Rightarrow> string" where
  "utf8_encode n =
     (if n < 128 then [char_of n]
      else if n < 2048 then [char_of (192 + n div 64), char_of (128 + n mod 64)]
      else if n < 65536 then
        [char_of (224 + n div 4096), char_of (128 + n div 64 mod 64), char_of (128 + n mod 64)]
      else [char_of (240 + n div 262144), char_of (128 + n div 4096 mod 64),
            char_of (128 + n div 64 mod 64), char_of (128 + n mod 64)])"

definition hex_value :: "char \<Rightarrow> nat option" where
  "hex_value c =
     (if between 48 57 c then Some (byte c - 48)
      else if between 97 102 c then Some (byte c - 87)
      else if between 65 70 c then Some (byte c - 55)
      else None)"

definition hex4 :: "char \<Rightarrow> char \<Rightarrow> char \<Rightarrow> char \<Rightarrow> nat option" where
  "hex4 a b c d =
     (case (hex_value a, hex_value b, hex_value c, hex_value d) of
        (Some w, Some x, Some y, Some z) \<Rightarrow> Some (((w * 16 + x) * 16 + y) * 16 + z)
      | _ \<Rightarrow> None)"

definition json_escape :: "char \<Rightarrow> char option" where
  "json_escape c =
     (if c = CHR 0x22 \<or> c = CHR 0x5C \<or> c = CHR ''/'' then Some c
      else if c = CHR ''b'' then Some (char_of (8::nat)) else if c = CHR ''f'' then Some (char_of (12::nat))
      else if c = CHR ''n'' then Some (char_of (10::nat)) else if c = CHR ''r'' then Some (char_of (13::nat))
      else if c = CHR ''t'' then Some (char_of (9::nat)) else None)"

abbreviation prepend :: "string \<Rightarrow> (string \<times> 'b) option \<Rightarrow> (string \<times> 'b) option" where
  "prepend p \<equiv> map_option (apfst ((@) p))"

text \<open>The bytes of a string up to its closing quote, and the text after it.\<close>

function unquote :: "string \<Rightarrow> (string \<times> string) option" where
  "unquote [] = None"
| "unquote (c # cs) =
     (if c = CHR 0x22 then Some ('''', cs)
      else if byte c < 32 then None
      else if c \<noteq> CHR 0x5C then prepend [c] (unquote cs)
      else case cs of
        [] \<Rightarrow> None
      | e # es \<Rightarrow>
          if e \<noteq> CHR ''u'' then
            (case json_escape e of None \<Rightarrow> None | Some x \<Rightarrow> prepend [x] (unquote es))
          else case es of
            h1 # h2 # h3 # h4 # rest \<Rightarrow>
              (case hex4 h1 h2 h3 h4 of
                 None \<Rightarrow> None
               | Some n \<Rightarrow>
                   if n < 55296 \<or> 57344 \<le> n then prepend (utf8_encode n) (unquote rest)
                   else case rest of
                     b # v # g1 # g2 # g3 # g4 # rest2 \<Rightarrow>
                       (case hex4 g1 g2 g3 g4 of
                          Some m \<Rightarrow>
                            if b = CHR 0x5C \<and> v = CHR ''u'' \<and> n < 56320 \<and> 56320 \<le> m \<and> m < 57344
                            then prepend (utf8_encode (65536 + (n - 55296) * 1024 + (m - 56320))) (unquote rest2)
                            else prepend replacement_char (unquote rest)
                        | None \<Rightarrow> prepend replacement_char (unquote rest))
                   | _ \<Rightarrow> prepend replacement_char (unquote rest))
          | _ \<Rightarrow> None)"
  by pat_completeness auto
termination by (relation "measure length") auto

text \<open>Bytes that are not UTF-8 are read as U+FFFD.\<close>

definition json_bytes :: "string \<Rightarrow> string" where
  "json_bytes s = concat (map rune_string (runes s))"

section \<open>The parser\<close>

definition is_ws :: "char \<Rightarrow> bool" where
  "is_ws c \<longleftrightarrow> byte c \<in> {32, 9, 13, 10}"

definition skip_ws :: "string \<Rightarrow> string" where
  "skip_ws = dropWhile is_ws"

definition scan_digits :: "string \<Rightarrow> (string \<times> string) option" where
  "scan_digits s = (if takeWhile is_digit s = '''' then None else Some (takeWhile is_digit s, dropWhile is_digit s))"

definition scan_int :: "string \<Rightarrow> (string \<times> string) option" where
  "scan_int s = (if HasPrefix s ''0'' then Some (''0'', tl s) else scan_digits s)"

definition scan_frac :: "string \<Rightarrow> (string \<times> string) option" where
  "scan_frac s = (if HasPrefix s ''.'' then prepend ''.'' (scan_digits (tl s)) else Some ('''', s))"

definition scan_exp :: "string \<Rightarrow> (string \<times> string) option" where
  "scan_exp s =
     (case s of
        c # r \<Rightarrow>
          if c = CHR ''e'' \<or> c = CHR ''E'' then
            (case r of
               d # ds \<Rightarrow> if d = CHR ''+'' \<or> d = CHR ''-'' then prepend [c, d] (scan_digits ds)
                         else prepend [c] (scan_digits r)
             | [] \<Rightarrow> None)
          else Some ('''', s)
      | [] \<Rightarrow> Some ('''', s))"

definition scan_number :: "string \<Rightarrow> (string \<times> string) option" where
  "scan_number s =
     (let (sign, s1) = (if HasPrefix s ''-'' then (''-'', tl s) else ('''', s))
      in case scan_int s1 of
           None \<Rightarrow> None
         | Some (i, s2) \<Rightarrow>
             (case scan_frac s2 of
                None \<Rightarrow> None
              | Some (f, s3) \<Rightarrow> prepend (sign @ i @ f) (scan_exp s3)))"

definition json_word :: "string \<Rightarrow> (json \<times> string) option" where
  "json_word s =
     (if HasPrefix s ''null'' then Some (JNull, drop 4 s)
      else if HasPrefix s ''true'' then Some (JBool True, drop 4 s)
      else if HasPrefix s ''false'' then Some (JBool False, drop 5 s)
      else map_option (apfst JNum) (scan_number s))"

fun parse_value :: "nat \<Rightarrow> string \<Rightarrow> (json \<times> string) option"
  and parse_elements :: "nat \<Rightarrow> string \<Rightarrow> (json list \<times> string) option"
  and parse_members :: "nat \<Rightarrow> string \<Rightarrow> ((string \<times> json) list \<times> string) option" where
  "parse_value 0 s = None"
| "parse_value (Suc n) s =
     (case skip_ws s of
        [] \<Rightarrow> None
      | c # cs \<Rightarrow>
          if c = CHR 0x22 then map_option (apfst (JStr \<circ> json_bytes)) (unquote cs)
          else if c = CHR ''['' then
            (case skip_ws cs of
               [] \<Rightarrow> None
             | d # ds \<Rightarrow> if d = CHR '']'' then Some (JArr [], ds) else map_option (apfst JArr) (parse_elements n (d # ds)))
          else if c = CHR ''{'' then
            (case skip_ws cs of
               [] \<Rightarrow> None
             | d # ds \<Rightarrow> if d = CHR ''}'' then Some (JObj [], ds) else map_option (apfst JObj) (parse_members n (d # ds)))
          else json_word (c # cs))"
| "parse_elements 0 s = None"
| "parse_elements (Suc n) s =
     (case parse_value n s of
        None \<Rightarrow> None
      | Some (v, s1) \<Rightarrow>
          (case skip_ws s1 of
             [] \<Rightarrow> None
           | d # ds \<Rightarrow>
               if d = CHR '']'' then Some ([v], ds)
               else if d = CHR '','' then map_option (apfst ((#) v)) (parse_elements n ds)
               else None))"
| "parse_members 0 s = None"
| "parse_members (Suc n) s =
     (case skip_ws s of
        [] \<Rightarrow> None
      | q # qs \<Rightarrow>
          if q \<noteq> CHR 0x22 then None
          else case unquote qs of
            None \<Rightarrow> None
          | Some (k, s1) \<Rightarrow>
              (case skip_ws s1 of
                 [] \<Rightarrow> None
               | col # s2 \<Rightarrow>
                   if col \<noteq> CHR '':'' then None
                   else case parse_value n s2 of
                     None \<Rightarrow> None
                   | Some (v, s3) \<Rightarrow>
                       (case skip_ws s3 of
                          [] \<Rightarrow> None
                        | d # ds \<Rightarrow>
                            if d = CHR ''}'' then Some ([(json_bytes k, v)], ds)
                            else if d = CHR '','' then
                              map_option (apfst ((#) (json_bytes k, v))) (parse_members n ds)
                            else None)))"

text \<open>
  \<open>json.Decoder.Decode\<close> reads the first value of its input; what follows a scalar has to be white space.
  \<open>json.Unmarshal\<close> refuses anything but white space after the value. Both refuse a nesting over 10000.
\<close>

fun json_depth :: "json \<Rightarrow> nat" where
  "json_depth (JArr vs) = Suc (fold max (map json_depth vs) 0)"
| "json_depth (JObj kvs) = Suc (fold max (map (\<lambda>(k, v). json_depth v) kvs) 0)"
| "json_depth _ = 0"

definition is_scalar :: "json \<Rightarrow> bool" where
  "is_scalar v = (case v of JArr _ \<Rightarrow> False | JObj _ \<Rightarrow> False | _ \<Rightarrow> True)"

definition json_Decode :: "string \<Rightarrow> json option" where
  "json_Decode s =
     (case parse_value (Suc (length s)) s of
        None \<Rightarrow> None
      | Some (v, rest) \<Rightarrow>
          if json_depth v > 10000 \<or> is_scalar v \<and> rest \<noteq> '''' \<and> \<not> is_ws (hd rest) then None else Some v)"

definition json_Unmarshal :: "string \<Rightarrow> json option" where
  "json_Unmarshal s =
     (case parse_value (Suc (length s)) s of
        None \<Rightarrow> None
      | Some (v, rest) \<Rightarrow> if json_depth v > 10000 \<or> skip_ws rest \<noteq> '''' then None else Some v)"

section \<open>Structs\<close>

text \<open>
  A key selects the field whose name it equals up to case: letters fold to upper case, and the long s and
  the Kelvin sign to the letters they are variants of.
\<close>

definition fold_rune :: "string \<Rightarrow> string" where
  "fold_rune r =
     (if map byte r = [197, 191] then ''S''
      else if map byte r = [226, 132, 170] then ''K''
      else case r of [c] \<Rightarrow> if between 97 122 c then [char_of (byte c - 32)] else [c] | _ \<Rightarrow> r)"

definition fold_name :: "string \<Rightarrow> string" where
  "fold_name s = concat (map (fold_rune \<circ> snd) (runes s))"

text \<open>
  A field is given by its name and what it does with a value: the struct afterwards and whether the value
  had the right type. A mismatch is reported at the end, when the other members have been assigned.
\<close>

type_synonym 'r field = "string \<times> (json \<Rightarrow> 'r \<Rightarrow> 'r \<times> bool)"

fun assign_members :: "'r field list \<Rightarrow> (string \<times> json) list \<Rightarrow> 'r \<Rightarrow> 'r \<times> bool" where
  "assign_members fields [] r = (r, True)"
| "assign_members fields ((k, v) # kvs) r =
     (case find (\<lambda>(name, _). fold_name name = fold_name k) fields of
        None \<Rightarrow> assign_members fields kvs r
      | Some (_, set_field) \<Rightarrow>
          (let (r1, ok1) = set_field v r; (r2, ok2) = assign_members fields kvs r1 in (r2, ok1 \<and> ok2)))"

definition assign_struct :: "'r field list \<Rightarrow> json \<Rightarrow> 'r \<Rightarrow> 'r \<times> bool" where
  "assign_struct fields v r =
     (case v of JNull \<Rightarrow> (r, True) | JObj kvs \<Rightarrow> assign_members fields kvs r | _ \<Rightarrow> (r, False))"

definition string_field :: "(string \<Rightarrow> 'r \<Rightarrow> 'r) \<Rightarrow> json \<Rightarrow> 'r \<Rightarrow> 'r \<times> bool" where
  "string_field upd v r = (case v of JNull \<Rightarrow> (r, True) | JStr s \<Rightarrow> (upd s r, True) | _ \<Rightarrow> (r, False))"

definition int64_field :: "(int \<Rightarrow> 'r \<Rightarrow> 'r) \<Rightarrow> json \<Rightarrow> 'r \<Rightarrow> 'r \<times> bool" where
  "int64_field upd v r =
     (case v of
        JNull \<Rightarrow> (r, True)
      | JNum t \<Rightarrow> (case ParseInt64 t of None \<Rightarrow> (r, False) | Some i \<Rightarrow> (upd i r, True))
      | _ \<Rightarrow> (r, False))"

text \<open>
  An array overwrites the elements the slice already has, so that a repeated key starts from them; what
  the backing array holds beyond its length is not modelled.
\<close>

fun slice_elements :: "('e \<Rightarrow> json \<Rightarrow> 'e \<times> bool) \<Rightarrow> 'e \<Rightarrow> 'e list \<Rightarrow> json list \<Rightarrow> ('e \<times> bool) list" where
  "slice_elements element zero old [] = []"
| "slice_elements element zero [] (v # vs) = element zero v # slice_elements element zero [] vs"
| "slice_elements element zero (e # es) (v # vs) = element e v # slice_elements element zero es vs"

definition slice_field ::
  "('e \<Rightarrow> json \<Rightarrow> 'e \<times> bool) \<Rightarrow> 'e \<Rightarrow> ('r \<Rightarrow> 'e list) \<Rightarrow> ('e list \<Rightarrow> 'r \<Rightarrow> 'r) \<Rightarrow> json \<Rightarrow> 'r \<Rightarrow> 'r \<times> bool" where
  "slice_field element zero get upd v r =
     (case v of
        JNull \<Rightarrow> (upd [] r, True)
      | JArr vs \<Rightarrow> (let es = slice_elements element zero (get r) vs in (upd (map fst es) r, list_all snd es))
      | _ \<Rightarrow> (r, False))"

text \<open>Decoding into a struct: the error is whether the text or a type in it was wrong.\<close>

definition Decode_struct :: "'r field list \<Rightarrow> 'r \<Rightarrow> string \<Rightarrow> 'r option" where
  "Decode_struct fields zero s =
     (case json_Decode s of
        None \<Rightarrow> None
      | Some v \<Rightarrow> let (r, ok) = assign_struct fields v zero in if ok then Some r else None)"

definition Unmarshal_ignoring :: "'r field list \<Rightarrow> 'r \<Rightarrow> string \<Rightarrow> 'r" where
  "Unmarshal_ignoring fields zero s =
     (case json_Unmarshal s of None \<Rightarrow> zero | Some v \<Rightarrow> fst (assign_struct fields v zero))"

section \<open>Parsing inverts printing: strings\<close>

declare unquote.simps [simp del]

lemma prepend_Nil [simp]: "prepend [] x = x"
  by (cases x) (auto simp: apfst_def)

lemma prepend_prepend [simp]: "prepend p (prepend q x) = prepend (p @ q) x"
  by (cases x) (auto simp: apfst_def)

lemma char_of_byte: "char_of (byte c) = c"
  by (simp add: byte_def)

lemma byte_eqD: "byte c = k \<Longrightarrow> c = char_of k"
  using char_of_byte [of c] by simp

lemma hex_value_char: "d < 16 \<Longrightarrow> hex_value (hex_char d) = Some d"
proof -
  have "\<forall>d \<in> set [0..<16]. hex_value (hex_char d) = Some d"
    by (simp add: upt_rec hex_char_def hex_value_def between_def byte_def)
  then show "d < 16 \<Longrightarrow> hex_value (hex_char d) = Some d" by simp
qed

lemma unquote_close: "unquote (CHR 0x22 # t) = Some ('''', t)"
  by (simp add: unquote.simps)

lemma unquote_one:
  "32 \<le> byte c \<Longrightarrow> c \<noteq> CHR 0x22 \<Longrightarrow> c \<noteq> CHR 0x5C \<Longrightarrow> unquote (c # t) = prepend [c] (unquote t)"
  by (subst unquote.simps) simp

lemma unquote_plain:
  "\<forall>c \<in> set cs. 32 \<le> byte c \<and> c \<noteq> CHR 0x22 \<and> c \<noteq> CHR 0x5C \<Longrightarrow> unquote (cs @ t) = prepend cs (unquote t)"
  by (induction cs) (simp_all add: unquote_one)

lemma unquote_escape:
  "json_escape e = Some x \<Longrightarrow> e \<noteq> CHR ''u'' \<Longrightarrow> unquote (CHR 0x5C # e # t) = prepend [x] (unquote t)"
  by (subst unquote.simps) (simp add: byte_def)

lemma unquote_unicode:
  "hex4 a b c d = Some n \<Longrightarrow> n < 55296 \<or> 57344 \<le> n \<Longrightarrow>
     unquote (CHR 0x5C # CHR ''u'' # a # b # c # d # t) = prepend (utf8_encode n) (unquote t)"
  by (subst unquote.simps) (simp add: byte_def)

lemma unquote_u:
  assumes "n < 65536" and "n < 55296 \<or> 57344 \<le> n"
  shows "unquote (json_u n @ t) = prepend (utf8_encode n) (unquote t)"
proof -
  have "n div 256 = n div 16 div 16" and "n div 4096 = n div 16 div 16 div 16"
    by (simp_all flip: div_mult2_eq)
  moreover have "n div 4096 < 16" using assms(1) by (simp add: less_mult_imp_div_less)
  ultimately have "((n div 4096 mod 16 * 16 + n div 256 mod 16) * 16 + n div 16 mod 16) * 16 + n mod 16 = n"
    by (metis div_mult_mod_eq mod_less)
  then have "hex4 (hex_char (n div 4096 mod 16)) (hex_char (n div 256 mod 16)) (hex_char (n div 16 mod 16))
      (hex_char (n mod 16)) = Some n"
    unfolding hex4_def by (subst hex_value_char, simp)+ (simp only: prod.case option.case)
  then show ?thesis using assms(2) by (simp add: json_u_def unquote_unicode)
qed

lemma json_escapes:
  "json_escape (CHR ''b'') = Some (char_of (8::nat))" "json_escape (CHR ''f'') = Some (char_of (12::nat))"
  "json_escape (CHR ''n'') = Some (char_of (10::nat))" "json_escape (CHR ''r'') = Some (char_of (13::nat))"
  "json_escape (CHR ''t'') = Some (char_of (9::nat))"
  by (simp_all add: json_escape_def)

lemma unquote_ascii:
  assumes "byte c < 128"
  shows "unquote (json_rune (True, [c]) @ t) = prepend [c] (unquote t)"
proof -
  have u: "unquote (json_u (byte c) @ t) = prepend [c] (unquote t)"
    using unquote_u [of "byte c" t] assms by (simp add: utf8_encode_def char_of_byte)
  have self: "c = CHR 0x22 \<or> c = CHR 0x5C \<Longrightarrow> unquote (CHR 0x5C # c # t) = prepend [c] (unquote t)"
    by (rule unquote_escape) (auto simp: json_escape_def)
  note letters = json_escapes [THEN unquote_escape, of t]
  show ?thesis
    using u self letters unquote_one [of c t] by (auto simp: json_rune_def dest!: byte_eqD)
qed

lemma rune_tail_single: "rune_tail c cs = Some 0 \<Longrightarrow> byte c < 128"
  by (auto simp: rune_tail_def cont_seq_def Let_def split: if_splits)

lemma cont_seq_high:
  "cont_seq n lo hi cs = Some k \<Longrightarrow> 128 \<le> lo \<Longrightarrow> k = n \<and> k \<le> length cs \<and> (\<forall>i < k. 128 \<le> byte (cs ! i))"
  unfolding cont_seq_def between_def
  by (auto split: if_splits) (metis Suc_le_eq atLeastLessThan_iff le_trans neq0_conv One_nat_def)

lemma rune_tail_many:
  assumes "rune_tail c cs = Some k" and "0 < k"
  shows "128 \<le> byte c" and "k \<le> length cs" and "\<forall>d \<in> set (take k cs). 128 \<le> byte d"
proof -
  have "128 \<le> byte c \<and> k \<le> length cs \<and> (\<forall>i < k. 128 \<le> byte (cs ! i))"
    using assms unfolding rune_tail_def Let_def
    by (auto split: if_splits dest: cont_seq_high)
  then show "128 \<le> byte c" "k \<le> length cs" "\<forall>d \<in> set (take k cs). 128 \<le> byte d"
    by (auto simp: set_conv_nth)
qed

lemma runes_cases:
  assumes "(True, r) \<in> set (runes s)"
  obtains (single) c where "r = [c]" and "byte c < 128"
    | (many) "2 \<le> length r" and "\<forall>c \<in> set r. 128 \<le> byte c"
proof -
  have "(\<exists>c. r = [c] \<and> byte c < 128) \<or> 2 \<le> length r \<and> (\<forall>c \<in> set r. 128 \<le> byte c)"
    using assms
  proof (induction s rule: runes.induct)
    case (2 c cs)
    show ?case
    proof (cases "rune_tail c cs")
      case None
      then show ?thesis using 2 by auto
    next
      case (Some k)
      show ?thesis
      proof (cases "k = 0")
        case True
        then show ?thesis using 2 Some rune_tail_single [of c cs] by auto
      next
        case False
        then show ?thesis using 2 Some rune_tail_many [of c cs k] by auto
      qed
    qed
  qed simp
  then show thesis using that by blast
qed

lemma byte_list: "map byte r = ns \<Longrightarrow> r = map char_of ns"
  by (auto simp: char_of_byte o_def intro!: map_idI [symmetric])

lemma unquote_many:
  assumes "2 \<le> length r" and "\<forall>c \<in> set r. 128 \<le> byte c"
  shows "unquote (json_rune (True, r) @ t) = prepend r (unquote t)"
proof -
  have line: "map byte r = [226, 128, 168] \<Longrightarrow> utf8_encode 0x2028 = r"
    by (drule byte_list) (simp add: utf8_encode_def)
  have para: "map byte r = [226, 128, 169] \<Longrightarrow> utf8_encode 0x2029 = r"
    by (drule byte_list) (simp add: utf8_encode_def)
  have plain: "unquote (r @ t) = prepend r (unquote t)"
    by (rule unquote_plain) (use assms(2) in \<open>auto simp: byte_def\<close>)
  obtain a b r' where r: "r = a # b # r'"
    using assms(1) by (metis Suc_le_length_iff numeral_2_eq_2)
  then have "json_rune (True, r) =
      (if map byte r = [226, 128, 168] then json_u 0x2028
       else if map byte r = [226, 128, 169] then json_u 0x2029 else r)"
    by (simp add: json_rune_def)
  then show ?thesis
    using line para plain unquote_u [of "0x2028" t] unquote_u [of "0x2029" t] by auto
qed

lemma unquote_replacement: "unquote (json_rune (False, r) @ t) = prepend replacement_char (unquote t)"
proof -
  have "utf8_encode 0xFFFD = replacement_char" by (simp add: utf8_encode_def replacement_char_def)
  then show ?thesis using unquote_u [of "0xFFFD" t] by (simp add: json_rune_def)
qed

text \<open>Reading a string that was written gives its bytes back, but for those that are not UTF-8.\<close>

lemma unquote_chars: "unquote (json_chars s @ CHR 0x22 # t) = Some (json_bytes s, t)"
proof -
  have "\<forall>r \<in> set rs. (\<forall>u. unquote (json_rune r @ u) = prepend (rune_string r) (unquote u)) \<Longrightarrow>
      unquote (concat (map json_rune rs) @ CHR 0x22 # t) = Some (concat (map rune_string rs), t)" for rs
    by (induction rs) (simp_all add: unquote_close)
  moreover have "unquote (json_rune r @ u) = prepend (rune_string r) (unquote u)" if r: "r \<in> set (runes s)" for r u
  proof (cases "fst r")
    case True
    then have "r = (True, snd r)" by (metis prod.collapse)
    then have "unquote (json_rune r @ u) = prepend (snd r) (unquote u)"
      using r by (metis runes_cases unquote_ascii unquote_many)
    then show ?thesis using True by (simp add: rune_string_def)
  next
    case False
    then have "r = (False, snd r)" by (metis prod.collapse)
    then show ?thesis using unquote_replacement [of "snd r" u] False by (simp add: rune_string_def)
  qed
  ultimately show ?thesis by (simp add: json_chars_def json_bytes_def)
qed

lemma json_bytes_valid: "ValidString s \<Longrightarrow> json_bytes s = s"
  by (simp add: json_bytes_def valid_runes_string)

text \<open>What is read is UTF-8: the runes of the pieces are the pieces.\<close>

lemma cont_seq_append: "cont_seq n lo hi cs = Some k \<Longrightarrow> 0 < n \<Longrightarrow> cont_seq n lo hi (take k cs @ t) = Some k"
  by (auto simp: cont_seq_def nth_append split: if_splits)

lemma rune_tail_append: "rune_tail c cs = Some k \<Longrightarrow> rune_tail c (take k cs @ t) = Some k"
  unfolding rune_tail_def Let_def
  by (simp add: cont_seq_append [OF _ zero_less_numeral] cont_seq_append [OF _ zero_less_one] del: take_append One_nat_def
      split: if_split_asm)

lemma runes_replacement: "runes (replacement_char @ t) = (True, replacement_char) # runes t"
proof -
  have "{1..<2::nat} = {1}" by auto
  then have "rune_tail (char_of (239::nat)) (char_of (191::nat) # char_of (189::nat) # t) = Some 2"
    by (simp add: rune_tail_def cont_seq_def between_def byte_def)
  then show ?thesis by (simp add: replacement_char_def)
qed

lemma runes_piece:
  assumes "r \<in> set (runes s)"
  shows "runes (rune_string r @ t) = (True, rune_string r) # runes t"
  using assms
proof (induction s rule: runes.induct)
  case (2 c cs)
  show ?case
  proof (cases "rune_tail c cs")
    case None
    then show ?thesis using 2 runes_replacement [of t] by (auto simp: rune_string_def)
  next
    case (Some k)
    have "k \<le> length cs"
      using Some rune_tail_many(2) [of c cs k] by (cases "k = 0") auto
    then have "runes (c # take k cs @ t) = (True, c # take k cs) # runes t"
      using rune_tail_append [OF Some, of t] by simp
    then show ?thesis using 2 Some by (auto simp: rune_string_def)
  qed
qed simp

lemma json_bytes_utf8: "ValidString (json_bytes s)"
proof -
  have "\<forall>r \<in> set rs. (\<forall>t. runes (rune_string r @ t) = (True, rune_string r) # runes t) \<Longrightarrow>
      runes (concat (map rune_string rs)) = map (Pair True \<circ> rune_string) rs" for rs
    by (induction rs) simp_all
  then have "runes (json_bytes s) = map (Pair True \<circ> rune_string) (runes s)"
    by (simp add: json_bytes_def runes_piece)
  then show ?thesis by (auto simp: ValidString_def)
qed

lemma json_bytes_idem [simp]: "json_bytes (json_bytes s) = json_bytes s"
  by (rule json_bytes_valid [OF json_bytes_utf8])

section \<open>Parsing inverts printing: numbers\<close>

text \<open>The text after a number does not go on with it.\<close>

definition ends_number :: "string \<Rightarrow> bool" where
  "ends_number t \<longleftrightarrow> (case t of [] \<Rightarrow> True | c # _ \<Rightarrow> c = CHR '','' \<or> c = CHR '']'' \<or> c = CHR ''}'' \<or> is_ws c)"

definition number_text :: "string \<Rightarrow> bool" where
  "number_text t \<longleftrightarrow> (\<exists>i. t = Itoa i)"

lemma show_nat_leading:
  "\<exists>d ds. show_nat n = d # ds \<and> is_digit d \<and> list_all is_digit ds \<and> (d = CHR ''0'' \<longrightarrow> ds = [])"
proof (induction n rule: show_nat.induct)
  case (1 n)
  have shift: "(48 + m = 48) = (m = 0)" for m :: nat by simp
  show ?case
  proof (cases "n < 10")
    case True
    then show ?thesis by (subst show_nat.simps) (simp add: is_digit_def between_def)
  next
    case False
    then obtain d ds where d: "show_nat (n div 10) = d # ds" "is_digit d" "list_all is_digit ds"
        "d = CHR ''0'' \<longrightarrow> ds = []"
      using 1 by blast
    have "d \<noteq> CHR ''0''"
    proof
      assume "d = CHR ''0''"
      then have "show_nat (n div 10) = ''0''" using d by simp
      then have "n div 10 = 0" using digits_value_show_nat [of "n div 10"] by (simp add: digits_value_def byte_def)
      then show False using False by simp
    qed
    moreover have "is_digit (digit (n mod 10))" by (simp add: is_digit_def between_def)
    ultimately show ?thesis using d False by (subst show_nat.simps) simp
  qed
qed

lemma takeWhile_digits:
  "list_all is_digit ds \<Longrightarrow> ends_number t \<Longrightarrow> takeWhile is_digit (ds @ t) = ds \<and> dropWhile is_digit (ds @ t) = t"
proof (induction ds)
  case Nil
  then show ?case by (cases t) (auto simp: ends_number_def is_digit_def between_def byte_def is_ws_def)
qed simp

lemma scan_int_nat:
  assumes "ends_number t"
  shows "scan_int (show_nat n @ t) = Some (show_nat n, t)"
proof -
  obtain d ds where d: "show_nat n = d # ds" "is_digit d" "list_all is_digit ds" "d = CHR ''0'' \<longrightarrow> ds = []"
    using show_nat_leading by blast
  then show ?thesis
    using takeWhile_digits [of "d # ds" t] assms by (auto simp: scan_int_def scan_digits_def HasPrefix_def)
qed

lemma scan_number_Itoa:
  assumes "ends_number t"
  shows "scan_number (Itoa i @ t) = Some (Itoa i, t)"
proof -
  have frac: "scan_frac t = Some ('''', t)" and exp: "scan_exp t = Some ('''', t)"
    using assms by (cases t; auto simp: ends_number_def scan_frac_def scan_exp_def HasPrefix_def is_ws_def byte_def)+
  have sign: "\<not> HasPrefix (show_nat n @ t) ''-''" for n
    using show_nat_no_sign [of n] by (cases "show_nat n") (simp_all add: HasPrefix_def)
  show ?thesis
  proof (cases "i < 0")
    case True
    then show ?thesis
      using scan_int_nat [OF assms, of "nat (- i)"] frac exp
      by (simp add: scan_number_def Itoa_def HasPrefix_def)
  next
    case False
    then show ?thesis
      using scan_int_nat [OF assms, of "nat i"] frac exp sign [of "nat i"]
      by (simp add: scan_number_def Itoa_def)
  qed
qed

section \<open>Parsing inverts printing: values\<close>

text \<open>
  The values a Go program encodes have integers as numbers. Such a value is parsed back when the fuel is
  at least the length of its text and what follows does not extend a number: exactly where its strings
  are UTF-8, and up to replacement characters otherwise.
\<close>

primrec plain_json :: "json \<Rightarrow> bool" where
  "plain_json JNull \<longleftrightarrow> True"
| "plain_json (JBool b) \<longleftrightarrow> True"
| "plain_json (JNum t) \<longleftrightarrow> number_text t"
| "plain_json (JStr s) \<longleftrightarrow> True"
| "plain_json (JArr vs) \<longleftrightarrow> list_all id (map plain_json vs)"
| "plain_json (JObj kvs) \<longleftrightarrow> list_all snd (map (map_prod id plain_json) kvs)"

primrec json_norm :: "json \<Rightarrow> json" where
  "json_norm JNull = JNull"
| "json_norm (JBool b) = JBool b"
| "json_norm (JNum t) = JNum t"
| "json_norm (JStr s) = JStr (json_bytes s)"
| "json_norm (JArr vs) = JArr (map json_norm vs)"
| "json_norm (JObj kvs) = JObj (map (map_prod json_bytes json_norm) kvs)"

primrec utf8_json :: "json \<Rightarrow> bool" where
  "utf8_json JNull \<longleftrightarrow> True"
| "utf8_json (JBool b) \<longleftrightarrow> True"
| "utf8_json (JNum t) \<longleftrightarrow> True"
| "utf8_json (JStr s) \<longleftrightarrow> ValidString s"
| "utf8_json (JArr vs) \<longleftrightarrow> list_all id (map utf8_json vs)"
| "utf8_json (JObj kvs) \<longleftrightarrow> list_all (\<lambda>(k, ok). ValidString k \<and> ok) (map (map_prod id utf8_json) kvs)"

lemma json_norm_utf8: "utf8_json j \<Longrightarrow> json_norm j = j"
proof (induction j)
  case (JArr vs)
  then show ?case by (auto simp: list_all_iff intro!: map_idI)
next
  case (JObj kvs)
  then show ?case by (force simp: list_all_iff json_bytes_valid intro!: map_idI)
qed (simp_all add: json_bytes_valid)

lemma json_depth_norm [simp]: "json_depth (json_norm j) = json_depth j"
proof (induction j)
  case (JArr vs)
  then show ?case by (simp cong: map_cong)
next
  case (JObj kvs)
  then have "map ((\<lambda>(k, v). json_depth v) \<circ> map_prod json_bytes json_norm) kvs = map (\<lambda>(k, v). json_depth v) kvs"
    by force
  then show ?case by (simp only: json_norm.simps json_depth.simps map_map)
qed simp_all

definition parses :: "json \<Rightarrow> bool" where
  "parses j \<longleftrightarrow> (\<forall>n t. length (json_text j) \<le> n \<longrightarrow> ends_number t \<longrightarrow>
     parse_value n (json_text j @ t) = Some (json_norm j, t))"

lemma parsesD:
  "parses j \<Longrightarrow> length (json_text j) \<le> n \<Longrightarrow> ends_number t \<Longrightarrow> parse_value n (json_text j @ t) = Some (json_norm j, t)"
  by (simp add: parses_def)

lemma Itoa_leading: "\<exists>c cs. Itoa i = c # cs \<and> (c = CHR ''-'' \<or> is_digit c)"
proof -
  have "\<exists>c cs. show_nat n = c # cs \<and> is_digit c" for n using show_nat_leading [of n] by blast
  then have "\<exists>c cs. show_nat (nat i) = c # cs \<and> is_digit c" by blast
  then show ?thesis by (cases "i < 0") (auto simp: Itoa_def)
qed

lemma digit_char:
  "is_digit c \<Longrightarrow> \<not> is_ws c \<and> c \<notin> {CHR 0x22, CHR ''['', CHR ''{'', CHR '']'', CHR ''}'', CHR ''n'', CHR ''t'', CHR ''f''}"
  by (auto simp: is_digit_def between_def byte_def is_ws_def)

lemma json_text_leading:
  assumes "plain_json j"
  obtains c cs where "json_text j = c # cs" and "\<not> is_ws c" and "c \<noteq> CHR '']''"
proof -
  have "\<exists>c cs. json_text j = c # cs \<and> \<not> is_ws c \<and> c \<noteq> CHR '']''"
  proof (cases j)
    case (JNum t)
    then obtain i where "t = Itoa i" using assms by (auto simp: number_text_def)
    moreover obtain c cs where "Itoa i = c # cs" "c = CHR ''-'' \<or> is_digit c" using Itoa_leading by blast
    ultimately show ?thesis using JNum by (auto dest: digit_char simp: is_ws_def byte_def)
  qed (auto simp: is_ws_def byte_def json_quote_def)
  then show thesis using that by blast
qed

lemma skip_ws_Cons [simp]: "\<not> is_ws c \<Longrightarrow> skip_ws (c # cs) = c # cs"
  by (simp add: skip_ws_def)

lemma json_punctuation [simp]:
  "\<not> is_ws (CHR 0x22)" "\<not> is_ws (CHR '','')" "\<not> is_ws (CHR '':'')" "\<not> is_ws (CHR ''['')" "\<not> is_ws (CHR '']'')"
  "\<not> is_ws (CHR ''{'')" "\<not> is_ws (CHR ''}'')"
  "ends_number (CHR '','' # t)" "ends_number (CHR '']'' # t)" "ends_number (CHR ''}'' # t)"
  by (simp_all add: is_ws_def byte_def ends_number_def)

lemma parses_number: "parses (JNum (Itoa i))"
  unfolding parses_def
proof (intro allI impI)
  fix n t assume n: "length (json_text (JNum (Itoa i))) \<le> n" and t: "ends_number t"
  obtain c cs where c: "Itoa i = c # cs" "c = CHR ''-'' \<or> is_digit c" using Itoa_leading by blast
  obtain m where m: "n = Suc m" using n c by (cases n) simp_all
  have "\<not> is_ws c \<and> c \<notin> {CHR 0x22, CHR ''['', CHR ''{'', CHR ''n'', CHR ''t'', CHR ''f''}"
    using c(2) digit_char [of c] by (auto simp: is_ws_def byte_def)
  then show "parse_value n (json_text (JNum (Itoa i)) @ t) = Some (json_norm (JNum (Itoa i)), t)"
    using scan_number_Itoa [OF t, of i] c(1) m by (simp add: json_word_def HasPrefix_def)
qed

lemma parses_string: "parses (JStr s)"
  by (auto simp: parses_def json_quote_def unquote_chars dest!: Suc_le_D)

lemma parses_words: "parses JNull" "parses (JBool b)"
  by (auto simp: parses_def json_word_def HasPrefix_def is_ws_def byte_def Suc_le_D dest!: Suc_le_D)

lemma json_member_pair [simp]: "json_member (k, v) = json_quote k @ '':'' @ v"
  by (simp add: json_member_def)

lemma parse_elements_text:
  assumes "vs \<noteq> []" and "\<forall>v \<in> set vs. plain_json v \<and> parses v"
    and "Suc (length (str_join '','' (map json_text vs))) \<le> n"
  shows "parse_elements n (str_join '','' (map json_text vs) @ CHR '']'' # t) = Some (map json_norm vs, t)"
  using assms
proof (induction vs arbitrary: n)
  case (Cons v vs)
  obtain m where m: "n = Suc m" using Cons.prems(3) by (cases n) simp_all
  show ?case
  proof (cases "vs = []")
    case True
    then show ?thesis using Cons.prems m parsesD [of v m "CHR '']'' # t"] by simp
  next
    case False
    have len: "length (json_text v) \<le> m" "Suc (length (str_join '','' (map json_text vs))) \<le> m"
      using Cons.prems(3) m False by (simp_all add: str_join_Cons)
    then have "parse_elements m (str_join '','' (map json_text vs) @ CHR '']'' # t) = Some (map json_norm vs, t)"
      using Cons.IH [of m] Cons.prems(2) False by simp
    then show ?thesis
      using m False Cons.prems(2) len(1) parsesD [of v m "CHR '','' # u" for u] by (simp add: str_join_Cons)
  qed
qed simp

lemma parse_members_text:
  assumes "kvs \<noteq> []" and "\<forall>(k, v) \<in> set kvs. parses v"
    and "Suc (length (str_join '','' (map json_member (map (map_prod id json_text) kvs)))) \<le> n"
  shows "parse_members n (str_join '','' (map json_member (map (map_prod id json_text) kvs)) @ CHR ''}'' # t) =
    Some (map (map_prod json_bytes json_norm) kvs, t)"
  using assms
proof (induction kvs arbitrary: n)
  case (Cons kv kvs)
  obtain k v where kv: "kv = (k, v)" by force
  obtain m where m: "n = Suc m" using Cons.prems(3) by (cases n) simp_all
  have key: "unquote (json_chars k @ CHR 0x22 # u) = Some (json_bytes k, u)" for u
    by (rule unquote_chars)
  show ?case
  proof (cases "kvs = []")
    case True
    then show ?thesis
      using Cons.prems m kv key parsesD [of v m "CHR ''}'' # t"] by (simp add: json_quote_def)
  next
    case False
    have len: "length (json_text v) \<le> m"
        "Suc (length (str_join '','' (map json_member (map (map_prod id json_text) kvs)))) \<le> m"
      using Cons.prems(3) m kv False by (simp_all add: str_join_Cons id_def)
    then have "parse_members m (str_join '','' (map json_member (map (map_prod id json_text) kvs)) @ CHR ''}'' # t) =
        Some (map (map_prod json_bytes json_norm) kvs, t)"
      using Cons.IH [of m] Cons.prems(2) False by (simp add: id_def)
    then show ?thesis
      using m kv key False Cons.prems(2) len(1) parsesD [of v m "CHR '','' # u" for u]
      by (simp add: str_join_Cons json_quote_def id_def)
  qed
qed simp

lemma json_text_parses: "plain_json j \<Longrightarrow> parses j"
proof (induction j)
  case (JNum t)
  then show ?case using parses_number by (auto simp: number_text_def)
next
  case (JStr s)
  then show ?case by (simp add: parses_string)
next
  case (JArr vs)
  show ?case unfolding parses_def
  proof (intro allI impI)
    fix n t assume n: "length (json_text (JArr vs)) \<le> n"
    then obtain m where m: "n = Suc m" by (cases n) simp_all
    have elems: "\<forall>v \<in> set vs. plain_json v \<and> parses v" using JArr by (simp add: list_all_iff)
    show "parse_value n (json_text (JArr vs) @ t) = Some (json_norm (JArr vs), t)"
    proof (cases vs)
      case Nil
      then show ?thesis using m by simp
    next
      case (Cons v vs')
      obtain c cs where "json_text v = c # cs" "\<not> is_ws c" "c \<noteq> CHR '']''"
        using json_text_leading [of v] elems Cons by auto
      then obtain cs' where "str_join '','' (map json_text vs) = c # cs'" "\<not> is_ws c" "c \<noteq> CHR '']''"
        using Cons by (cases vs') simp_all
      then show ?thesis using parse_elements_text [of vs m t] elems n m Cons by simp
    qed
  qed
next
  case (JObj kvs)
  show ?case unfolding parses_def
  proof (intro allI impI)
    fix n t assume n: "length (json_text (JObj kvs)) \<le> n"
    then obtain m where m: "n = Suc m" by (cases n) simp_all
    have elems: "\<forall>(k, v) \<in> set kvs. parses v" using JObj by (force simp: list_all_iff)
    show "parse_value n (json_text (JObj kvs) @ t) = Some (json_norm (JObj kvs), t)"
    proof (cases kvs)
      case Nil
      then show ?thesis using m by simp
    next
      case (Cons kv kvs')
      obtain cs' where "str_join '','' (map json_member (map (map_prod id json_text) kvs)) = CHR 0x22 # cs'"
        using Cons by (cases kv; cases kvs') (simp_all add: json_quote_def)
      then show ?thesis using parse_members_text [of kvs m t] elems n m Cons by simp
    qed
  qed
qed (simp_all add: parses_words)

lemma json_Decode_text:
  assumes "plain_json j" and "json_depth j \<le> 10000"
  shows "json_Decode (json_text j @ [CHR 0x0A]) = Some (json_norm j)"
proof -
  have "is_ws (CHR 0x0A)" by (simp add: is_ws_def byte_def)
  then show ?thesis
    using assms parsesD [OF json_text_parses, of j "Suc (length (json_text j @ [CHR 0x0A]))" "[CHR 0x0A]"]
    by (simp add: json_Decode_def ends_number_def)
qed

lemma json_Unmarshal_text: "plain_json j \<Longrightarrow> json_depth j \<le> 10000 \<Longrightarrow> json_Unmarshal (json_text j) = Some (json_norm j)"
  using parsesD [OF json_text_parses, of j "Suc (length (json_text j))" "[]"]
  by (simp add: json_Unmarshal_def ends_number_def skip_ws_def)

section \<open>Decoding what was encoded\<close>

lemma json_Decode_exact: "plain_json j \<Longrightarrow> json_depth j \<le> 10000 \<Longrightarrow> json_Decode (json_text j) = Some (json_norm j)"
  using parsesD [OF json_text_parses, of j "Suc (length (json_text j))" "[]"]
  by (simp add: json_Decode_def ends_number_def)

text \<open>When no two fields have names equal up to case, a key that is a field's name selects that field.\<close>

definition separate :: "'r field list \<Rightarrow> bool" where
  "separate fs \<longleftrightarrow> distinct (map (fold_name \<circ> fst) fs)"

lemma find_field:
  "separate fs \<Longrightarrow> (k, f) \<in> set fs \<Longrightarrow> find (\<lambda>(name, _). fold_name name = fold_name k) fs = Some (k, f)"
  by (induction fs) (force simp: separate_def)+

lemma assign_members_exact:
  assumes "separate fs" and "(k, f) \<in> set fs"
  shows "assign_members fs ((k, v) # kvs) r =
    (let (r1, ok1) = f v r; (r2, ok2) = assign_members fs kvs r1 in (r2, ok1 \<and> ok2))"
  by (simp add: find_field [OF assms])

lemma Decode_struct_text:
  "plain_json j \<Longrightarrow> json_depth j \<le> 10000 \<Longrightarrow>
     Decode_struct fs zero (json_text j) =
       (case assign_struct fs (json_norm j) zero of (r, ok) \<Rightarrow> if ok then Some r else None)"
  by (simp add: Decode_struct_def json_Decode_exact)

end
