(* ===== verification/Api_Json.thy ===== *)
theory Api_Json
  imports Domain Go_Time Json
begin

text \<open>
  The JSON documents of the program: a job as \<open>encoding/json\<close> writes it, the payload of the completion
  webhook, the request bodies the handlers decode into anonymous structs, and the request and answer
  types generated from the API description (\<open>core/adapter/http/gen\<close>).
\<close>

section \<open>Jobs\<close>

text \<open>The fields of a struct are written in order; the error of a field is the error of the whole.\<close>

fun encode_fields :: "(string \<times> (string + json)) list \<Rightarrow> string + (string \<times> json) list" where
  "encode_fields [] = Inr []"
| "encode_fields ((k, Inl e) # fs) = Inl e"
| "encode_fields ((k, Inr v) # fs) =
     (case encode_fields fs of Inl e \<Rightarrow> Inl e | Inr kvs \<Rightarrow> Inr ((k, v) # kvs))"

definition encode_struct :: "(string \<times> (string + json)) list \<Rightarrow> string + json" where
  "encode_struct fs = (case encode_fields fs of Inl e \<Rightarrow> Inl e | Inr kvs \<Rightarrow> Inr (JObj kvs))"

abbreviation jstr :: "string \<Rightarrow> string + json" where "jstr s \<equiv> Inr (JStr s)"

definition time_json :: "string \<Rightarrow> time_zone \<Rightarrow> time \<Rightarrow> string + json" where
  "time_json typ tz t =
     (case Time_MarshalJSON tz t of
        Inl e \<Rightarrow> Inl (''json: error calling MarshalJSON for type '' @ typ @ '': '' @ e)
      | Inr s \<Rightarrow> jstr s)"

definition time_ptr_json :: "time_zone \<Rightarrow> time option \<Rightarrow> string + json" where
  "time_ptr_json tz t = (case t of None \<Rightarrow> Inr JNull | Some i \<Rightarrow> time_json ''*time.Time'' tz i)"

definition Spec_json :: "SpecSource \<Rightarrow> string + json" where
  "Spec_json s = encode_struct [(''Type'', jstr (Spec_Type s)), (''Value'', jstr (Spec_Value s))]"

definition Job_json :: "time_zone \<Rightarrow> Job \<Rightarrow> string + json" where
  "Job_json tz j = encode_struct
     [(''ID'', jstr (Job_ID j)), (''UserID'', jstr (Job_UserID j)), (''Status'', jstr (Job_Status j)),
      (''Repo'', jstr (Job_Repo j)), (''BaseBranch'', jstr (Job_BaseBranch j)),
      (''WorkBranch'', jstr (Job_WorkBranch j)), (''Spec'', Spec_json (Job_Spec j)),
      (''ModelOverride'', jstr (Job_ModelOverride j)), (''ContainerID'', jstr (Job_ContainerID j)),
      (''PRURL'', jstr (Job_PRURL j)), (''Error'', jstr (Job_Error j)), (''LogPath'', jstr (Job_LogPath j)),
      (''CreatedAt'', time_json ''time.Time'' tz (Job_CreatedAt j)),
      (''StartedAt'', time_ptr_json tz (Job_StartedAt j)),
      (''FinishedAt'', time_ptr_json tz (Job_FinishedAt j))]"

fun encode_all :: "(string + json) list \<Rightarrow> string + json list" where
  "encode_all [] = Inr []"
| "encode_all (Inl e # ds) = Inl e"
| "encode_all (Inr v # ds) = (case encode_all ds of Inl e \<Rightarrow> Inl e | Inr vs \<Rightarrow> Inr (v # vs))"

definition Jobs_json :: "time_zone \<Rightarrow> Job list \<Rightarrow> string + json" where
  "Jobs_json tz js = (case encode_all (map (Job_json tz) js) of Inl e \<Rightarrow> Inl e | Inr vs \<Rightarrow> Inr (JArr vs))"

text \<open>The payload of the webhook is a map, whose keys are written in order.\<close>

definition completion_payload :: "time_zone \<Rightarrow> Job \<Rightarrow> string \<Rightarrow> string + json" where
  "completion_payload tz j tail = encode_struct
     [(''event'', jstr ''job.completed''), (''job'', Job_json tz j), (''log_tail'', jstr tail)]"

definition Marshal :: "string + json \<Rightarrow> go_error + string" where
  "Marshal d = (case d of Inl e \<Rightarrow> Inl (Opaque e) | Inr v \<Rightarrow> Inr (json_text v))"

section \<open>Request bodies\<close>

text \<open>\<open>EnqueueJob\<close>.\<close>

record enqueue_body =
  body_Repo :: string
  body_BaseBranch :: string
  body_WorkBranch :: string
  body_SpecSource :: string
  body_SourceType :: string
  body_ModelOverride :: string

definition enqueue_zero :: enqueue_body where
  "enqueue_zero = \<lparr>body_Repo = '''', body_BaseBranch = '''', body_WorkBranch = '''', body_SpecSource = '''',
     body_SourceType = '''', body_ModelOverride = ''''\<rparr>"

definition enqueue_fields :: "enqueue_body field list" where
  "enqueue_fields =
     [(''repo'', string_field (\<lambda>s. body_Repo_update (\<lambda>_. s))),
      (''base_branch'', string_field (\<lambda>s. body_BaseBranch_update (\<lambda>_. s))),
      (''work_branch'', string_field (\<lambda>s. body_WorkBranch_update (\<lambda>_. s))),
      (''spec_source'', string_field (\<lambda>s. body_SpecSource_update (\<lambda>_. s))),
      (''source_type'', string_field (\<lambda>s. body_SourceType_update (\<lambda>_. s))),
      (''model_override'', string_field (\<lambda>s. body_ModelOverride_update (\<lambda>_. s)))]"

definition dec_enqueue :: "string \<Rightarrow> enqueue_body option" where
  "dec_enqueue = Decode_struct enqueue_fields enqueue_zero"

text \<open>\<open>SetAnthropic\<close> and \<open>MintAPIKey\<close>: structs of one string.\<close>

definition dec_api_key :: "string \<Rightarrow> string option" where
  "dec_api_key = Decode_struct [(''api_key'', string_field (\<lambda>s _. s))] ''''"

definition dec_name :: "string \<Rightarrow> string option" where
  "dec_name = Decode_struct [(''name'', string_field (\<lambda>s _. s))] ''''"

section \<open>The types of the API description (\<open>gen/server.go\<close>)\<close>

record EnqueueJobRequest =
  Enq_BaseBranch :: string
  Enq_ModelOverride :: "string option"
  Enq_Repo :: string
  Enq_SourceType :: string
  Enq_SpecSource :: string
  Enq_WorkBranch :: string

definition EnqueueJobRequest_json :: "EnqueueJobRequest \<Rightarrow> json" where
  "EnqueueJobRequest_json r = JObj
     ([(''base_branch'', JStr (Enq_BaseBranch r))] @
      (case Enq_ModelOverride r of None \<Rightarrow> [] | Some m \<Rightarrow> [(''model_override'', JStr m)]) @
      [(''repo'', JStr (Enq_Repo r)), (''source_type'', JStr (Enq_SourceType r)),
       (''spec_source'', JStr (Enq_SpecSource r)), (''work_branch'', JStr (Enq_WorkBranch r))])"

definition MintAPIKeyRequest_json :: "string \<Rightarrow> json" where
  "MintAPIKeyRequest_json name = JObj [(''name'', JStr name)]"

definition SetAnthropicRequest_json :: "string \<Rightarrow> json" where
  "SetAnthropicRequest_json key = JObj [(''api_key'', JStr key)]"

record EnqueueJobResponse =
  EnqResp_JobId :: string
  EnqResp_StatusUrl :: string

definition EnqueueJobResponse_json :: "EnqueueJobResponse \<Rightarrow> json" where
  "EnqueueJobResponse_json r = JObj [(''job_id'', JStr (EnqResp_JobId r)), (''status_url'', JStr (EnqResp_StatusUrl r))]"

record MintAPIKeyResponse =
  MintResp_Id :: string
  MintResp_Plaintext :: string
  MintResp_Prefix :: string

definition MintAPIKeyResponse_json :: "MintAPIKeyResponse \<Rightarrow> json" where
  "MintAPIKeyResponse_json r = JObj
     [(''id'', JStr (MintResp_Id r)), (''plaintext'', JStr (MintResp_Plaintext r)), (''prefix'', JStr (MintResp_Prefix r))]"

definition Error_json :: "string \<Rightarrow> json" where
  "Error_json msg = JObj [(''error'', JStr msg)]"

text \<open>The JSON names of the type \<open>Job\<close>, and those without \<open>omitempty\<close>.\<close>

definition gen_Job_tags :: "string list" where
  "gen_Job_tags = [''base_branch'', ''created_at'', ''error'', ''finished_at'', ''id'', ''log_path'',
     ''model_override'', ''pr_url'', ''repo'', ''source_type'', ''spec_source'', ''started_at'', ''status'',
     ''user_id'', ''work_branch'']"

definition gen_Job_required :: "string list" where
  "gen_Job_required = [''base_branch'', ''created_at'', ''id'', ''log_path'', ''repo'', ''source_type'',
     ''status'', ''work_branch'']"

section \<open>Facts\<close>

lemma encode_fields_keys: "encode_fields fs = Inr kvs \<Longrightarrow> map fst kvs = map fst fs"
  by (induction fs arbitrary: kvs rule: encode_fields.induct) (auto split: sum.splits)

lemma encode_fields_values: "encode_fields fs = Inr kvs \<Longrightarrow> (k, v) \<in> set kvs \<Longrightarrow> (k, Inr v) \<in> set fs"
  by (induction fs arbitrary: kvs rule: encode_fields.induct) (auto split: sum.splits)

lemma encode_struct_plain:
  assumes "encode_struct fs = Inr j" and "\<And>k v. (k, Inr v) \<in> set fs \<Longrightarrow> plain_json v \<and> json_depth v \<le> d"
  shows "plain_json j" and "json_depth j \<le> Suc d"
proof -
  obtain kvs where kvs: "encode_fields fs = Inr kvs" "j = JObj kvs"
    using assms(1) by (auto simp: encode_struct_def split: sum.splits)
  have v: "plain_json v \<and> json_depth v \<le> d" if "(k, v) \<in> set kvs" for k v
    using assms(2) encode_fields_values [OF kvs(1) that] by blast
  then show "plain_json j" by (auto simp: kvs(2) list_all_iff)
  have le: "fold max ns m \<le> d" if "\<forall>n \<in> set ns. n \<le> d" "m \<le> d" for ns :: "nat list" and m
    using that by (induction ns arbitrary: m) auto
  have "fold max (map (\<lambda>(k, v). json_depth v) kvs) 0 \<le> d"
    by (rule le) (use v in auto)
  then show "json_depth j \<le> Suc d" by (simp add: kvs(2))
qed

lemma time_json_plain:
  "time_json typ tz t = Inr v \<Longrightarrow> plain_json v \<and> json_depth v = 0"
  by (auto simp: time_json_def split: sum.splits)

lemma time_ptr_json_plain: "time_ptr_json tz t = Inr v \<Longrightarrow> plain_json v \<and> json_depth v = 0"
  by (auto simp: time_ptr_json_def dest: time_json_plain split: option.splits)

lemma Spec_json_plain: "Spec_json s = Inr v \<Longrightarrow> plain_json v \<and> json_depth v \<le> 1"
  using encode_struct_plain [of _ v 0] unfolding Spec_json_def by fastforce

lemma Job_json_plain:
  assumes "Job_json tz j = Inr v"
  shows "plain_json v \<and> json_depth v \<le> 2"
proof -
  note parts = time_json_plain [OF sym] time_ptr_json_plain [OF sym] Spec_json_plain [OF sym]
  have "plain_json v" and "json_depth v \<le> Suc 1"
    by (rule encode_struct_plain [OF assms [unfolded Job_json_def], of 1]; use parts in fastforce)+
  then show ?thesis by simp
qed

lemma encode_all_values: "encode_all ds = Inr vs \<Longrightarrow> v \<in> set vs \<Longrightarrow> Inr v \<in> set ds"
  by (induction ds arbitrary: vs rule: encode_all.induct) (auto split: sum.splits)

lemma fold_max_le: "\<forall>n \<in> set ns. n \<le> d \<Longrightarrow> m \<le> d \<Longrightarrow> fold max ns m \<le> (d :: nat)"
  by (induction ns arbitrary: m) auto

lemma Jobs_json_plain:
  assumes "Jobs_json tz js = Inr v"
  shows "plain_json v \<and> json_depth v \<le> 3"
proof -
  obtain vs where vs: "encode_all (map (Job_json tz) js) = Inr vs" "v = JArr vs"
    using assms by (auto simp: Jobs_json_def split: sum.splits)
  have "plain_json w \<and> json_depth w \<le> 2" if "w \<in> set vs" for w
    using encode_all_values [OF vs(1) that] Job_json_plain by (metis imageE list.set_map)
  then show ?thesis
    using fold_max_le [of "map json_depth vs" 2 0] by (auto simp: vs(2) list_all_iff)
qed

lemma json_map_plain: "plain_json (json_map kvs) \<and> json_depth (json_map kvs) \<le> 1"
proof -
  have "fold max (map (\<lambda>(k, v). json_depth v) (map (\<lambda>(k, v). (k, JStr v)) (sort_key fst kvs))) 0 \<le> 0"
    by (rule fold_max_le) auto
  then show ?thesis by (auto simp: json_map_def list_all_iff)
qed

text \<open>A job has a JSON text when its instants have.\<close>

lemma encode_fields_total: "\<forall>(k, d) \<in> set fs. \<not> isl d \<Longrightarrow> \<exists>kvs. encode_fields fs = Inr kvs"
  by (induction fs rule: encode_fields.induct) (auto split: sum.splits)

lemma Job_json_total:
  assumes "\<And>t. t = Job_CreatedAt j \<or> Some t = Job_StartedAt j \<or> Some t = Job_FinishedAt j \<Longrightarrow>
    \<not> isl (Time_MarshalJSON tz t)"
  shows "\<exists>v. Job_json tz j = Inr v"
proof -
  have t: "\<not> isl (time_json k tz t)" if "\<not> isl (Time_MarshalJSON tz t)" for t k
    using that by (auto simp: time_json_def split: sum.split)
  have p: "\<not> isl (time_ptr_json tz o1)" if "o1 = Job_StartedAt j \<or> o1 = Job_FinishedAt j" for o1
    using that t assms by (cases o1) (auto simp: time_ptr_json_def)
  have s: "\<not> isl (Spec_json s)" for s by (simp add: Spec_json_def encode_struct_def)
  have "\<exists>v. encode_struct fs = Inr v" if "\<forall>(k, d) \<in> set fs. \<not> isl d" for fs
    using encode_fields_total [OF that] by (auto simp: encode_struct_def)
  then show ?thesis
    unfolding Job_json_def by this (use t p s assms in simp)
qed

section \<open>A request of the generated client\<close>

lemma enqueue_separate: "separate enqueue_fields"
  by code_simp

text \<open>What an \<open>EnqueueJobRequest\<close> says, as the handler's struct.\<close>

definition enqueue_of :: "EnqueueJobRequest \<Rightarrow> enqueue_body" where
  "enqueue_of r =
     \<lparr>body_Repo = Enq_Repo r, body_BaseBranch = Enq_BaseBranch r, body_WorkBranch = Enq_WorkBranch r,
      body_SpecSource = Enq_SpecSource r, body_SourceType = Enq_SourceType r,
      body_ModelOverride = (case Enq_ModelOverride r of None \<Rightarrow> '''' | Some m \<Rightarrow> m)\<rparr>"

definition utf8_request :: "EnqueueJobRequest \<Rightarrow> bool" where
  "utf8_request r \<longleftrightarrow>
     ValidString (Enq_BaseBranch r) \<and> ValidString (Enq_Repo r) \<and> ValidString (Enq_SourceType r)
     \<and> ValidString (Enq_SpecSource r) \<and> ValidString (Enq_WorkBranch r)
     \<and> (case Enq_ModelOverride r of None \<Rightarrow> True | Some m \<Rightarrow> ValidString m)"

lemma enqueue_members:
  "(''repo'', string_field (\<lambda>s. body_Repo_update (\<lambda>_. s))) \<in> set enqueue_fields"
  "(''base_branch'', string_field (\<lambda>s. body_BaseBranch_update (\<lambda>_. s))) \<in> set enqueue_fields"
  "(''work_branch'', string_field (\<lambda>s. body_WorkBranch_update (\<lambda>_. s))) \<in> set enqueue_fields"
  "(''spec_source'', string_field (\<lambda>s. body_SpecSource_update (\<lambda>_. s))) \<in> set enqueue_fields"
  "(''source_type'', string_field (\<lambda>s. body_SourceType_update (\<lambda>_. s))) \<in> set enqueue_fields"
  "(''model_override'', string_field (\<lambda>s. body_ModelOverride_update (\<lambda>_. s))) \<in> set enqueue_fields"
  by (simp_all add: enqueue_fields_def)

lemmas enqueue_select = enqueue_members [THEN assign_members_exact [OF enqueue_separate]]

lemma ascii_names:
  "ValidString ''base_branch''" "ValidString ''model_override''" "ValidString ''repo''" "ValidString ''source_type''"
  "ValidString ''spec_source''" "ValidString ''work_branch''"
  by (rule ascii_valid, simp add: ascii_def byte_def)+

lemma request_json: "utf8_request r \<Longrightarrow> utf8_json (EnqueueJobRequest_json r)"
  by (auto simp: utf8_request_def EnqueueJobRequest_json_def ascii_names split: option.splits)

lemma request_shape: "plain_json (EnqueueJobRequest_json r) \<and> json_depth (EnqueueJobRequest_json r) = 1"
  by (auto simp: EnqueueJobRequest_json_def split: option.splits)

lemma one_member: "assign_members [(n, f)] [(n, v)] r = f v r"
  by (cases "f v r") simp

lemma one_string_field:
  assumes "ascii n" and "ValidString s"
  shows "Decode_struct [(n, string_field (\<lambda>s _. s))] '''' (json_text (JObj [(n, JStr s)])) = Some s"
proof -
  have "json_norm (JObj [(n, JStr s)]) = JObj [(n, JStr s)]"
    by (rule json_norm_utf8) (simp add: assms ascii_valid)
  moreover have "assign_struct [(n, string_field (\<lambda>s _. s))] (JObj [(n, JStr s)]) '''' = (s, True)"
    by (simp add: assign_struct_def one_member string_field_def del: assign_members.simps(2))
  moreover have "plain_json (JObj [(n, JStr s)])" "json_depth (JObj [(n, JStr s)]) \<le> 10000" by simp_all
  ultimately show ?thesis by (simp only: Decode_struct_text prod.case if_True)
qed

text \<open>
  C37. A request body that a client writes from the generated types, with texts in UTF-8, is
  decoded by the handlers to the very same fields, an absent model override to the empty text:
  enqueueing, minting a key, storing credentials.
\<close>

theorem request_roundtrip:
  assumes "utf8_request r" and "ValidString name" and "ValidString key"
  shows "dec_enqueue (json_text (EnqueueJobRequest_json r)) = Some (enqueue_of r)
    \<and> dec_name (json_text (MintAPIKeyRequest_json name)) = Some name
    \<and> dec_api_key (json_text (SetAnthropicRequest_json key)) = Some key"
proof -
  have "dec_name (json_text (MintAPIKeyRequest_json name)) = Some name"
    unfolding dec_name_def MintAPIKeyRequest_json_def
    by (rule one_string_field) (simp_all add: assms(2) ascii_def byte_def)
  moreover have "dec_api_key (json_text (SetAnthropicRequest_json key)) = Some key"
    unfolding dec_api_key_def SetAnthropicRequest_json_def
    by (rule one_string_field) (simp_all add: assms(3) ascii_def byte_def)
  moreover have norm: "json_norm (EnqueueJobRequest_json r) = EnqueueJobRequest_json r"
    using assms by (simp add: json_norm_utf8 request_json)
  have "assign_struct enqueue_fields (EnqueueJobRequest_json r) enqueue_zero = (enqueue_of r, True)"
    by (cases "Enq_ModelOverride r")
      (simp_all add: assign_struct_def EnqueueJobRequest_json_def enqueue_select string_field_def enqueue_zero_def
        enqueue_of_def del: assign_members.simps(2))
  then have "dec_enqueue (json_text (EnqueueJobRequest_json r)) = Some (enqueue_of r)"
    using request_shape [of r] by (simp add: dec_enqueue_def Decode_struct_text norm)
  ultimately show ?thesis by simp
qed

definition sample_body :: EnqueueJobRequest where
  "sample_body =
     \<lparr>Enq_BaseBranch = ''main'', Enq_ModelOverride = None, Enq_Repo = ''o/r'', Enq_SourceType = ''inline'',
      Enq_SpecSource = ''say <hi>'' @ [CHR 0x0A], Enq_WorkBranch = ''w''\<rparr>"

theorem request_roundtrip_witness:
  "map_option body_SpecSource (dec_enqueue (json_text (EnqueueJobRequest_json sample_body))) = Some (''say <hi>'' @ [CHR 0x0A])
   \<and> dec_api_key (json_text (SetAnthropicRequest_json ''sk-1'')) = Some ''sk-1''"
proof -
  have "utf8_request sample_body"
    by (simp add: utf8_request_def sample_body_def ascii_valid ascii_def byte_def)
  moreover have "ValidString ''sk-1''" by (simp add: ascii_valid ascii_def byte_def)
  ultimately show ?thesis
    using request_roundtrip [of sample_body "''sk-1''" "''sk-1''"] by (simp add: enqueue_of_def sample_body_def)
qed

section \<open>The answers that are maps of strings\<close>

lemma answers_conform:
  "json_map [(''job_id'', i), (''status_url'', u)] = EnqueueJobResponse_json \<lparr>EnqResp_JobId = i, EnqResp_StatusUrl = u\<rparr>"
  "json_map [(''id'', i), (''plaintext'', t), (''prefix'', x)] =
     MintAPIKeyResponse_json \<lparr>MintResp_Id = i, MintResp_Plaintext = t, MintResp_Prefix = x\<rparr>"
  "json_map [(''error'', m)] = Error_json m"
  by (simp_all add: json_map_def EnqueueJobResponse_json_def MintAPIKeyResponse_json_def Error_json_def)

section \<open>The answer to a request for a job\<close>

definition job_keys :: "string list" where
  "job_keys = [''ID'', ''UserID'', ''Status'', ''Repo'', ''BaseBranch'', ''WorkBranch'', ''Spec'', ''ModelOverride'',
     ''ContainerID'', ''PRURL'', ''Error'', ''LogPath'', ''CreatedAt'', ''StartedAt'', ''FinishedAt'']"

lemma encode_struct_keys:
  "encode_struct fs = Inr v \<Longrightarrow> \<exists>kvs. v = JObj kvs \<and> map fst kvs = map fst fs"
  by (auto simp: encode_struct_def dest!: encode_fields_keys split: sum.splits)

lemma Job_json_keys:
  assumes "Job_json tz j = Inr v"
  obtains kvs where "v = JObj kvs" and "map fst kvs = job_keys"
proof -
  note keys = encode_struct_keys [OF assms [unfolded Job_json_def], unfolded list.map fst_conv, folded job_keys_def]
  show thesis by (rule exE [OF keys]) (elim conjE that)
qed

lemma job_keys_norm: "map json_bytes job_keys = job_keys"
  by (rule map_idI, rule json_bytes_valid, rule ascii_valid) (auto simp: job_keys_def ascii_def byte_def)

lemma tags_not_keys: "set job_keys \<inter> set gen_Job_tags = {}"
  by (simp add: job_keys_def gen_Job_tags_def)

lemma folded_keys:
  "map fold_name job_keys = [''ID'', ''USERID'', ''STATUS'', ''REPO'', ''BASEBRANCH'', ''WORKBRANCH'', ''SPEC'',
     ''MODELOVERRIDE'', ''CONTAINERID'', ''PRURL'', ''ERROR'', ''LOGPATH'', ''CREATEDAT'', ''STARTEDAT'', ''FINISHEDAT'']"
  by code_simp

lemma folded_tags:
  "map fold_name gen_Job_tags = [''BASE_BRANCH'', ''CREATED_AT'', ''ERROR'', ''FINISHED_AT'', ''ID'', ''LOG_PATH'',
     ''MODEL_OVERRIDE'', ''PR_URL'', ''REPO'', ''SOURCE_TYPE'', ''SPEC_SOURCE'', ''STARTED_AT'', ''STATUS'',
     ''USER_ID'', ''WORK_BRANCH'']"
  by code_simp

lemma tags_selected:
  "filter (\<lambda>tag. fold_name tag \<in> set (map fold_name job_keys)) gen_Job_tags = [''error'', ''id'', ''repo'', ''status'']"
  using folded_tags unfolding folded_keys by (simp add: gen_Job_tags_def)

end
