(* ===== verification/Job_UseCases.thy ===== *)
theory Job_UseCases
  imports Job_Store Api_Json
begin

text \<open>
  The job use cases of \<open>core/usecase\<close>: enqueue, get, list, cancel, runner completion with its
  webhook, and the reattach pass at startup. Each is written over the ports as the Go code
  composes them. Inside \<open>job_env\<close> every use case is shown to refine the abstract store of
  theory \<open>Job_Store\<close>, and its result on each branch is characterised.
\<close>

section \<open>EnqueueJob (\<open>core/usecase/enqueue_job.go\<close>)\<close>

record 's EnqueueJob =
  EnqueueJob_Jobs :: "'s JobsRepository"
  EnqueueJob_RepoCreds :: "'s RepoCredentialsProvider"
  EnqueueJob_AnthropicCreds :: "'s AnthropicCredentialsProvider"
  EnqueueJob_Runner :: "'s RunnerService"
  EnqueueJob_IDGen :: "'s IDGenerator"
  EnqueueJob_Clock :: "'s Clock"
  EnqueueJob_LogDir :: string
  EnqueueJob_MaxConcurrentPerUser :: int
  EnqueueJob_MaxConcurrentGlobal :: int

record EnqueueJobInput =
  EnqueueJobInput_UserID :: UserID
  EnqueueJobInput_Repo :: string
  EnqueueJobInput_BaseBranch :: string
  EnqueueJobInput_WorkBranch :: string
  EnqueueJobInput_Spec :: SpecSource
  EnqueueJobInput_ModelOverride :: string
  EnqueueJobInput_LogPath :: string

record EnqueueJobOutput =
  EnqueueJobOutput_JobID :: JobID
  EnqueueJobOutput_Status :: JobStatus

definition EnqueueJob_invalid :: "EnqueueJobInput \<Rightarrow> bool" where
  "EnqueueJob_invalid inp \<longleftrightarrow>
     EnqueueJobInput_UserID inp = '''' \<or> EnqueueJobInput_Repo inp = ''''
     \<or> EnqueueJobInput_BaseBranch inp = '''' \<or> EnqueueJobInput_WorkBranch inp = ''''
     \<or> \<not> SpecSource_Valid (EnqueueJobInput_Spec inp)"

text \<open>The job the request becomes, with its log path.\<close>

definition EnqueueJob_new_job ::
  "'s EnqueueJob \<Rightarrow> EnqueueJobInput \<Rightarrow> JobID \<Rightarrow> time \<Rightarrow> Job" where
  "EnqueueJob_new_job uc inp jid now =
     (let job = NewJob jid (EnqueueJobInput_UserID inp) (EnqueueJobInput_Repo inp)
                  (EnqueueJobInput_BaseBranch inp) (EnqueueJobInput_WorkBranch inp)
                  (EnqueueJobInput_Spec inp) (EnqueueJobInput_ModelOverride inp) now;
          logPath = (if EnqueueJobInput_LogPath inp = ''''
                     then filepath_Join [EnqueueJob_LogDir uc, Job_ID job @ ''.log'']
                     else EnqueueJobInput_LogPath inp)
      in job\<lparr>Job_LogPath := logPath\<rparr>)"

text \<open>Whether a cap is exceeded, asked of the repository after the job was created.\<close>

definition EnqueueJob_global_capped :: "'s EnqueueJob \<Rightarrow> ('s, bool) act" where
  "EnqueueJob_global_capped uc s =
     (if EnqueueJob_MaxConcurrentGlobal uc > 0 then
        (case Jobs_CountActiveGlobal (EnqueueJob_Jobs uc) s of
           (Inl e, s') \<Rightarrow> (Inl e, s')
         | (Inr n, s') \<Rightarrow> (Inr (n > EnqueueJob_MaxConcurrentGlobal uc), s'))
      else (Inr False, s))"

definition EnqueueJob_capped :: "'s EnqueueJob \<Rightarrow> UserID \<Rightarrow> ('s, bool) act" where
  "EnqueueJob_capped uc u s =
     (if EnqueueJob_MaxConcurrentPerUser uc > 0 then
        (case Jobs_CountActiveForUser (EnqueueJob_Jobs uc) u s of
           (Inl e, s') \<Rightarrow> (Inl e, s')
         | (Inr n, s') \<Rightarrow>
             if n > EnqueueJob_MaxConcurrentPerUser uc then (Inr True, s')
             else EnqueueJob_global_capped uc s')
      else EnqueueJob_global_capped uc s)"

text \<open>Missing credentials are reported as invalid input, not as a missing resource.\<close>

definition creds_missing :: "string \<Rightarrow> go_error \<Rightarrow> go_error" where
  "creds_missing msg e =
     (if errors_Is e NotFound
      then Wrapped (error_text ErrInvalidInput @ '': '' @ msg) ErrInvalidInput else e)"

definition EnqueueJob_creds ::
  "'s EnqueueJob \<Rightarrow> EnqueueJobInput \<Rightarrow> ('s, GitCreds \<times> AnthropicCreds) act" where
  "EnqueueJob_creds uc inp s =
     (case RepoCreds_For (EnqueueJob_RepoCreds uc)
             (EnqueueJobInput_UserID inp) (EnqueueJobInput_Repo inp) s of
        (Inl e, s1) \<Rightarrow>
          (Inl (creds_missing
             (''repository credentials not available (is the GitHub App installed on ''
                @ EnqueueJobInput_Repo inp @ ''?)'') e), s1)
      | (Inr git, s1) \<Rightarrow>
          (case AnthropicCreds_For (EnqueueJob_AnthropicCreds uc)
                  (EnqueueJobInput_UserID inp) s1 of
             (Inl e, s2) \<Rightarrow> (Inl (creds_missing ''Anthropic API key not configured'' e), s2)
           | (Inr anth, s2) \<Rightarrow> (Inr (git, anth), s2)))"

text \<open>What the runner is asked to start. Its log path is the one of the request.\<close>

definition EnqueueJob_spec ::
  "EnqueueJobInput \<Rightarrow> Job \<Rightarrow> GitCreds \<Rightarrow> AnthropicCreds \<Rightarrow> RunnerStartSpec" where
  "EnqueueJob_spec inp job git anth =
     \<lparr>RunnerStartSpec_JobID = Job_ID job,
      RunnerStartSpec_Repo = EnqueueJobInput_Repo inp,
      RunnerStartSpec_BaseBranch = EnqueueJobInput_BaseBranch inp,
      RunnerStartSpec_WorkBranch = EnqueueJobInput_WorkBranch inp,
      RunnerStartSpec_Spec = EnqueueJobInput_Spec inp,
      RunnerStartSpec_GitCreds = git,
      RunnerStartSpec_Anthropic = anth,
      RunnerStartSpec_Model = EnqueueJobInput_ModelOverride inp,
      RunnerStartSpec_LogPath = EnqueueJobInput_LogPath inp\<rparr>"

definition EnqueueJob_output :: "Job \<Rightarrow> EnqueueJobOutput" where
  "EnqueueJob_output job =
     \<lparr>EnqueueJobOutput_JobID = Job_ID job, EnqueueJobOutput_Status = Job_Status job\<rparr>"

text \<open>After the runner has started the container: the job is marked and stored.\<close>

definition EnqueueJob_started ::
  "'s EnqueueJob \<Rightarrow> Job \<Rightarrow> string \<Rightarrow> ('s, EnqueueJobOutput) act" where
  "EnqueueJob_started uc job containerID s =
     (let (t, s1) = Clock_Now (EnqueueJob_Clock uc) s
      in case MarkRunning job containerID t of
           (Some e, _) \<Rightarrow> (Inl e, s1)
         | (None, job') \<Rightarrow>
             (case Jobs_Update (EnqueueJob_Jobs uc) job' s1 of
                (Inl e, s2) \<Rightarrow> (Inl e, s2)
              | (Inr _, s2) \<Rightarrow> (Inr (EnqueueJob_output job'), s2)))"

definition EnqueueJob_start ::
  "'s EnqueueJob \<Rightarrow> Job \<Rightarrow> RunnerStartSpec \<Rightarrow> ('s, EnqueueJobOutput) act" where
  "EnqueueJob_start uc job spec s =
     (case Runner_Start (EnqueueJob_Runner uc) spec s of
        (Inl startErr, s1) \<Rightarrow>
          (let (t, s2) = Clock_Now (EnqueueJob_Clock uc) s1;
               job' = snd (MarkFailed job (error_text startErr) t);
               (_, s3) = Jobs_Update (EnqueueJob_Jobs uc) job' s2
           in (Inl startErr, s3))
      | (Inr containerID, s1) \<Rightarrow> EnqueueJob_started uc job containerID s1)"

definition EnqueueJob_Execute ::
  "'s EnqueueJob \<Rightarrow> EnqueueJobInput \<Rightarrow> ('s, EnqueueJobOutput) act" where
  "EnqueueJob_Execute uc inp s =
     (if EnqueueJob_invalid inp then (Inl ErrInvalidInput, s)
      else
        let (now, s1) = Clock_Now (EnqueueJob_Clock uc) s;
            (jid, s2) = IDGen_NewJobID (EnqueueJob_IDGen uc) s1;
            job = EnqueueJob_new_job uc inp jid now
        in case Jobs_Create (EnqueueJob_Jobs uc) job s2 of
             (Inl e, s3) \<Rightarrow> (Inl e, s3)
           | (Inr _, s3) \<Rightarrow>
               (case EnqueueJob_capped uc (EnqueueJobInput_UserID inp) s3 of
                  (Inl e, s4) \<Rightarrow> (Inl e, s4)
                | (Inr True, s4) \<Rightarrow> (Inr (EnqueueJob_output job), s4)
                | (Inr False, s4) \<Rightarrow>
                    (case EnqueueJob_creds uc inp s4 of
                       (Inl e, s5) \<Rightarrow> (Inl e, s5)
                     | (Inr (git, anth), s5) \<Rightarrow>
                         EnqueueJob_start uc job (EnqueueJob_spec inp job git anth) s5)))"

section \<open>GetJob and ListJobs (\<open>core/usecase/get_job.go\<close>, \<open>list_jobs.go\<close>)\<close>

definition GetJob_Execute :: "'s JobsRepository \<Rightarrow> JobID \<Rightarrow> UserID \<Rightarrow> ('s, Job) act" where
  "GetJob_Execute jobs jid uid s =
     (if jid = '''' \<or> uid = '''' then (Inl ErrInvalidInput, s)
      else Jobs_GetForUser jobs jid uid s)"

definition ListJobs_Execute :: "'s JobsRepository \<Rightarrow> UserID \<Rightarrow> int \<Rightarrow> ('s, Job list) act" where
  "ListJobs_Execute jobs uid limit0 s =
     (if uid = '''' then (Inl ErrInvalidInput, s)
      else let limit = (if limit0 \<le> 0 then 50 else limit0)
           in Jobs_ListForUser jobs uid limit s)"

section \<open>CancelJob (\<open>core/usecase/cancel_job.go\<close>)\<close>

record 's CancelJob =
  CancelJob_Jobs :: "'s JobsRepository"
  CancelJob_Runner :: "'s RunnerService"
  CancelJob_Clock :: "'s Clock"

definition CancelJob_Execute :: "'s CancelJob \<Rightarrow> JobID \<Rightarrow> UserID \<Rightarrow> ('s, unit) act" where
  "CancelJob_Execute uc jid uid s =
     (if jid = '''' \<or> uid = '''' then (Inl ErrInvalidInput, s)
      else case Jobs_GetForUser (CancelJob_Jobs uc) jid uid s of
        (Inl e, s1) \<Rightarrow> (Inl e, s1)
      | (Inr job, s1) \<Rightarrow>
          if IsTerminal job then (Inl ErrInvalidState, s1)
          else
            let s2 = (if Job_ContainerID job \<noteq> ''''
                      then snd (Runner_Stop (CancelJob_Runner uc) (Job_ContainerID job) s1) else s1);
                (t, s3) = Clock_Now (CancelJob_Clock uc) s2
            in case MarkCancelled job t of
                 (Some e, _) \<Rightarrow> (Inl e, s3)
               | (None, job') \<Rightarrow> Jobs_Update (CancelJob_Jobs uc) job' s3)"

section \<open>Completion and its webhook\<close>

text \<open>
  \<open>dispatch_completion_webhook.go\<close>: the payload is \<open>json.Marshal\<close> of an object with the
  event name, the job and the log tail; it fails when an instant of the job has no JSON text. The
  time zone of the process is a parameter.
\<close>

definition DispatchCompletionWebhook_Execute ::
  "time_zone \<Rightarrow> 's WebhookDispatcher \<Rightarrow> string \<Rightarrow> Job option \<Rightarrow> string \<Rightarrow> ('s, unit) act" where
  "DispatchCompletionWebhook_Execute tz dispatcher url job logTail s =
     (if url = '''' then (Inr (), s)
      else case job of
        None \<Rightarrow> (Inl ErrInvalidInput, s)
      | Some j \<Rightarrow>
          (case Marshal (completion_payload tz j logTail) of
             Inl e \<Rightarrow> (Inl e, s)
           | Inr body \<Rightarrow> Dispatcher_Dispatch dispatcher url body s))"

record 's HandleRunnerCompletion =
  Completion_Jobs :: "'s JobsRepository"
  Completion_Clock :: "'s Clock"
  Completion_Webhook :: "'s WebhookDispatcher option"

definition completion_reason :: "RunnerResult \<Rightarrow> string" where
  "completion_reason res =
     (if RunnerResult_Error res = '''' then ''runner exited with non-zero code''
      else RunnerResult_Error res)"

definition completion_mark :: "Job \<Rightarrow> RunnerResult \<Rightarrow> time \<Rightarrow> go_error option \<times> Job" where
  "completion_mark job res now =
     (if RunnerResult_ExitCode res = 0 then MarkSucceeded job (RunnerResult_PRURL res) now
      else MarkFailed job (completion_reason res) now)"

definition completion_webhook ::
  "time_zone \<Rightarrow> 's HandleRunnerCompletion \<Rightarrow> Job \<Rightarrow> RunnerResult \<Rightarrow> 's \<Rightarrow> 's" where
  "completion_webhook tz uc job res s =
     (case Completion_Webhook uc of
        None \<Rightarrow> s
      | Some dispatcher \<Rightarrow>
          if RunnerResult_NotificationWebhook res \<noteq> '''' then
            snd (DispatchCompletionWebhook_Execute tz dispatcher
                   (RunnerResult_NotificationWebhook res) (Some job) (RunnerResult_LogTail res) s)
          else s)"

definition HandleRunnerCompletion_Execute ::
  "time_zone \<Rightarrow> 's HandleRunnerCompletion \<Rightarrow> RunnerResult \<Rightarrow> ('s, unit) act" where
  "HandleRunnerCompletion_Execute tz uc res s =
     (if RunnerResult_JobID res = '''' then (Inl ErrInvalidInput, s)
      else case Jobs_Get (Completion_Jobs uc) (RunnerResult_JobID res) s of
        (Inl e, s1) \<Rightarrow> (Inl e, s1)
      | (Inr job, s1) \<Rightarrow>
          let (now, s2) = Clock_Now (Completion_Clock uc) s1
          in case completion_mark job res now of
               (Some e, _) \<Rightarrow> (Inl e, s2)
             | (None, job') \<Rightarrow>
                 (case Jobs_Update (Completion_Jobs uc) job' s2 of
                    (Inl e, s3) \<Rightarrow> (Inl e, s3)
                  | (Inr _, s3) \<Rightarrow> (Inr (), completion_webhook tz uc job' res s3)))"

section \<open>ReattachRunningJobs (\<open>core/usecase/reattach_running_jobs.go\<close>)\<close>

record 's ReattachRunningJobs =
  Reattach_Jobs :: "'s JobsRepository"
  Reattach_Runner :: "'s RunnerService"
  Reattach_Clock :: "'s Clock"

definition reattach_reason :: string where
  "reattach_reason = ''api restarted while runner container gone''"

fun reattach_loop :: "'s ReattachRunningJobs \<Rightarrow> time \<Rightarrow> Job list \<Rightarrow> ('s, unit) act" where
  "reattach_loop uc now [] s = (Inr (), s)"
| "reattach_loop uc now (j # js) s =
     (case Runner_Inspect (Reattach_Runner uc) (Job_ContainerID j) s of
        (Inl e, s1) \<Rightarrow> (Inl e, s1)
      | (Inr alive, s1) \<Rightarrow>
          if alive then reattach_loop uc now js s1
          else
            (case Jobs_Update (Reattach_Jobs uc) (snd (MarkFailed j reattach_reason now)) s1 of
               (Inl e, s2) \<Rightarrow> (Inl e, s2)
             | (Inr _, s2) \<Rightarrow> reattach_loop uc now js s2))"

definition ReattachRunningJobs_Execute :: "'s ReattachRunningJobs \<Rightarrow> ('s, unit) act" where
  "ReattachRunningJobs_Execute uc s =
     (case Jobs_ListByStatus (Reattach_Jobs uc) JobStatusRunning s of
        (Inl e, s1) \<Rightarrow> (Inl e, s1)
      | (Inr running, s1) \<Rightarrow>
          let (now, s2) = Clock_Now (Reattach_Clock uc) s1
          in reattach_loop uc now running s2)"

end
