(* ===== verification/Job_Refinement.thy ===== *)
theory Job_Refinement
  imports Job_UseCases
begin

text \<open>
  The job use cases, wired as the composition root wires them, refine the abstract job
  store. Everything is proved once inside \<open>job_env\<close>, for every adapter that keeps the
  ports' contracts.
\<close>

section \<open>The wiring of \<open>runServe\<close> (\<open>cmd/agentic-delegator/main.go\<close>)\<close>

definition wire_enqueue ::
  "'s JobsRepository \<Rightarrow> 's RepoCredentialsProvider \<Rightarrow> 's AnthropicCredentialsProvider \<Rightarrow>
   's RunnerService \<Rightarrow> 's IDGenerator \<Rightarrow> 's Clock \<Rightarrow> string \<Rightarrow> int \<Rightarrow> int \<Rightarrow> 's EnqueueJob" where
  "wire_enqueue jobsRepo repoCreds anthCreds runner idg clk logDir maxPerUser maxGlobal =
     \<lparr>EnqueueJob_Jobs = jobsRepo, EnqueueJob_RepoCreds = repoCreds,
      EnqueueJob_AnthropicCreds = anthCreds, EnqueueJob_Runner = runner,
      EnqueueJob_IDGen = idg, EnqueueJob_Clock = clk, EnqueueJob_LogDir = logDir,
      EnqueueJob_MaxConcurrentPerUser = maxPerUser,
      EnqueueJob_MaxConcurrentGlobal = maxGlobal\<rparr>"

definition wire_complete ::
  "'s JobsRepository \<Rightarrow> 's Clock \<Rightarrow> 's WebhookDispatcher \<Rightarrow> 's HandleRunnerCompletion" where
  "wire_complete jobsRepo clk hooks =
     \<lparr>Completion_Jobs = jobsRepo, Completion_Clock = clk, Completion_Webhook = Some hooks\<rparr>"

definition wire_reattach ::
  "'s JobsRepository \<Rightarrow> 's RunnerService \<Rightarrow> 's Clock \<Rightarrow> 's ReattachRunningJobs" where
  "wire_reattach jobsRepo runner clk =
     \<lparr>Reattach_Jobs = jobsRepo, Reattach_Runner = runner, Reattach_Clock = clk\<rparr>"

definition wire_cancel ::
  "'s JobsRepository \<Rightarrow> 's RunnerService \<Rightarrow> 's Clock \<Rightarrow> 's CancelJob" where
  "wire_cancel jobsRepo runner clk =
     \<lparr>CancelJob_Jobs = jobsRepo, CancelJob_Runner = runner, CancelJob_Clock = clk\<rparr>"

lemmas wire_defs = wire_enqueue_def wire_complete_def wire_reattach_def wire_cancel_def

section \<open>Facts about the pure parts\<close>

lemma new_job_fields:
  "Job_ID (EnqueueJob_new_job uc inp jid now) = jid"
  "Job_UserID (EnqueueJob_new_job uc inp jid now) = EnqueueJobInput_UserID inp"
  "Job_Status (EnqueueJob_new_job uc inp jid now) = JobStatusQueued"
  "Job_ContainerID (EnqueueJob_new_job uc inp jid now) = ''''"
  by (simp_all add: EnqueueJob_new_job_def NewJob_def Let_def)

lemma wf_new_job: "wf_job (EnqueueJob_new_job uc inp jid now)"
  by (simp add: EnqueueJob_new_job_def NewJob_def Let_def wf_job_def)

lemma queued_not_terminal: "Job_Status j = JobStatusQueued \<Longrightarrow> \<not> IsTerminal j"
  "Job_Status j = JobStatusRunning \<Longrightarrow> \<not> IsTerminal j"
  by (simp_all add: IsTerminal_def)

lemma MarkFailed_active:
  assumes "wf_job j" and "\<not> IsTerminal j"
  shows "job_advance j (snd (MarkFailed j r t))" and "IsTerminal (snd (MarkFailed j r t))"
    and "fst (MarkFailed j r t) = None"
proof -
  have none: "fst (MarkFailed j r t) = None" using assms(2) by (simp add: MarkFailed_def)
  then show "fst (MarkFailed j r t) = None" .
  show "job_advance j (snd (MarkFailed j r t))"
    using MarkFailed_advance [OF assms(1)] none by (metis prod.collapse)
  show "IsTerminal (snd (MarkFailed j r t))"
    using assms(2) by (simp add: MarkFailed_def IsTerminal_def)
qed

lemma MarkRunning_queued:
  assumes "wf_job j" and "Job_Status j = JobStatusQueued" and "MarkRunning j c t = (e, j')"
  shows "e = None" and "job_advance j j'" and "Job_Status j' = JobStatusRunning"
    and "Job_ContainerID j' = c"
proof -
  show e: "e = None" using assms(2,3) by (simp add: MarkRunning_def)
  show "job_advance j j'" using MarkRunning_advance [OF assms(1)] assms(3) e by simp
  show "Job_Status j' = JobStatusRunning" "Job_ContainerID j' = c"
    using assms(2,3) by (auto simp: MarkRunning_def)
qed

lemma MarkCancelled_terminal: "MarkCancelled j t = (None, j') \<Longrightarrow> IsTerminal j'"
  by (auto simp: MarkCancelled_def IsTerminal_def split: if_splits)

lemma completion_mark_advance:
  assumes "wf_job j" and "completion_mark j res now = (None, j')"
  shows "job_advance j j'" and "IsTerminal j'"
proof -
  show "job_advance j j'"
    using assms MarkSucceeded_advance MarkFailed_advance
    by (auto simp: completion_mark_def split: if_splits)
  show "IsTerminal j'"
    using assms(2)
    by (auto simp: completion_mark_def MarkSucceeded_def MarkFailed_def IsTerminal_def split: if_splits)
qed

section \<open>Refinement of the abstract store\<close>

context job_env
begin

lemma keepsE:
  assumes "keeps ok jobs_of f" and "ok s" and "f s = (r, s')"
  obtains "ok s'" and "jobs_of s' = jobs_of s"
  using keepsD [OF assms] by blast

text \<open>One update of a stored job along its life cycle is one step of the store.\<close>

lemma update_refines:
  assumes "ok s" and "jobs_of s (Job_ID j) = Some j" and adv: "job_advance j j'"
    and "IsTerminal j' \<or> Job_Status j' = JobStatusRunning \<and> admitted maxU maxG (jobs_of s) (Job_UserID j)"
    and "Jobs_Update repo j' s = (r, s')"
  shows "ok s'" and "store_steps maxU maxG (jobs_of s) (jobs_of s')"
    and "\<not> isl r \<Longrightarrow> jobs_of s' = (jobs_of s)(Job_ID j \<mapsto> j')"
    and "isl r \<Longrightarrow> jobs_of s' = jobs_of s"
proof -
  have id: "Job_ID j' = Job_ID j" using job_advanceD(1) [OF adv] .
  note eff = Update_effect [OF assms(1,5)]
  show "ok s'" by (rule eff(1))
  show "\<not> isl r \<Longrightarrow> jobs_of s' = (jobs_of s)(Job_ID j \<mapsto> j')" and "isl r \<Longrightarrow> jobs_of s' = jobs_of s"
    using eff(2) id by simp_all
  have "store_step maxU maxG (jobs_of s) ((jobs_of s)(Job_ID j \<mapsto> j'))"
    using assms(2,4) adv by (auto intro: store_step.intros)
  then show "store_steps maxU maxG (jobs_of s) (jobs_of s')"
    using eff(2) id by (cases "isl r") auto
qed

lemma global_capped_effect:
  assumes "ok t" and "EnqueueJob_Jobs uc = repo" and "EnqueueJob_global_capped uc t = (r, t')"
  shows "ok t' \<and> jobs_of t' = jobs_of t
    \<and> (r = Inr False \<longrightarrow> (EnqueueJob_MaxConcurrentGlobal uc > 0 \<longrightarrow>
         int (card (active_jobs (jobs_of t) (\<lambda>_. True))) \<le> EnqueueJob_MaxConcurrentGlobal uc))
    \<and> (r = Inr True \<longrightarrow> EnqueueJob_MaxConcurrentGlobal uc > 0 \<and>
         int (card (active_jobs (jobs_of t) (\<lambda>_. True))) > EnqueueJob_MaxConcurrentGlobal uc)"
  using assms keepsD [OF CountGlobal_keeps assms(1)] CountGlobal_ok [OF assms(1)]
  by (auto simp: EnqueueJob_global_capped_def split: if_splits prod.splits sum.splits)

lemma capped_effect:
  assumes ok: "ok s" and wire: "EnqueueJob_Jobs uc = repo"
    and run: "EnqueueJob_capped uc u s = (r, s')"
  shows "ok s'" and "jobs_of s' = jobs_of s"
    and "r = Inr False \<Longrightarrow>
           admitted (EnqueueJob_MaxConcurrentPerUser uc) (EnqueueJob_MaxConcurrentGlobal uc) (jobs_of s) u"
    and "r = Inr True \<Longrightarrow>
           \<not> admitted (EnqueueJob_MaxConcurrentPerUser uc) (EnqueueJob_MaxConcurrentGlobal uc) (jobs_of s) u"
proof -
  note glob = global_capped_effect [OF _ wire]
  have all: "ok s' \<and> jobs_of s' = jobs_of s
      \<and> (r = Inr False \<longrightarrow> admitted (EnqueueJob_MaxConcurrentPerUser uc)
           (EnqueueJob_MaxConcurrentGlobal uc) (jobs_of s) u)
      \<and> (r = Inr True \<longrightarrow> \<not> admitted (EnqueueJob_MaxConcurrentPerUser uc)
           (EnqueueJob_MaxConcurrentGlobal uc) (jobs_of s) u)"
  proof (cases "EnqueueJob_MaxConcurrentPerUser uc > 0")
    case False
    then show ?thesis
      using glob [OF ok] run by (auto simp: EnqueueJob_capped_def admitted_def)
  next
    case True
    obtain c t where ct: "Jobs_CountActiveForUser repo u s = (c, t)" by fastforce
    note kt = keepsD [OF CountForUser_keeps ok ct]
    show ?thesis
    proof (cases c)
      case (Inl e)
      then show ?thesis using run True ct wire kt by (auto simp: EnqueueJob_capped_def)
    next
      case (Inr n)
      note n = CountForUser_ok [OF ok ct [unfolded Inr]]
      show ?thesis
      proof (cases "n > EnqueueJob_MaxConcurrentPerUser uc")
        case True': True
        then show ?thesis
          using run True ct wire kt Inr n by (auto simp: EnqueueJob_capped_def admitted_def)
      next
        case False
        then have "EnqueueJob_global_capped uc t = (r, s')"
          using run True ct wire Inr by (simp add: EnqueueJob_capped_def)
        then show ?thesis
          using glob [OF kt(1)] kt False n by (auto simp: admitted_def)
      qed
    qed
  qed
  then show "ok s'" and "jobs_of s' = jobs_of s"
    and "r = Inr False \<Longrightarrow> admitted (EnqueueJob_MaxConcurrentPerUser uc)
           (EnqueueJob_MaxConcurrentGlobal uc) (jobs_of s) u"
    and "r = Inr True \<Longrightarrow> \<not> admitted (EnqueueJob_MaxConcurrentPerUser uc)
           (EnqueueJob_MaxConcurrentGlobal uc) (jobs_of s) u"
    by simp_all
qed

lemma creds_effect:
  assumes ok: "ok s"
    and wire: "EnqueueJob_RepoCreds uc = repoCreds" "EnqueueJob_AnthropicCreds uc = anthropicCreds"
    and run: "EnqueueJob_creds uc inp s = (r, s')"
  shows "ok s'" and "jobs_of s' = jobs_of s"
proof -
  obtain g t where g: "RepoCreds_For repoCreds (EnqueueJobInput_UserID inp)
      (EnqueueJobInput_Repo inp) s = (g, t)" by fastforce
  note kt = keepsD [OF RepoCreds_keeps ok g]
  obtain a t' where a: "AnthropicCreds_For anthropicCreds (EnqueueJobInput_UserID inp) t = (a, t')"
    by fastforce
  note kt' = keepsD [OF AnthropicCreds_keeps kt(1) a]
  show "ok s'" and "jobs_of s' = jobs_of s"
    using run g a wire kt kt' by (auto simp: EnqueueJob_creds_def split: sum.splits)
qed

text \<open>
  The last stage: the runner is called, and the outcome recorded. Whatever happens, the
  store makes at most one step, on this job.
\<close>

lemma start_refines:
  assumes ok: "ok s"
    and wire: "EnqueueJob_Jobs uc = repo" "EnqueueJob_Runner uc = runner" "EnqueueJob_Clock uc = clock"
    and job: "jobs_of s (Job_ID job) = Some job" "wf_job job" "Job_Status job = JobStatusQueued"
    and adm: "admitted maxU maxG (jobs_of s) (Job_UserID job)"
    and run: "EnqueueJob_start uc job spec s = (r, s')"
  shows "ok s'" and "store_steps maxU maxG (jobs_of s) (jobs_of s')"
proof -
  obtain c s1 where c: "Runner_Start runner spec s = (c, s1)" by fastforce
  note k1 = keepsD [OF Start_keeps ok c]
  obtain t s2 where t: "Clock_Now clock s1 = (t, s2)" by fastforce
  note k2 = keepsD [OF Now_keeps k1(1) t]
  have eq: "jobs_of s2 = jobs_of s" using k1(2) k2(2) by simp
  have stored: "jobs_of s2 (Job_ID job) = Some job" using eq job(1) by simp
  have "ok s' \<and> store_steps maxU maxG (jobs_of s) (jobs_of s')"
  proof (cases c)
    case (Inl e)
    let ?j = "snd (MarkFailed job (error_text e) t)"
    obtain x s3 where x: "Jobs_Update repo ?j s2 = (x, s3)" by fastforce
    have "s' = s3" using run Inl c t x wire by (simp add: EnqueueJob_start_def)
    moreover have "ok s3 \<and> store_steps maxU maxG (jobs_of s2) (jobs_of s3)"
      using update_refines [OF k2(1) stored _ _ x] MarkFailed_active [OF job(2)]
        queued_not_terminal(1) [OF job(3)] by blast
    ultimately show ?thesis using eq by simp
  next
    case (Inr cid)
    obtain e j' where m: "MarkRunning job cid t = (e, j')" by fastforce
    note mr = MarkRunning_queued [OF job(2,3) m]
    obtain x s3 where x: "Jobs_Update repo j' s2 = (x, s3)" by fastforce
    have "s' = s3"
      using run Inr c t m mr(1) x wire
      by (auto simp: EnqueueJob_start_def EnqueueJob_started_def split: sum.splits)
    moreover have "ok s3 \<and> store_steps maxU maxG (jobs_of s2) (jobs_of s3)"
      using update_refines [OF k2(1) stored mr(2) _ x] mr(3) adm eq by auto
    ultimately show ?thesis using eq by simp
  qed
  then show "ok s'" and "store_steps maxU maxG (jobs_of s) (jobs_of s')" by simp_all
qed

text \<open>
  The three ways an execution of \<open>EnqueueJob\<close> can go: refused before a job is stored; a job is stored and
  stays queued; or the stored job is admitted and handed to the runner.
\<close>

lemma enqueue_wired:
  assumes "uc = wire_enqueue repo repoCreds anthropicCreds runner idgen clock logDir maxU maxG"
  shows "EnqueueJob_Jobs uc = repo" "EnqueueJob_Runner uc = runner" "EnqueueJob_Clock uc = clock"
    "EnqueueJob_IDGen uc = idgen" "EnqueueJob_RepoCreds uc = repoCreds"
    "EnqueueJob_AnthropicCreds uc = anthropicCreds" "EnqueueJob_MaxConcurrentPerUser uc = maxU"
    "EnqueueJob_MaxConcurrentGlobal uc = maxG"
  using assms by (simp_all add: wire_enqueue_def)

lemma enqueue_stored:
  assumes ok: "ok s" and wire: "uc = wire_enqueue repo repoCreds anthropicCreds runner idgen clock logDir maxU maxG"
    and m: "jobs_of s = m"
    and run: "(case EnqueueJob_capped uc (EnqueueJobInput_UserID inp) s of
        (Inl e, s4) \<Rightarrow> (Inl e, s4)
      | (Inr True, s4) \<Rightarrow> (Inr (EnqueueJob_output job), s4)
      | (Inr False, s4) \<Rightarrow>
          (case EnqueueJob_creds uc inp s4 of
             (Inl e, s5) \<Rightarrow> (Inl e, s5)
           | (Inr (git, anth), s5) \<Rightarrow> EnqueueJob_start uc job (EnqueueJob_spec inp job git anth) s5)) = (r, s')"
  obtains (queued) "ok s'" "jobs_of s' = m" "isl r \<or> r = Inr (EnqueueJob_output job)"
  | (started) spec s5 where "ok s5" "jobs_of s5 = m" "admitted maxU maxG m (EnqueueJobInput_UserID inp)"
      "EnqueueJob_start uc job spec s5 = (r, s')"
proof -
  note w = enqueue_wired [OF wire]
  obtain c s4 where c: "EnqueueJob_capped uc (EnqueueJobInput_UserID inp) s = (c, s4)" by fastforce
  note k4 = capped_effect [OF ok w(1) c]
  obtain cr s5 where cr: "EnqueueJob_creds uc inp s4 = (cr, s5)" by fastforce
  note k5 = creds_effect [OF k4(1) w(5,6) cr]
  show thesis
  proof (cases "c = Inr False \<and> \<not> isl cr")
    case True
    then obtain git anth where "cr = Inr (git, anth)" by (cases cr) auto
    then show thesis using True started [OF k5(1)] run k4 k5 w(7,8) m by (simp add: c cr)
  next
    case False
    then have "(s' = s4 \<or> s' = s5) \<and> (isl r \<or> r = Inr (EnqueueJob_output job))"
      using run by (auto simp: c cr split: sum.splits bool.splits prod.splits)
    then show thesis using queued k4 k5 m by auto
  qed
qed

lemma enqueue_run:
  assumes ok: "ok s"
    and wire: "uc = wire_enqueue repo repoCreds anthropicCreds runner idgen clock logDir maxU maxG"
    and run: "EnqueueJob_Execute uc inp s = (r, s')"
  obtains (refused) "ok s'" "jobs_of s' = jobs_of s" "isl r"
  | (queued) jid now job where "job = EnqueueJob_new_job uc inp jid now" "jobs_of s (Job_ID job) = None"
      "ok s'" "jobs_of s' = (jobs_of s)(Job_ID job \<mapsto> job)" "isl r \<or> r = Inr (EnqueueJob_output job)"
  | (started) jid now job spec s5 where "job = EnqueueJob_new_job uc inp jid now" "jobs_of s (Job_ID job) = None"
      "ok s5" "jobs_of s5 = (jobs_of s)(Job_ID job \<mapsto> job)" "admitted maxU maxG (jobs_of s5) (Job_UserID job)"
      "EnqueueJob_start uc job spec s5 = (r, s')"
proof (cases "EnqueueJob_invalid inp")
  case True
  then show thesis using run ok refused by (auto simp: EnqueueJob_Execute_def)
next
  case valid: False
  note w = enqueue_wired [OF wire]
  obtain now s1 where now: "Clock_Now clock s = (now, s1)" by fastforce
  note k1 = keepsD [OF Now_keeps ok now]
  obtain jid s2 where jid: "IDGen_NewJobID idgen s1 = (jid, s2)" by fastforce
  note k2 = keepsD [OF NewJobID_keeps k1(1) jid]
  define job where "job = EnqueueJob_new_job uc inp jid now"
  obtain x s3 where x: "Jobs_Create repo job s2 = (x, s3)" by fastforce
  note unf = run [unfolded EnqueueJob_Execute_def Let_def w] valid now jid x job_def
  show thesis
  proof (cases x)
    case (Inl e)
    then have "s' = s3" "r = Inl e" using unf by simp_all
    then show thesis using refused Create_err [OF k2(1) x [unfolded Inl]] k1(2) k2(2) by simp
  next
    case (Inr y)
    note cr = Create_ok [OF k2(1) x [unfolded Inr]]
    have fresh: "jobs_of s (Job_ID job) = None" using cr k1(2) k2(2) by simp
    have ok3: "ok s3" and m3: "jobs_of s3 = (jobs_of s)(Job_ID job \<mapsto> job)" using cr k1(2) k2(2) by simp_all
    have user: "Job_UserID job = EnqueueJobInput_UserID inp" by (simp add: job_def new_job_fields)
    show thesis
      by (rule enqueue_stored [OF ok3 wire m3, where inp = inp and job = job and r = r and s' = s'])
        (use unf Inr queued [OF job_def fresh] started [OF job_def fresh] user in auto)
  qed
qed

lemma enqueue_refines:
  assumes ok: "ok s"
    and wire: "uc = wire_enqueue repo repoCreds anthropicCreds runner idgen clock logDir maxU maxG"
    and run: "EnqueueJob_Execute uc inp s = (r, s')"
  shows "ok s' \<and> store_steps maxU maxG (jobs_of s) (jobs_of s')"
proof -
  have submit: "store_step maxU maxG (jobs_of s) ((jobs_of s)(Job_ID job \<mapsto> job))"
    if "job = EnqueueJob_new_job uc inp jid now" "jobs_of s (Job_ID job) = None" for job jid now
    using that by (intro store_step.submit) (simp_all add: wf_new_job new_job_fields)
  from ok wire run show ?thesis
  proof (cases rule: enqueue_run)
    case (queued jid now job)
    then show ?thesis using submit by (metis r_into_rtranclp)
  next
    case (started jid now job spec s5)
    have "ok s' \<and> store_steps maxU maxG (jobs_of s5) (jobs_of s')"
      using start_refines [OF started(3) enqueue_wired(1-3) [OF wire] _ _ _ started(5,6)] started(1,4)
      by (simp add: wf_new_job new_job_fields)
    then show ?thesis using submit [OF started(1,2)] started(4) by (metis converse_rtranclp_into_rtranclp)
  qed simp
qed

lemma mark_cancelled_refines:
  assumes ok: "ok s" and job: "jobs_of s (Job_ID job) = Some job" "wf_job job"
    and run: "(case MarkCancelled job t of (Some e, _) \<Rightarrow> (Inl e, s) | (None, job') \<Rightarrow> Jobs_Update repo job' s) = (r, s')"
  shows "ok s' \<and> store_steps maxU maxG (jobs_of s) (jobs_of s')"
proof -
  obtain e j' where m: "MarkCancelled job t = (e, j')" by fastforce
  show ?thesis
  proof (cases e)
    case (Some e')
    then show ?thesis using run ok m by simp
  next
    case None
    then have "Jobs_Update repo j' s = (r, s')" using run m by simp
    moreover have "job_advance job j'" "IsTerminal j'"
      using MarkCancelled_advance [OF job(2)] MarkCancelled_terminal m None by auto
    ultimately show ?thesis using update_refines(1,2) [OF ok job(1)] by auto
  qed
qed

lemma cancel_refines:
  assumes ok: "ok s" and wf: "wf_store (jobs_of s)"
    and run: "CancelJob_Execute (wire_cancel repo runner clock) jid uid s = (r, s')"
  shows "ok s' \<and> store_steps maxU maxG (jobs_of s) (jobs_of s')"
proof (cases "jid = '''' \<or> uid = ''''")
  case True
  then show ?thesis using run ok by (auto simp: CancelJob_Execute_def)
next
  case False
  let ?uc = "wire_cancel repo runner clock"
  have w: "CancelJob_Jobs ?uc = repo" "CancelJob_Runner ?uc = runner" "CancelJob_Clock ?uc = clock"
    by (simp_all add: wire_cancel_def)
  obtain g s1 where g: "Jobs_GetForUser repo jid uid s = (g, s1)" by fastforce
  note k1 = keepsD [OF GetForUser_keeps ok g]
  show ?thesis
  proof (cases g)
    case (Inl e)
    then show ?thesis using run False g w k1 by (simp add: CancelJob_Execute_def)
  next
    case (Inr job)
    have job: "jobs_of s jid = Some job" using GetForUser_ok [OF ok g [unfolded Inr]] by simp
    then have j: "wf_job job" "Job_ID job = jid" using wf by (simp_all add: wf_store_def)
    show ?thesis
    proof (cases "IsTerminal job")
      case True
      then show ?thesis using run False g Inr w k1 by (simp add: CancelJob_Execute_def)
    next
      case nt: False
      define s2 where "s2 = (if Job_ContainerID job \<noteq> ''''
        then snd (Runner_Stop runner (Job_ContainerID job) s1) else s1)"
      have k2: "ok s2 \<and> jobs_of s2 = jobs_of s1"
        using Stop_keeps k1(1) by (auto simp: s2_def keeps_def)
      obtain t s3 where t: "Clock_Now clock s2 = (t, s3)" by fastforce
      have k3: "ok s3" "jobs_of s3 = jobs_of s" using keepsD [OF Now_keeps _ t] k1 k2 by simp_all
      have "(case MarkCancelled job t of (Some e, _) \<Rightarrow> (Inl e, s3) | (None, job') \<Rightarrow> Jobs_Update repo job' s3) = (r, s')"
        using run [unfolded CancelJob_Execute_def w] False g Inr nt t by (simp add: s2_def)
      then show ?thesis using mark_cancelled_refines [OF k3(1) _ j(1)] job j(2) k3(2) by simp
    qed
  qed
qed

lemma completion_webhook_keeps:
  assumes "ok s" and "Completion_Webhook uc \<in> {None, Some dispatcher}"
  shows "ok (completion_webhook tz uc job res s)"
    and "jobs_of (completion_webhook tz uc job res s) = jobs_of s"
proof -
  have dispatch: "ok (snd (DispatchCompletionWebhook_Execute tz dispatcher url j tail s))
      \<and> jobs_of (snd (DispatchCompletionWebhook_Execute tz dispatcher url j tail s)) = jobs_of s"
    for url j tail
    using assms(1) Dispatch_keeps
    by (auto simp: DispatchCompletionWebhook_Execute_def keeps_def split: option.splits sum.splits)
  show "ok (completion_webhook tz uc job res s)"
    and "jobs_of (completion_webhook tz uc job res s) = jobs_of s"
    using assms dispatch by (auto simp: completion_webhook_def split: option.splits)
qed

lemma completion_refines:
  assumes ok: "ok s" and wf: "wf_store (jobs_of s)"
    and run: "HandleRunnerCompletion_Execute tz (wire_complete repo clock dispatcher) res s = (r, s')"
  shows "ok s' \<and> store_steps maxU maxG (jobs_of s) (jobs_of s')"
proof (cases "RunnerResult_JobID res = ''''")
  case True
  then show ?thesis using run ok by (simp add: HandleRunnerCompletion_Execute_def)
next
  case False
  let ?uc = "wire_complete repo clock dispatcher"
  have w: "Completion_Jobs ?uc = repo" "Completion_Clock ?uc = clock"
    "Completion_Webhook ?uc = Some dispatcher"
    by (simp_all add: wire_complete_def)
  obtain g s1 where g: "Jobs_Get repo (RunnerResult_JobID res) s = (g, s1)" by fastforce
  note k1 = keepsD [OF Get_keeps ok g]
  show ?thesis
  proof (cases g)
    case (Inl e)
    then show ?thesis using run False g w k1 by (simp add: HandleRunnerCompletion_Execute_def)
  next
    case (Inr job)
    have job: "jobs_of s (RunnerResult_JobID res) = Some job"
      using Get_ok [OF ok g [unfolded Inr]] .
    then have j: "wf_job job" "Job_ID job = RunnerResult_JobID res" using wf by (simp_all add: wf_store_def)
    obtain t s2 where t: "Clock_Now clock s1 = (t, s2)" by fastforce
    have k2: "ok s2" "jobs_of s2 = jobs_of s" using keepsD [OF Now_keeps k1(1) t] k1 by simp_all
    obtain e j' where m: "completion_mark job res t = (e, j')" by fastforce
    show ?thesis
    proof (cases e)
      case (Some e')
      then show ?thesis using run False g Inr t m w k2 by (simp add: HandleRunnerCompletion_Execute_def)
    next
      case None
      note adv = completion_mark_advance [OF j(1) m [unfolded None]]
      obtain x s3 where x: "Jobs_Update repo j' s2 = (x, s3)" by fastforce
      have up: "ok s3 \<and> store_steps maxU maxG (jobs_of s) (jobs_of s3)"
        using update_refines(1,2) [OF k2(1) _ adv(1) _ x] job j(2) k2(2) adv(2) by auto
      have "s' = s3 \<or> s' = completion_webhook tz ?uc j' res s3"
        using run False g Inr t m None x w
        by (auto simp: HandleRunnerCompletion_Execute_def split: sum.splits)
      then show ?thesis using up completion_webhook_keeps [of s3 ?uc tz j' res] w(3) by auto
    qed
  qed
qed

text \<open>The reattach loop: the jobs still to visit are stored as they were listed.\<close>

lemma others_listed:
  assumes "distinct (map Job_ID (j # js))" and "\<forall>k \<in> set (j # js). m (Job_ID k) = Some k \<and> P k"
  shows "\<forall>k \<in> set js. (m(Job_ID j \<mapsto> j')) (Job_ID k) = Some k \<and> P k"
  using assms by (auto simp: image_iff)

lemma reattach_loop_refines:
  assumes "ok s" and "wf_store (jobs_of s)" and "distinct (map Job_ID js)"
    and "\<forall>j \<in> set js. jobs_of s (Job_ID j) = Some j \<and> Job_Status j = JobStatusRunning"
    and "reattach_loop (wire_reattach repo runner clock) now js s = (r, s')"
  shows "ok s' \<and> store_steps maxU maxG (jobs_of s) (jobs_of s')"
  using assms
proof (induction js arbitrary: s)
  case Nil
  then show ?case by simp
next
  case (Cons j js)
  let ?uc = "wire_reattach repo runner clock"
  have w: "Reattach_Jobs ?uc = repo" "Reattach_Runner ?uc = runner" by (simp_all add: wire_reattach_def)
  obtain a s1 where a: "Runner_Inspect runner (Job_ContainerID j) s = (a, s1)" by fastforce
  note k1 = keepsD [OF Inspect_keeps Cons.prems(1) a]
  have j: "jobs_of s (Job_ID j) = Some j" "Job_Status j = JobStatusRunning" "wf_job j"
    using Cons.prems(2,4) by (auto simp: wf_store_def)
  consider (err) e where "a = Inl e" | (alive) "a = Inr True" | (dead) "a = Inr False"
    by (cases a) auto
  then show ?case
  proof cases
    case err
    then show ?thesis using Cons.prems(5) a w k1 by simp
  next
    case alive
    then have "reattach_loop ?uc now js s1 = (r, s')" using Cons.prems(5) a w by simp
    then show ?thesis using Cons.IH [OF k1(1)] Cons.prems(2-4) k1(2) by simp
  next
    case dead
    let ?j' = "snd (MarkFailed j reattach_reason now)"
    obtain x s2 where x: "Jobs_Update repo ?j' s1 = (x, s2)" by fastforce
    note f = MarkFailed_active [OF j(3) queued_not_terminal(2) [OF j(2)]]
    have j1: "jobs_of s1 (Job_ID j) = Some j" using j(1) k1(2) by simp
    have up1: "ok s2" "store_steps maxU maxG (jobs_of s) (jobs_of s2)"
      using update_refines(1,2) [OF k1(1) j1 f(1) _ x] f(2) k1(2) by auto
    show ?thesis
    proof (cases x)
      case (Inl e)
      then show ?thesis using Cons.prems(5) a w dead x up1 by simp
    next
      case (Inr y)
      have upd: "jobs_of s2 = (jobs_of s)(Job_ID j \<mapsto> ?j')"
        using update_refines(3) [OF k1(1) j1 f(1) _ x] f(2) Inr k1(2) by auto
      have "reattach_loop ?uc now js s2 = (r, s')" using Cons.prems(5) a w dead x Inr by simp
      moreover have "wf_store (jobs_of s2)" using up1(2) store_steps_wf Cons.prems(2) by blast
      moreover have "\<forall>k \<in> set js. jobs_of s2 (Job_ID k) = Some k \<and> Job_Status k = JobStatusRunning"
        unfolding upd by (rule others_listed [OF Cons.prems(3,4)])
      ultimately have "ok s' \<and> store_steps maxU maxG (jobs_of s2) (jobs_of s')"
        using Cons.IH [OF up1(1)] Cons.prems(3) by simp
      then show ?thesis using up1(2) by (meson rtranclp_trans)
    qed
  qed
qed

lemma reattach_refines:
  assumes ok: "ok s" and wf: "wf_store (jobs_of s)"
    and run: "ReattachRunningJobs_Execute (wire_reattach repo runner clock) s = (r, s')"
  shows "ok s' \<and> store_steps maxU maxG (jobs_of s) (jobs_of s')"
proof -
  let ?uc = "wire_reattach repo runner clock"
  have w: "Reattach_Jobs ?uc = repo" "Reattach_Clock ?uc = clock" by (simp_all add: wire_reattach_def)
  obtain l s1 where l: "Jobs_ListByStatus repo JobStatusRunning s = (l, s1)" by fastforce
  note k1 = keepsD [OF ListByStatus_keeps ok l]
  obtain t s2 where t: "Clock_Now clock s1 = (t, s2)" by fastforce
  have k2: "ok s2" "jobs_of s2 = jobs_of s" using keepsD [OF Now_keeps k1(1) t] k1 by simp_all
  show ?thesis
  proof (cases l)
    case (Inl e)
    then show ?thesis using run l w k1 by (simp add: ReattachRunningJobs_Execute_def)
  next
    case (Inr js)
    note lst = l [unfolded Inr]
    have "reattach_loop ?uc t js s2 = (r, s')"
      using run lst t w by (simp add: ReattachRunningJobs_Execute_def)
    moreover have "distinct (map Job_ID js)" using ListByStatus_ok [OF ok lst] by simp
    moreover have "\<forall>j \<in> set js. jobs_of s2 (Job_ID j) = Some j \<and> Job_Status j = JobStatusRunning"
      using ListByStatus_stored [OF ok lst] k2(2) by auto
    ultimately show ?thesis using reattach_loop_refines [OF k2(1)] wf k2(2) by simp
  qed
qed

end

section \<open>What \<open>EnqueueJob\<close> leaves in the store\<close>

text \<open>
  Whatever \<open>EnqueueJob\<close> answers, the store is as before or has one new job, that of the
  request; the answer names it with its status, and an error leaves it queued or failed.
\<close>

definition enqueue_effect ::
  "'x EnqueueJob \<Rightarrow> EnqueueJobInput \<Rightarrow> go_error + EnqueueJobOutput \<Rightarrow> store \<Rightarrow> store \<Rightarrow> bool" where
  "enqueue_effect uc inp r m m' \<longleftrightarrow>
     isl r \<and> m' = m
     \<or> (\<exists>j. m (Job_ID j) = None \<and> m' = m(Job_ID j \<mapsto> j)
          \<and> same_request (EnqueueJob_new_job uc inp (Job_ID j) (Job_CreatedAt j)) j
          \<and> (case r of
               Inr out \<Rightarrow> out = EnqueueJob_output j \<and> active_status (Job_Status j)
             | Inl e \<Rightarrow> Job_Status j = JobStatusQueued
                         \<or> Job_Status j = JobStatusFailed \<and> Job_Error j = error_text e))"

lemma enqueue_effectI:
  assumes "m1 = m(Job_ID job \<mapsto> job)" and "m (Job_ID job) = None"
    and "job = EnqueueJob_new_job uc inp (Job_ID job) (Job_CreatedAt job)"
    and "m' = m1(Job_ID job \<mapsto> j)" and "same_request job j"
    and "case r of Inr out \<Rightarrow> out = EnqueueJob_output j \<and> active_status (Job_Status j)
      | Inl e \<Rightarrow> Job_Status j = JobStatusQueued \<or> Job_Status j = JobStatusFailed \<and> Job_Error j = error_text e"
  shows "enqueue_effect uc inp r m m'"
proof -
  have "Job_ID j = Job_ID job" and "Job_CreatedAt j = Job_CreatedAt job"
    using assms(5) by (simp_all add: same_request_def)
  then have "m (Job_ID j) = None" and "m' = m(Job_ID j \<mapsto> j)"
    and "same_request (EnqueueJob_new_job uc inp (Job_ID j) (Job_CreatedAt j)) j"
    using assms by auto
  then show ?thesis using assms(6) unfolding enqueue_effect_def by blast
qed

context job_env
begin

lemma update_outcome:
  assumes "ok s" and "Job_ID j' = i" and "Jobs_Update repo j' s = (r, s')"
  shows "jobs_of s' = (if isl r then jobs_of s else (jobs_of s)(i \<mapsto> j'))"
  using Update_effect(2) [OF assms(1,3)] assms(2) by simp

lemma start_outcome:
  assumes ok: "ok s"
    and wire: "EnqueueJob_Jobs uc = repo" "EnqueueJob_Runner uc = runner" "EnqueueJob_Clock uc = clock"
    and job: "wf_job job" "Job_Status job = JobStatusQueued"
    and run: "EnqueueJob_start uc job spec s = (r, s')"
  shows "case r of
      Inr out \<Rightarrow> \<exists>j. jobs_of s' = (jobs_of s)(Job_ID job \<mapsto> j) \<and> same_request job j
        \<and> Job_Status j = JobStatusRunning \<and> out = EnqueueJob_output j
    | Inl e \<Rightarrow> jobs_of s' = jobs_of s \<or> (\<exists>j. jobs_of s' = (jobs_of s)(Job_ID job \<mapsto> j) \<and> same_request job j
        \<and> Job_Status j = JobStatusFailed \<and> Job_Error j = error_text e)"
proof -
  obtain c s1 where c: "Runner_Start runner spec s = (c, s1)" by fastforce
  note k1 = keepsD [OF Start_keeps ok c]
  obtain t s2 where t: "Clock_Now clock s1 = (t, s2)" by fastforce
  have k2: "ok s2" "jobs_of s2 = jobs_of s" using keepsD [OF Now_keeps k1(1) t] k1 by simp_all
  show ?thesis
  proof (cases c)
    case (Inl e)
    let ?j = "snd (MarkFailed job (error_text e) t)"
    obtain x s3 where x: "Jobs_Update repo ?j s2 = (x, s3)" by fastforce
    have r: "r = Inl e" "s' = s3" using run Inl c t x wire by (simp_all add: EnqueueJob_start_def)
    have j: "Job_Status ?j = JobStatusFailed" "Job_Error ?j = error_text e" "same_request job ?j"
      using job(2) by (simp_all add: MarkFailed_def IsTerminal_def same_request_def)
    show ?thesis
      using update_outcome [OF k2(1) _ x] same_requestD(1) [OF j(3)] j k2(2) r by (cases "isl x") auto
  next
    case (Inr cid)
    obtain e j where m: "MarkRunning job cid t = (e, j)" by fastforce
    note mr = MarkRunning_queued [OF job m]
    obtain x s3 where x: "Jobs_Update repo j s2 = (x, s3)" by fastforce
    have sr: "same_request job j" using job_advanceD(4) [OF mr(2)] .
    have r: "s' = s3" "r = (case x of Inl e \<Rightarrow> Inl e | Inr _ \<Rightarrow> Inr (EnqueueJob_output j))"
      using run Inr c t m mr(1) x wire
      by (auto simp: EnqueueJob_start_def EnqueueJob_started_def split: sum.splits)
    show ?thesis
      using update_outcome [OF k2(1) same_requestD(1) [OF sr] x] sr mr(3) k2(2) r by (cases x) auto
  qed
qed

lemma enqueue_outcome:
  assumes ok: "ok s"
    and wire: "uc = wire_enqueue repo repoCreds anthropicCreds runner idgen clock logDir maxU maxG"
    and run: "EnqueueJob_Execute uc inp s = (r, s')"
  shows "enqueue_effect uc inp r (jobs_of s) (jobs_of s')"
proof -
  have again: "job = EnqueueJob_new_job uc inp (Job_ID job) (Job_CreatedAt job)"
    if "job = EnqueueJob_new_job uc inp jid now" for job jid now
    using that by (simp add: EnqueueJob_new_job_def NewJob_def Let_def)
  have new: "wf_job job" "Job_Status job = JobStatusQueued"
    if "job = EnqueueJob_new_job uc inp jid now" for job jid now
    using that by (simp_all add: wf_new_job new_job_fields)
  have stay: "enqueue_effect uc inp r (jobs_of s) ((jobs_of s)(Job_ID job \<mapsto> job))"
    if "job = EnqueueJob_new_job uc inp jid now" "jobs_of s (Job_ID job) = None"
      "isl r \<or> r = Inr (EnqueueJob_output job)" for job jid now
    by (rule enqueue_effectI [where m = "jobs_of s" and job = job and j = job, OF refl that(2) again [OF that(1)]])
      (use that new(2) [OF that(1)] in \<open>auto simp: active_status_def split: sum.splits\<close>)
  from ok wire run show ?thesis
  proof (cases rule: enqueue_run)
    case refused
    then show ?thesis by (simp add: enqueue_effect_def)
  next
    case (queued jid now job)
    then show ?thesis using stay [OF queued(1,2,5)] by simp
  next
    case (started jid now job spec s5)
    note out = start_outcome [OF started(3) enqueue_wired(1-3) [OF wire] new [OF started(1)] started(6)]
    note fin = enqueue_effectI [OF started(4,2) again [OF started(1)]]
    show ?thesis
      using out stay [OF started(1,2)] fin started(4) by (cases r) (auto simp: active_status_def)
  qed
qed

end

end
