(* ===== verification/Tables.thy ===== *)
theory Tables
  imports Ports "HOL-Library.Multiset"
begin

text \<open>
  Tables: lists of rows with a key column. The operations are those of the SQL statements
  the repositories send (single-row insert, select by predicate, update and delete by key,
  insert with an \<open>ON CONFLICT\<close> clause), each a total function on the rows; the laws relate
  them to the finite map a table stands for. The same facts serve the in-memory fakes.
\<close>

section \<open>Statements on a table\<close>

definition index_by :: "('r \<Rightarrow> 'k) \<Rightarrow> 'r list \<Rightarrow> 'k \<rightharpoonup> 'r" where
  "index_by key rows = map_of (map (\<lambda>r. (key r, r)) rows)"

definition table_ok :: "('r \<Rightarrow> 'k) \<Rightarrow> 'r list \<Rightarrow> bool" where
  "table_ok key rows \<longleftrightarrow> distinct (map key rows)"

text \<open>\<open>INSERT\<close>: \<open>None\<close> when the key is taken.\<close>

definition sql_insert :: "('r \<Rightarrow> 'k) \<Rightarrow> 'r \<Rightarrow> 'r list \<Rightarrow> 'r list option" where
  "sql_insert key r rows = (if key r \<in> key ` set rows then None else Some (rows @ [r]))"

definition sql_select :: "('r \<Rightarrow> bool) \<Rightarrow> 'r list \<Rightarrow> 'r list" where
  "sql_select P rows = filter P rows"

text \<open>\<open>UPDATE ... WHERE key = k\<close>, with the number of rows affected.\<close>

definition sql_update :: "('r \<Rightarrow> 'k) \<Rightarrow> 'k \<Rightarrow> ('r \<Rightarrow> 'r) \<Rightarrow> 'r list \<Rightarrow> 'r list \<times> nat" where
  "sql_update key k f rows =
     (map (\<lambda>r. if key r = k then f r else r) rows, length (filter (\<lambda>r. key r = k) rows))"

definition sql_delete :: "('r \<Rightarrow> bool) \<Rightarrow> 'r list \<Rightarrow> 'r list \<times> nat" where
  "sql_delete P rows = (filter (\<lambda>r. \<not> P r) rows, length (filter P rows))"

text \<open>\<open>INSERT ... ON CONFLICT (key) DO UPDATE\<close>: \<open>merge old excluded\<close> is the new row.\<close>

definition sql_upsert :: "('r \<Rightarrow> 'k) \<Rightarrow> ('r \<Rightarrow> 'r \<Rightarrow> 'r) \<Rightarrow> 'r \<Rightarrow> 'r list \<Rightarrow> 'r list" where
  "sql_upsert key merge r rows =
     (if key r \<in> key ` set rows then fst (sql_update key (key r) (\<lambda>old. merge old r) rows)
      else rows @ [r])"

lemmas sql_defs [repo_defs] =
  sql_insert_def sql_select_def sql_update_def sql_delete_def sql_upsert_def

section \<open>The map a table stands for\<close>

lemma index_by_Some:
  "table_ok key rows \<Longrightarrow> index_by key rows k = Some r \<longleftrightarrow> r \<in> set rows \<and> key r = k"
  by (simp add: index_by_def table_ok_def map_of_key_filter)

lemma index_by_None: "index_by key rows k = None \<longleftrightarrow> k \<notin> key ` set rows"
  by (auto simp: index_by_def map_of_eq_None_iff image_iff)

lemma dom_index_by: "dom (index_by key rows) = key ` set rows"
  using index_by_None [of key rows] by (auto simp: dom_def)

lemma finite_index_by [simp]: "finite (dom (index_by key rows))"
  by (simp add: dom_index_by)

lemma ran_index_by: "table_ok key rows \<Longrightarrow> ran (index_by key rows) = set rows"
  by (auto simp: ran_def index_by_Some)

lemma table_ok_Nil [simp]: "table_ok key []"
  by (simp add: table_ok_def)

lemma index_by_Nil [simp]: "index_by key [] = Map.empty"
  by (simp add: index_by_def)

lemma map_eqI_on_rows:
  assumes "table_ok key rows" and "\<And>k r. r \<in> set rows \<and> key r = k \<longleftrightarrow> m k = Some r"
  shows "index_by key rows = m"
proof
  fix k
  show "index_by key rows k = m k"
  proof (cases "m k")
    case None
    then have "k \<notin> key ` set rows" using assms(2) [of _ k] by auto
    then show ?thesis using None by (simp add: index_by_None)
  next
    case (Some r)
    then show ?thesis using assms index_by_Some by metis
  qed
qed

lemma table_ok_unique:
  "table_ok key rows \<Longrightarrow> r \<in> set rows \<Longrightarrow> r' \<in> set rows \<Longrightarrow> key r = key r' \<Longrightarrow> r = r'"
  by (auto simp: table_ok_def distinct_map dest: inj_onD)

lemma insert_row:
  assumes "table_ok key rows" and "key r \<notin> key ` set rows"
  shows "table_ok key (rows @ [r])" and "index_by key (rows @ [r]) = (index_by key rows)(key r \<mapsto> r)"
proof -
  show ok: "table_ok key (rows @ [r])" using assms by (auto simp: table_ok_def)
  show "index_by key (rows @ [r]) = (index_by key rows)(key r \<mapsto> r)"
    by (rule map_eqI_on_rows [OF ok]) (use assms in \<open>auto simp: index_by_Some image_iff\<close>)
qed

lemma update_row:
  assumes ok: "table_ok key rows" and f: "\<And>r. key r = k \<Longrightarrow> key (f r) = k"
  shows "table_ok key (fst (sql_update key k f rows))"
    and "index_by key (fst (sql_update key k f rows))
           = (index_by key rows)(k := map_option f (index_by key rows k))"
proof -
  let ?u = "\<lambda>r. if key r = k then f r else r"
  have "map key (map ?u rows) = map key rows" using f by simp
  then show t: "table_ok key (fst (sql_update key k f rows))"
    using ok by (simp add: table_ok_def sql_update_def del: map_map)
  show "index_by key (fst (sql_update key k f rows))
           = (index_by key rows)(k := map_option f (index_by key rows k))"
  proof (rule map_eqI_on_rows [OF t])
    fix k' r
    show "r \<in> set (fst (sql_update key k f rows)) \<and> key r = k'
        \<longleftrightarrow> ((index_by key rows)(k := map_option f (index_by key rows k))) k' = Some r"
    proof (cases "k' = k")
      case True
      then show ?thesis using f ok by (auto simp: sql_update_def index_by_Some)
    next
      case False
      then show ?thesis using f ok by (auto simp: sql_update_def index_by_Some split: if_splits)
    qed
  qed
qed

text \<open>A conversion of rows that respects keys commutes with the update.\<close>

lemma sql_update_map:
  assumes "\<And>r. key' (g r) = key r" and "\<And>r. g (f r) = f' (g r)"
  shows "map g (fst (sql_update key k f rows)) = fst (sql_update key' k f' (map g rows))"
  using assms by (simp add: sql_update_def)

lemma table_ok_map: "(\<And>r. key' (g r) = key r) \<Longrightarrow> table_ok key' (map g rows) \<longleftrightarrow> table_ok key rows"
  by (simp add: table_ok_def comp_def)

lemma update_count:
  "snd (sql_update key k f rows) = 0 \<longleftrightarrow> index_by key rows k = None"
  by (auto simp: sql_update_def index_by_None filter_empty_conv)

lemma delete_rows:
  assumes ok: "table_ok key rows"
  shows "table_ok key (fst (sql_delete P rows))"
    and "index_by key (fst (sql_delete P rows))
           = (\<lambda>k. case index_by key rows k of None \<Rightarrow> None | Some r \<Rightarrow> if P r then None else Some r)"
proof -
  show t: "table_ok key (fst (sql_delete P rows))"
    using ok by (simp add: table_ok_def sql_delete_def distinct_map_filter)
  show "index_by key (fst (sql_delete P rows))
           = (\<lambda>k. case index_by key rows k of None \<Rightarrow> None | Some r \<Rightarrow> if P r then None else Some r)"
    by (rule map_eqI_on_rows [OF t])
      (use ok in \<open>auto simp: sql_delete_def index_by_Some index_by_None image_iff
                        split: option.splits if_splits dest: table_ok_unique\<close>)
qed

lemma delete_count: "snd (sql_delete P rows) = 0 \<longleftrightarrow> \<not> (\<exists>r \<in> set rows. P r)"
  by (auto simp: sql_delete_def filter_empty_conv)

text \<open>Deleting by a predicate that pins the key removes at most that key from the map.\<close>

lemma delete_one:
  assumes ok: "table_ok key rows" and pin: "\<And>r. P r \<Longrightarrow> key r = k"
    and hit: "\<And>r. index_by key rows k = Some r \<Longrightarrow> P r"
  shows "index_by key (fst (sql_delete P rows)) = (index_by key rows)(k := None)"
proof
  fix k'
  show "index_by key (fst (sql_delete P rows)) k' = ((index_by key rows)(k := None)) k'"
  proof (cases "index_by key rows k'")
    case None
    then show ?thesis by (simp add: delete_rows(2) [OF ok])
  next
    case (Some r)
    then have "key r = k'" using index_by_Some [OF ok] by blast
    then show ?thesis using Some pin [of r] hit [of r] by (auto simp: delete_rows(2) [OF ok])
  qed
qed

lemma upsert_row:
  assumes ok: "table_ok key rows" and m: "\<And>o'. key o' = key r \<Longrightarrow> key (merge o' r) = key r"
  shows "table_ok key (sql_upsert key merge r rows)"
    and "index_by key (sql_upsert key merge r rows)
           = (index_by key rows)(key r \<mapsto>
               (case index_by key rows (key r) of None \<Rightarrow> r | Some o' \<Rightarrow> merge o' r))"
proof -
  note up = update_row [OF ok, where f = "\<lambda>old. merge old r" and k = "key r", OF m]
  show "table_ok key (sql_upsert key merge r rows)"
    using up(1) insert_row(1) [OF ok] by (simp add: sql_upsert_def)
  show "index_by key (sql_upsert key merge r rows)
           = (index_by key rows)(key r \<mapsto>
               (case index_by key rows (key r) of None \<Rightarrow> r | Some o' \<Rightarrow> merge o' r))"
  proof (cases "key r \<in> key ` set rows")
    case True
    then obtain o' where "index_by key rows (key r) = Some o'"
      using index_by_None [of key rows "key r"] by auto
    then show ?thesis using up(2) True by (simp add: sql_upsert_def)
  next
    case False
    then have "index_by key rows (key r) = None" by (simp add: index_by_None)
    then show ?thesis using insert_row(2) [OF ok False] False by (simp add: sql_upsert_def)
  qed
qed

text \<open>A second key column survives an upsert that neither changes nor repeats it.\<close>

lemma upsert_other_key:
  assumes ok: "table_ok key2 rows" and m: "\<And>o'. key2 (merge o' r) = key2 o'"
    and new: "key r \<in> key ` set rows \<or> key2 r \<notin> key2 ` set rows"
  shows "table_ok key2 (sql_upsert key merge r rows)"
proof (cases "key r \<in> key ` set rows")
  case True
  have "map key2 (map (\<lambda>o'. if key o' = key r then merge o' r else o') rows) = map key2 rows"
    using m by simp
  then show ?thesis
    using True ok by (simp add: sql_upsert_def sql_update_def table_ok_def del: map_map)
next
  case False
  then show ?thesis using new ok by (auto simp: sql_upsert_def table_ok_def)
qed

lemma count_rows:
  assumes "table_ok key rows"
  shows "length (filter P rows) = card {k. \<exists>r. index_by key rows k = Some r \<and> P r}"
proof -
  have "{k. \<exists>r. index_by key rows k = Some r \<and> P r} = key ` {r \<in> set rows. P r}"
    using assms by (auto simp: index_by_Some)
  then show ?thesis
    using length_filter_card [of key rows P] assms by (simp add: table_ok_def)
qed

lemma filter_rows_law:
  assumes "table_ok key rows"
  shows "distinct (map key (filter P rows)) \<and> set (filter P rows) = {r \<in> ran (index_by key rows). P r}"
  using assms ran_index_by [OF assms] by (simp add: table_ok_def distinct_map_filter)

section \<open>Listing jobs, newest first\<close>

text \<open>
  \<open>ORDER BY created_at DESC LIMIT n\<close>: rows with equal times come in an unspecified order,
  here the stored one; no claim below depends on it.
\<close>

definition order_newest :: "Job list \<Rightarrow> Job list" where
  "order_newest js = sort_key (\<lambda>j. - Job_CreatedAt j) js"

definition limit_rows :: "int \<Rightarrow> 'a list \<Rightarrow> 'a list" where
  "limit_rows n xs = (if n > 0 then take (nat n) xs else xs)"

lemma order_newest_facts [simp]:
  "set (order_newest js) = set js" "length (order_newest js) = length js"
  by (simp_all add: order_newest_def)

lemma distinct_order_newest [simp]: "distinct (map f (order_newest js)) \<longleftrightarrow> distinct (map f js)"
proof -
  have "mset (map f (order_newest js)) = mset (map f js)" by (simp add: order_newest_def)
  then show ?thesis by (metis mset_eq_imp_distinct_iff)
qed

lemma sorted_order_newest: "newest_first (order_newest js)"
proof -
  have "sorted (map (\<lambda>j. - Job_CreatedAt j) (order_newest js))"
    by (simp add: order_newest_def)
  then show ?thesis by (simp add: newest_first_def sorted_map)
qed

lemma limit_rows_prefix: "\<exists>n. limit_rows l xs = take n xs"
  by (cases "l > 0") (auto simp: limit_rows_def intro: exI [of _ "length xs"])

lemma newest_prefix_max:
  assumes "newest_first js" and "j \<in> set (take n js)" and "k \<in> set js - set (take n js)"
  shows "Job_CreatedAt k \<le> Job_CreatedAt j"
proof -
  have "sorted_wrt (\<lambda>a b. Job_CreatedAt a \<ge> Job_CreatedAt b) (take n js @ drop n js)"
    using assms(1) by (simp add: newest_first_def)
  moreover have "k \<in> set (drop n js)"
    using assms(3) by (metis DiffE Un_iff append_take_drop_id set_append)
  ultimately show ?thesis using assms(2) by (simp only: sorted_wrt_append)
qed

lemma list_rows_law:
  assumes ok: "table_ok Job_ID js" and xs: "xs = limit_rows l (order_newest (filter (\<lambda>j. Job_UserID j = u) js))"
  shows "newest_first xs \<and> distinct (map Job_ID xs) \<and> set xs \<subseteq> user_jobs (index_by Job_ID js) u
      \<and> (l > 0 \<longrightarrow> int (length xs) = min l (int (card (user_jobs (index_by Job_ID js) u))))
      \<and> (l \<le> 0 \<longrightarrow> length xs = card (user_jobs (index_by Job_ID js) u))
      \<and> (\<forall>j \<in> set xs. \<forall>k \<in> user_jobs (index_by Job_ID js) u - set xs. Job_CreatedAt k \<le> Job_CreatedAt j)"
proof -
  let ?f = "filter (\<lambda>j. Job_UserID j = u) js"
  let ?o = "order_newest ?f"
  have U: "user_jobs (index_by Job_ID js) u = set ?f"
    using ok by (auto simp: user_jobs_def ran_index_by)
  have dm: "distinct (map Job_ID ?f)" using ok by (simp add: table_ok_def distinct_map_filter)
  have card: "card (set ?f) = length ?f"
    using dm by (metis distinct_card distinct_map)
  obtain n where n: "xs = take n ?o" using limit_rows_prefix xs by metis
  have so: "newest_first ?o" by (rule sorted_order_newest)
  have 1: "newest_first xs" using so by (simp add: n newest_first_def sorted_wrt_take)
  have 2: "distinct (map Job_ID xs)"
    using dm by (simp add: n take_map [symmetric] del: set_filter)
  have 3: "set xs \<subseteq> set ?f" using set_take_subset [of n ?o] by (simp add: n)
  have 4: "l > 0 \<longrightarrow> int (length xs) = min l (int (length ?f))"
    using xs by (auto simp: limit_rows_def)
  have 5: "l \<le> 0 \<longrightarrow> length xs = length ?f" using xs by (auto simp: limit_rows_def)
  have 6: "\<forall>j \<in> set xs. \<forall>k \<in> set ?f - set xs. Job_CreatedAt k \<le> Job_CreatedAt j"
    using newest_prefix_max [OF so] by (auto simp: n)
  show ?thesis unfolding U card using 1 2 3 4 5 6 by blast
qed

end
