(* ===== verification/Postgres.thy ===== *)
theory Postgres
  imports Job_Refinement Tables
begin

text \<open>
  The database adapter, \<open>core/adapter/postgres\<close>: the row models, the conversions between
  rows and entities, and the repositories. The state is one record with a table per SQL
  table of the initial migration. Each statement the code sends runs in \<open>pg_stmt\<close>, which
  models that any statement may fail in the driver or the server, without effect. Primary
  keys, the unique column and the foreign keys to \<open>users\<close> are those of the migration.

  The state extends the process environment (the wall clock and the random source), and
  the world of the server extends this record in turn, so every operation is polymorphic
  in the extension.
\<close>

section \<open>The process environment\<close>

text \<open>
  \<open>time.Now\<close> reads an arbitrary sequence of instants; \<open>crypto/rand\<close> an arbitrary sequence
  of bytes. Both are given with the environment, as is which of them comes next.
\<close>

record go_env =
  env_clock :: "nat \<Rightarrow> time"
  env_clock_reads :: nat
  env_entropy :: "nat \<Rightarrow> 8 word"
  env_entropy_used :: nat

definition time_Now :: "'z go_env_scheme \<Rightarrow> time \<times> 'z go_env_scheme" where
  "time_Now w = (env_clock w (env_clock_reads w), w\<lparr>env_clock_reads := Suc (env_clock_reads w)\<rparr>)"

definition rand_Read :: "nat \<Rightarrow> 'z go_env_scheme \<Rightarrow> 8 word list \<times> 'z go_env_scheme" where
  "rand_Read n w =
     (map (\<lambda>i. env_entropy w (env_entropy_used w + i)) [0..<n],
      w\<lparr>env_entropy_used := env_entropy_used w + n\<rparr>)"

text \<open>\<open>core/adapter/clock/system_clock.go\<close>.\<close>

definition SystemClock :: "'z go_env_scheme Clock" where
  "SystemClock = \<lparr>Clock_Now = time_Now\<rparr>"

section \<open>Row models (\<open>models.go\<close>, \<open>auth_models.go\<close>)\<close>

record userRow =
  userRow_ID :: string
  userRow_DisplayName :: string
  userRow_CreatedAt :: time

record userSecretRow =
  userSecretRow_UserID :: string
  userSecretRow_AnthropicKeyEnc :: string
  userSecretRow_UpdatedAt :: time

record apiKeyRow =
  apiKeyRow_ID :: string
  apiKeyRow_UserID :: string
  apiKeyRow_Name :: string
  apiKeyRow_Prefix :: string
  apiKeyRow_Hash :: string
  apiKeyRow_LastUsedAt :: "time option"
  apiKeyRow_CreatedAt :: time

record jobRow =
  jobRow_ID :: string
  jobRow_UserID :: string
  jobRow_Status :: string
  jobRow_Repo :: string
  jobRow_BaseBranch :: string
  jobRow_WorkBranch :: string
  jobRow_SpecSource :: string
  jobRow_SourceType :: string
  jobRow_ModelOverride :: string
  jobRow_ContainerID :: string
  jobRow_PRURL :: string
  jobRow_Error :: string
  jobRow_LogPath :: string
  jobRow_CreatedAt :: time
  jobRow_StartedAt :: "time option"
  jobRow_FinishedAt :: "time option"

record identityRow =
  identityRow_UserID :: string
  identityRow_GitHubID :: int
  identityRow_GitHubLogin :: string
  identityRow_Email :: string

record installationRow =
  installationRow_InstallationID :: int
  installationRow_UserID :: string
  installationRow_AccountLogin :: string
  installationRow_Repos :: "string list"
  installationRow_CreatedAt :: time

record sessionRow =
  sessionRow_ID :: "8 word list"
  sessionRow_UserID :: string
  sessionRow_ExpiresAt :: time

definition toJob :: "jobRow \<Rightarrow> Job" where
  "toJob r =
     \<lparr>Job_ID = jobRow_ID r, Job_UserID = jobRow_UserID r, Job_Status = jobRow_Status r,
      Job_Repo = jobRow_Repo r, Job_BaseBranch = jobRow_BaseBranch r,
      Job_WorkBranch = jobRow_WorkBranch r,
      Job_Spec = \<lparr>Spec_Type = jobRow_SourceType r, Spec_Value = jobRow_SpecSource r\<rparr>,
      Job_ModelOverride = jobRow_ModelOverride r, Job_ContainerID = jobRow_ContainerID r,
      Job_PRURL = jobRow_PRURL r, Job_Error = jobRow_Error r, Job_LogPath = jobRow_LogPath r,
      Job_CreatedAt = jobRow_CreatedAt r, Job_StartedAt = jobRow_StartedAt r,
      Job_FinishedAt = jobRow_FinishedAt r\<rparr>"

definition fromJob :: "Job \<Rightarrow> jobRow" where
  "fromJob j =
     \<lparr>jobRow_ID = Job_ID j, jobRow_UserID = Job_UserID j, jobRow_Status = Job_Status j,
      jobRow_Repo = Job_Repo j, jobRow_BaseBranch = Job_BaseBranch j,
      jobRow_WorkBranch = Job_WorkBranch j, jobRow_SpecSource = Spec_Value (Job_Spec j),
      jobRow_SourceType = Spec_Type (Job_Spec j), jobRow_ModelOverride = Job_ModelOverride j,
      jobRow_ContainerID = Job_ContainerID j, jobRow_PRURL = Job_PRURL j,
      jobRow_Error = Job_Error j, jobRow_LogPath = Job_LogPath j,
      jobRow_CreatedAt = Job_CreatedAt j, jobRow_StartedAt = Job_StartedAt j,
      jobRow_FinishedAt = Job_FinishedAt j\<rparr>"

definition toAPIKey :: "apiKeyRow \<Rightarrow> APIKey" where
  "toAPIKey r =
     \<lparr>APIKey_ID = apiKeyRow_ID r, APIKey_UserID = apiKeyRow_UserID r,
      APIKey_Name = apiKeyRow_Name r, APIKey_Prefix = apiKeyRow_Prefix r,
      APIKey_Hash = apiKeyRow_Hash r, APIKey_LastUsedAt = apiKeyRow_LastUsedAt r,
      APIKey_CreatedAt = apiKeyRow_CreatedAt r\<rparr>"

definition fromAPIKey :: "APIKey \<Rightarrow> apiKeyRow" where
  "fromAPIKey k =
     \<lparr>apiKeyRow_ID = APIKey_ID k, apiKeyRow_UserID = APIKey_UserID k,
      apiKeyRow_Name = APIKey_Name k, apiKeyRow_Prefix = APIKey_Prefix k,
      apiKeyRow_Hash = APIKey_Hash k, apiKeyRow_LastUsedAt = APIKey_LastUsedAt k,
      apiKeyRow_CreatedAt = APIKey_CreatedAt k\<rparr>"

lemma row_roundtrips [row_simps, simp]:
  "toJob (fromJob j) = j" "fromJob (toJob r) = r"
  "toAPIKey (fromAPIKey k) = k" "fromAPIKey (toAPIKey q) = q"
  by (simp_all add: toJob_def fromJob_def toAPIKey_def fromAPIKey_def)

lemma row_columns [row_simps, simp]:
  "Job_ID (toJob r) = jobRow_ID r" "Job_UserID (toJob r) = jobRow_UserID r"
  "Job_Status (toJob r) = jobRow_Status r" "Job_CreatedAt (toJob r) = jobRow_CreatedAt r"
  "jobRow_ID (fromJob j) = Job_ID j" "jobRow_UserID (fromJob j) = Job_UserID j"
  "APIKey_ID (toAPIKey q) = apiKeyRow_ID q" "APIKey_UserID (toAPIKey q) = apiKeyRow_UserID q"
  "APIKey_Prefix (toAPIKey q) = apiKeyRow_Prefix q"
  "apiKeyRow_ID (fromAPIKey k) = APIKey_ID k" "apiKeyRow_UserID (fromAPIKey k) = APIKey_UserID k"
  by (simp_all add: toJob_def fromJob_def toAPIKey_def fromAPIKey_def)

section \<open>The database\<close>

record db = go_env +
  db_users :: "userRow list"
  db_user_secrets :: "userSecretRow list"
  db_api_keys :: "apiKeyRow list"
  db_jobs :: "jobRow list"
  db_identities :: "identityRow list"
  db_installations :: "installationRow list"
  db_sessions :: "sessionRow list"
  db_faults :: "string option list"

text \<open>
  One statement: the next entry of \<open>db_faults\<close>, if any, says whether it fails, and with
  which text of the driver; a failed statement has no effect.
\<close>

definition pg_stmt :: "('z db_scheme, 'a) act \<Rightarrow> ('z db_scheme, 'a) act" where
  "pg_stmt body d =
     (case db_faults d of
        [] \<Rightarrow> body d
      | Some msg # fs \<Rightarrow> (Inl (Opaque msg), d\<lparr>db_faults := fs\<rparr>)
      | None # fs \<Rightarrow> body (d\<lparr>db_faults := fs\<rparr>))"

text \<open>Constraint violations reach the code as errors of the driver.\<close>

definition unique_violation :: go_error where "unique_violation = Opaque ''unique_violation''"
definition foreign_key_violation :: go_error where
  "foreign_key_violation = Opaque ''foreign_key_violation''"

definition user_exists :: "string \<Rightarrow> 'z db_scheme \<Rightarrow> bool" where
  "user_exists u d \<longleftrightarrow> u \<in> userRow_ID ` set (db_users d)"

section \<open>JobsRepo (\<open>jobs_repo.go\<close>)\<close>

definition JobsRepo_Create :: "Job \<Rightarrow> ('z db_scheme, unit) act" where
  "JobsRepo_Create j = pg_stmt (\<lambda>d.
     let row = fromJob j in
     if \<not> user_exists (jobRow_UserID row) d then (Inl foreign_key_violation, d)
     else case sql_insert jobRow_ID row (db_jobs d) of
            None \<Rightarrow> (Inl unique_violation, d)
          | Some rows \<Rightarrow> (Inr (), d\<lparr>db_jobs := rows\<rparr>))"

definition JobsRepo_Get :: "JobID \<Rightarrow> ('z db_scheme, Job) act" where
  "JobsRepo_Get i = pg_stmt (\<lambda>d.
     case sql_select (\<lambda>r. jobRow_ID r = i) (db_jobs d) of
       [] \<Rightarrow> (Inl ErrNotFound, d)
     | r # _ \<Rightarrow> (Inr (toJob r), d))"

definition JobsRepo_GetForUser :: "JobID \<Rightarrow> UserID \<Rightarrow> ('z db_scheme, Job) act" where
  "JobsRepo_GetForUser i u d =
     (case JobsRepo_Get i d of
        (Inl e, d') \<Rightarrow> (Inl e, d')
      | (Inr j, d') \<Rightarrow> if Job_UserID j \<noteq> u then (Inl ErrNotFound, d') else (Inr j, d'))"

definition JobsRepo_ListForUser :: "UserID \<Rightarrow> int \<Rightarrow> ('z db_scheme, Job list) act" where
  "JobsRepo_ListForUser u limit = pg_stmt (\<lambda>d.
     (Inr (limit_rows limit
             (order_newest (map toJob (sql_select (\<lambda>r. jobRow_UserID r = u) (db_jobs d))))), d))"

definition JobsRepo_ListByStatus :: "JobStatus \<Rightarrow> ('z db_scheme, Job list) act" where
  "JobsRepo_ListByStatus st = pg_stmt (\<lambda>d.
     (Inr (map toJob (sql_select (\<lambda>r. jobRow_Status r = st) (db_jobs d))), d))"

definition JobsRepo_Update :: "Job \<Rightarrow> ('z db_scheme, unit) act" where
  "JobsRepo_Update j = pg_stmt (\<lambda>d.
     let row = fromJob j;
         (rows, n) = sql_update jobRow_ID (jobRow_ID row) (\<lambda>_. row) (db_jobs d)
     in if n > 0 \<and> \<not> user_exists (jobRow_UserID row) d then (Inl foreign_key_violation, d)
        else if n = 0 then (Inl ErrNotFound, d)
        else (Inr (), d\<lparr>db_jobs := rows\<rparr>))"

definition jobRow_active :: "jobRow \<Rightarrow> bool" where
  "jobRow_active r \<longleftrightarrow> jobRow_Status r = JobStatusQueued \<or> jobRow_Status r = JobStatusRunning"

definition JobsRepo_CountActiveForUser :: "UserID \<Rightarrow> ('z db_scheme, int) act" where
  "JobsRepo_CountActiveForUser u = pg_stmt (\<lambda>d.
     (Inr (int (length (sql_select (\<lambda>r. jobRow_UserID r = u \<and> jobRow_active r) (db_jobs d)))), d))"

definition JobsRepo_CountActiveGlobal :: "('z db_scheme, int) act" where
  "JobsRepo_CountActiveGlobal = pg_stmt (\<lambda>d.
     (Inr (int (length (sql_select jobRow_active (db_jobs d)))), d))"

definition JobsRepo :: "'z db_scheme JobsRepository" where
  "JobsRepo =
     \<lparr>Jobs_Create = JobsRepo_Create, Jobs_Get = JobsRepo_Get,
      Jobs_GetForUser = JobsRepo_GetForUser, Jobs_ListForUser = JobsRepo_ListForUser,
      Jobs_ListByStatus = JobsRepo_ListByStatus, Jobs_Update = JobsRepo_Update,
      Jobs_CountActiveForUser = JobsRepo_CountActiveForUser,
      Jobs_CountActiveGlobal = JobsRepo_CountActiveGlobal\<rparr>"

section \<open>APIKeysRepo (\<open>api_keys_repo.go\<close>)\<close>

definition APIKeysRepo_Create :: "APIKey \<Rightarrow> ('z db_scheme, unit) act" where
  "APIKeysRepo_Create k = pg_stmt (\<lambda>d.
     let row = fromAPIKey k in
     if \<not> user_exists (apiKeyRow_UserID row) d then (Inl foreign_key_violation, d)
     else case sql_insert apiKeyRow_ID row (db_api_keys d) of
            None \<Rightarrow> (Inl unique_violation, d)
          | Some rows \<Rightarrow> (Inr (), d\<lparr>db_api_keys := rows\<rparr>))"

definition APIKeysRepo_GetByPrefix :: "string \<Rightarrow> ('z db_scheme, APIKey list) act" where
  "APIKeysRepo_GetByPrefix p = pg_stmt (\<lambda>d.
     (Inr (map toAPIKey (sql_select (\<lambda>r. apiKeyRow_Prefix r = p) (db_api_keys d))), d))"

definition APIKeysRepo_ListForUser :: "UserID \<Rightarrow> ('z db_scheme, APIKey list) act" where
  "APIKeysRepo_ListForUser u = pg_stmt (\<lambda>d.
     (Inr (sort_key (\<lambda>k. - APIKey_CreatedAt k)
             (map toAPIKey (sql_select (\<lambda>r. apiKeyRow_UserID r = u) (db_api_keys d)))), d))"

definition APIKeysRepo_Delete :: "APIKeyID \<Rightarrow> UserID \<Rightarrow> ('z db_scheme, unit) act" where
  "APIKeysRepo_Delete i u = pg_stmt (\<lambda>d.
     let (rows, n) = sql_delete (\<lambda>r. apiKeyRow_ID r = i \<and> apiKeyRow_UserID r = u) (db_api_keys d)
     in if n = 0 then (Inl ErrNotFound, d) else (Inr (), d\<lparr>db_api_keys := rows\<rparr>))"

definition APIKeysRepo_RecordUsed :: "APIKeyID \<Rightarrow> time \<Rightarrow> ('z db_scheme, unit) act" where
  "APIKeysRepo_RecordUsed i t = pg_stmt (\<lambda>d.
     let (rows, n) = sql_update apiKeyRow_ID i (\<lambda>r. r\<lparr>apiKeyRow_LastUsedAt := Some t\<rparr>) (db_api_keys d)
     in if n = 0 then (Inl ErrNotFound, d) else (Inr (), d\<lparr>db_api_keys := rows\<rparr>))"

definition APIKeysRepo :: "'z db_scheme APIKeysRepository" where
  "APIKeysRepo =
     \<lparr>Keys_Create = APIKeysRepo_Create, Keys_GetByPrefix = APIKeysRepo_GetByPrefix,
      Keys_ListForUser = APIKeysRepo_ListForUser, Keys_Delete = APIKeysRepo_Delete,
      Keys_RecordUsed = APIKeysRepo_RecordUsed\<rparr>"

section \<open>SecretsRepo (\<open>secrets_repo.go\<close>)\<close>

definition SecretsRepo_SetAnthropicCreds ::
  "UserID \<Rightarrow> AnthropicCreds \<Rightarrow> ('z db_scheme, unit) act" where
  "SecretsRepo_SetAnthropicCreds u c d0 =
     (let (now, d1) = time_Now d0;
          row = \<lparr>userSecretRow_UserID = u, userSecretRow_AnthropicKeyEnc = AnthropicCreds_APIKey c,
                 userSecretRow_UpdatedAt = now\<rparr>
      in pg_stmt (\<lambda>d.
           if \<not> user_exists u d then (Inl foreign_key_violation, d)
           else (Inr (), d\<lparr>db_user_secrets :=
             sql_upsert userSecretRow_UserID
               (\<lambda>old excluded. old\<lparr>userSecretRow_AnthropicKeyEnc := userSecretRow_AnthropicKeyEnc excluded,
                                   userSecretRow_UpdatedAt := userSecretRow_UpdatedAt excluded\<rparr>)
               row (db_user_secrets d)\<rparr>)) d1)"

definition SecretsRepo_GetAnthropicCreds :: "UserID \<Rightarrow> ('z db_scheme, AnthropicCreds) act" where
  "SecretsRepo_GetAnthropicCreds u = pg_stmt (\<lambda>d.
     case sql_select (\<lambda>r. userSecretRow_UserID r = u) (db_user_secrets d) of
       [] \<Rightarrow> (Inl ErrNotFound, d)
     | r # _ \<Rightarrow> (Inr \<lparr>AnthropicCreds_APIKey = userSecretRow_AnthropicKeyEnc r\<rparr>, d))"

definition SecretsRepo_DeleteAnthropicCreds :: "UserID \<Rightarrow> ('z db_scheme, unit) act" where
  "SecretsRepo_DeleteAnthropicCreds u = pg_stmt (\<lambda>d.
     let (rows, n) = sql_delete (\<lambda>r. userSecretRow_UserID r = u) (db_user_secrets d)
     in if n = 0 then (Inl ErrNotFound, d) else (Inr (), d\<lparr>db_user_secrets := rows\<rparr>))"

definition SecretsRepo :: "'z db_scheme SecretsRepository" where
  "SecretsRepo =
     \<lparr>Secrets_SetAnthropicCreds = SecretsRepo_SetAnthropicCreds,
      Secrets_GetAnthropicCreds = SecretsRepo_GetAnthropicCreds,
      Secrets_DeleteAnthropicCreds = SecretsRepo_DeleteAnthropicCreds\<rparr>"

section \<open>The repositories keep the ports' contracts\<close>

text \<open>
  The invariant of the database: every primary key and the unique \<open>github_id\<close> column hold
  their constraint. The views are the maps the tables stand for, read through the row
  conversions.
\<close>

definition pg_ok :: "'z db_scheme \<Rightarrow> bool" where
  "pg_ok d \<longleftrightarrow>
     table_ok userRow_ID (db_users d) \<and> table_ok userSecretRow_UserID (db_user_secrets d)
     \<and> table_ok apiKeyRow_ID (db_api_keys d) \<and> table_ok jobRow_ID (db_jobs d)
     \<and> table_ok identityRow_UserID (db_identities d) \<and> table_ok identityRow_GitHubID (db_identities d)
     \<and> table_ok installationRow_InstallationID (db_installations d)
     \<and> table_ok sessionRow_ID (db_sessions d)"

definition pg_jobs_of :: "'z db_scheme \<Rightarrow> JobID \<rightharpoonup> Job" where
  "pg_jobs_of d = index_by Job_ID (map toJob (db_jobs d))"

definition pg_keys_of :: "'z db_scheme \<Rightarrow> APIKeyID \<rightharpoonup> APIKey" where
  "pg_keys_of d = index_by APIKey_ID (map toAPIKey (db_api_keys d))"

definition secret_of :: "userSecretRow \<Rightarrow> AnthropicCreds" where
  "secret_of r = \<lparr>AnthropicCreds_APIKey = userSecretRow_AnthropicKeyEnc r\<rparr>"

definition pg_secrets_of :: "'z db_scheme \<Rightarrow> UserID \<rightharpoonup> AnthropicCreds" where
  "pg_secrets_of d = map_option secret_of \<circ> index_by userSecretRow_UserID (db_user_secrets d)"

lemma pg_stmt_cases:
  assumes "pg_stmt body d = (r, d')"
  obtains (fault) m fs where "r = Inl (Opaque m)" and "d' = d\<lparr>db_faults := fs\<rparr>"
  | (run) fs where "body (d\<lparr>db_faults := fs\<rparr>) = (r, d')"
proof (cases "db_faults d")
  case Nil
  have "d\<lparr>db_faults := []\<rparr> = d\<lparr>db_faults := db_faults d\<rparr>" by (simp only: Nil)
  then have "d\<lparr>db_faults := []\<rparr> = d" by simp
  moreover have "body d = (r, d')"
    using assms Nil by (simp add: pg_stmt_def)
  ultimately have "body (d\<lparr>db_faults := []\<rparr>) = (r, d')" by simp
  then show ?thesis by (rule run)
next
  case (Cons f fs)
  then show ?thesis
    using assms fault run by (cases f) (auto simp: pg_stmt_def)
qed

text \<open>A statement that only reads changes nothing but the script of faults.\<close>

lemma pg_stmt_reads:
  assumes "\<And>d. snd (body d) = d"
    and "\<And>d fs. ok (d\<lparr>db_faults := fs\<rparr>) = ok d" and "\<And>d fs. view (d\<lparr>db_faults := fs\<rparr>) = view d"
  shows "keeps ok view (pg_stmt body)"
proof (rule keepsI)
  fix s s' :: "'a db_scheme" and r
  assume "ok s" and "pg_stmt body s = (r, s')"
  from this(2) show "ok s' \<and> view s' = view s"
  proof (cases rule: pg_stmt_cases)
    case (fault m fs)
    then show ?thesis using assms(2,3) \<open>ok s\<close> by simp
  next
    case (run fs)
    then have "s' = s\<lparr>db_faults := fs\<rparr>" using assms(1) by (metis snd_conv)
    then show ?thesis using assms(2,3) \<open>ok s\<close> by simp
  qed
qed

lemma pg_faults_irrelevant [simp]:
  "pg_ok (d\<lparr>db_faults := fs\<rparr>) = pg_ok d" "pg_jobs_of (d\<lparr>db_faults := fs\<rparr>) = pg_jobs_of d"
  "pg_keys_of (d\<lparr>db_faults := fs\<rparr>) = pg_keys_of d"
  "pg_secrets_of (d\<lparr>db_faults := fs\<rparr>) = pg_secrets_of d"
  by (simp_all add: pg_ok_def pg_jobs_of_def pg_keys_of_def pg_secrets_of_def)

lemma pg_jobs_table: "pg_ok d \<Longrightarrow> table_ok Job_ID (map toJob (db_jobs d))"
  by (simp add: pg_ok_def table_ok_map [where key = jobRow_ID])

lemma pg_keys_table: "pg_ok d \<Longrightarrow> table_ok APIKey_ID (map toAPIKey (db_api_keys d))"
  by (simp add: pg_ok_def table_ok_map [where key = apiKeyRow_ID])

text \<open>The two single-row job writes, on the table and on the view.\<close>

lemma jobs_insert:
  assumes ok: "pg_ok d" and ins: "sql_insert jobRow_ID (fromJob j) (db_jobs d) = Some rows"
  shows "pg_ok (d\<lparr>db_jobs := rows\<rparr>)" and "pg_jobs_of d (Job_ID j) = None"
    and "pg_jobs_of (d\<lparr>db_jobs := rows\<rparr>) = (pg_jobs_of d)(Job_ID j \<mapsto> j)"
proof -
  have rows: "rows = db_jobs d @ [fromJob j]" and new: "Job_ID j \<notin> jobRow_ID ` set (db_jobs d)"
    using ins by (auto simp: sql_insert_def split: if_splits)
  have new': "Job_ID j \<notin> Job_ID ` set (map toJob (db_jobs d))" using new by auto
  show "pg_jobs_of d (Job_ID j) = None" using new' by (simp add: pg_jobs_of_def index_by_None)
  have "table_ok jobRow_ID rows"
    using insert_row(1) [of jobRow_ID "db_jobs d" "fromJob j"] ok new rows by (simp add: pg_ok_def)
  then show "pg_ok (d\<lparr>db_jobs := rows\<rparr>)" using ok by (simp add: pg_ok_def)
  show "pg_jobs_of (d\<lparr>db_jobs := rows\<rparr>) = (pg_jobs_of d)(Job_ID j \<mapsto> j)"
    using insert_row(2) [OF pg_jobs_table [OF ok] new'] by (simp add: pg_jobs_of_def rows)
qed

lemma jobs_update:
  assumes ok: "pg_ok d"
    and up: "sql_update jobRow_ID (Job_ID j) (\<lambda>_. fromJob j) (db_jobs d) = (rows, n)" and n: "n > 0"
  shows "pg_ok (d\<lparr>db_jobs := rows\<rparr>)" and "pg_jobs_of d (Job_ID j) \<noteq> None"
    and "pg_jobs_of (d\<lparr>db_jobs := rows\<rparr>) = (pg_jobs_of d)(Job_ID j \<mapsto> j)"
proof -
  let ?js = "map toJob (db_jobs d)"
  have eq: "map toJob rows = fst (sql_update Job_ID (Job_ID j) (\<lambda>_. j) ?js)"
    using sql_update_map [of Job_ID toJob jobRow_ID "\<lambda>_. fromJob j" "\<lambda>_. j" "Job_ID j" "db_jobs d"] up
    by simp
  have ex: "index_by jobRow_ID (db_jobs d) (Job_ID j) \<noteq> None"
    using update_count [of jobRow_ID "Job_ID j" "\<lambda>_. fromJob j" "db_jobs d"] up n by simp
  then show ex': "pg_jobs_of d (Job_ID j) \<noteq> None"
    by (simp add: pg_jobs_of_def index_by_None image_image)
  have "table_ok jobRow_ID rows"
    using update_row(1) [of jobRow_ID "db_jobs d" "Job_ID j" "\<lambda>_. fromJob j"] ok up
    by (simp add: pg_ok_def)
  then show "pg_ok (d\<lparr>db_jobs := rows\<rparr>)" using ok by (simp add: pg_ok_def)
  show "pg_jobs_of (d\<lparr>db_jobs := rows\<rparr>) = (pg_jobs_of d)(Job_ID j \<mapsto> j)"
    using update_row(2) [OF pg_jobs_table [OF ok], of "Job_ID j" "\<lambda>_. j"] eq ex'
    by (auto simp: pg_jobs_of_def)
qed

lemmas jobs_repo_defs =
  JobsRepo_def JobsRepo_Create_def JobsRepo_Get_def JobsRepo_GetForUser_def
  JobsRepo_ListForUser_def JobsRepo_ListByStatus_def JobsRepo_Update_def
  JobsRepo_CountActiveForUser_def JobsRepo_CountActiveGlobal_def

lemma JobsRepo_Get_run:
  assumes ok: "pg_ok d" and run: "JobsRepo_Get i d = (r, d')"
  shows "pg_ok d' \<and> pg_jobs_of d' = pg_jobs_of d
    \<and> (case r of Inr j \<Rightarrow> pg_jobs_of d i = Some j
        | Inl e \<Rightarrow> errors_Is e NotFound \<longrightarrow> pg_jobs_of d i = None)"
  using run unfolding JobsRepo_Get_def
proof (cases rule: pg_stmt_cases)
  case (fault m fs)
  then show ?thesis using ok by simp
next
  case (run fs)
  note tb = pg_jobs_table [OF ok]
  show ?thesis
  proof (cases "filter (\<lambda>r. jobRow_ID r = i) (db_jobs d)")
    case Nil
    then have "pg_jobs_of d i = None"
      by (auto simp: pg_jobs_of_def index_by_None filter_empty_conv)
    then show ?thesis using run Nil ok by (auto simp: sql_select_def)
  next
    case (Cons q qs)
    then have "q \<in> set (db_jobs d)" and "jobRow_ID q = i"
      by (auto simp: filter_eq_Cons_iff)
    then have "pg_jobs_of d i = Some (toJob q)"
      using tb by (auto simp: pg_jobs_of_def index_by_Some)
    then show ?thesis using run Cons ok by (auto simp: sql_select_def)
  qed
qed

lemma JobsRepo_Create_run:
  assumes ok: "pg_ok d" and run: "JobsRepo_Create j d = (r, d')"
  shows "pg_ok d' \<and> (case r of
      Inr _ \<Rightarrow> pg_jobs_of d (Job_ID j) = None \<and> pg_jobs_of d' = (pg_jobs_of d)(Job_ID j \<mapsto> j)
    | Inl e \<Rightarrow> pg_jobs_of d' = pg_jobs_of d)"
  using run unfolding JobsRepo_Create_def
proof (cases rule: pg_stmt_cases)
  case (fault m fs)
  then show ?thesis using ok by simp
next
  case (run fs)
  show ?thesis
  proof (cases "sql_insert jobRow_ID (fromJob j) (db_jobs d)")
    case None
    then show ?thesis using run ok by (auto simp: Let_def split: if_splits)
  next
    case (Some rows)
    then have "sql_insert jobRow_ID (fromJob j) (db_jobs (d\<lparr>db_faults := fs\<rparr>)) = Some rows" by simp
    note ins = jobs_insert [OF _ this]
    show ?thesis using run Some ok ins by (auto simp: Let_def split: if_splits)
  qed
qed

lemma JobsRepo_Update_run:
  assumes ok: "pg_ok d" and run: "JobsRepo_Update j d = (r, d')"
  shows "pg_ok d' \<and> (case r of
      Inr _ \<Rightarrow> pg_jobs_of d (Job_ID j) \<noteq> None \<and> pg_jobs_of d' = (pg_jobs_of d)(Job_ID j \<mapsto> j)
    | Inl e \<Rightarrow> pg_jobs_of d' = pg_jobs_of d \<and> (errors_Is e NotFound \<longrightarrow> pg_jobs_of d (Job_ID j) = None))"
  using run unfolding JobsRepo_Update_def
proof (cases rule: pg_stmt_cases)
  case (fault m fs)
  then show ?thesis using ok by simp
next
  case (run fs)
  let ?d = "d\<lparr>db_faults := fs\<rparr>"
  obtain rows n where up: "sql_update jobRow_ID (Job_ID j) (\<lambda>_. fromJob j) (db_jobs ?d) = (rows, n)"
    by fastforce
  have zero: "n = 0 \<Longrightarrow> pg_jobs_of d (Job_ID j) = None"
    using update_count [of jobRow_ID "Job_ID j" "\<lambda>_. fromJob j" "db_jobs d"] up
    by (simp add: pg_jobs_of_def index_by_None image_image)
  show ?thesis
    using run up ok zero jobs_update [OF _ up]
    by (auto simp: Let_def foreign_key_violation_def split: if_splits)
qed

lemma JobsRepo_ListForUser_run:
  assumes "JobsRepo_ListForUser u limit d = (Inr js, d')"
  shows "js = limit_rows limit (order_newest (filter (\<lambda>j. Job_UserID j = u) (map toJob (db_jobs d))))"
  using assms unfolding JobsRepo_ListForUser_def
  by (cases rule: pg_stmt_cases) (auto simp: sql_select_def filter_map comp_def)

lemma JobsRepo_ListByStatus_run:
  assumes "JobsRepo_ListByStatus st d = (Inr js, d')"
  shows "js = filter (\<lambda>j. Job_Status j = st) (map toJob (db_jobs d))"
  using assms unfolding JobsRepo_ListByStatus_def
  by (cases rule: pg_stmt_cases) (auto simp: sql_select_def filter_map comp_def)

lemma JobsRepo_Count_run:
  "JobsRepo_CountActiveForUser u d = (Inr n, d') \<Longrightarrow>
     n = int (length (filter (\<lambda>j. active_status (Job_Status j) \<and> Job_UserID j = u) (map toJob (db_jobs d))))"
  "JobsRepo_CountActiveGlobal d = (Inr n, d') \<Longrightarrow>
     n = int (length (filter (\<lambda>j. active_status (Job_Status j)) (map toJob (db_jobs d))))"
  unfolding JobsRepo_CountActiveForUser_def JobsRepo_CountActiveGlobal_def
  by (erule pg_stmt_cases; auto simp: sql_select_def filter_map comp_def jobRow_active_def [abs_def]
        active_status_def conj_commute)+

interpretation pg: jobs_port "JobsRepo :: 'z db_scheme JobsRepository" pg_jobs_of pg_ok
proof
  fix s s' :: "'z db_scheme" and i u limit st j js e x n
  assume ok: "pg_ok s"
  note tb = pg_jobs_table [OF ok]
  show "finite (dom (pg_jobs_of s))" by (simp add: pg_jobs_of_def)
  show "pg_jobs_of s i = Some j \<Longrightarrow> Job_ID j = i"
    using tb by (simp add: pg_jobs_of_def index_by_Some)
  show "Jobs_Create JobsRepo j s = (Inr x, s') \<Longrightarrow>
      pg_ok s' \<and> pg_jobs_of s (Job_ID j) = None \<and> pg_jobs_of s' = (pg_jobs_of s)(Job_ID j \<mapsto> j)"
    using JobsRepo_Create_run [OF ok, of j "Inr x" s'] by (simp add: JobsRepo_def)
  show "Jobs_Create JobsRepo j s = (Inl e, s') \<Longrightarrow> pg_ok s' \<and> pg_jobs_of s' = pg_jobs_of s"
    using JobsRepo_Create_run [OF ok, of j "Inl e" s'] by (simp add: JobsRepo_def)
  show "Jobs_Get JobsRepo i s = (Inr j, s') \<Longrightarrow> pg_jobs_of s i = Some j"
    using JobsRepo_Get_run [OF ok, of i "Inr j" s'] by (simp add: JobsRepo_def)
  show "Jobs_Get JobsRepo i s = (Inl e, s') \<Longrightarrow> errors_Is e NotFound \<Longrightarrow> pg_jobs_of s i = None"
    using JobsRepo_Get_run [OF ok, of i "Inl e" s'] by (simp add: JobsRepo_def)
  show "pg_jobs_of s i = Some j \<and> Job_UserID j = u"
    if "Jobs_GetForUser JobsRepo i u s = (Inr j, s')"
    using that JobsRepo_Get_run [OF ok, of i "Inr j" s']
    by (auto simp: JobsRepo_def JobsRepo_GetForUser_def split: prod.splits sum.splits if_splits)
  show "\<not> (\<exists>j. pg_jobs_of s i = Some j \<and> Job_UserID j = u)"
    if "Jobs_GetForUser JobsRepo i u s = (Inl e, s')" and "errors_Is e NotFound"
  proof -
    obtain g t where g: "JobsRepo_Get i s = (g, t)" by fastforce
    show ?thesis using that g JobsRepo_Get_run [OF ok g]
      by (auto simp: JobsRepo_def JobsRepo_GetForUser_def split: sum.splits if_splits)
  qed
  show "newest_first js \<and> distinct (map Job_ID js) \<and> set js \<subseteq> user_jobs (pg_jobs_of s) u
      \<and> (limit > 0 \<longrightarrow> int (length js) = min limit (int (card (user_jobs (pg_jobs_of s) u))))
      \<and> (limit \<le> 0 \<longrightarrow> length js = card (user_jobs (pg_jobs_of s) u))
      \<and> (\<forall>j \<in> set js. \<forall>k \<in> user_jobs (pg_jobs_of s) u - set js. Job_CreatedAt k \<le> Job_CreatedAt j)"
    if "Jobs_ListForUser JobsRepo u limit s = (Inr js, s')"
    unfolding pg_jobs_of_def
    by (rule list_rows_law [OF tb], rule JobsRepo_ListForUser_run)
      (use that in \<open>simp add: JobsRepo_def\<close>)
  show "distinct (map Job_ID js) \<and> set js = {j \<in> ran (pg_jobs_of s). Job_Status j = st}"
    if "Jobs_ListByStatus JobsRepo st s = (Inr js, s')"
  proof -
    have "js = filter (\<lambda>j. Job_Status j = st) (map toJob (db_jobs s))"
      using that JobsRepo_ListByStatus_run by (simp add: JobsRepo_def)
    then show ?thesis unfolding pg_jobs_of_def using filter_rows_law [OF tb] by (simp only:)
  qed
  show "Jobs_Update JobsRepo j s = (Inr x, s') \<Longrightarrow>
      pg_ok s' \<and> pg_jobs_of s (Job_ID j) \<noteq> None \<and> pg_jobs_of s' = (pg_jobs_of s)(Job_ID j \<mapsto> j)"
    using JobsRepo_Update_run [OF ok, of j "Inr x" s'] by (simp add: JobsRepo_def)
  show "Jobs_Update JobsRepo j s = (Inl e, s') \<Longrightarrow> pg_ok s' \<and> pg_jobs_of s' = pg_jobs_of s
      \<and> (errors_Is e NotFound \<longrightarrow> pg_jobs_of s (Job_ID j) = None)"
    using JobsRepo_Update_run [OF ok, of j "Inl e" s'] by (simp add: JobsRepo_def)
  show "n = int (card (active_jobs (pg_jobs_of s) (\<lambda>j. Job_UserID j = u)))"
    if "Jobs_CountActiveForUser JobsRepo u s = (Inr n, s')"
    using JobsRepo_Count_run(1) [of u s n s'] that count_rows [OF tb]
    by (simp add: JobsRepo_def pg_jobs_of_def active_jobs_def)
  show "n = int (card (active_jobs (pg_jobs_of s) (\<lambda>_. True)))"
    if "Jobs_CountActiveGlobal JobsRepo s = (Inr n, s')"
    using JobsRepo_Count_run(2) [of s n s'] that count_rows [OF tb]
    by (simp add: JobsRepo_def pg_jobs_of_def active_jobs_def)
next
  have get: "keeps pg_ok pg_jobs_of (JobsRepo_Get i)" for i
    unfolding JobsRepo_Get_def by (rule pg_stmt_reads) (auto split: list.splits)
  show "keeps pg_ok pg_jobs_of (Jobs_Get JobsRepo i)" for i
    using get by (simp add: JobsRepo_def)
  show "keeps pg_ok pg_jobs_of (Jobs_GetForUser JobsRepo i u)" for i u
    using get [of i]
    by (auto simp: JobsRepo_def JobsRepo_GetForUser_def keeps_def split: prod.splits sum.splits)
qed (auto simp: jobs_repo_defs intro!: pg_stmt_reads)

section \<open>The key and secret repositories keep their contracts\<close>

lemmas keys_repo_defs =
  APIKeysRepo_def APIKeysRepo_Create_def APIKeysRepo_GetByPrefix_def
  APIKeysRepo_ListForUser_def APIKeysRepo_Delete_def APIKeysRepo_RecordUsed_def

lemma distinct_map_sort_key [simp]: "distinct (map f (sort_key g xs)) = distinct (map f xs)"
proof -
  have "mset (map f (sort_key g xs)) = mset (map f xs)" by (simp only: mset_map mset_sort)
  then show ?thesis by (rule mset_eq_imp_distinct_iff)
qed

lemma APIKeysRepo_Create_run:
  assumes ok: "pg_ok d" and run: "APIKeysRepo_Create k d = (r, d')"
  shows "pg_ok d' \<and> (case r of
      Inr _ \<Rightarrow> pg_keys_of d (APIKey_ID k) = None \<and> pg_keys_of d' = (pg_keys_of d)(APIKey_ID k \<mapsto> k)
    | Inl e \<Rightarrow> pg_keys_of d' = pg_keys_of d)"
  using run unfolding APIKeysRepo_Create_def
proof (cases rule: pg_stmt_cases)
  case (fault m fs)
  then show ?thesis using ok by simp
next
  case (run fs)
  show ?thesis
  proof (cases "user_exists (APIKey_UserID k) (d\<lparr>db_faults := fs\<rparr>) \<and> APIKey_ID k \<notin> apiKeyRow_ID ` set (db_api_keys d)")
    case False
    then show ?thesis using run ok by (auto simp: Let_def sql_insert_def split: if_splits)
  next
    case True
    then have new: "APIKey_ID k \<notin> apiKeyRow_ID ` set (db_api_keys d)"
      and new': "APIKey_ID k \<notin> APIKey_ID ` set (map toAPIKey (db_api_keys d))" by auto
    have r: "isl r = False" and d': "d' = d\<lparr>db_faults := fs, db_api_keys := db_api_keys d @ [fromAPIKey k]\<rparr>"
      using run True by (auto simp: Let_def sql_insert_def)
    have "pg_ok d'"
      using insert_row(1) [of apiKeyRow_ID "db_api_keys d" "fromAPIKey k"] ok new
      by (simp add: d' pg_ok_def)
    moreover have "pg_keys_of d' = (pg_keys_of d)(APIKey_ID k \<mapsto> k)"
      using insert_row(2) [OF pg_keys_table [OF ok] new'] by (simp add: d' pg_keys_of_def)
    moreover have "pg_keys_of d (APIKey_ID k) = None"
      using new' by (simp add: pg_keys_of_def index_by_None)
    ultimately show ?thesis using r by (cases r) auto
  qed
qed

lemma APIKeysRepo_Delete_run:
  assumes ok: "pg_ok d" and run: "APIKeysRepo_Delete i u d = (r, d')"
  shows "pg_ok d' \<and> (case r of
      Inr _ \<Rightarrow> (\<exists>k. pg_keys_of d i = Some k \<and> APIKey_UserID k = u) \<and> pg_keys_of d' = (pg_keys_of d)(i := None)
    | Inl e \<Rightarrow> pg_keys_of d' = pg_keys_of d
        \<and> (errors_Is e NotFound \<longrightarrow> \<not> (\<exists>k. pg_keys_of d i = Some k \<and> APIKey_UserID k = u)))"
  using run unfolding APIKeysRepo_Delete_def
proof (cases rule: pg_stmt_cases)
  case (fault m fs)
  then show ?thesis using ok by simp
next
  case (run fs)
  let ?P = "\<lambda>r. apiKeyRow_ID r = i \<and> apiKeyRow_UserID r = u"
  let ?Q = "\<lambda>k. APIKey_ID k = i \<and> APIKey_UserID k = u"
  note tb = pg_keys_table [OF ok]
  have eq: "map toAPIKey (fst (sql_delete ?P (db_api_keys d)))
      = fst (sql_delete ?Q (map toAPIKey (db_api_keys d)))"
    by (simp add: sql_delete_def filter_map comp_def)
  have hit: "snd (sql_delete ?P (db_api_keys d)) = 0
      \<longleftrightarrow> \<not> (\<exists>k. pg_keys_of d i = Some k \<and> APIKey_UserID k = u)"
    using index_by_Some [OF tb] by (auto simp: delete_count pg_keys_of_def)
  show ?thesis
  proof (cases "snd (sql_delete ?P (db_api_keys d)) = 0")
    case True
    then have "r = Inl ErrNotFound" and "d' = d\<lparr>db_faults := fs\<rparr>"
      using run by (auto simp: Let_def split: prod.splits)
    then show ?thesis using ok hit True by simp
  next
    case False
    then have r: "r = Inr ()"
      and d': "d' = d\<lparr>db_faults := fs, db_api_keys := fst (sql_delete ?P (db_api_keys d))\<rparr>"
      using run by (auto simp: Let_def split: prod.splits)
    have "pg_ok d'" using delete_rows(1) [of apiKeyRow_ID "db_api_keys d" ?P] ok
      by (simp add: d' pg_ok_def)
    moreover obtain k where k: "pg_keys_of d i = Some k" "APIKey_UserID k = u"
      using False hit by auto
    moreover have "pg_keys_of d' = (pg_keys_of d)(i := None)"
    proof -
      have "APIKey_ID k = i" using k(1) by (simp add: pg_keys_of_def index_by_Some [OF tb])
      then have "index_by APIKey_ID (fst (sql_delete ?Q (map toAPIKey (db_api_keys d))))
          = (index_by APIKey_ID (map toAPIKey (db_api_keys d)))(i := None)"
        using k by (intro delete_one [OF tb]) (auto simp: pg_keys_of_def)
      then show ?thesis by (simp add: d' pg_keys_of_def eq)
    qed
    ultimately show ?thesis by (simp add: r)
  qed
qed

lemma APIKeysRepo_RecordUsed_run:
  assumes ok: "pg_ok d" and run: "APIKeysRepo_RecordUsed i t d = (r, d')"
  shows "pg_ok d' \<and> (case r of
      Inr _ \<Rightarrow> (\<exists>k. pg_keys_of d i = Some k \<and> pg_keys_of d' = (pg_keys_of d)(i \<mapsto> k\<lparr>APIKey_LastUsedAt := Some t\<rparr>))
    | Inl e \<Rightarrow> pg_keys_of d' = pg_keys_of d)"
  using run unfolding APIKeysRepo_RecordUsed_def
proof (cases rule: pg_stmt_cases)
  case (fault m fs)
  then show ?thesis using ok by simp
next
  case (run fs)
  let ?f = "\<lambda>r. r\<lparr>apiKeyRow_LastUsedAt := Some t\<rparr>" and ?g = "\<lambda>k. k\<lparr>APIKey_LastUsedAt := Some t\<rparr>"
  let ?up = "sql_update apiKeyRow_ID i ?f (db_api_keys d)"
  note tb = pg_keys_table [OF ok]
  have eq: "map toAPIKey (fst ?up) = fst (sql_update APIKey_ID i ?g (map toAPIKey (db_api_keys d)))"
    by (rule sql_update_map) (simp_all add: toAPIKey_def)
  show ?thesis
  proof (cases "snd ?up = 0")
    case True
    then show ?thesis using run ok by (auto simp: Let_def split: prod.splits)
  next
    case False
    then have r: "r = Inr ()" and d': "d' = d\<lparr>db_faults := fs, db_api_keys := fst ?up\<rparr>"
      using run by (auto simp: Let_def split: prod.splits)
    have "pg_ok d'" using update_row(1) [of apiKeyRow_ID "db_api_keys d" i ?f] ok
      by (simp add: d' pg_ok_def)
    moreover have "pg_keys_of d i \<noteq> None"
      using False by (simp add: update_count pg_keys_of_def index_by_None image_image)
    moreover have "pg_keys_of d' = (pg_keys_of d)(i := map_option ?g (pg_keys_of d i))"
      using update_row(2) [OF tb, of i ?g] by (simp add: d' pg_keys_of_def eq)
    ultimately show ?thesis by (auto simp: r)
  qed
qed

lemma APIKeysRepo_reads:
  assumes "pg_ok d"
  shows "APIKeysRepo_GetByPrefix p d = (Inr ks, d') \<Longrightarrow>
      distinct (map APIKey_ID ks) \<and> set ks = {k \<in> ran (pg_keys_of d). APIKey_Prefix k = p}"
    and "APIKeysRepo_ListForUser u d = (Inr ks, d') \<Longrightarrow>
      distinct (map APIKey_ID ks) \<and> set ks = {k \<in> ran (pg_keys_of d). APIKey_UserID k = u}"
proof -
  note law = filter_rows_law [OF pg_keys_table [OF assms]]
  show "distinct (map APIKey_ID ks) \<and> set ks = {k \<in> ran (pg_keys_of d). APIKey_Prefix k = p}"
    if run: "APIKeysRepo_GetByPrefix p d = (Inr ks, d')"
  proof -
    have "ks = filter (\<lambda>k. APIKey_Prefix k = p) (map toAPIKey (db_api_keys d))"
      using run unfolding APIKeysRepo_GetByPrefix_def
      by (cases rule: pg_stmt_cases) (auto simp: sql_select_def filter_map comp_def)
    then show ?thesis using law unfolding pg_keys_of_def by (simp only:)
  qed
  show "distinct (map APIKey_ID ks) \<and> set ks = {k \<in> ran (pg_keys_of d). APIKey_UserID k = u}"
    if run: "APIKeysRepo_ListForUser u d = (Inr ks, d')"
  proof -
    have "ks = sort_key (\<lambda>k. - APIKey_CreatedAt k) (filter (\<lambda>k. APIKey_UserID k = u) (map toAPIKey (db_api_keys d)))"
      using run unfolding APIKeysRepo_ListForUser_def
      by (cases rule: pg_stmt_cases) (auto simp: sql_select_def filter_map comp_def)
    then show ?thesis using law unfolding pg_keys_of_def
      by (simp only: distinct_map_sort_key set_sort)
  qed
qed

interpretation pg: keys_port "APIKeysRepo :: 'z db_scheme APIKeysRepository" pg_keys_of pg_ok
proof
  fix s s' :: "'z db_scheme" and i u k e x ks p t
  assume ok: "pg_ok s"
  show "finite (dom (pg_keys_of s))" by (simp add: pg_keys_of_def)
  show "pg_keys_of s i = Some k \<Longrightarrow> APIKey_ID k = i"
    using pg_keys_table [OF ok] by (simp add: pg_keys_of_def index_by_Some)
  show "Keys_Create APIKeysRepo k s = (Inr x, s') \<Longrightarrow>
      pg_ok s' \<and> pg_keys_of s (APIKey_ID k) = None \<and> pg_keys_of s' = (pg_keys_of s)(APIKey_ID k \<mapsto> k)"
    using APIKeysRepo_Create_run [OF ok, of k "Inr x" s'] by (simp add: APIKeysRepo_def)
  show "Keys_Create APIKeysRepo k s = (Inl e, s') \<Longrightarrow> pg_ok s' \<and> pg_keys_of s' = pg_keys_of s"
    using APIKeysRepo_Create_run [OF ok, of k "Inl e" s'] by (simp add: APIKeysRepo_def)
  show "Keys_GetByPrefix APIKeysRepo p s = (Inr ks, s') \<Longrightarrow>
      distinct (map APIKey_ID ks) \<and> set ks = {k \<in> ran (pg_keys_of s). APIKey_Prefix k = p}"
    using APIKeysRepo_reads(1) [OF ok] by (simp add: APIKeysRepo_def)
  show "Keys_ListForUser APIKeysRepo u s = (Inr ks, s') \<Longrightarrow>
      distinct (map APIKey_ID ks) \<and> set ks = {k \<in> ran (pg_keys_of s). APIKey_UserID k = u}"
    using APIKeysRepo_reads(2) [OF ok] by (simp add: APIKeysRepo_def)
  show "Keys_Delete APIKeysRepo i u s = (Inr x, s') \<Longrightarrow>
      pg_ok s' \<and> (\<exists>k. pg_keys_of s i = Some k \<and> APIKey_UserID k = u) \<and> pg_keys_of s' = (pg_keys_of s)(i := None)"
    using APIKeysRepo_Delete_run [OF ok, of i u "Inr x" s'] by (simp add: APIKeysRepo_def)
  show "Keys_Delete APIKeysRepo i u s = (Inl e, s') \<Longrightarrow> pg_ok s' \<and> pg_keys_of s' = pg_keys_of s
      \<and> (errors_Is e NotFound \<longrightarrow> \<not> (\<exists>k. pg_keys_of s i = Some k \<and> APIKey_UserID k = u))"
    using APIKeysRepo_Delete_run [OF ok, of i u "Inl e" s'] by (simp add: APIKeysRepo_def)
  show "Keys_RecordUsed APIKeysRepo i t s = (Inr x, s') \<Longrightarrow>
      pg_ok s' \<and> (\<exists>k. pg_keys_of s i = Some k \<and>
                   pg_keys_of s' = (pg_keys_of s)(i \<mapsto> k\<lparr>APIKey_LastUsedAt := Some t\<rparr>))"
    using APIKeysRepo_RecordUsed_run [OF ok, of i t "Inr x" s'] by (simp add: APIKeysRepo_def)
  show "Keys_RecordUsed APIKeysRepo i t s = (Inl e, s') \<Longrightarrow> pg_ok s' \<and> pg_keys_of s' = pg_keys_of s"
    using APIKeysRepo_RecordUsed_run [OF ok, of i t "Inl e" s'] by (simp add: APIKeysRepo_def)
qed (auto simp: keys_repo_defs intro!: pg_stmt_reads)

lemmas secrets_repo_defs =
  SecretsRepo_def SecretsRepo_SetAnthropicCreds_def SecretsRepo_GetAnthropicCreds_def
  SecretsRepo_DeleteAnthropicCreds_def

lemma pg_clock_irrelevant [simp]:
  "pg_ok (d\<lparr>env_clock_reads := n\<rparr>) = pg_ok d" "pg_jobs_of (d\<lparr>env_clock_reads := n\<rparr>) = pg_jobs_of d"
  "pg_keys_of (d\<lparr>env_clock_reads := n\<rparr>) = pg_keys_of d"
  "pg_secrets_of (d\<lparr>env_clock_reads := n\<rparr>) = pg_secrets_of d"
  "pg_ok (d\<lparr>env_entropy_used := n\<rparr>) = pg_ok d" "pg_jobs_of (d\<lparr>env_entropy_used := n\<rparr>) = pg_jobs_of d"
  "pg_keys_of (d\<lparr>env_entropy_used := n\<rparr>) = pg_keys_of d"
  "pg_secrets_of (d\<lparr>env_entropy_used := n\<rparr>) = pg_secrets_of d"
  by (simp_all add: pg_ok_def pg_jobs_of_def pg_keys_of_def pg_secrets_of_def)

lemma SecretsRepo_Set_run:
  assumes ok: "pg_ok d" and run: "SecretsRepo_SetAnthropicCreds u c d = (r, d')"
  shows "pg_ok d' \<and> pg_secrets_of d' = (if isl r then pg_secrets_of d else (pg_secrets_of d)(u \<mapsto> c))"
  using run unfolding SecretsRepo_SetAnthropicCreds_def time_Now_def Let_def prod.case
proof (cases rule: pg_stmt_cases)
  case (fault m fs)
  then show ?thesis using ok by simp
next
  case (run fs)
  let ?d = "d\<lparr>env_clock_reads := Suc (env_clock_reads d), db_faults := fs\<rparr>"
  show ?thesis
  proof (cases "user_exists u ?d")
    case False
    then show ?thesis using run ok by auto
  next
    case True
    let ?row = "\<lparr>userSecretRow_UserID = u, userSecretRow_AnthropicKeyEnc = AnthropicCreds_APIKey c,
                 userSecretRow_UpdatedAt = env_clock d (env_clock_reads d)\<rparr>"
    let ?m = "\<lambda>old excluded. old\<lparr>userSecretRow_AnthropicKeyEnc := userSecretRow_AnthropicKeyEnc excluded,
                                 userSecretRow_UpdatedAt := userSecretRow_UpdatedAt excluded\<rparr>"
    let ?t = "sql_upsert userSecretRow_UserID ?m ?row (db_user_secrets d)"
    have r: "\<not> isl r" and d': "d' = ?d\<lparr>db_user_secrets := ?t\<rparr>" using run True by auto
    have tok: "table_ok userSecretRow_UserID (db_user_secrets d)" using ok by (simp add: pg_ok_def)
    have up: "table_ok userSecretRow_UserID ?t"
      "index_by userSecretRow_UserID ?t = (index_by userSecretRow_UserID (db_user_secrets d))(u \<mapsto>
         (case index_by userSecretRow_UserID (db_user_secrets d) u of None \<Rightarrow> ?row | Some o' \<Rightarrow> ?m o' ?row))"
      using upsert_row [OF tok, of ?row ?m] by simp_all
    have "pg_ok d'" using up(1) ok by (simp add: d' pg_ok_def)
    moreover have "pg_secrets_of d' = (pg_secrets_of d)(u \<mapsto> c)"
      by (rule ext) (auto simp: d' pg_secrets_of_def up(2) secret_of_def split: option.splits)
    ultimately show ?thesis using r by simp
  qed
qed

lemma SecretsRepo_Delete_run:
  assumes ok: "pg_ok d" and run: "SecretsRepo_DeleteAnthropicCreds u d = (r, d')"
  shows "pg_ok d' \<and> pg_secrets_of d' = (if isl r then pg_secrets_of d else (pg_secrets_of d)(u := None))"
  using run unfolding SecretsRepo_DeleteAnthropicCreds_def
proof (cases rule: pg_stmt_cases)
  case (fault m fs)
  then show ?thesis using ok by simp
next
  case (run fs)
  let ?P = "\<lambda>r. userSecretRow_UserID r = u"
  have tok: "table_ok userSecretRow_UserID (db_user_secrets d)" using ok by (simp add: pg_ok_def)
  show ?thesis
  proof (cases "snd (sql_delete ?P (db_user_secrets d)) = 0")
    case True
    then show ?thesis using run ok by (auto simp: Let_def split: prod.splits)
  next
    case False
    then have r: "r = Inr ()"
      and d': "d' = d\<lparr>db_faults := fs, db_user_secrets := fst (sql_delete ?P (db_user_secrets d))\<rparr>"
      using run by (auto simp: Let_def split: prod.splits)
    have "pg_ok d'" using delete_rows(1) [OF tok, of ?P] ok by (simp add: d' pg_ok_def)
    moreover have "index_by userSecretRow_UserID (fst (sql_delete ?P (db_user_secrets d)))
        = (index_by userSecretRow_UserID (db_user_secrets d))(u := None)"
      by (rule delete_one [OF tok]) (simp_all add: index_by_Some [OF tok])
    ultimately show ?thesis by (simp add: r d' pg_secrets_of_def fun_eq_iff)
  qed
qed

lemma SecretsRepo_Get_run:
  assumes ok: "pg_ok d" and run: "SecretsRepo_GetAnthropicCreds u d = (r, d')"
  shows "pg_ok d' \<and> pg_secrets_of d' = pg_secrets_of d
    \<and> (case r of Inr c \<Rightarrow> pg_secrets_of d u = Some c
        | Inl e \<Rightarrow> errors_Is e NotFound \<longrightarrow> pg_secrets_of d u = None)"
  using run unfolding SecretsRepo_GetAnthropicCreds_def
proof (cases rule: pg_stmt_cases)
  case (fault m fs)
  then show ?thesis using ok by simp
next
  case (run fs)
  have tok: "table_ok userSecretRow_UserID (db_user_secrets d)" using ok by (simp add: pg_ok_def)
  show ?thesis
  proof (cases "filter (\<lambda>r. userSecretRow_UserID r = u) (db_user_secrets d)")
    case Nil
    then have "index_by userSecretRow_UserID (db_user_secrets d) u = None"
      by (auto simp: index_by_None filter_empty_conv)
    then show ?thesis using run Nil ok by (auto simp: sql_select_def pg_secrets_of_def)
  next
    case (Cons q qs)
    then have "q \<in> set (db_user_secrets d)" and "userSecretRow_UserID q = u"
      by (auto simp: filter_eq_Cons_iff)
    then have "index_by userSecretRow_UserID (db_user_secrets d) u = Some q"
      using tok by (simp add: index_by_Some)
    then show ?thesis using run Cons ok by (auto simp: sql_select_def pg_secrets_of_def secret_of_def)
  qed
qed

interpretation pg: secrets_port "SecretsRepo :: 'z db_scheme SecretsRepository" pg_secrets_of pg_ok
proof
  fix s s' :: "'z db_scheme" and u c e x
  assume ok: "pg_ok s"
  show "Secrets_SetAnthropicCreds SecretsRepo u c s = (Inr x, s') \<Longrightarrow>
      pg_ok s' \<and> pg_secrets_of s' = (pg_secrets_of s)(u \<mapsto> c)"
    using SecretsRepo_Set_run [OF ok, of u c "Inr x" s'] by (simp add: SecretsRepo_def)
  show "Secrets_SetAnthropicCreds SecretsRepo u c s = (Inl e, s') \<Longrightarrow>
      pg_ok s' \<and> pg_secrets_of s' = pg_secrets_of s"
    using SecretsRepo_Set_run [OF ok, of u c "Inl e" s'] by (simp add: SecretsRepo_def)
  show "Secrets_GetAnthropicCreds SecretsRepo u s = (Inr c, s') \<Longrightarrow> pg_secrets_of s u = Some c"
    using SecretsRepo_Get_run [OF ok, of u "Inr c" s'] by (simp add: SecretsRepo_def)
  show "Secrets_GetAnthropicCreds SecretsRepo u s = (Inl e, s') \<Longrightarrow> errors_Is e NotFound \<Longrightarrow>
      pg_secrets_of s u = None"
    using SecretsRepo_Get_run [OF ok, of u "Inl e" s'] by (simp add: SecretsRepo_def)
  show "Secrets_DeleteAnthropicCreds SecretsRepo u s = (Inr x, s') \<Longrightarrow>
      pg_ok s' \<and> pg_secrets_of s' = (pg_secrets_of s)(u := None)"
    using SecretsRepo_Delete_run [OF ok, of u "Inr x" s'] by (simp add: SecretsRepo_def)
  show "Secrets_DeleteAnthropicCreds SecretsRepo u s = (Inl e, s') \<Longrightarrow>
      pg_ok s' \<and> pg_secrets_of s' = pg_secrets_of s"
    using SecretsRepo_Delete_run [OF ok, of u "Inl e" s'] by (simp add: SecretsRepo_def)
next
  show "keeps pg_ok pg_secrets_of (Secrets_GetAnthropicCreds SecretsRepo u)" for u
    using SecretsRepo_Get_run by (auto intro!: keepsI simp: SecretsRepo_def)
qed

section \<open>The job statements on a database that answers\<close>

lemma JobsRepo_Get_eq:
  assumes "pg_ok d" and "db_faults d = []"
  shows "JobsRepo_Get i d = (case pg_jobs_of d i of None \<Rightarrow> (Inl ErrNotFound, d) | Some j \<Rightarrow> (Inr j, d))"
proof -
  have tok: "table_ok jobRow_ID (db_jobs d)" using assms(1) by (simp add: pg_ok_def)
  show ?thesis
  proof (cases "sql_select (\<lambda>r. jobRow_ID r = i) (db_jobs d)")
    case Nil
    then have "pg_jobs_of d i = None"
      by (auto simp: pg_jobs_of_def index_by_None sql_select_def filter_empty_conv)
    then show ?thesis using assms(2) Nil by (simp add: JobsRepo_Get_def pg_stmt_def)
  next
    case (Cons q qs)
    then have "q \<in> set (db_jobs d)" and "jobRow_ID q = i"
      by (auto simp: sql_select_def filter_eq_Cons_iff)
    then have "pg_jobs_of d i = Some (toJob q)"
      using pg_jobs_table [OF assms(1)] by (auto simp: pg_jobs_of_def index_by_Some)
    then show ?thesis using assms(2) Cons by (simp add: JobsRepo_Get_def pg_stmt_def)
  qed
qed

lemma JobsRepo_Update_eq:
  assumes ok: "pg_ok d" and "db_faults d = []" and "pg_jobs_of d (Job_ID j) \<noteq> None"
    and "user_exists (Job_UserID j) d"
  obtains rows where "JobsRepo_Update j d = (Inr (), d\<lparr>db_jobs := rows\<rparr>)"
    and "pg_ok (d\<lparr>db_jobs := rows\<rparr>)"
    and "pg_jobs_of (d\<lparr>db_jobs := rows\<rparr>) = (pg_jobs_of d)(Job_ID j \<mapsto> j)"
proof -
  obtain rows n where up: "sql_update jobRow_ID (Job_ID j) (\<lambda>_. fromJob j) (db_jobs d) = (rows, n)"
    by fastforce
  have "index_by jobRow_ID (db_jobs d) (Job_ID j) \<noteq> None"
    using assms(3) by (auto simp: pg_jobs_of_def index_by_None image_image)
  then have n: "n > 0"
    using update_count [of jobRow_ID "Job_ID j" "\<lambda>_. fromJob j" "db_jobs d"] up by auto
  have "JobsRepo_Update j d = (Inr (), d\<lparr>db_jobs := rows\<rparr>)"
    using assms(2,4) up n by (simp add: JobsRepo_Update_def pg_stmt_def)
  then show thesis using that jobs_update(1,3) [OF ok up n] by blast
qed

section \<open>A small database\<close>

text \<open>
  Two users and three jobs, one finished, one running and one queued: the state the
  concrete instances of the theorems run on.
\<close>

definition sample_spec :: SpecSource where
  "sample_spec = \<lparr>Spec_Type = ''inline'', Spec_Value = ''# do it''\<rparr>"

definition sample_done :: Job where
  "sample_done =
     (NewJob ''j_done'' ''u1'' ''o/r'' ''main'' ''w1'' sample_spec '''' 10)
       \<lparr>Job_Status := JobStatusSucceeded, Job_ContainerID := ''c0'', Job_PRURL := ''http://pr'',
        Job_StartedAt := Some 11, Job_FinishedAt := Some 12\<rparr>"

definition sample_running :: Job where
  "sample_running =
     (NewJob ''j_run'' ''u1'' ''o/r'' ''main'' ''w2'' sample_spec '''' 20)
       \<lparr>Job_Status := JobStatusRunning, Job_ContainerID := ''c1'', Job_StartedAt := Some 21\<rparr>"

definition sample_queued :: Job where
  "sample_queued = NewJob ''j_wait'' ''u2'' ''o/r'' ''main'' ''w3'' sample_spec '''' 30"

lemmas sample_jobs = sample_done_def sample_running_def sample_queued_def sample_spec_def

definition sample_db :: db where
  "sample_db =
     \<lparr>env_clock = (\<lambda>n. 100 + int n), env_clock_reads = 0, env_entropy = (\<lambda>n. of_nat n),
      env_entropy_used = 0,
      db_users = [\<lparr>userRow_ID = ''u1'', userRow_DisplayName = ''one'', userRow_CreatedAt = 1\<rparr>,
                  \<lparr>userRow_ID = ''u2'', userRow_DisplayName = ''two'', userRow_CreatedAt = 2\<rparr>],
      db_user_secrets = [], db_api_keys = [],
      db_jobs = [fromJob sample_done, fromJob sample_running, fromJob sample_queued],
      db_identities = [], db_installations = [], db_sessions = [], db_faults = []\<rparr>"

lemma sample_fields [simp]:
  "Job_ID sample_done = ''j_done''" "Job_ID sample_running = ''j_run''" "Job_ID sample_queued = ''j_wait''"
  "Job_UserID sample_done = ''u1''" "Job_UserID sample_running = ''u1''" "Job_UserID sample_queued = ''u2''"
  "Job_Status sample_done = JobStatusSucceeded" "Job_Status sample_running = JobStatusRunning"
  "Job_Status sample_queued = JobStatusQueued"
  by (simp_all add: sample_jobs NewJob_def)

lemma wf_samples [simp]: "wf_job sample_done" "wf_job sample_running" "wf_job sample_queued"
  by (simp_all add: sample_jobs NewJob_def wf_job_def)

lemma sample_db_ok [simp]: "pg_ok sample_db"
  by (simp add: pg_ok_def sample_db_def table_ok_def)

lemma sample_db_jobs:
  "pg_jobs_of sample_db = [''j_done'' \<mapsto> sample_done, ''j_run'' \<mapsto> sample_running, ''j_wait'' \<mapsto> sample_queued]"
  by (auto simp: pg_jobs_of_def sample_db_def index_by_def fun_eq_iff)

section \<open>What the job statements touch\<close>

lemma JobsRepo_GetForUser_state:
  assumes "JobsRepo_GetForUser i u d = (r, d')"
  obtains fs where "d' = d\<lparr>db_faults := fs\<rparr>"
proof -
  obtain g d1 where g: "JobsRepo_Get i d = (g, d1)" by fastforce
  then have "d1 = d' " using assms by (auto simp: JobsRepo_GetForUser_def split: sum.splits if_splits)
  moreover from g obtain fs where "d1 = d\<lparr>db_faults := fs\<rparr>"
    unfolding JobsRepo_Get_def by (cases rule: pg_stmt_cases) (auto split: list.splits)
  ultimately show thesis using that by blast
qed

lemma JobsRepo_Update_state:
  assumes "JobsRepo_Update j d = (r, d')"
  obtains fs rows where "d' = d\<lparr>db_faults := fs, db_jobs := rows\<rparr>"
proof -
  have "\<exists>fs rows. d' = d\<lparr>db_faults := fs, db_jobs := rows\<rparr>"
    using assms unfolding JobsRepo_Update_def
  proof (cases rule: pg_stmt_cases)
    case (fault m fs)
    then show ?thesis by (intro exI [of _ fs] exI [of _ "db_jobs d"]) simp
  next
    case (run fs)
    then have "d' = d\<lparr>db_faults := fs\<rparr> \<or> (\<exists>rows. d' = d\<lparr>db_faults := fs, db_jobs := rows\<rparr>)"
      by (auto simp: Let_def split: prod.splits if_splits)
    moreover have "d\<lparr>db_faults := fs\<rparr> = d\<lparr>db_faults := fs, db_jobs := db_jobs d\<rparr>" by simp
    ultimately show ?thesis by metis
  qed
  then show thesis using that by blast
qed

lemma Update_calm:
  assumes "JobsRepo_Update j d = (r, d')" and "db_faults d = []"
  obtains rows where "d' = d\<lparr>db_jobs := rows\<rparr>"
proof -
  have "d' = d \<or> (\<exists>rows. d' = d\<lparr>db_jobs := rows\<rparr>)"
    using assms by (auto simp: JobsRepo_Update_def pg_stmt_def Let_def split: prod.splits if_splits)
  moreover have "d = d\<lparr>db_jobs := db_jobs d\<rparr>" by simp
  ultimately show thesis using that by metis
qed

section \<open>Properties of the repositories\<close>

theorem job_row_roundtrip:
  "toJob (fromJob j) = j \<and> fromJob (toJob r) = r
   \<and> toAPIKey (fromAPIKey k) = k \<and> fromAPIKey (toAPIKey q) = q"
  by simp

lemma sample_db_ran: "ran (pg_jobs_of sample_db) = {sample_done, sample_running, sample_queued}"
  by (simp add: sample_db_jobs ran_map_upd insert_commute)

lemma sample_user_jobs: "user_jobs (pg_jobs_of sample_db) ''u1'' = {sample_done, sample_running}"
  unfolding user_jobs_def sample_db_ran by auto

text \<open>
  C16. Listing the jobs of a user answers only jobs of that user, each once, newest first, as
  many as the limit allows, and none that is left out is newer than one that is listed.
\<close>

theorem jobs_list_newest_first:
  assumes "pg_ok d" and "JobsRepo_ListForUser u limit d = (Inr js, d')"
  shows "newest_first js \<and> distinct (map Job_ID js) \<and> set js \<subseteq> user_jobs (pg_jobs_of d) u
    \<and> length js = (if limit > 0 then min (nat limit) (card (user_jobs (pg_jobs_of d) u))
                   else card (user_jobs (pg_jobs_of d) u))
    \<and> (\<forall>j \<in> set js. \<forall>k \<in> user_jobs (pg_jobs_of d) u - set js. Job_CreatedAt k \<le> Job_CreatedAt j)"
proof -
  have "Jobs_ListForUser JobsRepo u limit d = (Inr js, d')" using assms(2) by (simp add: JobsRepo_def)
  note law = pg.ListForUser_ok [OF assms(1) this]
  have "int (length js) = min limit (int (card (user_jobs (pg_jobs_of d) u)))" if "limit > 0"
    using law that by blast
  moreover have "length js = card (user_jobs (pg_jobs_of d) u)" if "\<not> limit > 0"
    using law that by (meson not_le)
  ultimately have "length js = (if limit > 0 then min (nat limit) (card (user_jobs (pg_jobs_of d) u))
      else card (user_jobs (pg_jobs_of d) u))"
    by (cases "limit > 0") (simp_all add: min_def split: if_splits, linarith+)
  then show ?thesis using law by blast
qed

theorem jobs_list_newest_first_witness:
  "case JobsRepo_ListForUser ''u1'' 1 sample_db of (Inr js, d') \<Rightarrow> newest_first js \<and> length js = 1 | (Inl e, d') \<Rightarrow> False"
proof -
  have "user_jobs (pg_jobs_of sample_db) ''u1'' = {sample_done, sample_running}"
    by (rule sample_user_jobs)
  moreover have "sample_done \<noteq> sample_running" by (simp add: sample_jobs NewJob_def)
  ultimately have "card (user_jobs (pg_jobs_of sample_db) ''u1'') = 2" by simp
  moreover obtain js d' where run: "JobsRepo_ListForUser ''u1'' 1 sample_db = (Inr js, d')"
    by (simp add: JobsRepo_ListForUser_def pg_stmt_def sample_db_def)
  ultimately show ?thesis using jobs_list_newest_first [OF sample_db_ok run] by simp
qed

text \<open>
  C17. Creating a job succeeds exactly when its user exists and its identifier is free, and
  then adds just that job; otherwise nothing changes and the error is the one of the driver,
  never the conflict error of the domain.
\<close>

theorem job_create_outcome:
  assumes "pg_ok d" and "db_faults d = []"
  shows "case JobsRepo_Create j d of
      (Inr _, d') \<Rightarrow> user_exists (Job_UserID j) d \<and> pg_jobs_of d (Job_ID j) = None
        \<and> pg_jobs_of d' = (pg_jobs_of d)(Job_ID j \<mapsto> j)
    | (Inl e, d') \<Rightarrow> d' = d \<and> \<not> errors_Is e Conflict
        \<and> (\<not> user_exists (Job_UserID j) d \<or> pg_jobs_of d (Job_ID j) \<noteq> None)"
proof -
  obtain r d' where run: "JobsRepo_Create j d = (r, d')" by fastforce
  note eff = JobsRepo_Create_run [OF assms(1) run]
  have key: "pg_jobs_of d (Job_ID j) \<noteq> None" if "Job_ID j \<in> jobRow_ID ` set (db_jobs d)"
    using that by (auto simp: pg_jobs_of_def index_by_None image_image)
  show ?thesis
  proof (cases r)
    case (Inl e)
    then show ?thesis using run assms(2) key
      by (auto simp: JobsRepo_Create_def pg_stmt_def Let_def sql_insert_def unique_violation_def
          foreign_key_violation_def split: if_splits)
  next
    case (Inr x)
    moreover have "user_exists (Job_UserID j) d"
      using run assms(2) Inr by (auto simp: JobsRepo_Create_def pg_stmt_def Let_def split: if_splits)
    ultimately show ?thesis using run eff by simp
  qed
qed

theorem job_create_outcome_witness:
  "case JobsRepo_Create sample_queued sample_db of (Inl e, d') \<Rightarrow> \<not> errors_Is e Conflict | (Inr _, d') \<Rightarrow> False"
proof -
  have "db_faults sample_db = []" by (simp add: sample_db_def)
  moreover have "pg_jobs_of sample_db (Job_ID sample_queued) \<noteq> None" by (simp add: sample_db_jobs)
  ultimately show ?thesis
    using job_create_outcome [OF sample_db_ok, of sample_queued] by (auto split: prod.splits sum.splits)
qed

theorem key_delete_isolated:
  assumes "pg_ok d" and "APIKeysRepo_Delete i u d = (r, d')"
    and "pg_keys_of d k = Some q" and "APIKey_UserID q \<noteq> u"
  shows "pg_keys_of d' k = Some q"
  using pg.KDelete_isolates [OF assms(1) _ assms(3,4)] assms(2) by (simp add: APIKeysRepo_def)

theorem key_delete_isolated_witness:
  "pg_keys_of (snd (APIKeysRepo_Delete ''k1'' ''u2'' (sample_db\<lparr>db_api_keys :=
      [fromAPIKey (NewAPIKey ''k1'' ''u1'' ''n'' ''p'' ''h'' 3)]\<rparr>))) ''k1'' = Some (NewAPIKey ''k1'' ''u1'' ''n'' ''p'' ''h'' 3)"
proof -
  let ?d = "sample_db\<lparr>db_api_keys := [fromAPIKey (NewAPIKey ''k1'' ''u1'' ''n'' ''p'' ''h'' 3)]\<rparr>"
  have "pg_ok ?d" using sample_db_ok by (simp add: pg_ok_def table_ok_def)
  moreover have "pg_keys_of ?d ''k1'' = Some (NewAPIKey ''k1'' ''u1'' ''n'' ''p'' ''h'' 3)"
    by (simp add: pg_keys_of_def index_by_def NewAPIKey_def)
  ultimately show ?thesis
    using key_delete_isolated [OF _ prod.collapse [symmetric], where d = ?d and i = "''k1''" and k = "''k1''" and u = "''u2''"]
    by (simp add: NewAPIKey_def)
qed

end
