(* ===== verification/Postgres_Auth.thy ===== *)
theory Postgres_Auth
  imports Postgres
begin

text \<open>
  The repositories of \<open>core/adapter/postgres\<close> behind sign-in and the GitHub App: users,
  identities, installations and sessions. Each operation is the statement the code sends;
  the lemmas state what a later read returns and that the other tables stay untouched.
\<close>

section \<open>UsersBootstrapRepo (\<open>users_repo.go\<close>)\<close>

definition UsersBootstrapRepo_UpsertAdmin :: "UserID \<Rightarrow> string \<Rightarrow> time \<Rightarrow> ('z db_scheme, unit) act" where
  "UsersBootstrapRepo_UpsertAdmin uid displayName now = pg_stmt (\<lambda>d.
     let row = \<lparr>userRow_ID = uid, userRow_DisplayName = displayName, userRow_CreatedAt = now\<rparr>
     in (Inr (), d\<lparr>db_users :=
          sql_upsert userRow_ID
            (\<lambda>old excluded. old\<lparr>userRow_DisplayName := userRow_DisplayName excluded\<rparr>)
            row (db_users d)\<rparr>))"

section \<open>SessionsRepo (\<open>sessions_repo.go\<close>)\<close>

definition SessionsRepo_Create :: "8 word list \<Rightarrow> UserID \<Rightarrow> time \<Rightarrow> ('z db_scheme, unit) act" where
  "SessionsRepo_Create sid uid expires = pg_stmt (\<lambda>d.
     let row = \<lparr>sessionRow_ID = sid, sessionRow_UserID = uid, sessionRow_ExpiresAt = expires\<rparr>
     in if \<not> user_exists uid d then (Inl foreign_key_violation, d)
        else case sql_insert sessionRow_ID row (db_sessions d) of
               None \<Rightarrow> (Inl unique_violation, d)
             | Some rows \<Rightarrow> (Inr (), d\<lparr>db_sessions := rows\<rparr>))"

text \<open>The clock is read only when a row was found.\<close>

definition SessionsRepo_ResolveUser :: "8 word list \<Rightarrow> ('z db_scheme, UserID) act" where
  "SessionsRepo_ResolveUser sid = pg_stmt (\<lambda>d.
     case sql_select (\<lambda>r. sessionRow_ID r = sid) (db_sessions d) of
       [] \<Rightarrow> (Inl ErrNotFound, d)
     | row # _ \<Rightarrow>
         (let (now, d') = time_Now d
          in if After now (sessionRow_ExpiresAt row) then (Inl ErrNotFound, d')
             else (Inr (sessionRow_UserID row), d')))"

definition SessionsRepo_Delete :: "8 word list \<Rightarrow> ('z db_scheme, unit) act" where
  "SessionsRepo_Delete sid = pg_stmt (\<lambda>d.
     (Inr (), d\<lparr>db_sessions := fst (sql_delete (\<lambda>r. sessionRow_ID r = sid) (db_sessions d))\<rparr>))"

section \<open>IdentitiesRepo (\<open>identities_repo.go\<close>)\<close>

record GitHubIdentity =
  GitHubIdentity_UserID :: UserID
  GitHubIdentity_GitHubID :: int
  GitHubIdentity_GitHubLogin :: string
  GitHubIdentity_Email :: string

definition identity_of :: "identityRow \<Rightarrow> GitHubIdentity" where
  "identity_of r =
     \<lparr>GitHubIdentity_UserID = identityRow_UserID r, GitHubIdentity_GitHubID = identityRow_GitHubID r,
      GitHubIdentity_GitHubLogin = identityRow_GitHubLogin r,
      GitHubIdentity_Email = identityRow_Email r\<rparr>"

text \<open>
  The conflict target is \<open>github_id\<close>: a known account keeps its row and its user; only the
  login and the address are refreshed. A new account for a user that already has one
  violates the primary key.
\<close>

definition IdentitiesRepo_Upsert :: "GitHubIdentity \<Rightarrow> ('z db_scheme, unit) act" where
  "IdentitiesRepo_Upsert g = pg_stmt (\<lambda>d.
     let row = \<lparr>identityRow_UserID = GitHubIdentity_UserID g,
                identityRow_GitHubID = GitHubIdentity_GitHubID g,
                identityRow_GitHubLogin = GitHubIdentity_GitHubLogin g,
                identityRow_Email = GitHubIdentity_Email g\<rparr>;
         fresh = identityRow_GitHubID row \<notin> identityRow_GitHubID ` set (db_identities d)
     in if fresh \<and> \<not> user_exists (identityRow_UserID row) d then (Inl foreign_key_violation, d)
        else if fresh \<and> identityRow_UserID row \<in> identityRow_UserID ` set (db_identities d)
        then (Inl unique_violation, d)
        else (Inr (), d\<lparr>db_identities :=
               sql_upsert identityRow_GitHubID
                 (\<lambda>old excluded. old\<lparr>identityRow_GitHubLogin := identityRow_GitHubLogin excluded,
                                     identityRow_Email := identityRow_Email excluded\<rparr>)
                 row (db_identities d)\<rparr>))"

definition IdentitiesRepo_ByGitHubID :: "int \<Rightarrow> ('z db_scheme, GitHubIdentity) act" where
  "IdentitiesRepo_ByGitHubID ghID = pg_stmt (\<lambda>d.
     case sql_select (\<lambda>r. identityRow_GitHubID r = ghID) (db_identities d) of
       [] \<Rightarrow> (Inl ErrNotFound, d)
     | row # _ \<Rightarrow> (Inr (identity_of row), d))"

section \<open>InstallationsRepo (\<open>installations_repo.go\<close>)\<close>

record Installation =
  Installation_InstallationID :: int
  Installation_UserID :: UserID
  Installation_AccountLogin :: string
  Installation_Repos :: "string list"
  Installation_CreatedAt :: time

text \<open>
  The \<open>repos\<close> column is a JSON array of strings, written with \<open>json.Marshal\<close> and read with
  \<open>json.Unmarshal\<close>; its model is the list of strings a read returns. Marshalling replaces
  each byte that is not UTF-8 by U+FFFD (\<open>json_bytes\<close>); JSONB rejects a string with a zero byte.
\<close>

definition jsonb_rejected :: go_error where
  "jsonb_rejected = Opaque ''unsupported Unicode escape sequence''"

definition Installation_of :: "installationRow \<Rightarrow> Installation" where
  "Installation_of r =
     \<lparr>Installation_InstallationID = installationRow_InstallationID r,
      Installation_UserID = installationRow_UserID r,
      Installation_AccountLogin = installationRow_AccountLogin r,
      Installation_Repos = installationRow_Repos r,
      Installation_CreatedAt = installationRow_CreatedAt r\<rparr>"

definition InstallationsRepo_Upsert :: "Installation \<Rightarrow> ('z db_scheme, unit) act" where
  "InstallationsRepo_Upsert i =
     (let row = \<lparr>installationRow_InstallationID = Installation_InstallationID i,
                 installationRow_UserID = Installation_UserID i,
                 installationRow_AccountLogin = Installation_AccountLogin i,
                 installationRow_Repos = map json_bytes (Installation_Repos i),
                 installationRow_CreatedAt = Installation_CreatedAt i\<rparr>
      in pg_stmt (\<lambda>d.
           if CHR 0x00 \<in> set (concat (installationRow_Repos row)) then (Inl jsonb_rejected, d)
           else if \<not> user_exists (installationRow_UserID row) d then (Inl foreign_key_violation, d)
           else (Inr (), d\<lparr>db_installations :=
                  sql_upsert installationRow_InstallationID
                    (\<lambda>old excluded. old\<lparr>installationRow_UserID := installationRow_UserID excluded,
                                        installationRow_AccountLogin := installationRow_AccountLogin excluded,
                                        installationRow_Repos := installationRow_Repos excluded\<rparr>)
                    row (db_installations d)\<rparr>)))"

fun contains :: "string list \<Rightarrow> string \<Rightarrow> bool" where
  "contains [] v = False"
| "contains (s # ss) v = (if s = v then True else contains ss v)"

fun first_covering :: "string \<Rightarrow> installationRow list \<Rightarrow> go_error + Installation" where
  "first_covering repo [] = Inl ErrNotFound"
| "first_covering repo (row # rows) =
     (if length (installationRow_Repos row) = 0 \<or> contains (installationRow_Repos row) repo
      then Inr (Installation_of row) else first_covering repo rows)"

definition InstallationsRepo_ByUserAndRepo ::
  "UserID \<Rightarrow> string \<Rightarrow> ('z db_scheme, Installation) act" where
  "InstallationsRepo_ByUserAndRepo uid repo = pg_stmt (\<lambda>d.
     (first_covering repo (sql_select (\<lambda>r. installationRow_UserID r = uid) (db_installations d)), d))"

definition InstallationsRepo_ByInstallationID :: "int \<Rightarrow> ('z db_scheme, Installation) act" where
  "InstallationsRepo_ByInstallationID iid = pg_stmt (\<lambda>d.
     case sql_select (\<lambda>r. installationRow_InstallationID r = iid) (db_installations d) of
       [] \<Rightarrow> (Inl ErrNotFound, d)
     | row # _ \<Rightarrow> (Inr (Installation_of row), d))"

definition InstallationsRepo_Delete :: "int \<Rightarrow> ('z db_scheme, unit) act" where
  "InstallationsRepo_Delete iid = pg_stmt (\<lambda>d.
     (Inr (), d\<lparr>db_installations :=
       fst (sql_delete (\<lambda>r. installationRow_InstallationID r = iid) (db_installations d))\<rparr>))"

section \<open>Lookups after writes\<close>

lemma contains_iff [simp]: "contains ss v \<longleftrightarrow> v \<in> set ss"
  by (induction ss) auto

text \<open>What an installation covers: every repository when its list is empty.\<close>

definition covers :: "Installation \<Rightarrow> string \<Rightarrow> bool" where
  "covers i repo \<longleftrightarrow> Installation_Repos i = [] \<or> repo \<in> set (Installation_Repos i)"

lemma first_covering_Inr:
  assumes "first_covering repo rows = Inr i"
  shows "i \<in> Installation_of ` set rows" and "covers i repo"
  using assms by (induction rows) (auto simp: covers_def Installation_of_def split: if_splits)

lemma first_covering_Inl:
  "first_covering repo rows = Inl e \<longleftrightarrow>
     e = ErrNotFound \<and> (\<forall>r \<in> set rows. \<not> covers (Installation_of r) repo)"
  by (induction rows) (auto simp: covers_def Installation_of_def)

lemma pg_stmt_run: "db_faults d = [] \<Longrightarrow> pg_stmt body d = body d"
  by (simp add: pg_stmt_def)

lemma select_key:
  "table_ok key rows \<Longrightarrow> sql_select (\<lambda>r. key r = k) rows
     = (case index_by key rows k of None \<Rightarrow> [] | Some r \<Rightarrow> [r])"
proof (induction rows)
  case (Cons q rows)
  have "table_ok key rows" using Cons.prems by (simp add: table_ok_def)
  moreover have "key q = k \<Longrightarrow> index_by key rows k = None"
    using Cons.prems by (auto simp: index_by_None table_ok_def)
  ultimately show ?case using Cons.IH by (auto simp: sql_select_def index_by_def)
qed (simp add: sql_select_def)

text \<open>The rows of sessions and identities, as maps.\<close>

definition session_of :: "'z db_scheme \<Rightarrow> 8 word list \<rightharpoonup> sessionRow" where
  "session_of d = index_by sessionRow_ID (db_sessions d)"

definition account_of :: "'z db_scheme \<Rightarrow> int \<rightharpoonup> identityRow" where
  "account_of d = index_by identityRow_GitHubID (db_identities d)"

lemma ResolveUser_eq:
  assumes "pg_ok d" and "db_faults d = []"
  shows "fst (SessionsRepo_ResolveUser sid d) =
     (case session_of d sid of None \<Rightarrow> Inl ErrNotFound
      | Some r \<Rightarrow> if fst (time_Now d) > sessionRow_ExpiresAt r then Inl ErrNotFound
                  else Inr (sessionRow_UserID r))"
  using assms
  by (simp add: SessionsRepo_ResolveUser_def pg_stmt_run select_key pg_ok_def session_of_def
      time_Now_def After_def split: option.splits)

lemma ResolveUser_Inr:
  assumes ok: "pg_ok d" and run: "SessionsRepo_ResolveUser sid d = (Inr u, d')"
  shows "\<exists>r. session_of d sid = Some r \<and> sessionRow_UserID r = u
    \<and> env_clock d (env_clock_reads d) \<le> sessionRow_ExpiresAt r"
  using run ok unfolding SessionsRepo_ResolveUser_def
  by (cases rule: pg_stmt_cases)
    (auto simp: select_key pg_ok_def session_of_def time_Now_def After_def split: option.splits if_splits)

lemma SessionsRepo_Create_effect:
  assumes ok: "pg_ok d" and run: "SessionsRepo_Create sid u t d = (Inr x, d')"
  shows "pg_ok d'" and "session_of d sid = None"
    and "session_of d' = (session_of d)(sid \<mapsto>
      \<lparr>sessionRow_ID = sid, sessionRow_UserID = u, sessionRow_ExpiresAt = t\<rparr>)"
proof -
  let ?row = "\<lparr>sessionRow_ID = sid, sessionRow_UserID = u, sessionRow_ExpiresAt = t\<rparr>"
  obtain fs where d': "d' = d\<lparr>db_faults := fs, db_sessions := db_sessions d @ [?row]\<rparr>"
    and new: "sid \<notin> sessionRow_ID ` set (db_sessions d)"
    using run unfolding SessionsRepo_Create_def
    by (cases rule: pg_stmt_cases) (auto simp: Let_def sql_insert_def split: if_splits)
  have tok: "table_ok sessionRow_ID (db_sessions d)" using ok by (simp add: pg_ok_def)
  show "pg_ok d'" using insert_row(1) [OF tok, of ?row] new ok by (simp add: d' pg_ok_def)
  show "session_of d sid = None" using new by (simp add: session_of_def index_by_None)
  show "session_of d' = (session_of d)(sid \<mapsto> ?row)"
    using insert_row(2) [OF tok, of ?row] new by (simp add: d' session_of_def)
qed

lemma SessionsRepo_Delete_effect:
  assumes ok: "pg_ok d" and run: "SessionsRepo_Delete sid d = (Inr x, d')"
  shows "pg_ok d'" and "session_of d' = (session_of d)(sid := None)"
proof -
  obtain fs where d': "d' = d\<lparr>db_faults := fs,
      db_sessions := fst (sql_delete (\<lambda>r. sessionRow_ID r = sid) (db_sessions d))\<rparr>"
    using run unfolding SessionsRepo_Delete_def by (cases rule: pg_stmt_cases) auto
  have tok: "table_ok sessionRow_ID (db_sessions d)" using ok by (simp add: pg_ok_def)
  show "pg_ok d'" using delete_rows(1) [OF tok] ok by (simp add: d' pg_ok_def)
  show "session_of d' = (session_of d)(sid := None)"
    using delete_one [OF tok, of "\<lambda>r. sessionRow_ID r = sid" sid] index_by_Some [OF tok]
    by (simp add: d' session_of_def)
qed

lemma IdentitiesRepo_Upsert_effect:
  assumes ok: "pg_ok d" and run: "IdentitiesRepo_Upsert g d = (Inr x, d')"
  shows "pg_ok d'"
    and "account_of d' = (account_of d)(GitHubIdentity_GitHubID g \<mapsto>
      \<lparr>identityRow_UserID = (case account_of d (GitHubIdentity_GitHubID g) of
            None \<Rightarrow> GitHubIdentity_UserID g | Some old \<Rightarrow> identityRow_UserID old),
       identityRow_GitHubID = GitHubIdentity_GitHubID g,
       identityRow_GitHubLogin = GitHubIdentity_GitHubLogin g,
       identityRow_Email = GitHubIdentity_Email g\<rparr>)"
proof -
  let ?id = "GitHubIdentity_GitHubID g"
  let ?row = "\<lparr>identityRow_UserID = GitHubIdentity_UserID g, identityRow_GitHubID = ?id,
     identityRow_GitHubLogin = GitHubIdentity_GitHubLogin g, identityRow_Email = GitHubIdentity_Email g\<rparr>"
  let ?m = "\<lambda>old excluded. old\<lparr>identityRow_GitHubLogin := identityRow_GitHubLogin excluded,
                               identityRow_Email := identityRow_Email excluded\<rparr>"
  let ?t = "sql_upsert identityRow_GitHubID ?m ?row (db_identities d)"
  obtain fs where d': "d' = d\<lparr>db_faults := fs, db_identities := ?t\<rparr>"
    and pk: "?id \<in> identityRow_GitHubID ` set (db_identities d)
      \<or> GitHubIdentity_UserID g \<notin> identityRow_UserID ` set (db_identities d)"
    using run unfolding IdentitiesRepo_Upsert_def
    by (cases rule: pg_stmt_cases) (auto simp: Let_def split: if_splits)
  have tg: "table_ok identityRow_GitHubID (db_identities d)"
    and tu: "table_ok identityRow_UserID (db_identities d)" using ok by (simp_all add: pg_ok_def)
  note up = upsert_row [OF tg, of ?row ?m, simplified]
  have "table_ok identityRow_UserID ?t"
    by (rule upsert_other_key [OF tu]) (use pk in simp_all)
  then show "pg_ok d'" using up(1) ok by (simp add: d' pg_ok_def)
  have "identityRow_GitHubID old = ?id" if "account_of d ?id = Some old" for old
    using that by (simp add: account_of_def index_by_Some [OF tg])
  then show "account_of d' = (account_of d)(?id \<mapsto>
      \<lparr>identityRow_UserID = (case account_of d ?id of
            None \<Rightarrow> GitHubIdentity_UserID g | Some old \<Rightarrow> identityRow_UserID old),
       identityRow_GitHubID = ?id, identityRow_GitHubLogin = GitHubIdentity_GitHubLogin g,
       identityRow_Email = GitHubIdentity_Email g\<rparr>)"
    using up(2) by (auto simp: d' account_of_def split: option.splits)
qed

text \<open>None of these repositories touches the jobs, the keys or the secrets.\<close>

lemma pg_auth_frames [simp]:
  "pg_jobs_of (d\<lparr>db_users := us\<rparr>) = pg_jobs_of d" "pg_jobs_of (d\<lparr>db_sessions := ss\<rparr>) = pg_jobs_of d"
  "pg_jobs_of (d\<lparr>db_identities := gs\<rparr>) = pg_jobs_of d"
  "pg_jobs_of (d\<lparr>db_installations := is\<rparr>) = pg_jobs_of d"
  by (simp_all add: pg_jobs_of_def)

lemma InstallationsRepo_ByUserAndRepo_keeps:
  "keeps pg_ok pg_jobs_of (InstallationsRepo_ByUserAndRepo u repo)"
  unfolding InstallationsRepo_ByUserAndRepo_def by (rule pg_stmt_reads) auto

lemma InstallationsRepo_ByUserAndRepo_run:
  assumes "InstallationsRepo_ByUserAndRepo u repo d = (Inr i, d')"
  shows "Installation_UserID i = u" and "covers i repo"
    and "i \<in> Installation_of ` set (db_installations d)"
proof -
  have fc: "first_covering repo (sql_select (\<lambda>r. installationRow_UserID r = u) (db_installations d)) = Inr i"
    using assms unfolding InstallationsRepo_ByUserAndRepo_def by (cases rule: pg_stmt_cases) auto
  note hit = first_covering_Inr [OF fc]
  show "Installation_UserID i = u" and "i \<in> Installation_of ` set (db_installations d)"
    using hit(1) by (auto simp: sql_select_def Installation_of_def)
  show "covers i repo" by (rule hit(2))
qed

section \<open>Every operation keeps the database well formed and leaves the jobs alone\<close>

lemma pg_stmt_keeps:
  assumes "keeps pg_ok pg_jobs_of body"
  shows "keeps pg_ok pg_jobs_of (pg_stmt body)"
proof (rule keepsI)
  fix s s' :: "'a db_scheme" and r
  assume ok: "pg_ok s" and "pg_stmt body s = (r, s')"
  from this(2) show "pg_ok s' \<and> pg_jobs_of s' = pg_jobs_of s"
  proof (cases rule: pg_stmt_cases)
    case (fault m fs)
    then show ?thesis using ok by simp
  next
    case (run fs)
    then show ?thesis using keepsD [OF assms _ run] ok by simp
  qed
qed

lemma UpsertAdmin_keeps: "keeps pg_ok pg_jobs_of (UsersBootstrapRepo_UpsertAdmin u n t)"
  unfolding UsersBootstrapRepo_UpsertAdmin_def
proof (rule pg_stmt_keeps, rule keepsI, clarsimp simp: Let_def)
  fix s :: "'a db_scheme"
  assume ok: "pg_ok s"
  let ?row = "\<lparr>userRow_ID = u, userRow_DisplayName = n, userRow_CreatedAt = t\<rparr>"
  have "table_ok userRow_ID (sql_upsert userRow_ID
      (\<lambda>old excluded. old\<lparr>userRow_DisplayName := userRow_DisplayName excluded\<rparr>) ?row (db_users s))"
    by (rule upsert_row(1)) (use ok in \<open>simp_all add: pg_ok_def\<close>)
  then show "pg_ok (s\<lparr>db_users := sql_upsert userRow_ID
      (\<lambda>old excluded. old\<lparr>userRow_DisplayName := userRow_DisplayName excluded\<rparr>) ?row (db_users s)\<rparr>)"
    using ok by (simp add: pg_ok_def)
qed

lemma Session_Create_keeps: "keeps pg_ok pg_jobs_of (SessionsRepo_Create sid u t)"
  unfolding SessionsRepo_Create_def
proof (rule pg_stmt_keeps, rule keepsI)
  fix s s' :: "'a db_scheme" and r
  let ?row = "\<lparr>sessionRow_ID = sid, sessionRow_UserID = u, sessionRow_ExpiresAt = t\<rparr>"
  assume ok: "pg_ok s" and run: "(let row = ?row
     in if \<not> user_exists u s then (Inl foreign_key_violation, s)
        else case sql_insert sessionRow_ID row (db_sessions s) of
               None \<Rightarrow> (Inl unique_violation, s)
             | Some rows \<Rightarrow> (Inr (), s\<lparr>db_sessions := rows\<rparr>)) = (r, s')"
  show "pg_ok s' \<and> pg_jobs_of s' = pg_jobs_of s"
    using run ok insert_row(1) [of sessionRow_ID "db_sessions s" ?row]
    by (auto simp: Let_def sql_insert_def pg_ok_def split: if_splits)
qed

lemma Session_Delete_keeps: "keeps pg_ok pg_jobs_of (SessionsRepo_Delete sid)"
  unfolding SessionsRepo_Delete_def
  by (rule pg_stmt_keeps, rule keepsI) (auto simp: pg_ok_def delete_rows(1))

lemma Session_Resolve_keeps: "keeps pg_ok pg_jobs_of (SessionsRepo_ResolveUser sid)"
  unfolding SessionsRepo_ResolveUser_def
  by (rule pg_stmt_keeps, rule keepsI) (auto simp: time_Now_def Let_def split: list.splits if_splits)

lemma Identity_ByGitHubID_keeps: "keeps pg_ok pg_jobs_of (IdentitiesRepo_ByGitHubID g)"
  unfolding IdentitiesRepo_ByGitHubID_def by (rule pg_stmt_reads) (auto split: list.splits)

lemma Identity_Upsert_keeps: "keeps pg_ok pg_jobs_of (IdentitiesRepo_Upsert g)"
proof (rule keepsI)
  fix s s' :: "'a db_scheme" and r
  assume ok: "pg_ok s" and run: "IdentitiesRepo_Upsert g s = (r, s')"
  have "pg_jobs_of s' = pg_jobs_of s"
    using run unfolding IdentitiesRepo_Upsert_def
    by (cases rule: pg_stmt_cases) (auto simp: Let_def split: if_splits)
  moreover have "pg_ok s'"
  proof (cases r)
    case (Inr x)
    then show ?thesis using IdentitiesRepo_Upsert_effect(1) [OF ok] run by simp
  next
    case (Inl e)
    then show ?thesis using run ok unfolding IdentitiesRepo_Upsert_def
      by (auto elim!: pg_stmt_cases simp: Let_def split: if_splits)
  qed
  ultimately show "pg_ok s' \<and> pg_jobs_of s' = pg_jobs_of s" by simp
qed

lemma Installation_Upsert_keeps: "keeps pg_ok pg_jobs_of (InstallationsRepo_Upsert i)"
  unfolding InstallationsRepo_Upsert_def Let_def
  by (rule pg_stmt_keeps, rule keepsI) (auto simp: pg_ok_def upsert_row(1) split: if_splits)

lemma Installation_Delete_keeps: "keeps pg_ok pg_jobs_of (InstallationsRepo_Delete i)"
  unfolding InstallationsRepo_Delete_def
  by (rule pg_stmt_keeps, rule keepsI) (auto simp: pg_ok_def delete_rows(1))

lemma pg_keys_frames [simp]:
  "pg_jobs_of (d\<lparr>db_api_keys := ks\<rparr>) = pg_jobs_of d" "pg_jobs_of (d\<lparr>db_user_secrets := xs\<rparr>) = pg_jobs_of d"
  by (simp_all add: pg_jobs_of_def)

lemma APIKeys_keeps:
  "keeps pg_ok pg_jobs_of (APIKeysRepo_Create k)" "keeps pg_ok pg_jobs_of (APIKeysRepo_GetByPrefix p)"
  "keeps pg_ok pg_jobs_of (APIKeysRepo_ListForUser u)" "keeps pg_ok pg_jobs_of (APIKeysRepo_Delete i u)"
  "keeps pg_ok pg_jobs_of (APIKeysRepo_RecordUsed i t)"
proof -
  show "keeps pg_ok pg_jobs_of (APIKeysRepo_Create k)" unfolding APIKeysRepo_Create_def
    by (rule pg_stmt_keeps, rule keepsI)
      (auto simp: Let_def sql_insert_def pg_ok_def insert_row(1) split: if_splits)
  show "keeps pg_ok pg_jobs_of (APIKeysRepo_GetByPrefix p)" "keeps pg_ok pg_jobs_of (APIKeysRepo_ListForUser u)"
    unfolding APIKeysRepo_GetByPrefix_def APIKeysRepo_ListForUser_def by (rule pg_stmt_reads; simp)+
  show "keeps pg_ok pg_jobs_of (APIKeysRepo_Delete i u)" unfolding APIKeysRepo_Delete_def
    by (rule pg_stmt_keeps, rule keepsI)
      (auto simp: Let_def pg_ok_def delete_rows(1) case_prod_beta split: if_splits)
  show "keeps pg_ok pg_jobs_of (APIKeysRepo_RecordUsed i t)" unfolding APIKeysRepo_RecordUsed_def
    by (rule pg_stmt_keeps, rule keepsI)
      (auto simp: Let_def pg_ok_def update_row(1) case_prod_beta split: if_splits)
qed

lemma Secrets_Get_keeps: "keeps pg_ok pg_jobs_of (SecretsRepo_GetAnthropicCreds u)"
  unfolding SecretsRepo_GetAnthropicCreds_def by (rule pg_stmt_reads) (auto split: list.splits)

lemma Secrets_Set_keeps: "keeps pg_ok pg_jobs_of (SecretsRepo_SetAnthropicCreds u c)"
proof (rule keepsI)
  fix s s' :: "'a db_scheme" and r
  assume ok: "pg_ok s" and run: "SecretsRepo_SetAnthropicCreds u c s = (r, s')"
  have "pg_jobs_of s' = pg_jobs_of s"
    using run unfolding SecretsRepo_SetAnthropicCreds_def time_Now_def Let_def prod.case
    by (cases rule: pg_stmt_cases) (auto split: if_splits)
  then show "pg_ok s' \<and> pg_jobs_of s' = pg_jobs_of s" using SecretsRepo_Set_run [OF ok run] by simp
qed

section \<open>Properties of sessions, accounts and installations\<close>

theorem session_valid_until_expiry:
  assumes "pg_ok d" and "SessionsRepo_Create sid u t d = (Inr (), d')" and "db_faults d' = []"
  shows "fst (SessionsRepo_ResolveUser sid d') =
      (if env_clock d' (env_clock_reads d') > t then Inl ErrNotFound else Inr u)
    \<and> fst (SessionsRepo_ResolveUser sid (snd (SessionsRepo_Delete sid d'))) = Inl ErrNotFound"
proof -
  note eff = SessionsRepo_Create_effect [OF assms(1,2)]
  obtain d2 where del: "SessionsRepo_Delete sid d' = (Inr (), d2)" and d2: "db_faults d2 = []"
    using assms(3) by (simp add: SessionsRepo_Delete_def pg_stmt_run)
  note gone = SessionsRepo_Delete_effect [OF eff(1) del]
  show ?thesis
    using ResolveUser_eq [OF eff(1) assms(3)] ResolveUser_eq [OF gone(1) d2] eff(3) gone(2) del
    by (simp add: time_Now_def)
qed

theorem session_valid_until_expiry_witness:
  "fst (SessionsRepo_ResolveUser [1] (snd (SessionsRepo_Create [1] ''u1'' 200 sample_db))) = Inr ''u1''"
proof -
  have run: "SessionsRepo_Create [1] ''u1'' 200 sample_db = (Inr (), snd (SessionsRepo_Create [1] ''u1'' 200 sample_db))"
    by (simp add: SessionsRepo_Create_def pg_stmt_def sample_db_def user_exists_def sql_insert_def)
  show ?thesis
    using session_valid_until_expiry [OF sample_db_ok run]
    by (simp add: SessionsRepo_Create_def pg_stmt_def sample_db_def user_exists_def sql_insert_def Let_def)
qed

theorem account_keeps_its_user:
  assumes "pg_ok d" and "IdentitiesRepo_Upsert g d = (Inr (), d')" and "db_faults d' = []"
  shows "\<exists>i. fst (IdentitiesRepo_ByGitHubID (GitHubIdentity_GitHubID g) d') = Inr i
    \<and> GitHubIdentity_GitHubLogin i = GitHubIdentity_GitHubLogin g
    \<and> GitHubIdentity_UserID i = (case account_of d (GitHubIdentity_GitHubID g) of
         None \<Rightarrow> GitHubIdentity_UserID g | Some old \<Rightarrow> identityRow_UserID old)"
proof -
  note eff = IdentitiesRepo_Upsert_effect [OF assms(1,2)]
  have "table_ok identityRow_GitHubID (db_identities d')" using eff(1) by (simp add: pg_ok_def)
  then show ?thesis
    using eff(2) assms(3)
    by (simp add: IdentitiesRepo_ByGitHubID_def pg_stmt_run select_key account_of_def [symmetric] identity_of_def)
qed

theorem account_keeps_its_user_witness:
  "let g = \<lparr>GitHubIdentity_UserID = ''u2'', GitHubIdentity_GitHubID = 7, GitHubIdentity_GitHubLogin = ''new'',
            GitHubIdentity_Email = ''''\<rparr>;
       d = sample_db\<lparr>db_identities := [\<lparr>identityRow_UserID = ''u1'', identityRow_GitHubID = 7,
             identityRow_GitHubLogin = ''old'', identityRow_Email = ''''\<rparr>]\<rparr>
   in \<exists>i. fst (IdentitiesRepo_ByGitHubID 7 (snd (IdentitiesRepo_Upsert g d))) = Inr i
        \<and> GitHubIdentity_UserID i = ''u1''"
proof -
  let ?g = "\<lparr>GitHubIdentity_UserID = ''u2'', GitHubIdentity_GitHubID = 7, GitHubIdentity_GitHubLogin = ''new'',
            GitHubIdentity_Email = ''''\<rparr>"
  let ?d = "sample_db\<lparr>db_identities := [\<lparr>identityRow_UserID = ''u1'', identityRow_GitHubID = 7,
             identityRow_GitHubLogin = ''old'', identityRow_Email = ''''\<rparr>]\<rparr>"
  have ok: "pg_ok ?d" using sample_db_ok by (simp add: pg_ok_def table_ok_def)
  have run: "IdentitiesRepo_Upsert ?g ?d = (Inr (), snd (IdentitiesRepo_Upsert ?g ?d))"
    and db: "db_faults (snd (IdentitiesRepo_Upsert ?g ?d)) = []"
    by (simp_all add: IdentitiesRepo_Upsert_def pg_stmt_def sample_db_def Let_def)
  have "account_of ?d 7 = Some \<lparr>identityRow_UserID = ''u1'', identityRow_GitHubID = 7,
             identityRow_GitHubLogin = ''old'', identityRow_Email = ''''\<rparr>"
    by (simp add: account_of_def index_by_def)
  then show ?thesis using account_keeps_its_user [OF ok run db] by (auto simp: Let_def)
qed

theorem installation_lookup:
  assumes "db_faults d = []"
  shows "case fst (InstallationsRepo_ByUserAndRepo u repo d) of
      Inr i \<Rightarrow> Installation_UserID i = u \<and> covers i repo \<and> i \<in> Installation_of ` set (db_installations d)
    | Inl e \<Rightarrow> e = ErrNotFound \<and> (\<forall>r \<in> set (db_installations d).
        \<not> (installationRow_UserID r = u \<and> covers (Installation_of r) repo))"
proof -
  obtain x d' where run: "InstallationsRepo_ByUserAndRepo u repo d = (x, d')" by fastforce
  show ?thesis
  proof (cases x)
    case (Inl e)
    then have "first_covering repo (sql_select (\<lambda>r. installationRow_UserID r = u) (db_installations d)) = Inl e"
      using run assms by (auto simp: InstallationsRepo_ByUserAndRepo_def pg_stmt_def)
    then show ?thesis using run Inl by (auto simp: first_covering_Inl sql_select_def)
  next
    case (Inr i)
    then show ?thesis using InstallationsRepo_ByUserAndRepo_run [of u repo d i d'] run by simp
  qed
qed

theorem installation_lookup_witness:
  "fst (InstallationsRepo_ByUserAndRepo ''u1'' ''o/r'' sample_db) = Inl ErrNotFound"
proof -
  have "db_faults sample_db = []" by (simp add: sample_db_def)
  moreover have "isl (fst (InstallationsRepo_ByUserAndRepo ''u1'' ''o/r'' sample_db))"
    by (simp add: InstallationsRepo_ByUserAndRepo_def pg_stmt_def sample_db_def sql_select_def)
  ultimately show ?thesis
    using installation_lookup [of sample_db "''u1''" "''o/r''"] by (auto split: sum.splits)
qed

end
