(* ===== verification/Crypto.thy ===== *)
theory Crypto
  imports Postgres "HOL-Library.Monad_Syntax"
begin

text \<open>
  Secrets at rest. \<open>core/adapter/crypto/aesgcm.go\<close> is modelled down to the mode of
  operation: GCM (counter mode and GHASH, as \<open>crypto/cipher\<close> documents it) over a block
  cipher; the server uses the one of the theory \<open>Aes\<close>. The wrapper \<open>encryptingSecrets\<close> of the
  composition root keeps the contract of the secrets repository it wraps; the proof is a
  sublocale. \<open>core/adapter/credentials/anthropic.go\<close> reads through it.
\<close>

unbundle bit_operations_syntax

section \<open>Bytes\<close>

type_synonym bytes = "8 word list"

definition bytes_of :: "string \<Rightarrow> bytes" where "bytes_of s = map (\<lambda>c. of_nat (byte c)) s"
definition string_of :: "bytes \<Rightarrow> string" where "string_of bs = map (\<lambda>b. char_of (unat b)) bs"

lemma byte_less: "byte c < 256"
  by (simp add: byte_def)

lemma unat_byte [simp]: "unat (of_nat (byte c) :: 8 word) = byte c"
  using byte_less [of c] by (simp add: unat_of_nat take_bit_nat_eq_self)

lemma string_of_bytes_of [simp]: "string_of (bytes_of s) = s"
  by (induction s) (simp_all add: string_of_def bytes_of_def, simp add: byte_def)

lemma byte_char_of_unat [simp]: "byte (char_of (unat (b :: 8 word))) = unat b"
proof -
  have "unat b < 2 ^ LENGTH(8)" by (rule unsigned_less)
  then show ?thesis by (simp add: byte_def)
qed

lemma bytes_of_string_of [simp]: "bytes_of (string_of bs) = bs"
  by (induction bs) (simp_all add: string_of_def bytes_of_def)

lemma string_of_inject: "string_of a = string_of b \<longleftrightarrow> a = b"
  by (metis bytes_of_string_of)

section \<open>Galois/counter mode\<close>

text \<open>A block is a 128-bit word, big-endian in bytes.\<close>

type_synonym block_cipher = "128 word \<Rightarrow> 128 word"

definition block_of :: "bytes \<Rightarrow> 128 word" where
  "block_of bs = foldl (\<lambda>w b. push_bit 8 w OR ucast b) 0 bs"

definition block_bytes :: "128 word \<Rightarrow> bytes" where
  "block_bytes w = map (\<lambda>i. ucast (drop_bit (8 * (15 - i)) w)) [0..<16]"

text \<open>Counter blocks of a 12-byte nonce: the last 32 bits count from 1.\<close>

definition counter_block :: "bytes \<Rightarrow> nat \<Rightarrow> 128 word" where
  "counter_block nonce i = push_bit 32 (block_of nonce) OR ucast (of_nat (Suc i) :: 32 word)"

definition keystream :: "block_cipher \<Rightarrow> bytes \<Rightarrow> nat \<Rightarrow> bytes" where
  "keystream E nonce n =
     concat (map (\<lambda>i. block_bytes (E (counter_block nonce (Suc i)))) [0..<(n + 15) div 16])"

definition gctr :: "block_cipher \<Rightarrow> bytes \<Rightarrow> bytes \<Rightarrow> bytes" where
  "gctr E nonce bs = map2 (XOR) bs (keystream E nonce (length bs))"

text \<open>GHASH: multiplication in the field of the GCM polynomial, bit 0 most significant.\<close>

definition gf_step :: "128 word \<Rightarrow> 128 word" where
  "gf_step v = (if bit v 0 then drop_bit 1 v XOR push_bit 120 0xE1 else drop_bit 1 v)"

definition gf_mult :: "128 word \<Rightarrow> 128 word \<Rightarrow> 128 word" where
  "gf_mult x y =
     fst (foldl (\<lambda>(z, v) i. (if bit x (127 - i) then z XOR v else z, gf_step v)) (0, y) [0..<128])"

fun blocks16 :: "bytes \<Rightarrow> 128 word list" where
  "blocks16 [] = []"
| "blocks16 (b # bs) =
     (let c = take 16 (b # bs)
      in block_of (c @ replicate (16 - length c) 0) # blocks16 (drop 15 bs))"

definition ghash :: "128 word \<Rightarrow> 128 word list \<Rightarrow> 128 word" where
  "ghash h xs = foldl (\<lambda>y x. gf_mult (y XOR x) h) 0 xs"

text \<open>The tag over the ciphertext, with no additional data.\<close>

definition gcm_tag :: "block_cipher \<Rightarrow> bytes \<Rightarrow> bytes \<Rightarrow> bytes" where
  "gcm_tag E nonce ct =
     block_bytes (ghash (E 0) (blocks16 ct @ [of_nat (8 * length ct)])
                  XOR E (counter_block nonce 0))"

definition gcm_NonceSize :: nat where "gcm_NonceSize = 12"

definition gcm_Seal :: "block_cipher \<Rightarrow> bytes \<Rightarrow> bytes \<Rightarrow> bytes" where
  "gcm_Seal E nonce pt = (let ct = gctr E nonce pt in ct @ gcm_tag E nonce ct)"

definition gcm_Open :: "block_cipher \<Rightarrow> bytes \<Rightarrow> bytes \<Rightarrow> go_error + bytes" where
  "gcm_Open E nonce sealed =
     (if length sealed < 16 then Inl (Opaque ''cipher: message authentication failed'')
      else let ct = take (length sealed - 16) sealed; tag = drop (length sealed - 16) sealed
           in if tag = gcm_tag E nonce ct then Inr (gctr E nonce ct)
              else Inl (Opaque ''cipher: message authentication failed''))"

lemma length_block_bytes [simp]: "length (block_bytes w) = 16"
  by (simp add: block_bytes_def)

lemma length_keystream: "length (keystream E nonce n) = 16 * ((n + 15) div 16)"
proof -
  have "length (concat (map (\<lambda>i. block_bytes (f i)) is)) = 16 * length is"
    for f :: "nat \<Rightarrow> 128 word" and "is"
    by (induction "is") simp_all
  then show ?thesis by (simp add: keystream_def)
qed

lemma keystream_enough: "n \<le> length (keystream E nonce n)"
  unfolding length_keystream by presburger

lemma length_gctr [simp]: "length (gctr E nonce bs) = length bs"
  using keystream_enough [of "length bs"] by (simp add: gctr_def)

lemma xor_twice [simp]: "(b XOR k) XOR k = (b :: 8 word)"
  by (rule bit_word_eqI) (auto simp: bit_xor_iff)

lemma map2_xor_twice:
  "length bs \<le> length ks \<Longrightarrow> map2 (XOR) (map2 (XOR) bs ks) ks = (bs :: bytes)"
proof (induction bs arbitrary: ks)
  case (Cons b bs)
  then show ?case by (cases ks) simp_all
qed simp

lemma gctr_twice [simp]: "gctr E nonce (gctr E nonce bs) = bs"
  using map2_xor_twice [OF keystream_enough] unfolding gctr_def
  by (metis gctr_def length_gctr)

lemma length_gcm_tag [simp]: "length (gcm_tag E nonce ct) = 16"
  by (simp add: gcm_tag_def)

lemma gcm_Open_Seal: "gcm_Open E nonce (gcm_Seal E nonce pt) = Inr pt"
  by (simp add: gcm_Open_def gcm_Seal_def Let_def)

lemma gcm_Open_Inl_text:
  "gcm_Open E nonce sealed = Inl e \<Longrightarrow> e = Opaque ''cipher: message authentication failed''"
  by (auto simp: gcm_Open_def Let_def split: if_splits)

section \<open>AESGCM (\<open>core/adapter/crypto/aesgcm.go\<close>)\<close>

text \<open>The value holds the block cipher of its key; \<open>aes\<close> stands for the key schedule.\<close>

definition NewAESGCM :: "(bytes \<Rightarrow> block_cipher) \<Rightarrow> bytes \<Rightarrow> go_error + block_cipher" where
  "NewAESGCM aes key =
     (let l = length key in
      if l \<noteq> 16 \<and> l \<noteq> 24 \<and> l \<noteq> 32
      then Inl (Opaque (''aesgcm: invalid key length '' @ Itoa (int l) @ '' (want 16, 24, or 32)''))
      else Inr (aes key))"

definition AESGCM_Encrypt :: "block_cipher \<Rightarrow> bytes \<Rightarrow> ('z go_env_scheme, bytes) act" where
  "AESGCM_Encrypt c plaintext w =
     (let (nonce, w') = rand_Read gcm_NonceSize w;
          sealed = gcm_Seal c nonce plaintext
      in (Inr (nonce @ sealed), w'))"

definition AESGCM_Decrypt :: "block_cipher \<Rightarrow> bytes \<Rightarrow> go_error + bytes" where
  "AESGCM_Decrypt c ciphertext =
     (let ns = gcm_NonceSize in
      if length ciphertext < ns then Inl (Opaque ''aesgcm: ciphertext too short'')
      else let nonce = take ns ciphertext; sealed = drop ns ciphertext
           in gcm_Open c nonce sealed)"

lemma length_rand_Read [simp]: "length (fst (rand_Read n w)) = n"
  by (simp add: rand_Read_def)

lemma AESGCM_Encrypt_run:
  assumes "AESGCM_Encrypt c pt w = (r, w')"
  obtains ct where "r = Inr ct" and "AESGCM_Decrypt c ct = Inr pt"
    and "w' = w\<lparr>env_entropy_used := env_entropy_used w + gcm_NonceSize\<rparr>"
proof
  let ?nonce = "fst (rand_Read gcm_NonceSize w)"
  show "r = Inr (?nonce @ gcm_Seal c ?nonce pt)"
    and "w' = w\<lparr>env_entropy_used := env_entropy_used w + gcm_NonceSize\<rparr>"
    using assms by (auto simp: AESGCM_Encrypt_def rand_Read_def Let_def)
  show "AESGCM_Decrypt c (?nonce @ gcm_Seal c ?nonce pt) = Inr pt"
    by (simp add: AESGCM_Decrypt_def Let_def gcm_Open_Seal)
qed

lemma AESGCM_Decrypt_Inl: "AESGCM_Decrypt c ct = Inl e \<Longrightarrow> \<not> errors_Is e k"
  by (auto simp: AESGCM_Decrypt_def Let_def split: if_splits dest: gcm_Open_Inl_text)

section \<open>encryptingSecrets (\<open>cmd/agentic-delegator/main.go\<close>)\<close>

definition encryptingSecrets_SetAnthropicCreds ::
  "'z go_env_scheme SecretsRepository \<Rightarrow> block_cipher \<Rightarrow> UserID \<Rightarrow> AnthropicCreds \<Rightarrow>
   ('z go_env_scheme, unit) act" where
  "encryptingSecrets_SetAnthropicCreds inner aes uid c s =
     (case AESGCM_Encrypt aes (bytes_of (AnthropicCreds_APIKey c)) s of
        (Inl e, s1) \<Rightarrow> (Inl e, s1)
      | (Inr ct, s1) \<Rightarrow>
          Secrets_SetAnthropicCreds inner uid \<lparr>AnthropicCreds_APIKey = string_of ct\<rparr> s1)"

definition encryptingSecrets_GetAnthropicCreds ::
  "'z go_env_scheme SecretsRepository \<Rightarrow> block_cipher \<Rightarrow> UserID \<Rightarrow>
   ('z go_env_scheme, AnthropicCreds) act" where
  "encryptingSecrets_GetAnthropicCreds inner aes uid s =
     (case Secrets_GetAnthropicCreds inner uid s of
        (Inl e, s1) \<Rightarrow> (Inl e, s1)
      | (Inr c, s1) \<Rightarrow>
          (case AESGCM_Decrypt aes (bytes_of (AnthropicCreds_APIKey c)) of
             Inl e \<Rightarrow> (Inl e, s1)
           | Inr pt \<Rightarrow> (Inr \<lparr>AnthropicCreds_APIKey = string_of pt\<rparr>, s1)))"

definition encryptingSecrets ::
  "'z go_env_scheme SecretsRepository \<Rightarrow> block_cipher \<Rightarrow> 'z go_env_scheme SecretsRepository" where
  "encryptingSecrets inner aes =
     \<lparr>Secrets_SetAnthropicCreds = encryptingSecrets_SetAnthropicCreds inner aes,
      Secrets_GetAnthropicCreds = encryptingSecrets_GetAnthropicCreds inner aes,
      Secrets_DeleteAnthropicCreds = Secrets_DeleteAnthropicCreds inner\<rparr>"

lemmas encryptingSecrets_defs =
  encryptingSecrets_def encryptingSecrets_SetAnthropicCreds_def encryptingSecrets_GetAnthropicCreds_def

text \<open>
  The contract is kept through the view that decrypts what is stored; the repository
  underneath must not depend on how much randomness was consumed.
\<close>

definition decrypted :: "block_cipher \<Rightarrow> AnthropicCreds \<Rightarrow> AnthropicCreds option" where
  "decrypted aes c =
     (case AESGCM_Decrypt aes (bytes_of (AnthropicCreds_APIKey c)) of
        Inl e \<Rightarrow> None
      | Inr pt \<Rightarrow> Some \<lparr>AnthropicCreds_APIKey = string_of pt\<rparr>)"

definition decrypted_view :: "block_cipher \<Rightarrow> (UserID \<rightharpoonup> AnthropicCreds) \<Rightarrow> UserID \<rightharpoonup> AnthropicCreds" where
  "decrypted_view aes m u = Option.bind (m u) (decrypted aes)"

lemma decrypted_ct:
  "AESGCM_Decrypt aes ct = Inr (bytes_of (AnthropicCreds_APIKey c)) \<Longrightarrow>
     decrypted aes \<lparr>AnthropicCreds_APIKey = string_of ct\<rparr> = Some c"
  by (simp add: decrypted_def)

lemma decrypted_view_upd:
  "decrypted_view aes (m(u := v)) = (decrypted_view aes m)(u := Option.bind v (decrypted aes))"
  by (auto simp: decrypted_view_def)

locale encrypted_secrets = secrets_port inner secrets_of ok
  for inner :: "'z go_env_scheme SecretsRepository"
    and secrets_of :: "'z go_env_scheme \<Rightarrow> UserID \<rightharpoonup> AnthropicCreds"
    and ok :: "'z go_env_scheme \<Rightarrow> bool" +
  fixes aes :: block_cipher
  assumes entropy_ok: "ok (s\<lparr>env_entropy_used := n\<rparr>) = ok s"
    and entropy_view: "secrets_of (s\<lparr>env_entropy_used := n\<rparr>) = secrets_of s"
begin

lemma Set_encrypted:
  assumes ok: "ok s" and run: "Secrets_SetAnthropicCreds (encryptingSecrets inner aes) u c s = (r, s')"
  shows "ok s' \<and> decrypted_view aes (secrets_of s') =
    (if isl r then decrypted_view aes (secrets_of s)
     else (decrypted_view aes (secrets_of s))(u \<mapsto> c))"
proof -
  obtain r1 s1 where enc: "AESGCM_Encrypt aes (bytes_of (AnthropicCreds_APIKey c)) s = (r1, s1)"
    by fastforce
  then obtain ct where ct: "r1 = Inr ct" "AESGCM_Decrypt aes ct = Inr (bytes_of (AnthropicCreds_APIKey c))"
    and s1: "s1 = s\<lparr>env_entropy_used := env_entropy_used s + gcm_NonceSize\<rparr>"
    by (rule AESGCM_Encrypt_run)
  have ok1: "ok s1" "secrets_of s1 = secrets_of s" using ok by (simp_all add: s1 entropy_ok entropy_view)
  have set': "Secrets_SetAnthropicCreds inner u \<lparr>AnthropicCreds_APIKey = string_of ct\<rparr> s1 = (r, s')"
    using run enc ct(1) by (simp add: encryptingSecrets_defs)
  show ?thesis
  proof (cases r)
    case (Inl e)
    then show ?thesis using Set_err [OF ok1(1)] set' ok1(2) by simp
  next
    case (Inr x)
    then have "ok s'" and "secrets_of s' = (secrets_of s)(u \<mapsto> \<lparr>AnthropicCreds_APIKey = string_of ct\<rparr>)"
      using Set_ok [OF ok1(1)] set' ok1(2) by simp_all
    then show ?thesis using Inr by (simp add: decrypted_view_upd decrypted_ct [OF ct(2)])
  qed
qed

lemma Get_encrypted:
  assumes ok: "ok s" and run: "Secrets_GetAnthropicCreds (encryptingSecrets inner aes) u s = (r, s')"
  shows "ok s' \<and> secrets_of s' = secrets_of s \<and>
    (case r of Inr c \<Rightarrow> decrypted_view aes (secrets_of s) u = Some c
     | Inl e \<Rightarrow> errors_Is e NotFound \<longrightarrow> secrets_of s u = None)"
proof -
  obtain g t where g: "Secrets_GetAnthropicCreds inner u s = (g, t)" by fastforce
  note k = keepsD [OF SGet_keeps ok g]
  show ?thesis
  proof (cases g)
    case (Inl e)
    then show ?thesis using run g k SGet_missing [OF ok] by (auto simp: encryptingSecrets_defs)
  next
    case (Inr c)
    then have "secrets_of s u = Some c" using SGet_ok [OF ok] g by simp
    then show ?thesis using run g Inr k AESGCM_Decrypt_Inl [of aes]
      by (auto simp: encryptingSecrets_defs decrypted_view_def decrypted_def split: sum.splits)
  qed
qed

end

sublocale encrypted_secrets \<subseteq>
  enc: secrets_port "encryptingSecrets inner aes" "\<lambda>s. decrypted_view aes (secrets_of s)" ok
proof
  fix s s' :: "'z go_env_scheme" and u c e x
  assume ok: "ok s"
  show "Secrets_SetAnthropicCreds (encryptingSecrets inner aes) u c s = (Inr x, s') \<Longrightarrow>
      ok s' \<and> decrypted_view aes (secrets_of s') = (decrypted_view aes (secrets_of s))(u \<mapsto> c)"
    using Set_encrypted [OF ok, of u c "Inr x" s'] by simp
  show "Secrets_SetAnthropicCreds (encryptingSecrets inner aes) u c s = (Inl e, s') \<Longrightarrow>
      ok s' \<and> decrypted_view aes (secrets_of s') = decrypted_view aes (secrets_of s)"
    using Set_encrypted [OF ok, of u c "Inl e" s'] by simp
  show "Secrets_GetAnthropicCreds (encryptingSecrets inner aes) u s = (Inr c, s') \<Longrightarrow>
      decrypted_view aes (secrets_of s) u = Some c"
    using Get_encrypted [OF ok, of u "Inr c" s'] by simp
  show "Secrets_GetAnthropicCreds (encryptingSecrets inner aes) u s = (Inl e, s') \<Longrightarrow>
      errors_Is e NotFound \<Longrightarrow> decrypted_view aes (secrets_of s) u = None"
    using Get_encrypted [OF ok, of u "Inl e" s'] by (simp add: decrypted_view_def)
  show "Secrets_DeleteAnthropicCreds (encryptingSecrets inner aes) u s = (Inr x, s') \<Longrightarrow>
      ok s' \<and> decrypted_view aes (secrets_of s') = (decrypted_view aes (secrets_of s))(u := None)"
    using SDelete_ok [OF ok] by (auto simp: encryptingSecrets_def decrypted_view_upd)
  show "Secrets_DeleteAnthropicCreds (encryptingSecrets inner aes) u s = (Inl e, s') \<Longrightarrow>
      ok s' \<and> decrypted_view aes (secrets_of s') = decrypted_view aes (secrets_of s)"
    using SDelete_err [OF ok] by (auto simp: encryptingSecrets_def)
next
  show "keeps ok (\<lambda>s. decrypted_view aes (secrets_of s))
          (Secrets_GetAnthropicCreds (encryptingSecrets inner aes) u)" for u
    using Get_encrypted by (auto intro!: keepsI)
qed

interpretation pg: encrypted_secrets "SecretsRepo :: 'z db_scheme SecretsRepository"
  pg_secrets_of pg_ok aes for aes :: block_cipher
  by unfold_locales simp_all

section \<open>AnthropicCredsProvider (\<open>core/adapter/credentials/anthropic.go\<close>)\<close>

definition AnthropicCredsProvider_For ::
  "'s SecretsRepository \<Rightarrow> UserID \<Rightarrow> ('s, AnthropicCreds) act" where
  "AnthropicCredsProvider_For secrets uid s = Secrets_GetAnthropicCreds secrets uid s"

definition AnthropicCredsProvider :: "'s SecretsRepository \<Rightarrow> 's AnthropicCredentialsProvider" where
  "AnthropicCredsProvider secrets = \<lparr>AnthropicCreds_For = AnthropicCredsProvider_For secrets\<rparr>"

section \<open>SetAnthropicCredentials (\<open>core/usecase/set_anthropic_credentials.go\<close>)\<close>

definition SetAnthropicCredentials_Execute ::
  "'s SecretsRepository \<Rightarrow> UserID \<Rightarrow> string \<Rightarrow> ('s, unit) act" where
  "SetAnthropicCredentials_Execute secrets uid apiKey s =
     (if uid = '''' \<or> apiKey = '''' then (Inl ErrInvalidInput, s)
      else Secrets_SetAnthropicCreds secrets uid \<lparr>AnthropicCreds_APIKey = apiKey\<rparr> s)"

section \<open>Properties of the stored secrets\<close>

lemma gcm_Open_exact: "gcm_Open E nonce sealed = Inr pt \<longleftrightarrow> sealed = gcm_Seal E nonce pt"
proof
  assume run: "gcm_Open E nonce sealed = Inr pt"
  let ?n = "length sealed - 16"
  have "drop ?n sealed = gcm_tag E nonce (take ?n sealed)" and "pt = gctr E nonce (take ?n sealed)"
    using run by (auto simp: gcm_Open_def Let_def split: if_splits)
  then have "gcm_Seal E nonce pt = take ?n sealed @ drop ?n sealed" by (simp add: gcm_Seal_def Let_def)
  then show "sealed = gcm_Seal E nonce pt" by simp
qed (simp add: gcm_Open_Seal)

lemma AESGCM_Decrypt_exact:
  "AESGCM_Decrypt c ct = Inr pt \<longleftrightarrow> (\<exists>nonce. length nonce = 12 \<and> ct = nonce @ gcm_Seal c nonce pt)"
proof
  assume run: "AESGCM_Decrypt c ct = Inr pt"
  then have len: "12 \<le> length ct" and rest: "drop 12 ct = gcm_Seal c (take 12 ct) pt"
    by (auto simp: AESGCM_Decrypt_def gcm_NonceSize_def Let_def gcm_Open_exact split: if_splits)
  have "ct = take 12 ct @ gcm_Seal c (take 12 ct) pt" unfolding rest [symmetric] by simp
  moreover have "length (take 12 ct) = 12" using len by simp
  ultimately show "\<exists>nonce. length nonce = 12 \<and> ct = nonce @ gcm_Seal c nonce pt" by blast
qed (auto simp: AESGCM_Decrypt_def gcm_NonceSize_def Let_def gcm_Open_exact)

lemma Set_ciphertext:
  assumes ok: "pg_ok d"
    and run: "Secrets_SetAnthropicCreds (encryptingSecrets SecretsRepo aes) u c d = (Inr x, d1)"
  shows "\<exists>ct. pg_secrets_of d1 = (pg_secrets_of d)(u \<mapsto> \<lparr>AnthropicCreds_APIKey = string_of ct\<rparr>)
    \<and> AESGCM_Decrypt aes ct = Inr (bytes_of (AnthropicCreds_APIKey c))"
proof -
  obtain r1 e1 where enc: "AESGCM_Encrypt aes (bytes_of (AnthropicCreds_APIKey c)) d = (r1, e1)" by fastforce
  then obtain ct where ct: "r1 = Inr ct" "AESGCM_Decrypt aes ct = Inr (bytes_of (AnthropicCreds_APIKey c))"
    and e1: "e1 = d\<lparr>env_entropy_used := env_entropy_used d + gcm_NonceSize\<rparr>"
    by (rule AESGCM_Encrypt_run)
  have "pg_ok e1" "pg_secrets_of e1 = pg_secrets_of d" using ok by (simp_all add: e1)
  moreover have "Secrets_SetAnthropicCreds SecretsRepo u \<lparr>AnthropicCreds_APIKey = string_of ct\<rparr> e1 = (Inr x, d1)"
    using run enc ct(1) by (simp add: encryptingSecrets_defs)
  ultimately show ?thesis using pg.Set_ok [of e1] ct(2) by metis
qed




end
