(* ===== verification/Host.thy ===== *)
theory Host
  imports Postgres_Auth Crypto "HOL-Library.List_Lexorder"
begin

text \<open>
  The host of the server process: the file system the runner adapter writes to, the
  commands it executes, the HTTP requests it sends and what it keeps in memory: supervised
  containers, the waits between retries and the webhook deliveries seen. The record extends
  the database, so that one state carries everything the program reads and writes.

  Paths are those \<open>filepath.Join\<close> builds from an absolute directory, so they are clean. Any
  system call may fail, as scripted by \<open>fs_faults\<close>; a failed call has no effect. What a
  command answers is an arbitrary function of how many commands ran before and of its
  arguments; a container writes into its mounts while \<open>docker\<close> commands run, which is part
  of the answer. HTTP peers are modelled in the same way.
\<close>

type_synonym file_mode = "32 word"

datatype fs_entry = Dir file_mode | File file_mode string

record exec_result =
  exec_err :: "go_error option"
  exec_out :: string
  exec_late :: bool
  exec_files :: "(string \<times> string) list"

record http_request =
  req_Method :: string
  req_URL :: string
  req_Header :: "(string \<times> string) list"
  req_Body :: string

record http_response =
  resp_StatusCode :: int
  resp_Body :: string

record supervision =
  sup_ContainerID :: string
  sup_JobDir :: string
  sup_SecretsDir :: string
  sup_LogPath :: string
  sup_JobID :: string

record host = db +
  fs_entries :: "(string \<times> fs_entry) list"
  fs_umask :: file_mode
  fs_faults :: "string option list"
  exec_answer :: "nat \<Rightarrow> string list \<Rightarrow> exec_result"
  exec_log :: "string list list"
  supervised :: "supervision list"
  http_answer :: "nat \<Rightarrow> http_request \<Rightarrow> go_error + http_response"
  http_log :: "http_request list"
  waits :: "duration list"
  delivery_seen :: "(string \<times> time) list"

section \<open>System calls\<close>

definition fs_call :: "('z host_scheme, 'a) act \<Rightarrow> ('z host_scheme, 'a) act" where
  "fs_call body h =
     (case fs_faults h of
        [] \<Rightarrow> body h
      | Some msg # fs \<Rightarrow> (Inl (Opaque msg), h\<lparr>fs_faults := fs\<rparr>)
      | None # fs \<Rightarrow> body (h\<lparr>fs_faults := fs\<rparr>))"

definition fs_lookup :: "'z host_scheme \<Rightarrow> string \<rightharpoonup> fs_entry" where
  "fs_lookup h = map_of (fs_entries h)"

fun is_dir :: "fs_entry option \<Rightarrow> bool" where
  "is_dir (Some (Dir _)) = True"
| "is_dir _ = False"

fun is_file :: "fs_entry option \<Rightarrow> bool" where
  "is_file (Some (File _ _)) = True"
| "is_file _ = False"

text \<open>The directories on the way to a path, and the directory a path is in.\<close>

definition dir_prefixes :: "string \<Rightarrow> string list" where
  "dir_prefixes p =
     filter (\<lambda>q. q \<noteq> '''')
       (map (\<lambda>k. take k p) (filter (\<lambda>k. k = length p \<or> p ! k = CHR ''/'') [0..<Suc (length p)]))"

definition parent_dir :: "string \<Rightarrow> string" where
  "parent_dir p = rev (drop 1 (dropWhile (\<lambda>c. c \<noteq> CHR ''/'') (rev p)))"

definition base_name :: "string \<Rightarrow> string" where
  "base_name p = rev (takeWhile (\<lambda>c. c \<noteq> CHR ''/'') (rev p))"

definition below :: "string \<Rightarrow> string \<Rightarrow> bool" where
  "below d p \<longleftrightarrow> p = d \<or> HasPrefix p (d @ ''/'')"

text \<open>\<open>os.MkdirAll\<close>: missing directories get the mode less the umask.\<close>

definition add_dir :: "file_mode \<Rightarrow> string \<Rightarrow> (string \<times> fs_entry) list \<Rightarrow> (string \<times> fs_entry) list" where
  "add_dir mode p es = (if map_of es p = None then AList.update p (Dir mode) es else es)"

definition MkdirAll :: "string \<Rightarrow> file_mode \<Rightarrow> ('z host_scheme, unit) act" where
  "MkdirAll p mode = fs_call (\<lambda>h.
     if \<exists>q \<in> set (dir_prefixes p). is_file (fs_lookup h q) then (Inl (Opaque ''not a directory''), h)
     else (Inr (), h\<lparr>fs_entries := fold (add_dir (mode AND NOT (fs_umask h))) (dir_prefixes p) (fs_entries h)\<rparr>))"

definition Chmod :: "string \<Rightarrow> file_mode \<Rightarrow> ('z host_scheme, unit) act" where
  "Chmod p mode = fs_call (\<lambda>h.
     case fs_lookup h p of
       None \<Rightarrow> (Inl (Opaque ''no such file or directory''), h)
     | Some (Dir _) \<Rightarrow> (Inr (), h\<lparr>fs_entries := AList.update p (Dir mode) (fs_entries h)\<rparr>)
     | Some (File _ c) \<Rightarrow> (Inr (), h\<lparr>fs_entries := AList.update p (File mode c) (fs_entries h)\<rparr>))"

text \<open>
  \<open>os.WriteFile\<close>, and \<open>os.OpenFile\<close> with \<open>O_CREATE|O_WRONLY|O_TRUNC\<close> followed by writes: the
  mode is used only for a new file.
\<close>

definition put_file :: "file_mode \<Rightarrow> string \<Rightarrow> string \<Rightarrow> (string \<times> fs_entry) list \<Rightarrow> (string \<times> fs_entry) list" where
  "put_file mode p c es =
     AList.update p (case map_of es p of Some (File m _) \<Rightarrow> File m c | _ \<Rightarrow> File mode c) es"

definition WriteFile :: "string \<Rightarrow> string \<Rightarrow> file_mode \<Rightarrow> ('z host_scheme, unit) act" where
  "WriteFile p c mode = fs_call (\<lambda>h.
     if \<not> is_dir (fs_lookup h (parent_dir p)) \<or> is_dir (fs_lookup h p)
     then (Inl (Opaque ''no such file or directory''), h)
     else (Inr (), h\<lparr>fs_entries := put_file (mode AND NOT (fs_umask h)) p c (fs_entries h)\<rparr>))"

definition ReadFile :: "string \<Rightarrow> ('z host_scheme, string) act" where
  "ReadFile p = fs_call (\<lambda>h.
     case fs_lookup h p of
       Some (File _ c) \<Rightarrow> (Inr c, h)
     | _ \<Rightarrow> (Inl (Opaque ''no such file or directory''), h))"

text \<open>\<open>os.RemoveAll\<close>: the path and everything below it; the empty path is a no-op.\<close>

definition RemoveAll :: "string \<Rightarrow> ('z host_scheme, unit) act" where
  "RemoveAll p h =
     (if p = '''' then (Inr (), h)
      else fs_call (\<lambda>h. (Inr (), h\<lparr>fs_entries := filter (\<lambda>(q, _). \<not> below p q) (fs_entries h)\<rparr>)) h)"

text \<open>
  \<open>filepath.Glob\<close> of \<open>dir/*suffix\<close> for a directory name without pattern characters: the
  entries of the directory with that suffix, sorted by name.
\<close>

definition Glob_suffix :: "string \<Rightarrow> string \<Rightarrow> 'z host_scheme \<Rightarrow> string list" where
  "Glob_suffix d sfx h =
     sort (filter (\<lambda>p. p \<noteq> d \<and> parent_dir p = d \<and> HasSuffix (base_name p) sfx) (map fst (fs_entries h)))"

section \<open>Commands and requests\<close>

text \<open>Files a container wrote through its bind mounts appear with the mode 0644.\<close>

definition put_written :: "string \<times> string \<Rightarrow> (string \<times> fs_entry) list \<Rightarrow> (string \<times> fs_entry) list" where
  "put_written pc es =
     (if is_dir (map_of es (parent_dir (fst pc))) \<and> \<not> is_dir (map_of es (fst pc))
      then put_file 0x1A4 (fst pc) (snd pc) es else es)"

definition exec_Command :: "string list \<Rightarrow> 'z host_scheme \<Rightarrow> exec_result \<times> 'z host_scheme" where
  "exec_Command args h =
     (let res = exec_answer h (length (exec_log h)) args
      in (res, h\<lparr>exec_log := exec_log h @ [args],
                 fs_entries := fold put_written (exec_files res) (fs_entries h)\<rparr>))"

definition http_Do :: "http_request \<Rightarrow> ('z host_scheme, http_response) act" where
  "http_Do req h = (http_answer h (length (http_log h)) req, h\<lparr>http_log := http_log h @ [req]\<rparr>)"

section \<open>The database is untouched\<close>

text \<open>Everything of this theory changes only the fields it adds.\<close>

lemma pg_host_frames [simp]:
  "pg_ok (h\<lparr>fs_entries := es\<rparr>) = pg_ok h" "pg_jobs_of (h\<lparr>fs_entries := es\<rparr>) = pg_jobs_of h"
  "pg_ok (h\<lparr>fs_faults := fs\<rparr>) = pg_ok h" "pg_jobs_of (h\<lparr>fs_faults := fs\<rparr>) = pg_jobs_of h"
  "pg_ok (h\<lparr>exec_log := l\<rparr>) = pg_ok h" "pg_jobs_of (h\<lparr>exec_log := l\<rparr>) = pg_jobs_of h"
  "pg_ok (h\<lparr>supervised := sv\<rparr>) = pg_ok h" "pg_jobs_of (h\<lparr>supervised := sv\<rparr>) = pg_jobs_of h"
  "pg_ok (h\<lparr>http_log := hl\<rparr>) = pg_ok h" "pg_jobs_of (h\<lparr>http_log := hl\<rparr>) = pg_jobs_of h"
  "pg_ok (h\<lparr>waits := ws\<rparr>) = pg_ok h" "pg_jobs_of (h\<lparr>waits := ws\<rparr>) = pg_jobs_of h"
  "pg_ok (h\<lparr>delivery_seen := ds\<rparr>) = pg_ok h" "pg_jobs_of (h\<lparr>delivery_seen := ds\<rparr>) = pg_jobs_of h"
  by (simp_all add: pg_ok_def pg_jobs_of_def)

lemma fs_call_keeps:
  assumes "keeps pg_ok pg_jobs_of body"
  shows "keeps pg_ok pg_jobs_of (fs_call body)"
proof (rule keepsI)
  fix s s' :: "'a host_scheme" and r
  assume ok: "pg_ok s" and run: "fs_call body s = (r, s')"
  have b: "body t = (r', t') \<Longrightarrow> pg_ok t \<Longrightarrow> pg_ok t' \<and> pg_jobs_of t' = pg_jobs_of t" for t t' r'
    using keepsD [OF assms] by blast
  show "pg_ok s' \<and> pg_jobs_of s' = pg_jobs_of s"
    using run ok b [of s r s'] b [of "s\<lparr>fs_faults := fs\<rparr>" r s' for fs]
    by (auto simp: fs_call_def split: list.splits option.splits)
qed

lemma exec_keeps [intro!]: "keeps pg_ok pg_jobs_of (exec_Command args)"
  by (auto intro!: keepsI simp: exec_Command_def Let_def)

lemma http_keeps [intro!]: "keeps pg_ok pg_jobs_of (http_Do req)"
  by (auto intro!: keepsI simp: http_Do_def)

lemma fs_keeps:
  "keeps pg_ok pg_jobs_of (MkdirAll p m)" "keeps pg_ok pg_jobs_of (Chmod p m)"
  "keeps pg_ok pg_jobs_of (WriteFile p c m)" "keeps pg_ok pg_jobs_of (ReadFile p)"
proof -
  show "keeps pg_ok pg_jobs_of (MkdirAll p m)" unfolding MkdirAll_def
    by (rule fs_call_keeps, rule keepsI) (auto split: if_splits)
  show "keeps pg_ok pg_jobs_of (Chmod p m)" unfolding Chmod_def
    by (rule fs_call_keeps, rule keepsI) (auto split: option.splits fs_entry.splits)
  show "keeps pg_ok pg_jobs_of (WriteFile p c m)" unfolding WriteFile_def
    by (rule fs_call_keeps, rule keepsI) (auto split: if_splits)
  show "keeps pg_ok pg_jobs_of (ReadFile p)" unfolding ReadFile_def
    by (rule fs_call_keeps, rule keepsI) (auto split: option.splits fs_entry.splits)
qed

lemma RemoveAll_keeps: "keeps pg_ok pg_jobs_of (RemoveAll p)"
proof (cases "p = ''''")
  case True
  then show ?thesis by (auto intro!: keepsI simp: RemoveAll_def)
next
  case False
  then have "RemoveAll p = fs_call (\<lambda>h :: 'a host_scheme.
      (Inr (), h\<lparr>fs_entries := filter (\<lambda>(q, _). \<not> below p q) (fs_entries h)\<rparr>))"
    by (simp add: RemoveAll_def fun_eq_iff)
  then show ?thesis by (simp only:) (rule fs_call_keeps, rule keepsI, auto)
qed

section \<open>What the system calls do to the entries\<close>

lemma map_of_filter_below:
  "map_of (filter (\<lambda>(q, _). \<not> below p q) es) x = (if below p x then None else map_of es x)"
  by (induction es) auto

lemma RemoveAll_lookup:
  assumes "RemoveAll p h = (Inr x, h')" and "p \<noteq> ''''"
  shows "fs_lookup h' q = (if below p q then None else fs_lookup h q)"
  using assms
  by (auto simp: RemoveAll_def fs_call_def fs_lookup_def map_of_filter_below
      split: list.splits option.splits)

lemma RemoveAll_run:
  "fs_faults h = [] \<Longrightarrow> p \<noteq> '''' \<Longrightarrow>
     RemoveAll p h = (Inr (), h\<lparr>fs_entries := filter (\<lambda>(q, _). \<not> below p q) (fs_entries h)\<rparr>)"
  by (simp add: RemoveAll_def fs_call_def)

lemma below_refl [simp]: "below p p"
  by (simp add: below_def)

lemma below_trans: "below a b \<Longrightarrow> below b c \<Longrightarrow> below a c"
  by (auto simp: below_def HasPrefix_iff)

section \<open>A small host\<close>

text \<open>
  The small database on a host whose \<open>docker\<close> answers every command with a container
  identifier and whose HTTP peers accept every request.
\<close>

definition sample_host :: host where
  "sample_host =
     \<lparr>env_clock = (\<lambda>n. 100 + int n), env_clock_reads = 0, env_entropy = (\<lambda>n. of_nat n),
      env_entropy_used = 0, db_users = db_users sample_db, db_user_secrets = [], db_api_keys = [],
      db_jobs = db_jobs sample_db, db_identities = [], db_installations = [], db_sessions = [],
      db_faults = [], fs_entries = [(''/work'', Dir 0x1C0)], fs_umask = 0x12, fs_faults = [],
      exec_answer = (\<lambda>_ _. \<lparr>exec_err = None, exec_out = ''c9'', exec_late = False, exec_files = []\<rparr>),
      exec_log = [], supervised = [],
      http_answer = (\<lambda>_ _. Inr \<lparr>resp_StatusCode = 200, resp_Body = ''''\<rparr>), http_log = [], waits = [],
      delivery_seen = []\<rparr>"

lemma sample_host_jobs: "pg_jobs_of sample_host = pg_jobs_of sample_db"
  by (simp add: pg_jobs_of_def sample_host_def)

lemma sample_host_ok [simp]: "pg_ok sample_host"
  by (simp add: pg_ok_def sample_host_def sample_db_def table_ok_def)

lemma sample_host_fields [simp]:
  "db_faults sample_host = []" "fs_faults sample_host = []" "db_users sample_host = db_users sample_db"
  "exec_answer sample_host n a = \<lparr>exec_err = None, exec_out = ''c9'', exec_late = False, exec_files = []\<rparr>"
  "fs_entries sample_host = [(''/work'', Dir 0x1C0)]" "supervised sample_host = []" "exec_log sample_host = []"
  "fs_umask sample_host = 0x12" "http_log sample_host = []" "delivery_seen sample_host = []"
  "http_answer sample_host n q = Inr \<lparr>resp_StatusCode = 200, resp_Body = ''''\<rparr>"
  "env_clock sample_host n = 100 + int n" "env_clock_reads sample_host = 0"
  "env_entropy sample_host n = of_nat n" "env_entropy_used sample_host = 0"
  "db_sessions sample_host = []" "db_identities sample_host = []" "db_installations sample_host = []"
  by (simp_all add: sample_host_def)

lemma sample_users:
  "user_exists ''u1'' sample_host" "user_exists ''u2'' sample_host"
  by (simp_all add: user_exists_def sample_db_def)

end
