(* ===== verification/Digests.thy ===== *)
theory Digests
  imports Crypto
begin

text \<open>
  Encodings and digests of the standard library that authentication rests on: the
  hexadecimal encoding of \<open>encoding/hex\<close>, and SHA-256 and HMAC as the program uses them to
  verify webhook signatures.
\<close>

section \<open>Hexadecimal\<close>

definition hex_EncodeToString :: "bytes \<Rightarrow> string" where
  "hex_EncodeToString bs = concat (map (\<lambda>b. [hex_char (unat b div 16), hex_char (unat b mod 16)]) bs)"

text \<open>
  \<open>hex.DecodeString\<close>: the bytes decoded up to the first error, and whether there was one
  (a character that is no digit, or an odd length).
\<close>

fun hex_Decode :: "string \<Rightarrow> bytes \<times> bool" where
  "hex_Decode [] = ([], True)"
| "hex_Decode [c] = ([], False)"
| "hex_Decode (c # d # cs) =
     (case (hex_value c, hex_value d) of
        (Some a, Some b) \<Rightarrow> (let (rest, ok) = hex_Decode cs in (of_nat (16 * a + b) # rest, ok))
      | _ \<Rightarrow> ([], False))"

definition hex_DecodeString :: "string \<Rightarrow> bytes option" where
  "hex_DecodeString s = (let (bs, ok) = hex_Decode s in if ok then Some bs else None)"

lemma hex_Decode_Encode: "hex_Decode (hex_EncodeToString bs) = (bs, True)"
proof (induction bs)
  case (Cons b bs)
  have "unat b < 2 ^ LENGTH(8)" by (rule unsigned_less)
  then have "unat b div 16 < 16" and "16 * (unat b div 16) + unat b mod 16 = unat b" by simp_all
  then show ?case using Cons
    by (simp add: hex_EncodeToString_def hex_value_char del: of_nat_add of_nat_mult)
qed (simp add: hex_EncodeToString_def)

lemma hex_roundtrip [simp]: "hex_DecodeString (hex_EncodeToString bs) = Some bs"
  by (simp add: hex_DecodeString_def hex_Decode_Encode)

section \<open>SHA-256\<close>

definition sha_K :: "32 word list" where
  "sha_K =
   [0x428A2F98, 0x71374491, 0xB5C0FBCF, 0xE9B5DBA5, 0x3956C25B, 0x59F111F1, 0x923F82A4, 0xAB1C5ED5,
    0xD807AA98, 0x12835B01, 0x243185BE, 0x550C7DC3, 0x72BE5D74, 0x80DEB1FE, 0x9BDC06A7, 0xC19BF174,
    0xE49B69C1, 0xEFBE4786, 0x0FC19DC6, 0x240CA1CC, 0x2DE92C6F, 0x4A7484AA, 0x5CB0A9DC, 0x76F988DA,
    0x983E5152, 0xA831C66D, 0xB00327C8, 0xBF597FC7, 0xC6E00BF3, 0xD5A79147, 0x06CA6351, 0x14292967,
    0x27B70A85, 0x2E1B2138, 0x4D2C6DFC, 0x53380D13, 0x650A7354, 0x766A0ABB, 0x81C2C92E, 0x92722C85,
    0xA2BFE8A1, 0xA81A664B, 0xC24B8B70, 0xC76C51A3, 0xD192E819, 0xD6990624, 0xF40E3585, 0x106AA070,
    0x19A4C116, 0x1E376C08, 0x2748774C, 0x34B0BCB5, 0x391C0CB3, 0x4ED8AA4A, 0x5B9CCA4F, 0x682E6FF3,
    0x748F82EE, 0x78A5636F, 0x84C87814, 0x8CC70208, 0x90BEFFFA, 0xA4506CEB, 0xBEF9A3F7, 0xC67178F2]"

definition sha_H0 :: "32 word list" where
  "sha_H0 = [0x6A09E667, 0xBB67AE85, 0x3C6EF372, 0xA54FF53A, 0x510E527F, 0x9B05688C, 0x1F83D9AB, 0x5BE0CD19]"

definition rotr :: "nat \<Rightarrow> 32 word \<Rightarrow> 32 word" where
  "rotr n w = drop_bit n w OR push_bit (32 - n) w"

text \<open>The message schedule is kept reversed, the newest word first.\<close>

definition sha_schedule :: "32 word list \<Rightarrow> 32 word list" where
  "sha_schedule ws =
     rev (fold (\<lambda>_ r.
       let s0 = rotr 7 (r ! 14) XOR rotr 18 (r ! 14) XOR drop_bit 3 (r ! 14);
           s1 = rotr 17 (r ! 1) XOR rotr 19 (r ! 1) XOR drop_bit 10 (r ! 1)
       in (r ! 15 + s0 + r ! 6 + s1) # r) [0..<48] (rev ws))"

definition sha_round :: "32 word \<times> 32 word \<Rightarrow> 32 word list \<Rightarrow> 32 word list" where
  "sha_round kw st =
     (case st of
        [a, b, c, d, e, f, g, h] \<Rightarrow>
          (let s1 = rotr 6 e XOR rotr 11 e XOR rotr 25 e;
               ch = (e AND f) XOR (NOT e AND g);
               t1 = h + s1 + ch + fst kw + snd kw;
               s0 = rotr 2 a XOR rotr 13 a XOR rotr 22 a;
               maj = (a AND b) XOR (a AND c) XOR (b AND c)
           in [t1 + s0 + maj, a, b, c, d + t1, e, f, g])
      | _ \<Rightarrow> st)"

definition sha_compress :: "32 word list \<Rightarrow> 32 word list \<Rightarrow> 32 word list" where
  "sha_compress st block = map2 (+) st (fold sha_round (zip sha_K (sha_schedule block)) st)"

fun words32 :: "bytes \<Rightarrow> 32 word list" where
  "words32 (a # b # c # d # bs) =
     (push_bit 24 (ucast a) OR push_bit 16 (ucast b) OR push_bit 8 (ucast c) OR ucast d) # words32 bs"
| "words32 _ = []"

definition word_bytes :: "32 word \<Rightarrow> bytes" where
  "word_bytes w = [ucast (drop_bit 24 w), ucast (drop_bit 16 w), ucast (drop_bit 8 w), ucast w]"

definition sha_pad :: "bytes \<Rightarrow> bytes" where
  "sha_pad m =
     (let n = length m; bits = (of_nat (8 * n) :: 64 word)
      in m @ [0x80] @ replicate ((119 - n mod 64) mod 64) 0
           @ word_bytes (ucast (drop_bit 32 bits)) @ word_bytes (ucast bits))"

fun chunks16 :: "32 word list \<Rightarrow> 32 word list list" where
  "chunks16 [] = []"
| "chunks16 (w # ws) = take 16 (w # ws) # chunks16 (drop 15 ws)"

definition sha256 :: "bytes \<Rightarrow> bytes" where
  "sha256 m =
     concat (map word_bytes (fold (\<lambda>b st. sha_compress st b) (chunks16 (words32 (sha_pad m))) sha_H0))"

text \<open>\<open>hmac.New(sha256.New, key)\<close> over one message; blocks are 64 bytes.\<close>

definition hmac_sha256 :: "bytes \<Rightarrow> bytes \<Rightarrow> bytes" where
  "hmac_sha256 key m =
     (let k0 = (if length key > 64 then sha256 key else key);
          k = k0 @ replicate (64 - length k0) 0
      in sha256 (map (\<lambda>b. b XOR 0x5c) k @ sha256 (map (\<lambda>b. b XOR 0x36) k @ m)))"

end
