(* ===== verification/Http_Base.thy ===== *)
theory Http_Base
  imports Host Digests
begin

text \<open>
  Requests and responses of \<open>net/http\<close> as the handlers see them. A request carries the
  first value of each header, query parameter and cookie; a body is its bytes, or an error
  while reading it. A handler returns what it wrote: status, headers, cookies and body.
\<close>

record http_in =
  in_Method :: string
  in_Path :: string
  in_Query :: "(string \<times> string) list"
  in_Header :: "(string \<times> string) list"
  in_Cookies :: "(string \<times> string) list"
  in_Body :: "go_error + string"

record cookie =
  Cookie_Name :: string
  Cookie_Value :: string
  Cookie_Expires :: "time option"
  Cookie_MaxAge :: int
  Cookie_HttpOnly :: bool
  Cookie_SameSiteLax :: bool
  Cookie_Secure :: bool
  Cookie_Path :: string

record http_out =
  out_Status :: int
  out_Header :: "(string \<times> string) list"
  out_Cookies :: "cookie list"
  out_Body :: string

text \<open>\<open>r.Header.Get\<close> and \<open>r.URL.Query().Get\<close> answer the empty string when absent.\<close>

definition get_or_empty :: "(string \<times> string) list \<Rightarrow> string \<Rightarrow> string" where
  "get_or_empty m k = (case map_of m k of None \<Rightarrow> '''' | Some v \<Rightarrow> v)"

definition Header_Get :: "http_in \<Rightarrow> string \<Rightarrow> string" where
  "Header_Get r k = get_or_empty (in_Header r) k"

definition Query_Get :: "http_in \<Rightarrow> string \<Rightarrow> string" where
  "Query_Get r k = get_or_empty (in_Query r) k"

definition request_Cookie :: "http_in \<Rightarrow> string \<Rightarrow> string option" where
  "request_Cookie r name = map_of (in_Cookies r) name"

definition plain_cookie :: "string \<Rightarrow> string \<Rightarrow> cookie" where
  "plain_cookie name val =
     \<lparr>Cookie_Name = name, Cookie_Value = val, Cookie_Expires = None, Cookie_MaxAge = 0,
      Cookie_HttpOnly = False, Cookie_SameSiteLax = False, Cookie_Secure = False, Cookie_Path = ''/''\<rparr>"

text \<open>A cookie of the client's jar after \<open>Set-Cookie\<close>: a negative age deletes it.\<close>

definition send_cookie :: "cookie \<Rightarrow> http_in \<Rightarrow> http_in" where
  "send_cookie c r =
     r\<lparr>in_Cookies := (if Cookie_MaxAge c < 0 then AList.delete (Cookie_Name c) (in_Cookies r)
                     else AList.update (Cookie_Name c) (Cookie_Value c) (in_Cookies r))\<rparr>"

definition http_status :: "int \<Rightarrow> http_out" where
  "http_status code = \<lparr>out_Status = code, out_Header = [], out_Cookies = [], out_Body = ''''\<rparr>"

text \<open>\<open>http.Error\<close> and \<open>http.Redirect\<close>; the body of a redirect is not modelled.\<close>

definition http_Error :: "string \<Rightarrow> int \<Rightarrow> http_out" where
  "http_Error msg code =
     \<lparr>out_Status = code,
      out_Header = [(''Content-Type'', ''text/plain; charset=utf-8''), (''X-Content-Type-Options'', ''nosniff'')],
      out_Cookies = [], out_Body = msg @ [CHR 0x0A]\<rparr>"

definition StatusFound :: int where "StatusFound = 302"

definition http_Redirect :: "string \<Rightarrow> int \<Rightarrow> http_out" where
  "http_Redirect url code =
     \<lparr>out_Status = code, out_Header = [(''Location'', url)], out_Cookies = [], out_Body = ''''\<rparr>"

definition with_cookies :: "cookie list \<Rightarrow> http_out \<Rightarrow> http_out" where
  "with_cookies cs out = out\<lparr>out_Cookies := cs @ out_Cookies out\<rparr>"

text \<open>\<open>io.ReadAll(io.LimitReader(r.Body, n))\<close>.\<close>

definition read_body :: "http_in \<Rightarrow> nat \<Rightarrow> go_error + string" where
  "read_body r n = (case in_Body r of Inl e \<Rightarrow> Inl e | Inr b \<Rightarrow> Inr (take n b))"

lemma get_or_empty_simps [simp]:
  "get_or_empty [] k = ''''"
  "get_or_empty ((k', v) # m) k = (if k' = k then v else get_or_empty m k)"
  by (auto simp: get_or_empty_def)

lemma out_simps [simp]:
  "out_Status (http_Error m c) = c" "out_Status (http_status c) = c"
  "out_Status (http_Redirect u c) = c" "out_Status (with_cookies cs out) = out_Status out"
  "out_Cookies (http_Error m c) = []" "out_Cookies (http_status c) = []"
  "out_Cookies (http_Redirect u c) = []" "out_Cookies (with_cookies cs out) = cs @ out_Cookies out"
  "out_Header (with_cookies cs out) = out_Header out"
  "out_Body (with_cookies cs out) = out_Body out"
  by (simp_all add: http_Error_def http_status_def http_Redirect_def with_cookies_def)

end
