(* ===== verification/Api_Keys.thy ===== *)
theory Api_Keys
  imports Crypto
begin

text \<open>
  API keys: the random identifiers of \<open>core/adapter/idgen\<close>, the hashing wrapper of
  \<open>core/adapter/keyhash\<close>, and the use cases that mint and revoke keys. The library
  \<open>bcrypt\<close> is a parameter: a hash function of a salt and a password that may fail, and a
  comparison.
\<close>

section \<open>NanoID (\<open>core/adapter/idgen/nanoid.go\<close>)\<close>

text \<open>
  \<open>base32.StdEncoding\<close> without padding: the bits of the bytes, most significant first, in
  groups of five, the last group filled with zeros; then \<open>strings.ToLower\<close>.
\<close>

definition byte_bits :: "8 word \<Rightarrow> bool list" where
  "byte_bits b = map (\<lambda>i. bit b (7 - i)) [0..<8]"

fun bits_value :: "bool list \<Rightarrow> nat" where
  "bits_value [] = 0"
| "bits_value (b # bs) = of_bool b * 2 ^ length bs + bits_value bs"

fun groups5 :: "bool list \<Rightarrow> bool list list" where
  "groups5 [] = []"
| "groups5 (b # bs) =
     (let g = take 5 (b # bs) in (g @ replicate (5 - length g) False) # groups5 (drop 4 bs))"

definition base32_alphabet :: string where
  "base32_alphabet = ''ABCDEFGHIJKLMNOPQRSTUVWXYZ234567''"

definition base32_EncodeToString :: "bytes \<Rightarrow> string" where
  "base32_EncodeToString bs =
     map (\<lambda>g. base32_alphabet ! bits_value g) (groups5 (concat (map byte_bits bs)))"

definition to_lower :: "char \<Rightarrow> char" where
  "to_lower c = (if between 65 90 c then char_of (byte c + 32) else c)"

definition ToLower :: "string \<Rightarrow> string" where "ToLower s = map to_lower s"

definition apiKeyBytes :: nat where "apiKeyBytes = 24"

definition randBase32 :: "nat \<Rightarrow> 'z go_env_scheme \<Rightarrow> string \<times> 'z go_env_scheme" where
  "randBase32 nBytes w =
     (let (b, w') = rand_Read nBytes w; enc = base32_EncodeToString b in (ToLower enc, w'))"

definition NanoID_NewJobID :: "'z go_env_scheme \<Rightarrow> string \<times> 'z go_env_scheme" where
  "NanoID_NewJobID w = (let (r, w') = randBase32 9 w in (''j_'' @ r, w'))"

definition NanoID_NewAPIKeyID :: "'z go_env_scheme \<Rightarrow> string \<times> 'z go_env_scheme" where
  "NanoID_NewAPIKeyID w = (let (r, w') = randBase32 9 w in (''k_'' @ r, w'))"

definition NanoID_NewUserID :: "'z go_env_scheme \<Rightarrow> string \<times> 'z go_env_scheme" where
  "NanoID_NewUserID w = (let (r, w') = randBase32 9 w in (''u_'' @ r, w'))"

definition NanoID_NewAPIKeyPlaintext :: "'z go_env_scheme \<Rightarrow> (string \<times> string) \<times> 'z go_env_scheme" where
  "NanoID_NewAPIKeyPlaintext w =
     (let (r, w') = randBase32 apiKeyBytes w; plain = ''agdkey_'' @ r
      in ((plain, take 8 plain), w'))"

definition NanoID :: "'z go_env_scheme IDGenerator" where
  "NanoID =
     \<lparr>IDGen_NewJobID = NanoID_NewJobID, IDGen_NewAPIKeyID = NanoID_NewAPIKeyID,
      IDGen_NewUserID = NanoID_NewUserID, IDGen_NewAPIKeyPlaintext = NanoID_NewAPIKeyPlaintext\<rparr>"

section \<open>The encoding is injective\<close>

lemma bits_value_less: "bits_value bs < 2 ^ length bs"
  by (induction bs) auto

lemma bits_value_inj: "length a = length b \<Longrightarrow> bits_value a = bits_value b \<Longrightarrow> a = b"
proof (induction a b rule: list_induct2)
  case (Cons x xs y ys)
  note lt = bits_value_less [of xs] bits_value_less [of ys]
  have "x = y" using Cons lt by (cases x; cases y) simp_all
  then show ?case using Cons by simp
qed simp

lemma byte_bits_inj: "byte_bits a = byte_bits b \<Longrightarrow> a = b"
proof (rule bit_word_eqI)
  fix n
  assume eq: "byte_bits a = byte_bits b" and n: "n < LENGTH(8)"
  then have "byte_bits a ! (7 - n) = byte_bits b ! (7 - n)" by simp
  then show "bit a n = bit b n" using n by (simp add: byte_bits_def)
qed

lemma concat_bits_inj:
  "length as = length bs \<Longrightarrow> concat (map byte_bits as) = concat (map byte_bits bs) \<Longrightarrow> as = bs"
  by (induction as bs rule: list_induct2) (auto simp: byte_bits_inj byte_bits_def)

lemma length_concat_bits: "length (concat (map byte_bits bs)) = 8 * length bs"
  by (induction bs) (simp_all add: byte_bits_def)

lemma groups5_lengths: "g \<in> set (groups5 bs) \<Longrightarrow> length g = 5"
  by (induction bs rule: groups5.induct) (auto simp: Let_def)

lemma length_groups5: "length (groups5 bs) = (length bs + 4) div 5"
proof (induction bs rule: groups5.induct)
  case (2 b bs)
  then show ?case
  proof (cases "length bs < 4")
    case False
    then obtain n where n: "length bs = n + 4" by (metis le_add_diff_inverse2 not_less)
    have "length (groups5 (b # bs)) = Suc ((n + 4) div 5)"
      using 2 n by (simp add: Let_def)
    also have "\<dots> = (n + 4 + 5) div 5" by simp
    finally show ?thesis using n by simp
  qed simp
qed simp

lemma groups5_concat: "\<exists>k. concat (groups5 bs) = bs @ replicate k False"
proof (induction bs rule: groups5.induct)
  case (2 b bs)
  let ?g = "take 5 (b # bs)"
  obtain k where k: "concat (groups5 (drop 4 bs)) = drop 4 bs @ replicate k False" using 2 by auto
  show ?case
  proof (cases "length (b # bs) < 5")
    case True
    then have "drop 4 bs = []" by simp
    then show ?thesis using True k by (auto simp: Let_def)
  next
    case False
    then have "concat (groups5 (b # bs)) = b # (take 4 bs @ drop 4 bs) @ replicate k False"
      using k by (simp add: Let_def)
    then show ?thesis by (simp only: append_take_drop_id) auto
  qed
qed simp

lemma groups5_inj:
  assumes "groups5 a = groups5 b" and "length a = length b"
  shows "a = b"
proof -
  obtain k where k: "concat (groups5 a) = a @ replicate k False"
    using groups5_concat by blast
  obtain m where m: "concat (groups5 b) = b @ replicate m False"
    using groups5_concat by blast
  have "a @ replicate k False = b @ replicate m False"
    unfolding k [symmetric] m [symmetric] assms(1) ..
  then show ?thesis using append_eq_append_conv [OF disjI1 [OF assms(2)]] by blast
qed

lemma alphabet_inj:
  "x < 32 \<Longrightarrow> y < 32 \<Longrightarrow> to_lower (base32_alphabet ! x) = to_lower (base32_alphabet ! y) \<Longrightarrow> x = y"
proof -
  have "distinct (map to_lower base32_alphabet)" by code_simp
  moreover have "length base32_alphabet = 32" by (simp add: base32_alphabet_def)
  ultimately show "x < 32 \<Longrightarrow> y < 32 \<Longrightarrow>
      to_lower (base32_alphabet ! x) = to_lower (base32_alphabet ! y) \<Longrightarrow> x = y"
    using nth_eq_iff_index_eq [of "map to_lower base32_alphabet" x y] by simp
qed

lemma randBase32_inj:
  assumes "length a = length b"
    and "ToLower (base32_EncodeToString a) = ToLower (base32_EncodeToString b)"
  shows "a = b"
proof -
  let ?ga = "groups5 (concat (map byte_bits a))" and ?gb = "groups5 (concat (map byte_bits b))"
  let ?f = "\<lambda>g. to_lower (base32_alphabet ! bits_value g)"
  have inj: "g = h" if "g \<in> set ?ga \<union> set ?gb" "h \<in> set ?ga \<union> set ?gb" "?f g = ?f h" for g h
  proof -
    have "length g = 5" "length h = 5" using that groups5_lengths by auto
    moreover from this have "bits_value g < 32" "bits_value h < 32"
      using bits_value_less [of g] bits_value_less [of h] by simp_all
    ultimately show "g = h" using alphabet_inj that(3) bits_value_inj by metis
  qed
  have "map ?f ?ga = map ?f ?gb"
    using assms(2) by (simp add: ToLower_def base32_EncodeToString_def comp_def)
  then have "?ga = ?gb"
    by (rule map_inj_on) (auto intro!: inj_onI inj)
  then show ?thesis
    using concat_bits_inj [OF assms(1)] groups5_inj assms(1) by (metis length_concat_bits)
qed

lemma length_base32 [simp]: "length (base32_EncodeToString bs) = (8 * length bs + 4) div 5"
  by (simp only: base32_EncodeToString_def length_map length_groups5 length_concat_bits)

lemma length_randBase32: "length (fst (randBase32 n w)) = (8 * n + 4) div 5"
  by (simp add: randBase32_def rand_Read_def ToLower_def)

lemma randBase32_chars: "set (fst (randBase32 n w)) \<subseteq> set (map to_lower base32_alphabet)"
proof -
  have "base32_alphabet ! bits_value g \<in> set base32_alphabet" if "length g = 5" for g
    using bits_value_less [of g] that by (intro nth_mem) (simp add: base32_alphabet_def)
  then show ?thesis
    by (auto simp: randBase32_def rand_Read_def ToLower_def base32_EncodeToString_def
        dest!: groups5_lengths)
qed

section \<open>Hashing of minted keys (\<open>core/adapter/keyhash/keyhash.go\<close>)\<close>

text \<open>
  \<open>GenerateFromPassword\<close> draws a 16-byte salt and hashes; \<open>CompareHashAndPassword\<close> answers
  whether a hash is one of a password. What the library documents is \<open>bcrypt_ok\<close>: a hash
  matches its own password, and only a password of more than 72 bytes is refused.
\<close>

record bcrypt =
  bcrypt_Generate :: "bytes \<Rightarrow> string \<Rightarrow> go_error + string"
  bcrypt_Compare :: "string \<Rightarrow> string \<Rightarrow> bool"

definition bcrypt_ok :: "bcrypt \<Rightarrow> bool" where
  "bcrypt_ok b \<longleftrightarrow>
     (\<forall>salt p h. bcrypt_Generate b salt p = Inr h \<longrightarrow> bcrypt_Compare b h p)
     \<and> (\<forall>salt p. length p \<le> 72 \<longrightarrow> \<not> isl (bcrypt_Generate b salt p))"

definition GenerateFromPassword :: "bcrypt \<Rightarrow> string \<Rightarrow> ('z go_env_scheme, string) act" where
  "GenerateFromPassword b p w =
     (let (salt, w') = rand_Read 16 w in (bcrypt_Generate b salt p, w'))"

definition keyhash_Create ::
  "bcrypt \<Rightarrow> 'z go_env_scheme APIKeysRepository \<Rightarrow> APIKey \<Rightarrow> ('z go_env_scheme, unit) act" where
  "keyhash_Create b inner k s =
     (case GenerateFromPassword b (APIKey_Hash k) s of
        (Inl e, s1) \<Rightarrow> (Inl e, s1)
      | (Inr digest, s1) \<Rightarrow>
          let clone = k\<lparr>APIKey_Hash := digest\<rparr> in Keys_Create inner clone s1)"

definition keyhash_Repo ::
  "bcrypt \<Rightarrow> 'z go_env_scheme APIKeysRepository \<Rightarrow> 'z go_env_scheme APIKeysRepository" where
  "keyhash_Repo b inner =
     \<lparr>Keys_Create = keyhash_Create b inner, Keys_GetByPrefix = Keys_GetByPrefix inner,
      Keys_ListForUser = Keys_ListForUser inner, Keys_Delete = Keys_Delete inner,
      Keys_RecordUsed = Keys_RecordUsed inner\<rparr>"

section \<open>MintAPIKey and RevokeAPIKey (\<open>core/usecase\<close>)\<close>

record 's MintAPIKey =
  MintAPIKey_Keys :: "'s APIKeysRepository"
  MintAPIKey_IDGen :: "'s IDGenerator"
  MintAPIKey_Clock :: "'s Clock"

definition MintAPIKey_Execute ::
  "'s MintAPIKey \<Rightarrow> UserID \<Rightarrow> string \<Rightarrow> ('s, APIKey \<times> string) act" where
  "MintAPIKey_Execute uc uid name s =
     (if uid = '''' \<or> name = '''' then (Inl ErrInvalidInput, s)
      else
        let ((plain, prefix), s1) = IDGen_NewAPIKeyPlaintext (MintAPIKey_IDGen uc) s;
            hash = plain;
            (kid, s2) = IDGen_NewAPIKeyID (MintAPIKey_IDGen uc) s1;
            (now, s3) = Clock_Now (MintAPIKey_Clock uc) s2;
            k = NewAPIKey kid uid name prefix hash now
        in case Keys_Create (MintAPIKey_Keys uc) k s3 of
             (Inl e, s4) \<Rightarrow> (Inl e, s4)
           | (Inr _, s4) \<Rightarrow> (Inr (k, plain), s4))"

definition RevokeAPIKey_Execute ::
  "'s APIKeysRepository \<Rightarrow> APIKeyID \<Rightarrow> UserID \<Rightarrow> ('s, unit) act" where
  "RevokeAPIKey_Execute keys kid uid s =
     (if kid = '''' \<or> uid = '''' then (Inl ErrInvalidInput, s) else Keys_Delete keys kid uid s)"

section \<open>Bearer keys (\<open>core/adapter/http/auth/resolver.go\<close>)\<close>

text \<open>The candidates in order; the first whose hash matches is used and stamped.\<close>

fun match_key :: "bcrypt \<Rightarrow> string \<Rightarrow> APIKey list \<Rightarrow> APIKey option" where
  "match_key b plain [] = None"
| "match_key b plain (k # ks) =
     (if bcrypt_Compare b (APIKey_Hash k) plain then Some k else match_key b plain ks)"

definition resolveBearer ::
  "bcrypt \<Rightarrow> 'z go_env_scheme APIKeysRepository \<Rightarrow> string \<Rightarrow> ('z go_env_scheme, UserID) act" where
  "resolveBearer b keys plain s =
     (if length plain < 8 then (Inl (Opaque ''short''), s)
      else case Keys_GetByPrefix keys (take 8 plain) s of
        (Inl e, s1) \<Rightarrow> (Inl e, s1)
      | (Inr candidates, s1) \<Rightarrow>
          (case match_key b plain candidates of
             None \<Rightarrow> (Inl (Opaque ''no match''), s1)
           | Some k \<Rightarrow>
               let (now, s2) = time_Now s1;
                   (_, s3) = Keys_RecordUsed keys (APIKey_ID k) now s2
               in (Inr (APIKey_UserID k), s3)))"

section \<open>What a minted key is good for\<close>

locale key_env = keys_port keys keys_of ok
  for keys :: "'z go_env_scheme APIKeysRepository"
    and keys_of :: "'z go_env_scheme \<Rightarrow> APIKeyID \<rightharpoonup> APIKey"
    and ok :: "'z go_env_scheme \<Rightarrow> bool" +
  assumes key_entropy: "ok (s\<lparr>env_entropy_used := n\<rparr>) = ok s"
      "keys_of (s\<lparr>env_entropy_used := n\<rparr>) = keys_of s"
    and key_clock: "ok (s\<lparr>env_clock_reads := n\<rparr>) = ok s"
      "keys_of (s\<lparr>env_clock_reads := n\<rparr>) = keys_of s"
begin

lemma env_reads_keep:
  assumes "ok s"
  shows "time_Now s = (t, s') \<Longrightarrow> ok s' \<and> keys_of s' = keys_of s"
    and "rand_Read n s = (bs, s') \<Longrightarrow> ok s' \<and> keys_of s' = keys_of s"
    and "randBase32 n s = (x, s') \<Longrightarrow> ok s' \<and> keys_of s' = keys_of s"
  using assms by (auto simp: time_Now_def rand_Read_def randBase32_def key_entropy key_clock)

lemma keyhash_Create_run:
  assumes ok: "ok s" and run: "Keys_Create (keyhash_Repo b keys) k s = (r, s')"
  shows "ok s' \<and> (if isl r then keys_of s' = keys_of s
     else keys_of s (APIKey_ID k) = None \<and>
       (\<exists>salt digest. bcrypt_Generate b salt (APIKey_Hash k) = Inr digest
          \<and> keys_of s' = (keys_of s)(APIKey_ID k \<mapsto> k\<lparr>APIKey_Hash := digest\<rparr>)))"
proof -
  obtain salt s1 where rd: "rand_Read 16 s = (salt, s1)" by fastforce
  note k1 = env_reads_keep(2) [OF ok rd]
  show ?thesis
  proof (cases "bcrypt_Generate b salt (APIKey_Hash k)")
    case (Inl e)
    then show ?thesis using run rd k1
      by (auto simp: keyhash_Repo_def keyhash_Create_def GenerateFromPassword_def)
  next
    case (Inr digest)
    let ?k = "k\<lparr>APIKey_Hash := digest\<rparr>"
    have cr: "Keys_Create keys ?k s1 = (r, s')"
      using run rd Inr by (simp add: keyhash_Repo_def keyhash_Create_def GenerateFromPassword_def Let_def)
    show ?thesis
    proof (cases r)
      case (Inl e)
      then show ?thesis using KCreate_err [of s1 ?k] k1 cr by simp
    next
      case r: (Inr x)
      then show ?thesis using KCreate_ok [of s1 ?k x s'] k1 cr Inr by auto
    qed
  qed
qed

lemma match_key_Some: "match_key b plain ks = Some k \<Longrightarrow> k \<in> set ks \<and> bcrypt_Compare b (APIKey_Hash k) plain"
  by (induction ks) (auto split: if_splits)

lemma match_key_None: "match_key b plain ks = None \<longleftrightarrow> (\<forall>k \<in> set ks. \<not> bcrypt_Compare b (APIKey_Hash k) plain)"
  by (induction ks) auto

text \<open>A bearer token is accepted only for the user of a stored key that matches it.\<close>

lemma resolveBearer_sound:
  assumes ok: "ok s" and run: "resolveBearer b keys plain s = (Inr u, s')"
  shows "\<exists>i k. keys_of s i = Some k \<and> APIKey_UserID k = u \<and> APIKey_Prefix k = take 8 plain
    \<and> bcrypt_Compare b (APIKey_Hash k) plain"
proof -
  obtain g s1 where g: "Keys_GetByPrefix keys (take 8 plain) s = (g, s1)" by fastforce
  obtain ks k where ks: "g = Inr ks" and k: "match_key b plain ks = Some k" and u: "APIKey_UserID k = u"
    using run g by (auto simp: resolveBearer_def split: if_splits sum.splits option.splits prod.splits)
  have "k \<in> ran (keys_of s)" and "APIKey_Prefix k = take 8 plain"
    using GetByPrefix_ok [OF ok] g ks match_key_Some [OF k] by auto
  then show ?thesis using u match_key_Some [OF k] by (auto simp: ran_def)
qed

lemma resolveBearer_keeps:
  assumes ok: "ok s" and run: "resolveBearer b keys plain s = (r, s')"
  shows "ok s' \<and> dom (keys_of s') = dom (keys_of s)"
proof (cases "length plain < 8")
  case True
  then show ?thesis using run ok by (simp add: resolveBearer_def)
next
  case len: False
  obtain g s1 where g: "Keys_GetByPrefix keys (take 8 plain) s = (g, s1)" by fastforce
  note k1 = keepsD [OF GetByPrefix_keeps ok g]
  show ?thesis
  proof (cases g)
    case (Inl e)
    then show ?thesis using run g k1 len by (simp add: resolveBearer_def)
  next
    case (Inr ks)
    show ?thesis
    proof (cases "match_key b plain ks")
      case None
      then show ?thesis using run g k1 len Inr by (simp add: resolveBearer_def)
    next
      case (Some k)
      obtain t s2 where now: "time_Now s1 = (t, s2)" by fastforce
      obtain q s3 where rec: "Keys_RecordUsed keys (APIKey_ID k) t s2 = (q, s3)" by fastforce
      note k2 = env_reads_keep(1) [OF k1(1) now]
      have s': "s' = s3" using run g len Inr Some now rec by (simp add: resolveBearer_def)
      have ok2: "ok s2" "keys_of s2 = keys_of s" using k1 k2 by simp_all
      show ?thesis
      proof (cases q)
        case (Inl e)
        then show ?thesis using RecordUsed_err [OF ok2(1)] rec ok2(2) s' by simp
      next
        case (Inr x)
        then have "Keys_RecordUsed keys (APIKey_ID k) t s2 = (Inr x, s3)" using rec by simp
        then obtain k' where "ok s3" and "keys_of s2 (APIKey_ID k) = Some k'"
          and "keys_of s3 = (keys_of s2)(APIKey_ID k \<mapsto> k'\<lparr>APIKey_LastUsedAt := Some t\<rparr>)"
          using RecordUsed_ok [OF ok2(1)] by blast
        then show ?thesis using ok2(2) s' by auto
      qed
    qed
  qed
qed

end

interpretation pg: key_env "APIKeysRepo :: 'z db_scheme APIKeysRepository" pg_keys_of pg_ok
  by unfold_locales simp_all

section \<open>Properties of identifiers and keys\<close>

lemma randBase32_eq:
  "fst (randBase32 n w) = fst (randBase32 n v) \<longleftrightarrow> fst (rand_Read n w) = fst (rand_Read n v)"
proof
  assume eq: "fst (randBase32 n w) = fst (randBase32 n v)"
  show "fst (rand_Read n w) = fst (rand_Read n v)"
    by (rule randBase32_inj) (use eq in \<open>simp_all add: randBase32_def split_beta Let_def\<close>)
qed (simp add: randBase32_def split_beta Let_def)

theorem job_id_shape:
  "(fst (NanoID_NewJobID w) = fst (NanoID_NewJobID v) \<longleftrightarrow> fst (rand_Read 9 w) = fst (rand_Read 9 v))
   \<and> length (fst (NanoID_NewJobID w)) = 17
   \<and> set (fst (NanoID_NewJobID w)) \<subseteq> set ''_abcdefghijklmnopqrstuvwxyz234567''"
proof -
  have "set (map to_lower base32_alphabet) \<subseteq> set ''_abcdefghijklmnopqrstuvwxyz234567''"
    by code_simp
  then have "set (fst (randBase32 9 w)) \<subseteq> set ''_abcdefghijklmnopqrstuvwxyz234567''"
    using randBase32_chars by (rule order_trans [rotated])
  then show ?thesis
    using randBase32_eq [of 9 w v] by (simp add: NanoID_NewJobID_def split_beta length_randBase32)
qed

theorem key_prefix_space:
  "\<exists>c \<in> set ''abcdefghijklmnopqrstuvwxyz234567''.
     snd (fst (NanoID_NewAPIKeyPlaintext w)) = ''agdkey_'' @ [c]
     \<and> take 8 (fst (fst (NanoID_NewAPIKeyPlaintext w))) = ''agdkey_'' @ [c]"
proof -
  have "length (fst (randBase32 apiKeyBytes w)) = 39" by (simp add: length_randBase32 apiKeyBytes_def)
  then obtain c r where r: "fst (randBase32 apiKeyBytes w) = c # r"
    by (cases "fst (randBase32 apiKeyBytes w)") auto
  then have "c \<in> set (map to_lower base32_alphabet)" using randBase32_chars [of apiKeyBytes w] by auto
  moreover have "set (map to_lower base32_alphabet) = set ''abcdefghijklmnopqrstuvwxyz234567''"
    by code_simp
  ultimately show ?thesis using r by (auto simp: NanoID_NewAPIKeyPlaintext_def split_beta Let_def)
qed

end
