(* ===== verification/Http_Auth.thy ===== *)
theory Http_Auth
  imports Http_Base Api_Keys
begin

text \<open>
  Sign-in, \<open>core/adapter/http/auth\<close>: cookie sessions, the resolver that turns a request into
  a user (a bearer API key first, then the session cookie), and GitHub OAuth.
\<close>

section \<open>Sessions (\<open>sessions.go\<close>, \<open>session_middleware.go\<close>)\<close>

text \<open>The slice of the sessions repository the code depends on.\<close>

record 's SessionStore =
  Session_Create :: "bytes \<Rightarrow> UserID \<Rightarrow> time \<Rightarrow> ('s, unit) act"
  Session_ResolveUser :: "bytes \<Rightarrow> ('s, UserID) act"
  Session_Delete :: "bytes \<Rightarrow> ('s, unit) act"

definition SessionsRepo :: "'z db_scheme SessionStore" where
  "SessionsRepo =
     \<lparr>Session_Create = SessionsRepo_Create, Session_ResolveUser = SessionsRepo_ResolveUser,
      Session_Delete = SessionsRepo_Delete\<rparr>"

definition cookieName :: string where "cookieName = ''agdsess''"
definition cookieMaxAge :: int where "cookieMaxAge = 30 * 24 * Hour"

record 's Sessions =
  Sessions_store :: "'s SessionStore"
  Sessions_secure :: bool

definition encodeCookieValue :: "bytes \<Rightarrow> string" where
  "encodeCookieValue sid = hex_EncodeToString sid"

definition decodeCookieValue :: "string \<Rightarrow> bytes option" where
  "decodeCookieValue v =
     (case hex_DecodeString v of None \<Rightarrow> None | Some b \<Rightarrow> if length b = 32 then Some b else None)"

definition session_cookie :: "bool \<Rightarrow> bytes \<Rightarrow> time \<Rightarrow> cookie" where
  "session_cookie secure sid expires =
     \<lparr>Cookie_Name = cookieName, Cookie_Value = encodeCookieValue sid,
      Cookie_Expires = Some expires, Cookie_MaxAge = cookieMaxAge div Second,
      Cookie_HttpOnly = True, Cookie_SameSiteLax = True, Cookie_Secure = secure,
      Cookie_Path = ''/''\<rparr>"

definition Sessions_Login ::
  "'z go_env_scheme Sessions \<Rightarrow> UserID \<Rightarrow> ('z go_env_scheme, cookie) act" where
  "Sessions_Login ss uid s =
     (let (sid, s1) = rand_Read 32 s;
          (now, s2) = time_Now s1;
          expires = now + cookieMaxAge
      in case Session_Create (Sessions_store ss) sid uid expires s2 of
           (Inl e, s3) \<Rightarrow> (Inl e, s3)
         | (Inr _, s3) \<Rightarrow> (Inr (session_cookie (Sessions_secure ss) sid expires), s3))"

definition cleared_cookie :: "string \<Rightarrow> cookie" where
  "cleared_cookie name = (plain_cookie name '''')\<lparr>Cookie_MaxAge := - 1\<rparr>"

definition Sessions_Logout :: "'s Sessions \<Rightarrow> http_in \<Rightarrow> 's \<Rightarrow> cookie \<times> 's" where
  "Sessions_Logout ss r s =
     (let s1 =
        (case request_Cookie r cookieName of
           None \<Rightarrow> s
         | Some v \<Rightarrow>
             (case decodeCookieValue v of
                None \<Rightarrow> s
              | Some sid \<Rightarrow> snd (Session_Delete (Sessions_store ss) sid s)))
      in (cleared_cookie cookieName, s1))"

definition Sessions_UserFromRequest :: "'s Sessions \<Rightarrow> http_in \<Rightarrow> ('s, UserID) act" where
  "Sessions_UserFromRequest ss r s =
     (case request_Cookie r cookieName of
        None \<Rightarrow> (Inl (Opaque ''no session cookie''), s)
      | Some v \<Rightarrow>
          (case decodeCookieValue v of
             None \<Rightarrow> (Inl (Opaque ''invalid session cookie''), s)
           | Some sid \<Rightarrow> Session_ResolveUser (Sessions_store ss) sid s))"

section \<open>Resolver (\<open>resolver.go\<close>, \<open>BearerToken\<close> of \<open>middleware.go\<close>)\<close>

definition bearer_prefix :: string where "bearer_prefix = ''Bearer ''"

definition Resolver_Resolve ::
  "bcrypt \<Rightarrow> 'z go_env_scheme Sessions \<Rightarrow> 'z go_env_scheme APIKeysRepository \<Rightarrow> http_in \<Rightarrow>
   ('z go_env_scheme, UserID) act" where
  "Resolver_Resolve b ss keys r s =
     (let h = Header_Get r ''Authorization'';
          (bearer, s1) =
            (if HasPrefix h bearer_prefix then resolveBearer b keys (TrimPrefix h bearer_prefix) s
             else (Inl (Opaque ''no bearer''), s))
      in case bearer of
           Inr uid \<Rightarrow> (Inr uid, s1)
         | Inl _ \<Rightarrow>
             (case Sessions_UserFromRequest ss r s1 of
                (Inr uid, s2) \<Rightarrow> (Inr uid, s2)
              | (Inl _, s2) \<Rightarrow> (Inl (Opaque ''no valid auth''), s2)))"

section \<open>GitHub OAuth (\<open>github_oauth.go\<close>)\<close>

text \<open>
  GitHub's JSON answers are decoded into the token answer (access token, error, description) and the user.
\<close>

record ghUser =
  ghUser_ID :: int
  ghUser_Login :: string
  ghUser_Email :: string

record token_answer =
  token_AccessToken :: string
  token_Error :: string
  token_ErrorDesc :: string

text \<open>The text of a decoding error, which the client is shown, is a parameter: only that it is one matters.\<close>

type_synonym decode_errors = "string \<Rightarrow> string"

definition token_zero :: token_answer where
  "token_zero = \<lparr>token_AccessToken = '''', token_Error = '''', token_ErrorDesc = ''''\<rparr>"

definition token_fields :: "token_answer field list" where
  "token_fields =
     [(''access_token'', string_field (\<lambda>s. token_AccessToken_update (\<lambda>_. s))),
      (''error'', string_field (\<lambda>s. token_Error_update (\<lambda>_. s))),
      (''error_description'', string_field (\<lambda>s. token_ErrorDesc_update (\<lambda>_. s)))]"

definition user_zero :: ghUser where
  "user_zero = \<lparr>ghUser_ID = 0, ghUser_Login = '''', ghUser_Email = ''''\<rparr>"

definition user_fields :: "ghUser field list" where
  "user_fields =
     [(''id'', int64_field (\<lambda>i. ghUser_ID_update (\<lambda>_. i))),
      (''login'', string_field (\<lambda>s. ghUser_Login_update (\<lambda>_. s))),
      (''email'', string_field (\<lambda>s. ghUser_Email_update (\<lambda>_. s)))]"

definition Decode_or :: "decode_errors \<Rightarrow> 'r field list \<Rightarrow> 'r \<Rightarrow> string \<Rightarrow> go_error + 'r" where
  "Decode_or js members zero s =
     (case Decode_struct members zero s of None \<Rightarrow> Inl (Opaque (js s)) | Some r \<Rightarrow> Inr r)"

definition decode_token :: "decode_errors \<Rightarrow> string \<Rightarrow> go_error + token_answer" where
  "decode_token js = Decode_or js token_fields token_zero"

definition decode_user :: "decode_errors \<Rightarrow> string \<Rightarrow> go_error + ghUser" where
  "decode_user js = Decode_or js user_fields user_zero"

record 's IdentityStore =
  Identity_Upsert :: "GitHubIdentity \<Rightarrow> ('s, unit) act"
  Identity_ByGitHubID :: "int \<Rightarrow> ('s, GitHubIdentity) act"

definition IdentitiesRepo :: "'z db_scheme IdentityStore" where
  "IdentitiesRepo =
     \<lparr>Identity_Upsert = IdentitiesRepo_Upsert, Identity_ByGitHubID = IdentitiesRepo_ByGitHubID\<rparr>"

record OAuthConfig =
  OAuth_ClientID :: string
  OAuth_ClientSecret :: string
  OAuth_RedirectURL :: string
  OAuth_CookieSecure :: bool

record 's OAuth =
  OAuth_cfg :: OAuthConfig
  OAuth_sessions :: "'s Sessions"
  OAuth_identities :: "'s IdentityStore"
  OAuth_users :: "UserID \<Rightarrow> string \<Rightarrow> time \<Rightarrow> ('s, unit) act"
  OAuth_idgen :: "'s IDGenerator"
  OAuth_clock :: "'s Clock"

definition oauthStateCookie :: string where "oauthStateCookie = ''agdoauthstate''"

text \<open>\<open>url.Values.Encode\<close>: keys sorted, both sides query-escaped.\<close>

definition unreserved :: "char \<Rightarrow> bool" where
  "unreserved c \<longleftrightarrow>
     between 97 122 c \<or> between 65 90 c \<or> is_digit c \<or> c \<in> {CHR ''-'', CHR ''_'', CHR ''.'', CHR ''~''}"

definition upper_hex :: "nat \<Rightarrow> char" where "upper_hex d = ''0123456789ABCDEF'' ! d"

definition QueryEscape :: "string \<Rightarrow> string" where
  "QueryEscape s =
     concat (map (\<lambda>c. if unreserved c then [c] else if c = CHR '' '' then ''+''
                      else [CHR ''%'', upper_hex (byte c div 16), upper_hex (byte c mod 16)]) s)"

definition Values_Encode :: "(string \<times> string) list \<Rightarrow> string" where
  "Values_Encode kvs =
     str_join ''&'' (map (\<lambda>(k, v). QueryEscape k @ ''='' @ QueryEscape v) (sort_key fst kvs))"

definition OAuth_Login :: "'s OAuth \<Rightarrow> 's \<Rightarrow> http_out \<times> 's" where
  "OAuth_Login oa s =
     (let (state, s1) = IDGen_NewJobID (OAuth_idgen oa) s;
          ck = \<lparr>Cookie_Name = oauthStateCookie, Cookie_Value = state, Cookie_Expires = None,
                Cookie_MaxAge = 600, Cookie_HttpOnly = True, Cookie_SameSiteLax = True,
                Cookie_Secure = OAuth_CookieSecure (OAuth_cfg oa), Cookie_Path = ''/''\<rparr>;
          q = [(''client_id'', OAuth_ClientID (OAuth_cfg oa)),
               (''redirect_uri'', OAuth_RedirectURL (OAuth_cfg oa)),
               (''scope'', ''read:user user:email''), (''state'', state)];
          u = ''https://github.com/login/oauth/authorize?'' @ Values_Encode q
      in (with_cookies [ck] (http_Redirect u StatusFound), s1))"

definition exchangeCode ::
  "decode_errors \<Rightarrow> OAuthConfig \<Rightarrow> string \<Rightarrow> ('z host_scheme, string) act" where
  "exchangeCode js cfg code h =
     (let body = Values_Encode
            [(''client_id'', OAuth_ClientID cfg), (''client_secret'', OAuth_ClientSecret cfg),
             (''code'', code)];
          req = \<lparr>req_Method = ''POST'', req_URL = ''https://github.com/login/oauth/access_token'',
                 req_Header = [(''Accept'', ''application/json''),
                               (''Content-Type'', ''application/x-www-form-urlencoded'')],
                 req_Body = body\<rparr>
      in case http_Do req h of
           (Inl e, h1) \<Rightarrow> (Inl e, h1)
         | (Inr resp, h1) \<Rightarrow>
             (case decode_token js (resp_Body resp) of
                Inl e \<Rightarrow> (Inl e, h1)
              | Inr parsed \<Rightarrow>
                  if token_Error parsed \<noteq> ''''
                  then (Inl (Opaque (''github oauth: '' @ token_Error parsed @ '': '' @ token_ErrorDesc parsed)), h1)
                  else (Inr (token_AccessToken parsed), h1)))"

definition fetchUser :: "decode_errors \<Rightarrow> string \<Rightarrow> ('z host_scheme, ghUser) act" where
  "fetchUser js token h =
     (let req = \<lparr>req_Method = ''GET'', req_URL = ''https://api.github.com/user'',
                 req_Header = [(''Authorization'', ''Bearer '' @ token),
                               (''Accept'', ''application/vnd.github+json'')],
                 req_Body = ''''\<rparr>
      in case http_Do req h of
           (Inl e, h1) \<Rightarrow> (Inl e, h1)
         | (Inr resp, h1) \<Rightarrow>
             if resp_StatusCode resp \<noteq> 200
             then (Inl (Opaque (''github api '' @ Itoa (resp_StatusCode resp) @ '': '' @ resp_Body resp)), h1)
             else (case decode_user js (resp_Body resp) of Inl e \<Rightarrow> (Inl e, h1) | Inr u \<Rightarrow> (Inr u, h1)))"

text \<open>The user of a GitHub account: the known one, or a fresh one that is stored first.\<close>

definition OAuth_account ::
  "'z host_scheme OAuth \<Rightarrow> ghUser \<Rightarrow> ('z host_scheme, UserID) act" where
  "OAuth_account oa user h =
     (case Identity_ByGitHubID (OAuth_identities oa) (ghUser_ID user) h of
        (Inr g, h1) \<Rightarrow> (Inr (GitHubIdentity_UserID g), h1)
      | (Inl e, h1) \<Rightarrow>
          if \<not> errors_Is e NotFound then (Inl e, h1)
          else
            let (uid, h2) = IDGen_NewUserID (OAuth_idgen oa) h1;
                (now, h3) = Clock_Now (OAuth_clock oa) h2
            in case OAuth_users oa uid (ghUser_Login user) now h3 of
                 (Inl e, h4) \<Rightarrow> (Inl e, h4)
               | (Inr _, h4) \<Rightarrow> (Inr uid, h4))"

definition OAuth_sign_in ::
  "'z host_scheme OAuth \<Rightarrow> http_in \<Rightarrow> ghUser \<Rightarrow> 'z host_scheme \<Rightarrow> http_out \<times> 'z host_scheme" where
  "OAuth_sign_in oa r user h =
     (case OAuth_account oa user h of
        (Inl e, h1) \<Rightarrow> (http_Error (error_text e) 500, h1)
      | (Inr uid, h1) \<Rightarrow>
          (case Identity_Upsert (OAuth_identities oa)
                  \<lparr>GitHubIdentity_UserID = uid, GitHubIdentity_GitHubID = ghUser_ID user,
                   GitHubIdentity_GitHubLogin = ghUser_Login user,
                   GitHubIdentity_Email = ghUser_Email user\<rparr> h1 of
             (Inl e, h2) \<Rightarrow> (http_Error (error_text e) 500, h2)
           | (Inr _, h2) \<Rightarrow>
               let (out_ck, h3) = Sessions_Logout (OAuth_sessions oa) r h2
               in case Sessions_Login (OAuth_sessions oa) uid h3 of
                    (Inl e, h4) \<Rightarrow> (with_cookies [out_ck] (http_Error (error_text e) 500), h4)
                  | (Inr ck, h4) \<Rightarrow>
                      (with_cookies [out_ck, ck] (http_Redirect ''/dashboard'' StatusFound), h4)))"

definition OAuth_state_ok :: "http_in \<Rightarrow> bool" where
  "OAuth_state_ok r \<longleftrightarrow>
     (case request_Cookie r oauthStateCookie of
        None \<Rightarrow> False
      | Some v \<Rightarrow> Query_Get r ''state'' \<noteq> '''' \<and> v = Query_Get r ''state'')"

definition OAuth_Callback ::
  "decode_errors \<Rightarrow> 'z host_scheme OAuth \<Rightarrow> http_in \<Rightarrow> 'z host_scheme \<Rightarrow> http_out \<times> 'z host_scheme" where
  "OAuth_Callback js oa r h =
     (if \<not> OAuth_state_ok r then (http_Error ''invalid oauth state'' 400, h)
      else
        let clear = cleared_cookie oauthStateCookie; code = Query_Get r ''code''
        in if code = '''' then (with_cookies [clear] (http_Error ''missing code'' 400), h)
           else case exchangeCode js (OAuth_cfg oa) code h of
             (Inl e, h1) \<Rightarrow> (with_cookies [clear] (http_Error (error_text e) 502), h1)
           | (Inr tok, h1) \<Rightarrow>
               (case fetchUser js tok h1 of
                  (Inl e, h2) \<Rightarrow> (with_cookies [clear] (http_Error (error_text e) 502), h2)
                | (Inr user, h2) \<Rightarrow>
                    let (out, h3) = OAuth_sign_in oa r user h2 in (with_cookies [clear] out, h3)))"

section \<open>Cookies and sessions\<close>

lemma cookie_roundtrip: "length sid = 32 \<Longrightarrow> decodeCookieValue (encodeCookieValue sid) = Some sid"
  by (simp add: decodeCookieValue_def encodeCookieValue_def)

lemma decodeCookie_length: "decodeCookieValue v = Some sid \<Longrightarrow> length sid = 32"
  by (auto simp: decodeCookieValue_def split: option.splits if_splits)

lemma request_after_login:
  "request_Cookie (send_cookie (session_cookie sec sid t) r) cookieName = Some (encodeCookieValue sid)"
  by (simp add: send_cookie_def request_Cookie_def session_cookie_def cookieMaxAge_def Hour_def
      Minute_def Second_def update_conv')

end
