(* ===== verification/Ghapp.thy ===== *)
theory Ghapp
  imports Http_Auth
begin

text \<open>
  The GitHub App, \<open>core/adapter/ghapp\<close>: installation tokens, repository credentials, the
  install callback and the signed webhook with its replay protection. The library
  \<open>ghinstallation\<close> is a parameter that mints tokens.
\<close>

section \<open>AppClient and RepoCredsProvider (\<open>app_jwt.go\<close>, \<open>repo_creds.go\<close>)\<close>

record AppCreds =
  AppCreds_AppID :: int
  AppCreds_PrivateKeyPEM :: string

text \<open>The token answer may depend on when it is asked, counted in readings of the clock.\<close>

record ghinstallation =
  ghi_New :: "int \<Rightarrow> int \<Rightarrow> string \<Rightarrow> go_error option"
  ghi_Token :: "int \<Rightarrow> int \<Rightarrow> string \<Rightarrow> nat \<Rightarrow> go_error + string"

definition InstallationToken ::
  "ghinstallation \<Rightarrow> AppCreds \<Rightarrow> int \<Rightarrow> ('z go_env_scheme, string \<times> time) act" where
  "InstallationToken lib creds iid s =
     (case ghi_New lib (AppCreds_AppID creds) iid (AppCreds_PrivateKeyPEM creds) of
        Some e \<Rightarrow> (Inl (Wrapped (''ghinstallation.New: '' @ error_text e) e), s)
      | None \<Rightarrow>
          (case ghi_Token lib (AppCreds_AppID creds) iid (AppCreds_PrivateKeyPEM creds) (env_clock_reads s) of
             Inl e \<Rightarrow> (Inl (Wrapped (''Token: '' @ error_text e) e), s)
           | Inr tok \<Rightarrow> (let (now, s1) = time_Now s in (Inr (tok, now + 50 * Minute), s1))))"

definition RepoCredsProvider_For ::
  "ghinstallation \<Rightarrow> AppCreds \<Rightarrow> (UserID \<Rightarrow> string \<Rightarrow> ('z go_env_scheme, Installation) act) \<Rightarrow>
   UserID \<Rightarrow> string \<Rightarrow> ('z go_env_scheme, GitCreds) act" where
  "RepoCredsProvider_For lib creds lookup uid repo s =
     (case lookup uid repo s of
        (Inl e, s1) \<Rightarrow> (Inl e, s1)
      | (Inr inst, s1) \<Rightarrow>
          (case InstallationToken lib creds (Installation_InstallationID inst) s1 of
             (Inl e, s2) \<Rightarrow> (Inl e, s2)
           | (Inr (tok, exp), s2) \<Rightarrow>
               (Inr \<lparr>GitCreds_Token = tok, GitCreds_ExpiresAt = exp\<rparr>, s2)))"

definition RepoCredsProvider ::
  "ghinstallation \<Rightarrow> AppCreds \<Rightarrow> (UserID \<Rightarrow> string \<Rightarrow> ('z go_env_scheme, Installation) act) \<Rightarrow>
   'z go_env_scheme RepoCredentialsProvider" where
  "RepoCredsProvider lib creds lookup = \<lparr>RepoCreds_For = RepoCredsProvider_For lib creds lookup\<rparr>"

section \<open>InstallHandler (\<open>install.go\<close>)\<close>

text \<open>The answer decodes to a count, which is not used, and repositories with their owners.\<close>

record repo_answer =
  repo_FullName :: string
  repo_Owner_Login :: string

record repos_answer =
  repos_TotalCount :: int
  repos_Repositories :: "repo_answer list"

definition owner_field :: "json \<Rightarrow> repo_answer \<Rightarrow> repo_answer \<times> bool" where
  "owner_field = assign_struct [(''login'', string_field (\<lambda>s. repo_Owner_Login_update (\<lambda>_. s)))]"

definition repo_fields :: "repo_answer field list" where
  "repo_fields = [(''full_name'', string_field (\<lambda>s. repo_FullName_update (\<lambda>_. s))), (''owner'', owner_field)]"

definition repos_fields :: "repos_answer field list" where
  "repos_fields =
     [(''total_count'', int64_field (\<lambda>i. repos_TotalCount_update (\<lambda>_. i))),
      (''repositories'',
       slice_field (\<lambda>r v. assign_struct repo_fields v r) \<lparr>repo_FullName = '''', repo_Owner_Login = ''''\<rparr>
         repos_Repositories (\<lambda>rs. repos_Repositories_update (\<lambda>_. rs)))]"

definition decode_repos :: "decode_errors \<Rightarrow> string \<Rightarrow> go_error + repo_answer list" where
  "decode_repos js s =
     (case Decode_or js repos_fields \<lparr>repos_TotalCount = 0, repos_Repositories = []\<rparr> s of
        Inl e \<Rightarrow> Inl e | Inr a \<Rightarrow> Inr (repos_Repositories a))"

definition fetchAccountAndRepos ::
  "decode_errors \<Rightarrow> string \<Rightarrow> ('z host_scheme, string \<times> string list) act" where
  "fetchAccountAndRepos js token h =
     (let req = \<lparr>req_Method = ''GET'', req_URL = ''https://api.github.com/installation/repositories'',
                 req_Header = [(''Authorization'', ''Bearer '' @ token),
                               (''Accept'', ''application/vnd.github+json'')],
                 req_Body = ''''\<rparr>
      in case http_Do req h of
           (Inl e, h1) \<Rightarrow> (Inl e, h1)
         | (Inr resp, h1) \<Rightarrow>
             if resp_StatusCode resp \<noteq> 200
             then (Inl (Opaque (''github api: '' @ Itoa (resp_StatusCode resp))), h1)
             else (case decode_repos js (resp_Body resp) of
                     Inl e \<Rightarrow> (Inl e, h1)
                   | Inr rs \<Rightarrow>
                       (Inr ((case rs of [] \<Rightarrow> '''' | r # _ \<Rightarrow> repo_Owner_Login r), map repo_FullName rs), h1)))"

definition Install_Install :: "string \<Rightarrow> http_out" where
  "Install_Install appSlug =
     http_Redirect (''https://github.com/apps/'' @ appSlug @ ''/installations/new'') StatusFound"

definition Install_Callback ::
  "decode_errors \<Rightarrow> ghinstallation \<Rightarrow> AppCreds \<Rightarrow> 'z host_scheme Sessions \<Rightarrow>
   (Installation \<Rightarrow> ('z host_scheme, unit) act) \<Rightarrow> http_in \<Rightarrow> 'z host_scheme \<Rightarrow>
   http_out \<times> 'z host_scheme" where
  "Install_Callback js lib creds ss upsert r h =
     (case Sessions_UserFromRequest ss r h of
        (Inl e, h1) \<Rightarrow> (http_Error ''must be signed in'' 401, h1)
      | (Inr uid, h1) \<Rightarrow>
          (case ParseInt64 (Query_Get r ''installation_id'') of
             None \<Rightarrow> (http_Error ''missing installation_id'' 400, h1)
           | Some iid \<Rightarrow>
               (case InstallationToken lib creds iid h1 of
                  (Inl e, h2) \<Rightarrow> (http_Error (error_text e) 500, h2)
                | (Inr (tok, _), h2) \<Rightarrow>
                    (case fetchAccountAndRepos js tok h2 of
                       (Inl e, h3) \<Rightarrow> (http_Error (error_text e) 500, h3)
                     | (Inr (acct, repos), h3) \<Rightarrow>
                         let (now, h4) = time_Now h3
                         in case upsert
                                  \<lparr>Installation_InstallationID = iid, Installation_UserID = uid,
                                   Installation_AccountLogin = acct, Installation_Repos = repos,
                                   Installation_CreatedAt = now\<rparr> h4 of
                              (Inl e, h5) \<Rightarrow> (http_Error (error_text e) 500, h5)
                            | (Inr _, h5) \<Rightarrow> (http_Redirect ''/dashboard'' StatusFound, h5)))))"

section \<open>WebhookHandler (\<open>webhooks.go\<close>)\<close>

definition replayWindow :: int where "replayWindow = 10 * Minute"

definition prune_seen :: "time \<Rightarrow> (string \<times> time) list \<Rightarrow> (string \<times> time) list" where
  "prune_seen now seen = filter (\<lambda>(_, t). \<not> time_Sub now t > replayWindow) seen"

definition alreadyDelivered ::
  "string \<Rightarrow> time \<Rightarrow> (string \<times> time) list \<Rightarrow> bool \<times> (string \<times> time) list" where
  "alreadyDelivered did now seen =
     (if did = '''' then (False, seen)
      else let seen1 = prune_seen now seen
           in if map_of seen1 did \<noteq> None then (True, seen1)
              else (False, AList.update did now seen1))"

definition verify_signature :: "bytes \<Rightarrow> http_in \<Rightarrow> string \<Rightarrow> bool" where
  "verify_signature secret r body =
     (let sig = Header_Get r ''X-Hub-Signature-256'' in
      if length sig < 7 \<or> take 7 sig \<noteq> ''sha256='' then False
      else case hex_DecodeString (drop 7 sig) of
        None \<Rightarrow> False
      | Some want \<Rightarrow> hmac_sha256 secret (bytes_of body) = want)"

text \<open>
  The event payload is decoded to an action and an installation, and errors are ignored: what could not
  be decoded has its zero value.
\<close>

record event_payload =
  event_Action :: string
  event_Installation_ID :: int

definition installation_field :: "json \<Rightarrow> event_payload \<Rightarrow> event_payload \<times> bool" where
  "installation_field = assign_struct [(''id'', int64_field (\<lambda>i. event_Installation_ID_update (\<lambda>_. i)))]"

definition Webhook_payload :: "string \<Rightarrow> event_payload" where
  "Webhook_payload =
     Unmarshal_ignoring
       [(''action'', string_field (\<lambda>s. event_Action_update (\<lambda>_. s))), (''installation'', installation_field)]
       \<lparr>event_Action = '''', event_Installation_ID = 0\<rparr>"

definition Webhook_Handle ::
  "bytes \<Rightarrow> (int \<Rightarrow> ('z host_scheme, unit) act) \<Rightarrow> http_in \<Rightarrow>
   'z host_scheme \<Rightarrow> http_out \<times> 'z host_scheme" where
  "Webhook_Handle secret delete r h =
     (case read_body r (2 ^ 20) of
        Inl e \<Rightarrow> (http_Error (error_text e) 400, h)
      | Inr body \<Rightarrow>
          if \<not> verify_signature secret r body then (http_Error ''bad signature'' 401, h)
          else
            let (now, h1) = time_Now h;
                (dup, seen') = alreadyDelivered (Header_Get r ''X-GitHub-Delivery'') now (delivery_seen h1);
                h2 = h1\<lparr>delivery_seen := seen'\<rparr>
            in if dup then (http_status 200, h2)
               else if Header_Get r ''X-GitHub-Event'' = ''installation'' then
                 (let p = Webhook_payload body
                  in if event_Action p = ''deleted''
                     then (http_status 200, snd (delete (event_Installation_ID p) h2))
                     else (http_status 200, h2))
               else (http_status 200, h2))"

section \<open>Facts\<close>

lemma InstallationToken_keeps:
  assumes "\<And>s n. ok (s\<lparr>env_clock_reads := n\<rparr>) = ok s" and "\<And>s n. view (s\<lparr>env_clock_reads := n\<rparr>) = view s"
  shows "keeps ok view (InstallationToken lib creds iid)"
  using assms
  by (auto intro!: keepsI simp: InstallationToken_def time_Now_def split: option.splits sum.splits)

lemma RepoCredsProvider_keeps:
  "keeps pg_ok pg_jobs_of (RepoCredsProvider_For lib creds InstallationsRepo_ByUserAndRepo u repo)"
proof (rule keepsI)
  fix s s' :: "'a db_scheme" and r
  assume ok: "pg_ok s" and run: "RepoCredsProvider_For lib creds InstallationsRepo_ByUserAndRepo u repo s = (r, s')"
  obtain a s1 where a: "InstallationsRepo_ByUserAndRepo u repo s = (a, s1)" by fastforce
  note k1 = keepsD [OF InstallationsRepo_ByUserAndRepo_keeps ok a]
  show "pg_ok s' \<and> pg_jobs_of s' = pg_jobs_of s"
  proof (cases a)
    case (Inl e)
    then show ?thesis using run a k1 by (simp add: RepoCredsProvider_For_def)
  next
    case (Inr i)
    obtain t s2 where t: "InstallationToken lib creds (Installation_InstallationID i) s1 = (t, s2)" by fastforce
    have "keeps pg_ok pg_jobs_of (InstallationToken lib creds (Installation_InstallationID i) :: ('a db_scheme, _) act)"
      by (rule InstallationToken_keeps) simp_all
    from keepsD [OF this k1(1) t] have k2: "pg_ok s2" "pg_jobs_of s2 = pg_jobs_of s1" by auto
    show ?thesis using run a Inr t k1 k2
      by (auto simp: RepoCredsProvider_For_def split: sum.splits)
  qed
qed

text \<open>Replay protection.\<close>

lemma alreadyDelivered_keyed: "keyed seen \<Longrightarrow> keyed (snd (alreadyDelivered did now seen))"
proof -
  assume k: "keyed seen"
  then have "keyed (prune_seen now seen)"
    by (simp add: keyed_def prune_seen_def distinct_map_filter)
  then show ?thesis using k by (auto simp: alreadyDelivered_def Let_def)
qed

lemma map_of_prune:
  "keyed seen \<Longrightarrow> map_of (prune_seen now seen) k =
     (case map_of seen k of None \<Rightarrow> None
      | Some t \<Rightarrow> if time_Sub now t > replayWindow then None else Some t)"
proof (induction seen)
  case (Cons p seen)
  obtain k' t where p: "p = (k', t)" by (cases p)
  have "keyed seen" and "map_of seen k' = None"
    using Cons.prems by (auto simp: keyed_def p map_of_eq_None_iff)
  then show ?case using Cons.IH by (auto simp: p prune_seen_def split: option.splits)
qed (simp add: prune_seen_def)

lemma alreadyDelivered_iff:
  assumes "keyed seen"
  shows "fst (alreadyDelivered did now seen) \<longleftrightarrow>
    did \<noteq> '''' \<and> (\<exists>t. map_of seen did = Some t \<and> now - t \<le> replayWindow)"
proof -
  have win: "time_Sub now t > replayWindow \<longleftrightarrow> now - t > replayWindow" for t
    by (rule time_Sub_exceeds) (simp_all add: replayWindow_def Minute_def Second_def max_duration_def)
  show ?thesis
    using map_of_prune [OF assms, of now did]
    by (auto simp: alreadyDelivered_def Let_def win split: option.splits if_splits)
qed

end
