(* ===== verification/Go_Url.thy ===== *)
theory Go_Url
  imports Json
begin

text \<open>
  What the code uses of \<open>strconv.Quote\<close> (the verb \<open>%q\<close>) and of \<open>net/url\<close>: the parser that
  \<open>http.NewRequestWithContext\<close> runs on an address, stage by stage with the text of each error, as in the Go
  version that \<open>go.mod\<close> names. Which runes above ASCII count as printable is a table of Unicode, the
  argument \<open>isprint\<close>. Of the parsed address the parts are kept, not how they were escaped.
\<close>

section \<open>Quoting\<close>

text \<open>The code point of a well-formed rune from its bytes.\<close>

definition rune_value :: "string \<Rightarrow> nat" where
  "rune_value r =
     (case map byte r of
        [a] \<Rightarrow> a
      | [a, b] \<Rightarrow> (a - 192) * 64 + (b - 128)
      | [a, b, c] \<Rightarrow> ((a - 224) * 64 + (b - 128)) * 64 + (c - 128)
      | [a, b, c, d] \<Rightarrow> (((a - 240) * 64 + (b - 128)) * 64 + (c - 128)) * 64 + (d - 128)
      | _ \<Rightarrow> 0)"

definition hex_digits :: "nat \<Rightarrow> nat \<Rightarrow> string" where
  "hex_digits k n = map (\<lambda>i. hex_char (n div 16 ^ (k - 1 - i) mod 16)) [0..<k]"

text \<open>The letters of the escapes for the control characters that have one.\<close>

definition control_escape :: "nat \<Rightarrow> char option" where
  "control_escape n = map_of
     [(7, CHR ''a''), (8, CHR ''b''), (9, CHR ''t''), (10, CHR ''n''), (11, CHR ''v''), (12, CHR ''f''), (13, CHR ''r'')] n"

definition quote_rune :: "(nat \<Rightarrow> bool) \<Rightarrow> bool \<times> string \<Rightarrow> string" where
  "quote_rune isprint r =
     (let n = rune_value (snd r)
      in if \<not> fst r then [CHR 0x5C, CHR ''x''] @ hex_digits 2 (byte (hd (snd r)))
         else if n = 34 \<or> n = 92 then CHR 0x5C # snd r
         else if (if n < 128 then 32 \<le> n \<and> n < 127 else isprint n) then snd r
         else case control_escape n of
           Some c \<Rightarrow> [CHR 0x5C, c]
         | None \<Rightarrow>
             if n < 32 \<or> n = 127 then [CHR 0x5C, CHR ''x''] @ hex_digits 2 n
             else if n < 65536 then [CHR 0x5C, CHR ''u''] @ hex_digits 4 n
             else [CHR 0x5C, CHR ''U''] @ hex_digits 8 n)"

definition Quote :: "(nat \<Rightarrow> bool) \<Rightarrow> string \<Rightarrow> string" where
  "Quote isprint s = [CHR 0x22] @ concat (map (quote_rune isprint) (runes s)) @ [CHR 0x22]"

definition plain_char :: "char \<Rightarrow> bool" where
  "plain_char c \<longleftrightarrow> between 32 126 c \<and> c \<noteq> CHR 0x22 \<and> c \<noteq> CHR 0x5C"

lemma byte_eq_iff: "byte c = byte d \<longleftrightarrow> c = d"
  by (simp add: byte_def)

lemma byte_quoted: "byte (CHR 0x22) = 34" "byte (CHR 0x5C) = 92"
  by (simp_all add: byte_def)

lemma Quote_plain:
  assumes "\<forall>c \<in> set s. plain_char c"
  shows "Quote isprint s = [CHR 0x22] @ s @ [CHR 0x22]"
proof -
  have "byte c < 128" if "c \<in> set s" for c
    using bspec [OF assms that] by (simp add: plain_char_def between_def)
  then have "ascii s" by (simp add: ascii_def)
  moreover have "quote_rune isprint (True, [c]) = [c]" if "c \<in> set s" for c
  proof -
    have "plain_char c" using assms that by blast
    moreover from this have "byte c \<noteq> 34" "byte c \<noteq> 92"
      using byte_eq_iff byte_quoted unfolding plain_char_def by metis+
    moreover have "rune_value [c] = byte c" by (simp add: rune_value_def)
    ultimately show ?thesis by (simp add: quote_rune_def plain_char_def between_def)
  qed
  ultimately show ?thesis by (simp add: Quote_def runes_ascii comp_def cong: map_cong)
qed

text \<open>No text writes a control character through its quotation.\<close>

lemma hex_char_visible: "d < 16 \<Longrightarrow> 32 \<le> byte (hex_char d) \<and> byte (hex_char d) < 127"
proof -
  have "\<forall>d \<in> set [0..<16]. 32 \<le> byte (hex_char d) \<and> byte (hex_char d) < 127"
    by (simp add: upt_rec hex_char_def byte_def)
  then show "d < 16 \<Longrightarrow> ?thesis" by simp
qed

lemma hex_digits_visible: "c \<in> set (hex_digits k n) \<Longrightarrow> 32 \<le> byte c \<and> byte c \<noteq> 127"
  using hex_char_visible [of "n div 16 ^ i mod 16" for i] by (auto simp: hex_digits_def dest: less_imp_neq)

lemma control_escape_visible: "control_escape n = Some c \<Longrightarrow> 32 \<le> byte c \<and> byte c \<noteq> 127"
  by (auto simp: control_escape_def byte_def split: if_splits)

lemma quote_rune_visible:
  assumes "r \<in> set (runes s)" and "c \<in> set (quote_rune isprint r)"
  shows "32 \<le> byte c \<and> byte c \<noteq> 127"
proof (cases "fst r")
  case False
  then show ?thesis using assms(2) hex_digits_visible by (auto simp: quote_rune_def byte_def)
next
  case True
  then have "(True, snd r) \<in> set (runes s)" using assms(1) by (metis prod.collapse)
  then show ?thesis
  proof (cases rule: runes_cases)
    case (single d)
    then show ?thesis using True assms(2) hex_digits_visible control_escape_visible
      by (auto simp: quote_rune_def rune_value_def Let_def byte_def split: if_splits option.splits)
  next
    case many
    then have "\<forall>d \<in> set (snd r). 128 \<le> byte d" by force
    then show ?thesis using True assms(2) hex_digits_visible control_escape_visible
      by (auto simp: quote_rune_def Let_def byte_def split: if_splits option.splits)
  qed
qed

lemma Quote_visible: "c \<in> set (Quote isprint s) \<Longrightarrow> 32 \<le> byte c \<and> byte c \<noteq> 127"
  using quote_rune_visible by (auto simp: Quote_def byte_def)

section \<open>Cutting strings\<close>

text \<open>\<open>strings.Cut\<close> at the first, and a cut at the last, occurrence of a byte.\<close>

definition Cut :: "char \<Rightarrow> string \<Rightarrow> string \<times> string" where
  "Cut c s = (takeWhile (\<lambda>x. x \<noteq> c) s, tl (dropWhile (\<lambda>x. x \<noteq> c) s))"

definition CutLast :: "char \<Rightarrow> string \<Rightarrow> (string \<times> string) option" where
  "CutLast c s =
     (if c \<in> set s then Some (rev (tl (dropWhile (\<lambda>x. x \<noteq> c) (rev s))), rev (takeWhile (\<lambda>x. x \<noteq> c) (rev s)))
      else None)"

text \<open>\<open>strings.Index\<close> of the text \<open>%25\<close>, as the parts before it and from it on.\<close>

fun CutZone :: "string \<Rightarrow> (string \<times> string) option" where
  "CutZone [] = None"
| "CutZone (c # cs) =
     (if HasPrefix (c # cs) ''%25'' then Some ('''', c # cs)
      else map_option (\<lambda>(a, b). (c # a, b)) (CutZone cs))"

section \<open>Escapes\<close>

datatype encoding = encodePath | encodeHost | encodeZone | encodeUserPassword | encodeFragment

definition is_letter :: "char \<Rightarrow> bool" where
  "is_letter c \<longleftrightarrow> between 97 122 c \<or> between 65 90 c"

definition shouldEscape :: "encoding \<Rightarrow> char \<Rightarrow> bool" where
  "shouldEscape mode c \<longleftrightarrow>
     (if is_letter c \<or> is_digit c then False
      else if mode \<in> {encodeHost, encodeZone} \<and> c \<in> set (CHR 0x22 # CHR 0x27 # ''!$&()*+,;=:[]<>'') then False
      else if c \<in> set ''-_.~'' then False
      else if c \<in> set ''$&+,/:;=?@'' \<and> mode = encodePath then c = CHR ''?''
      else if c \<in> set ''$&+,/:;=?@'' \<and> mode = encodeUserPassword then c \<in> set ''@/?:''
      else if c \<in> set ''$&+,/:;=?@!()*'' \<and> mode = encodeFragment then False
      else True)"

definition EscapeError :: "(nat \<Rightarrow> bool) \<Rightarrow> string \<Rightarrow> string" where
  "EscapeError isprint e = ''invalid URL escape '' @ Quote isprint e"

definition InvalidHostError :: "(nat \<Rightarrow> bool) \<Rightarrow> string \<Rightarrow> string" where
  "InvalidHostError isprint e = ''invalid character '' @ Quote isprint e @ '' in host name''"

text \<open>
  \<open>unescape\<close>: in a host only bytes above ASCII and the percent sign may be escaped, in the zone of an IPv6
  address also blanks and what a host has unescaped.
\<close>

definition escape_refused :: "encoding \<Rightarrow> nat \<Rightarrow> nat \<Rightarrow> bool" where
  "escape_refused mode x y \<longleftrightarrow> (x, y) \<noteq> (2, 5)
     \<and> (mode = encodeHost \<and> x < 8
        \<or> mode = encodeZone \<and> x * 16 + y \<noteq> 32 \<and> shouldEscape encodeHost (char_of (x * 16 + y)))"

fun unescape :: "(nat \<Rightarrow> bool) \<Rightarrow> encoding \<Rightarrow> string \<Rightarrow> string + string" where
  "unescape isprint mode [] = Inr ''''"
| "unescape isprint mode (c # cs) =
     (if c = CHR ''%'' then
        (case cs of
           a # b # rest \<Rightarrow>
             (case (hex_value a, hex_value b) of
                (Some x, Some y) \<Rightarrow>
                  if escape_refused mode x y then Inl (EscapeError isprint [c, a, b])
                  else map_sum id ((#) (char_of (x * 16 + y))) (unescape isprint mode rest)
              | _ \<Rightarrow> Inl (EscapeError isprint [c, a, b]))
         | _ \<Rightarrow> Inl (EscapeError isprint (c # cs)))
      else if mode \<in> {encodeHost, encodeZone} \<and> byte c < 128 \<and> shouldEscape mode c
      then Inl (InvalidHostError isprint [c])
      else map_sum id ((#) c) (unescape isprint mode cs))"

section \<open>The parser\<close>

record url =
  url_Scheme :: string
  url_Opaque :: string
  url_User :: "(string \<times> string option) option"
  url_Host :: string
  url_Path :: string
  url_RawQuery :: string
  url_Fragment :: string

definition empty_url :: url where
  "empty_url = \<lparr>url_Scheme = '''', url_Opaque = '''', url_User = None, url_Host = '''', url_Path = '''',
     url_RawQuery = '''', url_Fragment = ''''\<rparr>"

text \<open>\<open>getScheme\<close>: the loop over the bytes, with those before the current one.\<close>

fun scheme_loop :: "string \<Rightarrow> string \<Rightarrow> string \<Rightarrow> string + string \<times> string" where
  "scheme_loop raw pre [] = Inr ('''', raw)"
| "scheme_loop raw pre (c # cs) =
     (if is_letter c then scheme_loop raw (pre @ [c]) cs
      else if is_digit c \<or> c \<in> set ''+-.'' then
        (if pre = '''' then Inr ('''', raw) else scheme_loop raw (pre @ [c]) cs)
      else if c = CHR '':'' then
        (if pre = '''' then Inl ''missing protocol scheme'' else Inr (pre, cs))
      else Inr ('''', raw))"

definition getScheme :: "string \<Rightarrow> string + string \<times> string" where
  "getScheme raw = scheme_loop raw '''' raw"

definition lower :: "char \<Rightarrow> char" where
  "lower c = (if between 65 90 c then char_of (byte c + 32) else c)"

definition validOptionalPort :: "string \<Rightarrow> bool" where
  "validOptionalPort port \<longleftrightarrow> (case port of [] \<Rightarrow> True | c # cs \<Rightarrow> c = CHR '':'' \<and> list_all is_digit cs)"

definition InvalidPort :: "(nat \<Rightarrow> bool) \<Rightarrow> string \<Rightarrow> string" where
  "InvalidPort isprint p = ''invalid port '' @ Quote isprint p @ '' after host''"

definition parseHost :: "(nat \<Rightarrow> bool) \<Rightarrow> string \<Rightarrow> string + string" where
  "parseHost isprint host =
     (if HasPrefix host ''['' then
        (case CutLast (CHR '']'') host of
           None \<Rightarrow> Inl ''missing ']' in host''
         | Some (addr, colonPort) \<Rightarrow>
             if \<not> validOptionalPort colonPort then Inl (InvalidPort isprint colonPort)
             else
               (case CutZone addr of
                  None \<Rightarrow> unescape isprint encodeHost host
                | Some (host1, zone) \<Rightarrow>
                    (case (unescape isprint encodeHost host1, unescape isprint encodeZone zone,
                           unescape isprint encodeHost (CHR '']'' # colonPort)) of
                       (Inl e, _, _) \<Rightarrow> Inl e
                     | (Inr a, Inl e, _) \<Rightarrow> Inl e
                     | (Inr a, Inr b, Inl e) \<Rightarrow> Inl e
                     | (Inr a, Inr b, Inr d) \<Rightarrow> Inr (a @ b @ d))))
      else
        (case CutLast (CHR '':'') host of
           None \<Rightarrow> unescape isprint encodeHost host
         | Some (_, port) \<Rightarrow>
             if \<not> validOptionalPort (CHR '':'' # port) then Inl (InvalidPort isprint (CHR '':'' # port))
             else unescape isprint encodeHost host))"

definition validUserinfo :: "string \<Rightarrow> bool" where
  "validUserinfo s \<longleftrightarrow>
     (\<forall>c \<in> set s. is_letter c \<or> is_digit c \<or> c \<in> set (CHR 0x27 # ''-._:~!$&()*+,;=%@''))"

definition parseAuthority ::
  "(nat \<Rightarrow> bool) \<Rightarrow> string \<Rightarrow> string + (string \<times> string option) option \<times> string" where
  "parseAuthority isprint authority =
     (case CutLast (CHR ''@'') authority of
        None \<Rightarrow> map_sum id (Pair None) (parseHost isprint authority)
      | Some (userinfo, h) \<Rightarrow>
          (case parseHost isprint h of
             Inl e \<Rightarrow> Inl e
           | Inr host \<Rightarrow>
               if \<not> validUserinfo userinfo then Inl ''net/url: invalid userinfo''
               else if CHR '':'' \<notin> set userinfo then
                 map_sum id (\<lambda>u. (Some (u, None), host)) (unescape isprint encodeUserPassword userinfo)
               else
                 (let (username, password) = Cut (CHR '':'') userinfo
                  in case unescape isprint encodeUserPassword username of
                       Inl e \<Rightarrow> Inl e
                     | Inr u \<Rightarrow>
                         map_sum id (\<lambda>p. (Some (u, Some p), host))
                           (unescape isprint encodeUserPassword password))))"

text \<open>\<open>parse\<close> after the scheme and the query are split off, and the whole.\<close>

definition parse_hierarchy :: "(nat \<Rightarrow> bool) \<Rightarrow> url \<Rightarrow> string \<Rightarrow> string + url" where
  "parse_hierarchy isprint u rest =
     (let with_path = (\<lambda>u p. map_sum id (\<lambda>d. u\<lparr>url_Path := d\<rparr>) (unescape isprint encodePath p))
      in if HasPrefix rest ''//'' \<and> (url_Scheme u \<noteq> '''' \<or> \<not> HasPrefix rest ''///'') then
           (let a = drop 2 rest;
                authority = takeWhile (\<lambda>c. c \<noteq> CHR ''/'') a;
                path = dropWhile (\<lambda>c. c \<noteq> CHR ''/'') a
            in case parseAuthority isprint authority of
                 Inl e \<Rightarrow> Inl e
               | Inr (user, host) \<Rightarrow> with_path (u\<lparr>url_User := user, url_Host := host\<rparr>) path)
         else with_path u rest)"

definition split_query :: "string \<Rightarrow> string \<times> string" where
  "split_query rest =
     (if HasSuffix rest ''?'' \<and> length (filter (\<lambda>c. c = CHR ''?'') rest) = 1 then (butlast rest, '''')
      else Cut (CHR ''?'') rest)"

definition url_parse :: "(nat \<Rightarrow> bool) \<Rightarrow> string \<Rightarrow> string + url" where
  "url_parse isprint raw =
     (if list_ex (\<lambda>c. byte c < 32 \<or> byte c = 127) raw then Inl ''net/url: invalid control character in URL''
      else if raw = ''*'' then Inr (empty_url\<lparr>url_Path := ''*''\<rparr>)
      else case getScheme raw of
        Inl e \<Rightarrow> Inl e
      | Inr (scheme, rest0) \<Rightarrow>
          (let (rest, query) = split_query rest0;
               u = empty_url\<lparr>url_Scheme := map lower scheme, url_RawQuery := query\<rparr>
           in if \<not> HasPrefix rest ''/'' \<and> scheme \<noteq> '''' then Inr (u\<lparr>url_Opaque := rest\<rparr>)
              else if \<not> HasPrefix rest ''/'' \<and> CHR '':'' \<in> set (fst (Cut (CHR ''/'') rest))
              then Inl ''first path segment in URL cannot contain colon''
              else parse_hierarchy isprint u rest))"

text \<open>\<open>url.Parse\<close>, with the text of \<open>url.Error\<close>.\<close>

definition url_error :: "(nat \<Rightarrow> bool) \<Rightarrow> string \<Rightarrow> string \<Rightarrow> go_error" where
  "url_error isprint u e = Opaque (''parse '' @ Quote isprint u @ '': '' @ e)"

definition url_Parse :: "(nat \<Rightarrow> bool) \<Rightarrow> string \<Rightarrow> go_error + url" where
  "url_Parse isprint rawURL =
     (let (u, frag) = Cut (CHR ''#'') rawURL
      in case url_parse isprint u of
           Inl e \<Rightarrow> Inl (url_error isprint u e)
         | Inr parsed \<Rightarrow>
             if frag = '''' then Inr parsed
             else (case unescape isprint encodeFragment frag of
                     Inl e \<Rightarrow> Inl (url_error isprint rawURL e)
                   | Inr f \<Rightarrow> Inr (parsed\<lparr>url_Fragment := f\<rparr>)))"

section \<open>Addresses that parse\<close>

text \<open>
  A scheme, a host of unreserved characters with an optional port, and a path without escapes are taken
  apart as they were put together.
\<close>

definition host_char :: "char \<Rightarrow> bool" where
  "host_char c \<longleftrightarrow> is_letter c \<or> is_digit c \<or> c \<in> set ''-_.~''"

definition path_char :: "char \<Rightarrow> bool" where
  "path_char c \<longleftrightarrow> 32 \<le> byte c \<and> byte c \<noteq> 127 \<and> c \<notin> set ''%?#''"

lemma letter_byte: "is_letter c \<Longrightarrow> 64 < byte c \<and> byte c < 123"
  by (auto simp: is_letter_def between_def)

lemma digit_byte: "is_digit c \<Longrightarrow> 47 < byte c \<and> byte c < 58"
  by (auto simp: is_digit_def between_def)

lemma host_char_byte: "host_char c \<Longrightarrow> 44 < byte c \<and> byte c < 127 \<and> byte c \<notin> {47, 58, 63, 64, 91, 93}"
  by (auto simp: host_char_def is_letter_def is_digit_def between_def byte_def)

lemma not_special:
  assumes "byte c \<notin> {35, 37, 47, 58, 63, 64, 91, 93}"
  shows "c \<notin> {CHR 0x23, CHR 0x25, CHR 0x2F, CHR 0x3A, CHR 0x3F, CHR 0x40, CHR 0x5B, CHR 0x5D}"
  using assms by (auto simp: byte_def)

lemma host_char_not_special: "host_char c \<Longrightarrow>
    c \<notin> {CHR 0x23, CHR 0x25, CHR 0x2F, CHR 0x3A, CHR 0x3F, CHR 0x40, CHR 0x5B, CHR 0x5D}"
  by (rule not_special, drule host_char_byte) auto

lemma scheme_loop_letters:
  "\<forall>c \<in> set sch. is_letter c \<Longrightarrow> pre @ sch \<noteq> '''' \<Longrightarrow>
     scheme_loop raw pre (sch @ CHR '':'' # rest) = Inr (pre @ sch, rest)"
proof (induction sch arbitrary: pre)
  case Nil
  have "\<not> is_letter (CHR '':'')" "\<not> is_digit (CHR '':'')"
    by (simp_all add: is_letter_def is_digit_def between_def byte_def)
  then show ?case using Nil by simp
qed simp

lemma unescape_plain:
  assumes "\<forall>c \<in> set s. c \<noteq> CHR ''%'' \<and> (mode \<in> {encodeHost, encodeZone} \<longrightarrow> \<not> shouldEscape mode c)"
  shows "unescape isprint mode s = Inr s"
  using assms by (induction s) auto

lemma unescape_path: "\<forall>c \<in> set p. path_char c \<Longrightarrow> unescape isprint encodePath p = Inr p"
  by (rule unescape_plain) (auto simp: path_char_def)

lemma CutLast_absent: "c \<notin> set s \<Longrightarrow> CutLast c s = None"
  by (simp add: CutLast_def)

lemma Cut_found: "c \<notin> set a \<Longrightarrow> Cut c (a @ c # b) = (a, b)"
  by (induction a) (auto simp: Cut_def)

lemma CutLast_found: "c \<notin> set b \<Longrightarrow> CutLast c (a @ c # b) = Some (a, b)"
  using Cut_found [of c "rev b" "rev a"] by (simp add: CutLast_def Cut_def)

lemma Cut_absent: "c \<notin> set s \<Longrightarrow> Cut c s = (s, '''')"
  by (induction s) (auto simp: Cut_def)

lemma host_not_escaped: "host_char c \<or> c = CHR '':'' \<Longrightarrow> c \<noteq> CHR ''%'' \<and> \<not> shouldEscape encodeHost c"
proof -
  assume c: "host_char c \<or> c = CHR '':''"
  then have "c \<noteq> CHR ''%''" using host_char_not_special by auto
  moreover have "\<not> shouldEscape encodeHost c"
  proof (cases "is_letter c \<or> is_digit c")
    case False
    then have "c \<in> set ''-_.~:''" using c by (auto simp: host_char_def)
    then show ?thesis by (auto simp: shouldEscape_def)
  qed (simp add: shouldEscape_def)
  ultimately show ?thesis by blast
qed

lemma parseHost_plain:
  assumes "\<forall>c \<in> set host. host_char c" and "port = '''' \<or> (\<exists>ds. port = CHR '':'' # ds \<and> list_all is_digit ds)"
  shows "parseHost isprint (host @ port) = Inr (host @ port)"
proof -
  have chars: "host_char c \<or> c = CHR '':''" if "c \<in> set (host @ port)" for c
    using assms that by (auto simp: host_char_def list_all_iff)
  have ipv6: "\<not> HasPrefix (host @ port) ''[''"
    using assms host_char_not_special by (cases host) (auto simp: HasPrefix_def)
  have plain: "unescape isprint encodeHost (host @ port) = Inr (host @ port)"
    by (rule unescape_plain) (use chars host_not_escaped in blast)
  have colon: "CHR '':'' \<notin> set host" using assms(1) host_char_not_special by auto
  show ?thesis
  proof (cases port)
    case Nil
    then show ?thesis using ipv6 plain colon by (simp add: parseHost_def CutLast_absent)
  next
    case (Cons x ds)
    then have port: "port = CHR '':'' # ds" "list_all is_digit ds" using assms(2) by auto
    moreover have "CHR '':'' \<notin> set ds"
      using port(2) digit_byte [of "CHR '':''"] by (auto simp: list_all_iff byte_def)
    ultimately show ?thesis using ipv6 plain
      by (simp add: parseHost_def CutLast_found validOptionalPort_def)
  qed
qed

definition plain_address :: "string \<Rightarrow> string \<Rightarrow> string \<Rightarrow> string \<Rightarrow> bool" where
  "plain_address scheme host port path \<longleftrightarrow>
     scheme \<noteq> '''' \<and> list_all is_letter scheme \<and> list_all host_char host
     \<and> (port = '''' \<or> (\<exists>ds. port = CHR '':'' # ds \<and> list_all is_digit ds))
     \<and> (path = '''' \<or> (\<exists>p. path = CHR ''/'' # p)) \<and> list_all path_char path"

text \<open>None of the bytes that end a part is in one, and no byte is a control character.\<close>

lemma authority_char:
  assumes "plain_address scheme host port path" and "c \<in> set (host @ port)"
  shows "host_char c \<or> c = CHR '':''"
  using assms by (auto simp: plain_address_def host_char_def list_all_iff)

lemma authority_special:
  assumes "plain_address scheme host port path"
  shows "CHR ''/'' \<notin> set (host @ port)" and "CHR ''@'' \<notin> set (host @ port)"
  using authority_char [OF assms] host_char_not_special by fastforce+

lemma plain_address_char:
  assumes "plain_address scheme host port path" and "c \<in> set (scheme @ ''://'' @ host @ port @ path)"
  shows "path_char c"
proof -
  consider "is_letter c" | "c \<in> set ''://''" | "host_char c \<or> c = CHR '':''" | "path_char c"
    using assms(2) authority_char [OF assms(1)] assms(1) by (auto simp: plain_address_def list_all_iff)
  then show ?thesis
  proof cases
    case 1
    then have "host_char c" by (simp add: host_char_def)
    then show ?thesis using host_char_byte [of c] host_char_not_special [of c] by (auto simp: path_char_def)
  next
    case 2
    then show ?thesis by (auto simp: path_char_def byte_def)
  next
    case 3
    then show ?thesis
      using host_char_byte [of c] host_char_not_special [of c] by (auto simp: path_char_def byte_def)
  qed
qed

lemma cut_before:
  assumes "c \<notin> set a" and "b = [] \<or> (\<exists>p. b = c # p)"
  shows "takeWhile (\<lambda>x. x \<noteq> c) (a @ b) = a" and "dropWhile (\<lambda>x. x \<noteq> c) (a @ b) = b"
  using assms by (induction a) auto

lemma split_query_absent: "CHR ''?'' \<notin> set s \<Longrightarrow> split_query s = (s, '''')"
proof -
  assume q: "CHR ''?'' \<notin> set s"
  then have "filter (\<lambda>c. c = CHR ''?'') s = []" by (auto simp: filter_empty_conv)
  then show ?thesis by (simp add: split_query_def Cut_absent [OF q])
qed

lemma url_Parse_plain:
  assumes a: "plain_address scheme host port path"
  shows "url_Parse isprint (scheme @ ''://'' @ host @ port @ path) =
    Inr (empty_url\<lparr>url_Scheme := map lower scheme, url_Host := host @ port, url_Path := path\<rparr>)"
proof -
  let ?rest = "''//'' @ host @ port @ path"
  let ?raw = "scheme @ ''://'' @ host @ port @ path"
  have chars: "path_char c" if "c \<in> set ?raw" for c by (rule plain_address_char [OF a that])
  have absent: "CHR ''#'' \<notin> set ?raw" "CHR ''?'' \<notin> set ?rest"
    using chars [of "CHR ''#''"] chars [of "CHR ''?''"] by (auto simp: path_char_def)
  have visible: "\<not> list_ex (\<lambda>c. byte c < 32 \<or> byte c = 127) ?raw"
    using chars unfolding list_ex_iff path_char_def by fastforce
  have scheme: "getScheme ?raw = Inr (scheme, ?rest)"
    using a scheme_loop_letters [of scheme "''''" ?raw ?rest]
    by (simp add: getScheme_def plain_address_def list_all_iff)
  have query: "split_query ?rest = (?rest, '''')" by (rule split_query_absent [OF absent(2)])
  have auth: "parseAuthority isprint (host @ port) = Inr (None, host @ port)"
    using a parseHost_plain [of host port isprint] CutLast_absent [OF authority_special(2) [OF a]]
    by (simp add: parseAuthority_def plain_address_def list_all_iff)
  have path: "unescape isprint encodePath path = Inr path"
    by (rule unescape_path) (use a in \<open>simp add: plain_address_def list_all_iff\<close>)
  have cut: "takeWhile (\<lambda>c. c \<noteq> CHR ''/'') (host @ port @ path) = host @ port
      \<and> dropWhile (\<lambda>c. c \<noteq> CHR ''/'') (host @ port @ path) = path"
    using cut_before [OF authority_special(1) [OF a], of path] a by (simp add: plain_address_def)
  have "url_parse isprint ?raw =
      Inr (empty_url\<lparr>url_Scheme := map lower scheme, url_Host := host @ port, url_Path := path\<rparr>)"
    using visible scheme query auth path cut a
    by (simp add: url_parse_def parse_hierarchy_def HasPrefix_def plain_address_def empty_url_def)
  then show ?thesis using Cut_absent [OF absent(1)] by (simp add: url_Parse_def)
qed

lemma url_Parse_refused:
  assumes "list_ex (\<lambda>c. byte c < 32 \<or> byte c = 127) (fst (Cut (CHR ''#'') s))"
  shows "isl (url_Parse isprint s)"
  using assms by (simp add: url_Parse_def url_parse_def split_beta)

end
