(* ===== verification/Docker_Runner.thy ===== *)
theory Docker_Runner
  imports Host Go_Url
begin

text \<open>
  The runner adapter, \<open>core/adapter/docker\<close>: delivery of the secrets through files, the
  arguments of \<open>docker run\<close>, start, supervision, inspection and stop of a job's container,
  the sweep of orphaned secrets and the check of the runner network.
\<close>

section \<open>Durations as text\<close>

text \<open>
  \<open>time.Duration.String\<close>: hours, minutes and seconds with a fraction, or one smaller unit
  below a second.
\<close>

definition pad_zeros :: "nat \<Rightarrow> string \<Rightarrow> string" where
  "pad_zeros n s = replicate (n - length s) (CHR ''0'') @ s"

definition fmtFrac :: "nat \<Rightarrow> nat \<Rightarrow> string" where
  "fmtFrac v prec =
     (let ds = rev (dropWhile (\<lambda>c. c = CHR ''0'') (rev (pad_zeros prec (show_nat (v mod 10 ^ prec)))))
      in if ds = '''' then '''' else CHR ''.'' # ds)"

definition fmt_unit :: "nat \<Rightarrow> nat \<Rightarrow> string \<Rightarrow> string" where
  "fmt_unit v prec u = show_nat (v div 10 ^ prec) @ fmtFrac v prec @ u"

definition Duration_String :: "duration \<Rightarrow> string" where
  "Duration_String d =
     (let neg = sint d < 0; u = nat \<bar>sint d\<bar>;
          body =
            (if u < 1000000000 then
               (if u = 0 then ''0s''
                else if u < 1000 then fmt_unit u 0 ''ns''
                else if u < 1000000 then fmt_unit u 3 ([char_of (194::nat), char_of (181::nat)] @ ''s'')
                else fmt_unit u 6 ''ms'')
             else
               (let secs = u div 1000000000;
                    s = show_nat (secs mod 60) @ fmtFrac u 9 @ ''s'';
                    mins = secs div 60
                in if mins = 0 then s
                   else let m = show_nat (mins mod 60) @ ''m'' @ s; hours = mins div 60
                        in if hours = 0 then m else show_nat hours @ ''h'' @ m))
      in (if neg then ''-'' else '''') @ body)"

section \<open>Configuration (\<open>runner.go\<close>)\<close>

record DockerConfig =
  Docker_Image :: string
  Docker_EntryOverride :: "string list"
  Docker_CPUs :: string
  Docker_MemoryMB :: int
  Docker_PidsLimit :: int
  Docker_Network :: string
  Docker_DNS :: "string list"
  Docker_WorkDirHost :: string
  Docker_MaxJobDuration :: duration

definition logTailBytes :: nat where "logTailBytes = 8 * 1024"

definition Docker_defaults :: "string \<Rightarrow> DockerConfig \<Rightarrow> DockerConfig" where
  "Docker_defaults tempDir cfg0 =
     (let cfg1 = (if Docker_WorkDirHost cfg0 = ''''
                  then cfg0\<lparr>Docker_WorkDirHost := filepath_Join [tempDir, ''agentic-delegator'']\<rparr> else cfg0);
          cfg2 = (if Docker_PidsLimit cfg1 = 0 then cfg1\<lparr>Docker_PidsLimit := 512\<rparr> else cfg1)
      in if Docker_MaxJobDuration cfg2 = 0
         then cfg2\<lparr>Docker_MaxJobDuration := word_of_int (30 * Minute)\<rparr> else cfg2)"

definition Docker_New :: "string \<Rightarrow> DockerConfig \<Rightarrow> 'z host_scheme \<Rightarrow> DockerConfig \<times> 'z host_scheme" where
  "Docker_New tempDir cfg0 h =
     (let cfg = Docker_defaults tempDir cfg0;
          h1 = snd (MkdirAll (Docker_WorkDirHost cfg) 0x1C0 h);
          h2 = snd (Chmod (Docker_WorkDirHost cfg) 0x1C0 h1)
      in (cfg, h2))"

section \<open>Secrets (\<open>secrets.go\<close>)\<close>

definition secretsMountPath :: string where "secretsMountPath = ''/run/delegator-secrets''"

definition writeSecretFile :: "string \<Rightarrow> string \<Rightarrow> ('z host_scheme, unit) act" where
  "writeSecretFile path val = try_then (WriteFile path val 0x1A4) (\<lambda>_. Chmod path 0x1A4)"

definition secrets_dir :: "string \<Rightarrow> string \<Rightarrow> string" where
  "secrets_dir workDirHost jobID = filepath_Join [workDirHost, jobID @ ''.secrets'']"

definition writeSecrets :: "string \<Rightarrow> string \<Rightarrow> string \<Rightarrow> string \<Rightarrow> ('z host_scheme, string) act" where
  "writeSecrets workDirHost jobID ghToken anthropicKey =
     (let secretsDir = secrets_dir workDirHost jobID in
      try_then (MkdirAll secretsDir 0x1C9) (\<lambda>_.
      try_then (Chmod secretsDir 0x1C9) (\<lambda>_.
      try_then (writeSecretFile (filepath_Join [secretsDir, ''gh-token'']) ghToken) (\<lambda>_.
      try_then (writeSecretFile (filepath_Join [secretsDir, ''anthropic-key'']) anthropicKey) (\<lambda>_.
      \<lambda>h. (Inr secretsDir, h))))))"

text \<open>The map of running jobs is the list of its keys.\<close>

fun sweep_loop :: "string list \<Rightarrow> string list \<Rightarrow> 'z host_scheme \<Rightarrow> string list \<times> 'z host_scheme" where
  "sweep_loop running [] h = ([], h)"
| "sweep_loop running (dir # dirs) h =
     (let jobID = TrimSuffix (base_name dir) ''.secrets'' in
      if jobID \<in> set running then sweep_loop running dirs h
      else let (r, h1) = RemoveAll dir h; (rest, h2) = sweep_loop running dirs h1
           in (if isl r then rest else dir # rest, h2))"

definition SweepOrphanSecrets :: "string \<Rightarrow> string list \<Rightarrow> 'z host_scheme \<Rightarrow> string list \<times> 'z host_scheme" where
  "SweepOrphanSecrets workDirHost running h =
     sweep_loop running (Glob_suffix workDirHost ''.secrets'' h) h"

section \<open>Starting a container (\<open>runner.go\<close>)\<close>

definition buildRunArgs :: "DockerConfig \<Rightarrow> RunnerStartSpec \<Rightarrow> string \<Rightarrow> string \<Rightarrow> string list" where
  "buildRunArgs cfg spec jobDir secretsDir =
     [''run'', ''-d'', ''--cap-drop=ALL'', ''--security-opt'', ''no-new-privileges'',
      ''--pids-limit'', Itoa (Docker_PidsLimit cfg),
      ''-e'', ''JOB_ID='' @ RunnerStartSpec_JobID spec,
      ''-e'', ''REPO='' @ RunnerStartSpec_Repo spec,
      ''-e'', ''BASE_BRANCH='' @ RunnerStartSpec_BaseBranch spec,
      ''-e'', ''WORK_BRANCH='' @ RunnerStartSpec_WorkBranch spec,
      ''-e'', ''MODEL_OVERRIDE='' @ RunnerStartSpec_Model spec,
      ''-e'', ''SPEC_TYPE='' @ Spec_Type (RunnerStartSpec_Spec spec),
      ''-e'', ''SPEC_VALUE='' @ Spec_Value (RunnerStartSpec_Spec spec),
      ''-v'', jobDir @ '':/workspace'',
      ''-v'', secretsDir @ '':'' @ secretsMountPath @ '':ro'']
     @ (if Docker_CPUs cfg \<noteq> '''' then [''--cpus'', Docker_CPUs cfg] else [])
     @ (if Docker_MemoryMB cfg > 0 then [''--memory'', Itoa (Docker_MemoryMB cfg) @ ''m''] else [])
     @ (if Docker_Network cfg \<noteq> ''''
        then [''--network'', Docker_Network cfg] @ concat (map (\<lambda>d. [''--dns'', d]) (Docker_DNS cfg))
        else [])
     @ [Docker_Image cfg] @ Docker_EntryOverride cfg"

text \<open>Each failing path removes what was created; errors of the removal are dropped.\<close>

definition Start_workspace :: "string \<Rightarrow> ('z host_scheme, unit) act" where
  "Start_workspace jobDir h =
     (case MkdirAll jobDir 0x1FF h of
        (Inl e, h1) \<Rightarrow> (Inl e, snd (RemoveAll jobDir h1))
      | (Inr _, h1) \<Rightarrow>
          (case Chmod jobDir 0x1FF h1 of
             (Inl e, h2) \<Rightarrow> (Inl e, snd (RemoveAll jobDir h2))
           | (Inr _, h2) \<Rightarrow> (Inr (), h2)))"

definition Start_run ::
  "DockerConfig \<Rightarrow> RunnerStartSpec \<Rightarrow> string \<Rightarrow> string \<Rightarrow> ('z host_scheme, string) act" where
  "Start_run cfg spec jobDir secretsDir h =
     (let args = buildRunArgs cfg spec jobDir secretsDir;
          (res, h1) = exec_Command (''docker'' # args) h
      in case exec_err res of
           Some e \<Rightarrow>
             (Inl (Wrapped (''docker run: '' @ error_text e) e),
              snd (RemoveAll secretsDir (snd (RemoveAll jobDir h1))))
         | None \<Rightarrow>
             (let containerID = TrimSpace (exec_out res)
              in (Inr containerID,
                  h1\<lparr>supervised := supervised h1 @
                       [\<lparr>sup_ContainerID = containerID, sup_JobDir = jobDir, sup_SecretsDir = secretsDir,
                         sup_LogPath = RunnerStartSpec_LogPath spec,
                         sup_JobID = RunnerStartSpec_JobID spec\<rparr>]\<rparr>)))"

definition Docker_Start :: "DockerConfig \<Rightarrow> RunnerStartSpec \<Rightarrow> ('z host_scheme, string) act" where
  "Docker_Start cfg spec h =
     (let jobDir = filepath_Join [Docker_WorkDirHost cfg, RunnerStartSpec_JobID spec]
      in case Start_workspace jobDir h of
           (Inl e, h1) \<Rightarrow> (Inl e, h1)
         | (Inr _, h1) \<Rightarrow>
             (case writeSecrets (Docker_WorkDirHost cfg) (RunnerStartSpec_JobID spec)
                     (GitCreds_Token (RunnerStartSpec_GitCreds spec))
                     (AnthropicCreds_APIKey (RunnerStartSpec_Anthropic spec)) h1 of
                (Inl e, h2) \<Rightarrow> (Inl e, snd (RemoveAll '''' (snd (RemoveAll jobDir h2))))
              | (Inr secretsDir, h2) \<Rightarrow> Start_run cfg spec jobDir secretsDir h2))"

section \<open>Supervision\<close>

definition readTrimmed :: "string \<Rightarrow> 'z host_scheme \<Rightarrow> string \<times> 'z host_scheme" where
  "readTrimmed path h =
     (case ReadFile path h of (Inl e, h1) \<Rightarrow> ('''', h1) | (Inr b, h1) \<Rightarrow> (TrimSpace b, h1))"

text \<open>\<open>strings.IndexByte\<close> of a newline, and the tail of a file from a line boundary.\<close>

fun index_of :: "char \<Rightarrow> string \<Rightarrow> nat option" where
  "index_of c [] = None"
| "index_of c (x # xs) = (if x = c then Some 0 else map_option Suc (index_of c xs))"

definition newline :: char where "newline = CHR 0x0A"

definition tail_bytes :: "string \<Rightarrow> nat \<Rightarrow> string" where
  "tail_bytes b mx =
     (if length b > mx then
        (let b' = drop (length b - mx) b
         in case index_of newline b' of
              Some i \<Rightarrow> if i + 1 < length b' then drop (i + 1) b' else b'
            | None \<Rightarrow> b')
      else b)"

definition tailFile :: "string \<Rightarrow> nat \<Rightarrow> 'z host_scheme \<Rightarrow> string \<times> 'z host_scheme" where
  "tailFile path mx h =
     (case ReadFile path h of (Inl e, h1) \<Rightarrow> ('''', h1) | (Inr b, h1) \<Rightarrow> (tail_bytes b mx, h1))"

text \<open>
  \<open>docker wait\<close> under the deadline: whether the deadline was exceeded. With a limit that is
  not positive the context has expired before the command starts.
\<close>

definition docker_wait :: "DockerConfig \<Rightarrow> string \<Rightarrow> 'z host_scheme \<Rightarrow> bool \<times> 'z host_scheme" where
  "docker_wait cfg containerID h =
     (let (failed, late, h1) =
            (if sint (Docker_MaxJobDuration cfg) \<le> 0 then (True, True, h)
             else let (res, h1) = exec_Command [''docker'', ''wait'', containerID] h
                  in (exec_err res \<noteq> None, exec_late res, h1))
      in if failed \<and> late
         then (True, snd (exec_Command [''docker'', ''kill'', containerID] h1))
         else (False, h1))"

definition docker_logs :: "string \<Rightarrow> string \<Rightarrow> 'z host_scheme \<Rightarrow> 'z host_scheme" where
  "docker_logs containerID logPath h =
     (case WriteFile logPath '''' 0x180 h of
        (Inl e, h1) \<Rightarrow> h1
      | (Inr _, h1) \<Rightarrow>
          let (res, h2) = exec_Command [''docker'', ''logs'', containerID] h1
          in h2\<lparr>fs_entries := put_file 0x180 logPath (exec_out res) (fs_entries h2)\<rparr>)"

text \<open>\<open>fmt.Sscanf\<close> with \<open>%d\<close>: a sign and the digits that follow; the variable keeps its
  value, here 0, when there is no number in range.\<close>

definition Sscanf_d :: "string \<Rightarrow> int" where
  "Sscanf_d s =
     (let sign = (if HasPrefix s ''-'' \<or> HasPrefix s ''+'' then take 1 s else '''');
          ds = takeWhile is_digit (drop (length sign) s)
      in case ParseInt64 (sign @ ds) of None \<Rightarrow> 0 | Some n \<Rightarrow> n)"

definition docker_exit_code :: "bool \<Rightarrow> string \<Rightarrow> 'z host_scheme \<Rightarrow> int \<times> 'z host_scheme" where
  "docker_exit_code timedOut containerID h =
     (if timedOut then (124, h)
      else let (res, h1) = exec_Command
                 [''docker'', ''inspect'', ''--format'', ''{{.State.ExitCode}}'', containerID] h
           in (Sscanf_d (TrimSpace (exec_out res)), h1))"

definition supervise_error :: "DockerConfig \<Rightarrow> bool \<Rightarrow> int \<Rightarrow> string" where
  "supervise_error cfg timedOut exitCode =
     (if timedOut then ''runner exceeded max duration '' @ Duration_String (Docker_MaxJobDuration cfg)
      else if exitCode \<noteq> 0 then ''runner exited with code '' @ Itoa exitCode
      else '''')"

definition supervise :: "DockerConfig \<Rightarrow> supervision \<Rightarrow> 'z host_scheme \<Rightarrow> RunnerResult \<times> 'z host_scheme" where
  "supervise cfg sv h =
     (let cid = sup_ContainerID sv;
          (timedOut, h1) = docker_wait cfg cid h;
          h2 = docker_logs cid (sup_LogPath sv) h1;
          (exitCode, h3) = docker_exit_code timedOut cid h2;
          (prURL, h4) = readTrimmed (filepath_Join [sup_JobDir sv, ''.pr-url'']) h3;
          (notifyURL, h5) = readTrimmed (filepath_Join [sup_JobDir sv, ''.notification-webhook'']) h4;
          (logTail, h6) = tailFile (sup_LogPath sv) logTailBytes h5;
          (_, h7) = exec_Command [''docker'', ''rm'', ''-f'', cid] h6;
          (_, h8) = RemoveAll (sup_JobDir sv) h7;
          (_, h9) = RemoveAll (sup_SecretsDir sv) h8
      in (\<lparr>RunnerResult_JobID = sup_JobID sv, RunnerResult_ExitCode = exitCode,
           RunnerResult_PRURL = prURL, RunnerResult_Error = supervise_error cfg timedOut exitCode,
           RunnerResult_NotificationWebhook = notifyURL, RunnerResult_LogTail = logTail\<rparr>, h9))"

section \<open>Inspect, Stop and the adapter\<close>

definition Docker_Inspect :: "string \<Rightarrow> ('z host_scheme, bool) act" where
  "Docker_Inspect containerID h =
     (let (res, h1) = exec_Command
            [''docker'', ''inspect'', ''--format'', ''{{.State.Running}}'', containerID] h
      in if exec_err res \<noteq> None then (Inr False, h1)
         else (Inr (TrimSpace (exec_out res) = ''true''), h1))"

definition Docker_Stop :: "string \<Rightarrow> ('z host_scheme, unit) act" where
  "Docker_Stop containerID h = (Inr (), snd (exec_Command [''docker'', ''kill'', containerID] h))"

definition Docker_Runner :: "DockerConfig \<Rightarrow> 'z host_scheme RunnerService" where
  "Docker_Runner cfg =
     \<lparr>Runner_Start = Docker_Start cfg, Runner_Inspect = Docker_Inspect, Runner_Stop = Docker_Stop\<rparr>"

text \<open>\<open>network.go\<close>\<close>

definition checkNetwork :: "(nat \<Rightarrow> bool) \<Rightarrow> string \<Rightarrow> (string \<Rightarrow> 'z host_scheme \<Rightarrow> go_error option \<times> 'z host_scheme) \<Rightarrow>
    'z host_scheme \<Rightarrow> go_error option \<times> 'z host_scheme" where
  "checkNetwork isprint name inspect h =
     (if name = '''' then (None, h)
      else case inspect name h of
        (None, h1) \<Rightarrow> (None, h1)
      | (Some e, h1) \<Rightarrow>
          (Some (Wrapped (''runner network '' @ Quote isprint name @ '' not found '' @
             [char_of (226::nat), char_of (128::nat), char_of (148::nat)] @
             '' create it (see deploy/firewall) or unset AGENTIC_RUNNER_NETWORK: '' @ error_text e) e), h1))"

definition PreflightNetwork :: "(nat \<Rightarrow> bool) \<Rightarrow> string \<Rightarrow> 'z host_scheme \<Rightarrow> go_error option \<times> 'z host_scheme" where
  "PreflightNetwork isprint name =
     checkNetwork isprint name (\<lambda>n h.
       let (res, h1) = exec_Command [''docker'', ''network'', ''inspect'', n] h in (exec_err res, h1))"

section \<open>The adapter never touches the jobs\<close>

lemma writeSecrets_keeps: "keeps pg_ok pg_jobs_of (writeSecrets w j g a)"
  unfolding writeSecrets_def writeSecretFile_def Let_def
  by (intro try_then_keeps fs_keeps Inr_keeps)

lemma Start_workspace_keeps: "keeps pg_ok pg_jobs_of (Start_workspace d)"
proof (rule keepsI)
  fix s s' :: "'a host_scheme" and r
  assume ok: "pg_ok s" and run: "Start_workspace d s = (r, s')"
  obtain a s1 where a: "MkdirAll d 0x1FF s = (a, s1)" by fastforce
  obtain b s2 where b: "Chmod d 0x1FF s1 = (b, s2)" by fastforce
  note k1 = keepsD [OF fs_keeps(1) ok a]
  note k2 = keepsD [OF fs_keeps(2) k1(1) b]
  show "pg_ok s' \<and> pg_jobs_of s' = pg_jobs_of s"
    using run a b k1 k2 keeps_snd [OF RemoveAll_keeps k1(1)] keeps_snd [OF RemoveAll_keeps k2(1)]
    by (auto simp: Start_workspace_def split: sum.splits)
qed

lemma Start_run_keeps: "keeps pg_ok pg_jobs_of (Start_run cfg spec d sd)"
proof (rule keepsI)
  fix s s' :: "'a host_scheme" and r
  assume ok: "pg_ok s" and run: "Start_run cfg spec d sd s = (r, s')"
  obtain a s1 where a: "exec_Command (''docker'' # buildRunArgs cfg spec d sd) s = (a, s1)" by fastforce
  note k1 = keepsD [OF exec_keeps ok a]
  note k2 = keeps_snd [OF RemoveAll_keeps [of d] k1(1)]
  note k3 = keeps_snd [OF RemoveAll_keeps [of sd] conjunct1 [OF k2]]
  show "pg_ok s' \<and> pg_jobs_of s' = pg_jobs_of s"
    using run a k1 k2 k3 by (auto simp: Start_run_def Let_def split: option.splits)
qed

lemma Docker_Start_keeps: "keeps pg_ok pg_jobs_of (Docker_Start cfg spec)"
proof (rule keepsI)
  fix s s' :: "'a host_scheme" and r
  assume ok: "pg_ok s" and run: "Docker_Start cfg spec s = (r, s')"
  let ?d = "filepath_Join [Docker_WorkDirHost cfg, RunnerStartSpec_JobID spec]"
  let ?ws = "writeSecrets (Docker_WorkDirHost cfg) (RunnerStartSpec_JobID spec)
     (GitCreds_Token (RunnerStartSpec_GitCreds spec)) (AnthropicCreds_APIKey (RunnerStartSpec_Anthropic spec))"
  obtain a s1 where a: "Start_workspace ?d s = (a, s1)" by fastforce
  obtain b s2 where b: "?ws s1 = (b, s2)" by fastforce
  note k1 = keepsD [OF Start_workspace_keeps ok a]
  note k2 = keepsD [OF writeSecrets_keeps k1(1) b]
  note k3 = keeps_snd [OF RemoveAll_keeps [of ?d] k2(1)]
  show "pg_ok s' \<and> pg_jobs_of s' = pg_jobs_of s"
  proof (cases a)
    case (Inl e)
    then show ?thesis using run a k1 by (simp add: Docker_Start_def)
  next
    case a': (Inr x)
    show ?thesis
    proof (cases b)
      case (Inl e)
      then show ?thesis using run a b a' k1 k2 k3 by (simp add: Docker_Start_def RemoveAll_def Let_def)
    next
      case (Inr sd)
      then have "Start_run cfg spec ?d sd s2 = (r, s')" using run a b a' by (simp add: Docker_Start_def Let_def)
      from keepsD [OF Start_run_keeps k2(1) this] show ?thesis using k1 k2 by simp
    qed
  qed
qed

lemma Docker_Inspect_keeps: "keeps pg_ok pg_jobs_of (Docker_Inspect c)"
  using exec_keeps by (fastforce intro!: keepsI simp: Docker_Inspect_def Let_def dest: keepsD split: prod.splits if_splits)

lemma Docker_Stop_keeps: "keeps pg_ok pg_jobs_of (Docker_Stop c)"
  using exec_keeps by (auto intro!: keepsI simp: Docker_Stop_def keeps_def)

lemma ReadFile_run_keeps:
  "pg_ok s \<Longrightarrow> ReadFile p s = (a, s') \<Longrightarrow> pg_ok s' \<and> pg_jobs_of s' = pg_jobs_of s"
  using keepsD [OF fs_keeps(4)] by blast

lemma readTrimmed_keeps: "keeps pg_ok pg_jobs_of (readTrimmed p)"
  by (auto intro!: keepsI simp: readTrimmed_def dest: ReadFile_run_keeps split: prod.splits sum.splits)

lemma tailFile_keeps: "keeps pg_ok pg_jobs_of (tailFile p n)"
  by (auto intro!: keepsI simp: tailFile_def dest: ReadFile_run_keeps split: prod.splits sum.splits)

lemma docker_wait_keeps: "keeps pg_ok pg_jobs_of (docker_wait cfg c)"
  by (rule keepsI) (auto simp: docker_wait_def exec_Command_def Let_def split: if_splits)

lemma docker_exit_code_keeps: "keeps pg_ok pg_jobs_of (docker_exit_code t c)"
  by (rule keepsI) (auto simp: docker_exit_code_def exec_Command_def Let_def split: if_splits)

lemma docker_logs_keeps: "keeps pg_ok pg_jobs_of (\<lambda>h. ((), docker_logs c p h))"
proof (rule keepsI)
  fix s s' :: "'a host_scheme" and r :: unit
  assume ok: "pg_ok s" and run: "((), docker_logs c p s) = (r, s')"
  obtain a s1 where a: "WriteFile p '''' 0x180 s = (a, s1)" by fastforce
  show "pg_ok s' \<and> pg_jobs_of s' = pg_jobs_of s"
    using keepsD [OF fs_keeps(3) ok a] run a
    by (auto simp: docker_logs_def exec_Command_def Let_def split: sum.splits)
qed

lemma supervise_keeps: "keeps pg_ok pg_jobs_of (supervise cfg sv)"
proof -
  have logs: "keeps pg_ok pg_jobs_of (\<lambda>h. g (docker_logs c p h))"
    if "keeps pg_ok pg_jobs_of g" for g :: "'a host_scheme \<Rightarrow> RunnerResult \<times> 'a host_scheme" and c p
    using keeps_bind [OF docker_logs_keeps, of "\<lambda>_. g"] that by simp
  show ?thesis
    unfolding supervise_def Let_def
    by (intro keeps_bind logs docker_wait_keeps docker_exit_code_keeps readTrimmed_keeps
        tailFile_keeps exec_keeps RemoveAll_keeps) (simp add: keeps_def)
qed

end
