(* ===== verification/Http_Api.thy ===== *)
theory Http_Api
  imports Ghapp Docker_Runner Job_Refinement
begin

text \<open>
  The HTTP surface, \<open>core/adapter/http\<close>: the JSON and page handlers, the tail of a job's log,
  the authentication middleware and the table of routes with the chi router's matching.

  Parameters stand for the code outside the repository: the rendering of the pages by the templ
  library and the binding of path and query parameters by the runtime of the generated server.
  Request bodies are decoded and answers are written as JSON by the model of \<open>encoding/json\<close>.
\<close>

section \<open>Responses (\<open>jobs_handler.go\<close>)\<close>

text \<open>The status is sent first; when the value has no JSON text the body stays empty.\<close>

definition writeJSON :: "int \<Rightarrow> string + json \<Rightarrow> http_out" where
  "writeJSON code d =
     \<lparr>out_Status = code, out_Header = [(''Content-Type'', ''application/json'')], out_Cookies = [],
      out_Body = (case d of Inl e \<Rightarrow> '''' | Inr v \<Rightarrow> json_text v @ [CHR 0x0A])\<rparr>"

definition writeJSONError :: "int \<Rightarrow> string \<Rightarrow> http_out" where
  "writeJSONError code msg = writeJSON code (Inr (json_map [(''error'', msg)]))"

definition writeDomainError :: "go_error \<Rightarrow> http_out" where
  "writeDomainError e =
     (if errors_Is e NotFound then writeJSONError 404 (error_text e)
      else if errors_Is e Forbidden then writeJSONError 403 (error_text e)
      else if errors_Is e Conflict \<or> errors_Is e InvalidState then writeJSONError 409 (error_text e)
      else writeJSONError 400 (error_text e))"

section \<open>Handlers\<close>

record http_codec =
  page_landing :: string
  page_dashboard :: "Job list \<Rightarrow> string"
  page_settings :: "APIKey list \<Rightarrow> bool \<Rightarrow> string"
  page_status :: "Job \<Rightarrow> string \<Rightarrow> string"
  bind_limit :: "(string \<times> string) list \<Rightarrow> go_error + int option"
  bind_id :: "string \<Rightarrow> go_error + string"
  static_file :: "string \<Rightarrow> http_out"

definition decode_body :: "(string \<Rightarrow> 'b option) \<Rightarrow> http_in \<Rightarrow> 'b option" where
  "decode_body dec r = (case in_Body r of Inl _ \<Rightarrow> None | Inr b \<Rightarrow> dec b)"

definition JobsHandler_EnqueueJob ::
  "'s EnqueueJob \<Rightarrow> UserID \<Rightarrow> http_in \<Rightarrow> 's \<Rightarrow> http_out \<times> 's" where
  "JobsHandler_EnqueueJob uc uid r s =
     (case decode_body dec_enqueue r of
        None \<Rightarrow> (writeJSONError 400 ''invalid json'', s)
      | Some b \<Rightarrow>
          (case EnqueueJob_Execute uc
                  \<lparr>EnqueueJobInput_UserID = uid, EnqueueJobInput_Repo = body_Repo b,
                   EnqueueJobInput_BaseBranch = body_BaseBranch b,
                   EnqueueJobInput_WorkBranch = body_WorkBranch b,
                   EnqueueJobInput_Spec = \<lparr>Spec_Type = body_SourceType b, Spec_Value = body_SpecSource b\<rparr>,
                   EnqueueJobInput_ModelOverride = body_ModelOverride b,
                   EnqueueJobInput_LogPath = ''''\<rparr> s of
             (Inl e, s1) \<Rightarrow> (writeDomainError e, s1)
           | (Inr out, s1) \<Rightarrow>
               (writeJSON 200 (Inr (json_map
                  [(''job_id'', EnqueueJobOutput_JobID out),
                   (''status_url'', ''/jobs/'' @ EnqueueJobOutput_JobID out)])), s1)))"

definition JobsHandler_GetJob ::
  "time_zone \<Rightarrow> 's JobsRepository \<Rightarrow> UserID \<Rightarrow> string \<Rightarrow> 's \<Rightarrow> http_out \<times> 's" where
  "JobsHandler_GetJob tz jobs uid jid s =
     (case GetJob_Execute jobs jid uid s of
        (Inl e, s1) \<Rightarrow> (writeDomainError e, s1)
      | (Inr j, s1) \<Rightarrow> (writeJSON 200 (Job_json tz j), s1))"

definition JobsHandler_ListJobs ::
  "time_zone \<Rightarrow> 's JobsRepository \<Rightarrow> UserID \<Rightarrow> int option \<Rightarrow> 's \<Rightarrow> http_out \<times> 's" where
  "JobsHandler_ListJobs tz jobs uid limit_param s =
     (let limit = (case limit_param of Some n \<Rightarrow> if n > 0 then n else 50 | None \<Rightarrow> 50)
      in case ListJobs_Execute jobs uid limit s of
           (Inl e, s1) \<Rightarrow> (writeJSONError 500 (error_text e), s1)
         | (Inr js, s1) \<Rightarrow> (writeJSON 200 (Jobs_json tz js), s1))"

definition JobsHandler_Cancel :: "'s CancelJob \<Rightarrow> UserID \<Rightarrow> string \<Rightarrow> 's \<Rightarrow> http_out \<times> 's" where
  "JobsHandler_Cancel uc uid jid s =
     (case CancelJob_Execute uc jid uid s of
        (Inl e, s1) \<Rightarrow> (writeDomainError e, s1)
      | (Inr _, s1) \<Rightarrow> (http_status 204, s1))"

text \<open>\<open>settings_handler.go\<close>.\<close>

definition SettingsHandler_SetAnthropic ::
  "'s SecretsRepository \<Rightarrow> UserID \<Rightarrow> http_in \<Rightarrow> 's \<Rightarrow> http_out \<times> 's" where
  "SettingsHandler_SetAnthropic secrets uid r s =
     (case decode_body dec_api_key r of
        None \<Rightarrow> (writeJSONError 400 ''invalid json'', s)
      | Some k \<Rightarrow>
          (case SetAnthropicCredentials_Execute secrets uid k s of
             (Inl e, s1) \<Rightarrow> (writeDomainError e, s1)
           | (Inr _, s1) \<Rightarrow> (http_status 204, s1)))"

definition SettingsHandler_RevokeAPIKey ::
  "'s APIKeysRepository \<Rightarrow> UserID \<Rightarrow> string \<Rightarrow> 's \<Rightarrow> http_out \<times> 's" where
  "SettingsHandler_RevokeAPIKey keys uid kid s =
     (case RevokeAPIKey_Execute keys kid uid s of
        (Inl e, s1) \<Rightarrow> (writeDomainError e, s1)
      | (Inr _, s1) \<Rightarrow> (http_status 204, s1))"

definition SettingsHandler_MintAPIKey ::
  "'s MintAPIKey \<Rightarrow> UserID \<Rightarrow> http_in \<Rightarrow> 's \<Rightarrow> http_out \<times> 's" where
  "SettingsHandler_MintAPIKey uc uid r s =
     (case decode_body dec_name r of
        None \<Rightarrow> (writeJSONError 400 ''invalid json'', s)
      | Some name \<Rightarrow>
          (case MintAPIKey_Execute uc uid name s of
             (Inl e, s1) \<Rightarrow> (writeDomainError e, s1)
           | (Inr (k, plain), s1) \<Rightarrow>
               (writeJSON 200 (Inr (json_map
                  [(''id'', APIKey_ID k), (''plaintext'', plain), (''prefix'', APIKey_Prefix k)])), s1)))"

text \<open>\<open>dashboard_handler.go\<close>.\<close>

definition html_page :: "string \<Rightarrow> http_out" where
  "html_page text =
     \<lparr>out_Status = 200, out_Header = [(''Content-Type'', ''text/html; charset=utf-8'')],
      out_Cookies = [], out_Body = text\<rparr>"

definition Dashboard_Landing ::
  "http_codec \<Rightarrow> (http_in \<Rightarrow> ('s, UserID) act) option \<Rightarrow> http_in \<Rightarrow> 's \<Rightarrow> http_out \<times> 's" where
  "Dashboard_Landing c resolver r s =
     (case resolver of
        None \<Rightarrow> (html_page (page_landing c), s)
      | Some resolve \<Rightarrow>
          (case resolve r s of
             (Inr _, s1) \<Rightarrow> (http_Redirect ''/dashboard'' StatusFound, s1)
           | (Inl _, s1) \<Rightarrow> (html_page (page_landing c), s1)))"

definition Dashboard_Dashboard ::
  "http_codec \<Rightarrow> 's JobsRepository \<Rightarrow> UserID \<Rightarrow> 's \<Rightarrow> http_out \<times> 's" where
  "Dashboard_Dashboard c jobs uid s =
     (case ListJobs_Execute jobs uid 0 s of
        (Inl e, s1) \<Rightarrow> (http_Error (error_text e) 500, s1)
      | (Inr js, s1) \<Rightarrow> (html_page (page_dashboard c js), s1))"

definition Dashboard_Settings ::
  "http_codec \<Rightarrow> 's APIKeysRepository \<Rightarrow> 's SecretsRepository \<Rightarrow> UserID \<Rightarrow> 's \<Rightarrow> http_out \<times> 's" where
  "Dashboard_Settings c keys secrets uid s =
     (case Keys_ListForUser keys uid s of
        (Inl e, s1) \<Rightarrow> (http_Error (error_text e) 500, s1)
      | (Inr ks, s1) \<Rightarrow>
          (case Secrets_GetAnthropicCreds secrets uid s1 of
             (Inr _, s2) \<Rightarrow> (html_page (page_settings c ks True), s2)
           | (Inl e, s2) \<Rightarrow>
               if \<not> errors_Is e NotFound then (http_Error (error_text e) 500, s2)
               else (html_page (page_settings c ks False), s2)))"

text \<open>\<open>status_page.go\<close>: the last lines of at most 256 KiB of the log.\<close>

definition maxLogReadBytes :: nat where "maxLogReadBytes = 256 * 1024"

fun split_runes :: "(bool \<times> string) list \<Rightarrow> string \<Rightarrow> string list" where
  "split_runes [] cur = (if cur \<noteq> '''' then [cur] else [])"
| "split_runes (r # rs) cur =
     (if snd r = [newline] then cur # split_runes rs '''' else split_runes rs (cur @ rune_string r))"

definition splitLines :: "string \<Rightarrow> string list" where
  "splitLines s = split_runes (runes s) ''''"

fun joinLines :: "string list \<Rightarrow> string" where
  "joinLines [] = ''''"
| "joinLines [l] = l"
| "joinLines (l # ls) = l @ [newline] @ joinLines ls"

definition log_tail :: "nat \<Rightarrow> string \<Rightarrow> string" where
  "log_tail maxLines content =
     (let s = (if length content > maxLogReadBytes
               then drop (length content - maxLogReadBytes) content else content);
          lines = splitLines s
      in joinLines (if length lines > maxLines then drop (length lines - maxLines) lines else lines))"

definition readLogTail :: "string \<Rightarrow> nat \<Rightarrow> 'z host_scheme \<Rightarrow> string \<times> 'z host_scheme" where
  "readLogTail path maxLines h =
     (case ReadFile path h of (Inl e, h1) \<Rightarrow> ('''', h1) | (Inr b, h1) \<Rightarrow> (log_tail maxLines b, h1))"

definition StatusPage_Render ::
  "http_codec \<Rightarrow> 'z host_scheme JobsRepository \<Rightarrow> UserID \<Rightarrow> string \<Rightarrow> 'z host_scheme \<Rightarrow> http_out \<times> 'z host_scheme" where
  "StatusPage_Render c jobs uid jid s =
     (case GetJob_Execute jobs jid uid s of
        (Inl e, s1) \<Rightarrow> (http_Error ''not found'' 404, s1)
      | (Inr j, s1) \<Rightarrow>
          let (tail, s2) = readLogTail (Job_LogPath j) 200 s1 in (html_page (page_status c j tail), s2))"

definition StatusPage_LogTail ::
  "'z host_scheme JobsRepository \<Rightarrow> UserID \<Rightarrow> string \<Rightarrow> 'z host_scheme \<Rightarrow> http_out \<times> 'z host_scheme" where
  "StatusPage_LogTail jobs uid jid s =
     (case GetJob_Execute jobs jid uid s of
        (Inl e, s1) \<Rightarrow> (http_Error ''not found'' 404, s1)
      | (Inr j, s1) \<Rightarrow>
          let (tail, s2) = readLogTail (Job_LogPath j) 200 s1
          in (\<lparr>out_Status = 200, out_Header = [(''Content-Type'', ''text/plain; charset=utf-8'')],
               out_Cookies = [], out_Body = tail\<rparr>, s2))"

section \<open>Routes (\<open>router.go\<close>, \<open>gen/server.go\<close>, \<open>routeMounter\<close> of \<open>main.go\<close>)\<close>

datatype route =
    R_Healthz | R_Landing | R_Static string
  | R_Login | R_OAuthCallback | R_Install | R_InstallCallback | R_Webhook
  | R_ListJobs | R_EnqueueJob | R_GetJob string | R_SetAnthropic | R_MintAPIKey
  | R_Cancel string | R_RevokeAPIKey string | R_Dashboard | R_Settings
  | R_Status string | R_LogTail string

text \<open>
  The patterns, by the segments of the path: each with the methods it is mounted for. A
  trailing parameter does not match the empty segment.
\<close>

definition path_routes :: "string \<Rightarrow> (string \<times> route) list" where
  "path_routes path =
     (case split_on (CHR ''/'') path of
        [[], x] \<Rightarrow>
          if x = '''' then [(''GET'', R_Landing)]
          else if x = ''healthz'' then [(''GET'', R_Healthz)]
          else if x = ''login'' then [(''GET'', R_Login)]
          else if x = ''dashboard'' then [(''GET'', R_Dashboard)]
          else if x = ''settings'' then [(''GET'', R_Settings)]
          else []
      | [[], x, y] \<Rightarrow>
          if x = ''api'' \<and> y = ''jobs'' then [(''GET'', R_ListJobs), (''POST'', R_EnqueueJob)]
          else if x = ''settings'' \<and> y = ''anthropic'' then [(''POST'', R_SetAnthropic)]
          else if x = ''settings'' \<and> y = ''api-keys'' then [(''POST'', R_MintAPIKey)]
          else if x = ''webhooks'' \<and> y = ''github'' then [(''POST'', R_Webhook)]
          else if x = ''jobs'' \<and> y \<noteq> '''' then [(''GET'', R_Status y)]
          else []
      | [[], x, y, z] \<Rightarrow>
          if x = ''api'' \<and> y = ''jobs'' \<and> z \<noteq> '''' then [(''GET'', R_GetJob z)]
          else if x = ''settings'' \<and> y = ''api-keys'' \<and> z \<noteq> '''' then [(''DELETE'', R_RevokeAPIKey z)]
          else if x = ''auth'' \<and> y = ''github'' \<and> z = ''callback'' then [(''GET'', R_OAuthCallback)]
          else if x = ''auth'' \<and> y = ''github-app'' \<and> z = ''install'' then [(''GET'', R_Install)]
          else if x = ''auth'' \<and> y = ''github-app'' \<and> z = ''callback'' then [(''GET'', R_InstallCallback)]
          else if x = ''jobs'' \<and> z = ''log'' then [(''GET'', R_LogTail y)]
          else []
      | [[], x, y, z, v] \<Rightarrow>
          if x = ''api'' \<and> y = ''jobs'' \<and> v = ''cancel'' then [(''POST'', R_Cancel z)] else []
      | _ \<Rightarrow> [])"

definition route_of :: "string \<Rightarrow> string \<Rightarrow> int + route" where
  "route_of meth path =
     (if HasPrefix path ''/static/'' then Inr (R_Static (drop (length ''/static/'') path))
      else case path_routes path of
        [] \<Rightarrow> Inl 404
      | rs \<Rightarrow> (case map_of rs meth of None \<Rightarrow> Inl 405 | Some rt \<Rightarrow> Inr rt))"

text \<open>The routes of the group under \<open>BearerOrSession\<close>.\<close>

fun authenticated :: "route \<Rightarrow> bool" where
  "authenticated R_ListJobs = True"
| "authenticated R_EnqueueJob = True"
| "authenticated (R_GetJob _) = True"
| "authenticated R_SetAnthropic = True"
| "authenticated R_MintAPIKey = True"
| "authenticated (R_Cancel _) = True"
| "authenticated (R_RevokeAPIKey _) = True"
| "authenticated R_Dashboard = True"
| "authenticated R_Settings = True"
| "authenticated (R_Status _) = True"
| "authenticated (R_LogTail _) = True"
| "authenticated _ = False"

text \<open>\<open>BearerOrSession\<close> of \<open>middleware.go\<close>: the user goes to the handler with the context.\<close>

definition BearerOrSession ::
  "(http_in \<Rightarrow> ('s, UserID) act) \<Rightarrow> (UserID \<Rightarrow> http_in \<Rightarrow> 's \<Rightarrow> http_out \<times> 's) \<Rightarrow> http_in \<Rightarrow> 's \<Rightarrow>
   http_out \<times> 's" where
  "BearerOrSession resolve next r s =
     (case resolve r s of
        (Inl _, s1) \<Rightarrow>
          (http_Error ([CHR ''{'', CHR 0x22] @ ''error'' @ [CHR 0x22, CHR '':'', CHR 0x22]
             @ ''unauthorized'' @ [CHR 0x22, CHR ''}'']) 401, s1)
      | (Inr uid, s1) \<Rightarrow> next uid r s1)"

section \<open>The request log (\<open>RequestLogger\<close> of \<open>middleware.go\<close>)\<close>

text \<open>
  The line that is logged for a request, and the handler it wraps between two readings of the clock.
  Status and length are those the handler wrote, the identifier of the request is chi's.
\<close>

record log_line =
  log_Method :: string
  log_Path :: string
  log_Status :: int
  log_Bytes :: nat
  log_DurationMs :: int
  log_RequestID :: string

definition Milliseconds :: "int \<Rightarrow> int" where
  "Milliseconds d = sgn d * (\<bar>d\<bar> div 1000000)"

definition RequestLogger ::
  "string \<Rightarrow> (http_in \<Rightarrow> 'z go_env_scheme \<Rightarrow> http_out \<times> 'z go_env_scheme) \<Rightarrow> http_in \<Rightarrow> 'z go_env_scheme \<Rightarrow>
   http_out \<times> log_line \<times> 'z go_env_scheme" where
  "RequestLogger reqID next r s =
     (let (start, s1) = time_Now s; (out, s2) = next r s1; (stop, s3) = time_Now s2
      in (out,
          \<lparr>log_Method = in_Method r, log_Path = in_Path r, log_Status = out_Status out,
           log_Bytes = length (out_Body out), log_DurationMs = Milliseconds (time_Sub stop start),
           log_RequestID = reqID\<rparr>, s3))"

text \<open>
  The logger answers what the handler answers, and its line shows no header, cookie, query or body:
  two requests for the same method and path that are answered alike are logged alike.
\<close>

lemma RequestLogger_answer:
  "fst (RequestLogger reqID next r s) = fst (next r (snd (time_Now s)))"
  by (simp add: RequestLogger_def split_beta)

lemma RequestLogger_discreet:
  assumes "in_Method r = in_Method r'" and "in_Path r = in_Path r'"
    and "next r (snd (time_Now s)) = (out, s1)" and "next r' (snd (time_Now s)) = (out', s1)"
    and "out_Status out = out_Status out'" and "length (out_Body out) = length (out_Body out')"
  shows "fst (snd (RequestLogger reqID next r s)) = fst (snd (RequestLogger reqID next r' s))"
  using assms by (simp add: RequestLogger_def split_beta)

section \<open>Protected paths\<close>

lemma split_on_append:
  "d \<notin> set a \<Longrightarrow> split_on d (a @ d # b) = a # split_on d b"
  by (induction a) auto

lemma path_routes_open:
  assumes "map_of (path_routes path) meth = Some rt" and "\<not> authenticated rt"
  shows "hd (tl (split_on (CHR ''/'') path)) \<notin> {''api'', ''jobs'', ''settings'', ''dashboard''}"
proof
  assume seg: "hd (tl (split_on (CHR ''/'') path)) \<in> {''api'', ''jobs'', ''settings'', ''dashboard''}"
  have one: False if "split_on (CHR ''/'') path = ['''', x]" for x
    using seg that assms by (elim insertE; auto simp: path_routes_def split: if_splits)
  have two: False if "split_on (CHR ''/'') path = ['''', x, y]" for x y
    using seg that assms by (elim insertE; auto simp: path_routes_def split: if_splits)
  have three: False if "split_on (CHR ''/'') path = ['''', x, y, z]" for x y z
    using seg that assms by (elim insertE; auto simp: path_routes_def split: if_splits)
  have four: False if "split_on (CHR ''/'') path = ['''', x, y, z, v]" for x y z v
    using seg that assms by (elim insertE; auto simp: path_routes_def split: if_splits)
  obtain a as where ss: "split_on (CHR ''/'') path = a # as"
    by (metis list.exhaust split_on_not_Nil)
  have hit: "path_routes path \<noteq> []" using assms(1) by auto
  then have "a = ''''" using ss by (cases a) (simp_all add: path_routes_def)
  moreover obtain x bs where "as = x # bs"
    using hit ss calculation by (cases as) (simp_all add: path_routes_def)
  moreover have "length bs \<le> 3"
  proof (rule ccontr)
    assume "\<not> length bs \<le> 3"
    then have "Suc (Suc (Suc (Suc 0))) \<le> length bs" by simp
    then obtain b1 b2 b3 b4 r where "bs = b1 # b2 # b3 # b4 # r" by (auto simp: Suc_le_length_iff)
    then show False using hit ss calculation by (simp add: path_routes_def)
  qed
  ultimately show False
    using one two three four ss
    by (cases bs; cases "tl bs"; cases "tl (tl bs)"; cases "tl (tl (tl bs))") auto
qed

definition protected_path :: "string \<Rightarrow> bool" where
  "protected_path p \<longleftrightarrow>
     HasPrefix p ''/api/'' \<or> HasPrefix p ''/jobs/'' \<or> HasPrefix p ''/settings/''
     \<or> p \<in> {''/settings'', ''/dashboard''}"

lemma protected_route:
  assumes "route_of meth p = Inr rt" and "protected_path p"
  shows "authenticated rt"
proof (rule ccontr)
  assume na: "\<not> authenticated rt"
  have seg: "hd (tl (split_on (CHR ''/'') p)) \<in> {''api'', ''jobs'', ''settings'', ''dashboard''}"
    using assms(2) split_on_append [of "CHR ''/''" "''api''"] split_on_append [of "CHR ''/''" "''jobs''"]
      split_on_append [of "CHR ''/''" "''settings''"]
    by (auto simp: protected_path_def HasPrefix_iff)
  have "\<not> HasPrefix p ''/static/''"
    using assms(2) by (auto simp: protected_path_def HasPrefix_iff)
  then have "map_of (path_routes p) meth = Some rt"
    using assms(1) by (auto simp: route_of_def split: list.splits option.splits)
  then show False using path_routes_open [OF _ na] seg by blast
qed

end
