(* ===== verification/Webhook_Out.thy ===== *)
theory Webhook_Out
  imports Host Go_Url
begin

text \<open>
  The completion webhook, \<open>core/adapter/webhook/http_webhook.go\<close>: at most three attempts
  with exponential backoff. The waits are recorded; a wait may end early when the context
  of the call is done. Building a request fails for an address that does not parse; the
  parameter \<open>isprint\<close> is the table of printable runes its error text depends on.
\<close>

definition maxAttempts :: nat where "maxAttempts = 3"

record HTTPWebhook =
  HTTPWebhook_backoff :: duration

definition Webhook_NewWithBackoff :: "duration \<Rightarrow> HTTPWebhook" where
  "Webhook_NewWithBackoff b = \<lparr>HTTPWebhook_backoff = b\<rparr>"

definition Webhook_New :: HTTPWebhook where
  "Webhook_New = Webhook_NewWithBackoff (word_of_int Second)"

definition webhook_request :: "string \<Rightarrow> string \<Rightarrow> http_request" where
  "webhook_request url payload =
     \<lparr>req_Method = ''POST'', req_URL = url, req_Header = [(''Content-Type'', ''application/json'')],
      req_Body = payload\<rparr>"

text \<open>One attempt: at most 1 KiB of the body of a refusal enters the error.\<close>

definition Webhook_attempt ::
  "(nat \<Rightarrow> bool) \<Rightarrow> string \<Rightarrow> string \<Rightarrow> 'z host_scheme \<Rightarrow> go_error option \<times> 'z host_scheme" where
  "Webhook_attempt isprint url payload h =
     (case url_Parse isprint url of
        Inl e \<Rightarrow> (Some e, h)
      | Inr _ \<Rightarrow>
          (case http_Do (webhook_request url payload) h of
             (Inl e, h1) \<Rightarrow> (Some e, h1)
           | (Inr resp, h1) \<Rightarrow>
               if resp_StatusCode resp \<ge> 400
               then (Some (Opaque (url @ '' returned '' @ Itoa (resp_StatusCode resp) @ '': ''
                            @ take 1024 (resp_Body resp))), h1)
               else (None, h1)))"

text \<open>
  Before every attempt but the first: the wait, and whether the context \<open>ctx\<close> is done by
  then.
\<close>

definition Webhook_wait ::
  "(nat \<Rightarrow> go_error option) \<Rightarrow> HTTPWebhook \<Rightarrow> nat \<Rightarrow> 'z host_scheme \<Rightarrow> go_error option \<times> 'z host_scheme" where
  "Webhook_wait ctx w attempt h =
     (if attempt > 1
      then (ctx attempt, h\<lparr>waits := waits h @ [HTTPWebhook_backoff w * (2 ^ (attempt - 2))]\<rparr>)
      else (None, h))"

text \<open>The loop over \<open>attempt\<close>, from 1 to the bound.\<close>

function Webhook_loop ::
  "(nat \<Rightarrow> bool) \<Rightarrow> (nat \<Rightarrow> go_error option) \<Rightarrow> HTTPWebhook \<Rightarrow> string \<Rightarrow> string \<Rightarrow>
   nat \<Rightarrow> go_error option \<Rightarrow> ('z host_scheme, unit) act" where
  "Webhook_loop isprint ctx w url payload attempt lastErr h =
     (if attempt \<le> maxAttempts then
        (case Webhook_wait ctx w attempt h of
           (Some e, h1) \<Rightarrow> (Inl e, h1)
         | (None, h1) \<Rightarrow>
             (case Webhook_attempt isprint url payload h1 of
                (None, h2) \<Rightarrow> (Inr (), h2)
              | (Some e, h2) \<Rightarrow> Webhook_loop isprint ctx w url payload (Suc attempt) (Some e) h2))
      else case lastErr of
        None \<Rightarrow> (Inl (Opaque (''webhook: giving up after '' @ Itoa (int maxAttempts) @ '' attempts: %!w(<nil>)'')), h)
      | Some e \<Rightarrow>
          (Inl (Wrapped (''webhook: giving up after '' @ Itoa (int maxAttempts) @ '' attempts: '' @ error_text e) e), h))"
  by pat_completeness auto
termination
  by (relation "measure (\<lambda>(_, _, _, _, _, n, _, _). Suc maxAttempts - n)") auto

declare Webhook_loop.simps [simp del]

definition Webhook_Dispatch ::
  "(nat \<Rightarrow> bool) \<Rightarrow> (nat \<Rightarrow> go_error option) \<Rightarrow> HTTPWebhook \<Rightarrow> string \<Rightarrow> string \<Rightarrow>
   ('z host_scheme, unit) act" where
  "Webhook_Dispatch isprint ctx w url payload = Webhook_loop isprint ctx w url payload 1 None"

text \<open>As wired: the completion runs under \<open>context.Background()\<close>, which is never done.\<close>

definition HTTPWebhookDispatcher :: "(nat \<Rightarrow> bool) \<Rightarrow> HTTPWebhook \<Rightarrow> 'z host_scheme WebhookDispatcher" where
  "HTTPWebhookDispatcher isprint w =
     \<lparr>Dispatcher_Dispatch = (\<lambda>url payload. Webhook_Dispatch isprint (\<lambda>_. None) w url payload)\<rparr>"

section \<open>Bounds\<close>

lemma Webhook_attempt_effect:
  assumes "Webhook_attempt isprint url payload h = (r, h')"
  shows "pg_ok h' = pg_ok h" and "pg_jobs_of h' = pg_jobs_of h" and "waits h' = waits h"
    and "\<exists>reqs. http_log h' = http_log h @ reqs \<and> length reqs \<le> 1
           \<and> set reqs \<subseteq> {webhook_request url payload}"
  using assms
  by (auto simp: Webhook_attempt_def http_Do_def split: option.splits sum.splits if_splits prod.splits)

lemma Webhook_wait_effect:
  assumes "Webhook_wait ctx w n h = (r, h')"
  shows "pg_ok h' = pg_ok h" and "pg_jobs_of h' = pg_jobs_of h" and "http_log h' = http_log h"
  using assms by (auto simp: Webhook_wait_def split: if_splits)

lemma Webhook_loop_effect:
  assumes "Webhook_loop isprint ctx w url payload n le h = (r, h')"
  shows "pg_ok h' = pg_ok h \<and> pg_jobs_of h' = pg_jobs_of h
    \<and> (\<exists>reqs. http_log h' = http_log h @ reqs \<and> length reqs \<le> Suc maxAttempts - n
           \<and> set reqs \<subseteq> {webhook_request url payload})"
  using assms
proof (induction isprint ctx w url payload n le h arbitrary: r h' rule: Webhook_loop.induct)
  case (1 isprint ctx w url payload n le h)
  show ?case
  proof (cases "n \<le> maxAttempts")
    case False
    then show ?thesis using "1.prems"
      by (subst (asm) Webhook_loop.simps) (auto split: option.splits)
  next
    case le: True
    obtain c h1 where c: "Webhook_wait ctx w n h = (c, h1)" by fastforce
    note h1 = Webhook_wait_effect [OF c]
    obtain a h2 where a: "Webhook_attempt isprint url payload h1 = (a, h2)" by fastforce
    note eff = Webhook_attempt_effect [OF a]
    obtain rq where rq: "http_log h2 = http_log h @ rq" "length rq \<le> 1"
      "set rq \<subseteq> {webhook_request url payload}" using eff(4) h1(3) by auto
    note unf = "1.prems" [unfolded Webhook_loop.simps [of _ _ _ _ _ n]]
    show ?thesis
    proof (cases c)
      case (Some e)
      then show ?thesis using unf le c h1 by auto
    next
      case c': None
      show ?thesis
      proof (cases a)
        case None
        then have "h' = h2" using unf le c c' a by simp
        then show ?thesis using eff h1 rq le by (intro conjI exI [where x = rq]) auto
      next
        case (Some e)
        have run: "Webhook_loop isprint ctx w url payload (Suc n) (Some e) h2 = (r, h')"
          using unf le c c' a Some by simp
        note IH = "1.IH" [OF le c [symmetric] c' a [symmetric] Some run]
        then obtain reqs where "pg_ok h' = pg_ok h2" "pg_jobs_of h' = pg_jobs_of h2"
          and "http_log h' = http_log h2 @ reqs" "length reqs \<le> Suc maxAttempts - Suc n"
          "set reqs \<subseteq> {webhook_request url payload}" by auto
        then show ?thesis using eff h1 rq le by (intro conjI exI [where x = "rq @ reqs"]) auto
      qed
    qed
  qed
qed

lemma Webhook_Dispatch_keeps: "keeps pg_ok pg_jobs_of (Webhook_Dispatch isprint ctx w url payload)"
  using Webhook_loop_effect by (fastforce intro!: keepsI simp: Webhook_Dispatch_def)

section \<open>What a delivery does\<close>

definition delivered :: "'z host_scheme \<Rightarrow> http_request \<Rightarrow> nat \<Rightarrow> bool" where
  "delivered h q i \<longleftrightarrow> (case http_answer h (length (http_log h) + i) q of
     Inl e \<Rightarrow> False | Inr resp \<Rightarrow> resp_StatusCode resp < 400)"

lemma attempt_run:
  assumes "\<not> isl (url_Parse isprint url)"
  shows "\<exists>r. Webhook_attempt isprint url payload h =
      (r, h\<lparr>http_log := http_log h @ [webhook_request url payload]\<rparr>)
    \<and> (r = None \<longleftrightarrow> delivered h (webhook_request url payload) 0)"
proof -
  obtain u where u: "url_Parse isprint url = Inr u" using assms by (cases "url_Parse isprint url") simp_all
  show ?thesis
  proof (cases "http_answer h (length (http_log h)) (webhook_request url payload)")
    case (Inl e)
    then show ?thesis using u by (simp add: Webhook_attempt_def http_Do_def delivered_def)
  next
    case (Inr resp)
    then show ?thesis using u
      by (cases "resp_StatusCode resp \<ge> 400") (simp_all add: Webhook_attempt_def http_Do_def delivered_def)
  qed
qed

text \<open>An address that does not parse is tried three times all the same, with the waits in between.\<close>

lemma delivery_unparsed:
  fixes h :: "'z host_scheme"
  assumes "url_Parse isprint url = Inl e"
  shows "Webhook_Dispatch isprint (\<lambda>_. None) Webhook_New url payload h =
    (Inl (Wrapped (''webhook: giving up after 3 attempts: '' @ error_text e) e),
     h\<lparr>waits := waits h @ [word_of_int Second, 2 * word_of_int Second]\<rparr>)"
proof -
  have three: "Itoa 3 = ''3''" by code_simp
  let ?loop = "Webhook_loop isprint (\<lambda>_. None) Webhook_New url payload"
  let ?wait = "\<lambda>n (h :: 'z host_scheme). snd (Webhook_wait (\<lambda>_. None) Webhook_New n h)"
  have step: "?loop n le h = ?loop (Suc n) (Some e) (?wait n h)" if "n \<le> maxAttempts" for n le and h :: "'z host_scheme"
    using that assms by (subst Webhook_loop.simps) (simp add: Webhook_wait_def Webhook_attempt_def)
  have "?loop 1 None h = ?loop 2 (Some e) (?wait 1 h)"
    using step [of 1 None h] by (simp add: maxAttempts_def numeral_2_eq_2)
  also have "\<dots> = ?loop 3 (Some e) (?wait 2 (?wait 1 h))"
    using step [of 2] by (simp add: maxAttempts_def)
  also have "\<dots> = ?loop 4 (Some e) (?wait 3 (?wait 2 (?wait 1 h)))"
    using step [of 3] by (simp add: maxAttempts_def)
  also have "?loop 4 (Some e) g = (Inl (Wrapped (''webhook: giving up after 3 attempts: '' @ error_text e) e), g)" for g
    by (subst Webhook_loop.simps) (simp add: maxAttempts_def three)
  finally show ?thesis
    by (simp add: Webhook_Dispatch_def Webhook_wait_def Webhook_New_def Webhook_NewWithBackoff_def mult.commute)
qed

lemma loop_step:
  assumes "\<not> isl (url_Parse isprint url)" and "n \<le> maxAttempts"
    and "h1 = (if n > 1 then h\<lparr>waits := waits h @ [HTTPWebhook_backoff w * 2 ^ (n - 2)]\<rparr> else h)"
    and "h2 = h1\<lparr>http_log := http_log h1 @ [webhook_request url payload]\<rparr>" and "m = Suc n"
  shows "\<exists>e. Webhook_loop isprint (\<lambda>_. None) w url payload n le h =
    (if delivered h1 (webhook_request url payload) 0 then (Inr (), h2)
     else Webhook_loop isprint (\<lambda>_. None) w url payload m (Some e) h2)"
proof -
  obtain r where r: "Webhook_attempt isprint url payload h1 = (r, h2)"
    and d: "r = None \<longleftrightarrow> delivered h1 (webhook_request url payload) 0"
    using attempt_run [where h = h1 and isprint = isprint and url = url and payload = payload, OF assms(1)]
    by (auto simp: assms(4))
  have wait: "Webhook_wait (\<lambda>_. None) w n h = (None, h1)"
    by (auto simp: assms(3) Webhook_wait_def)
  have "Webhook_loop isprint (\<lambda>_. None) w url payload n le h = (case r of None \<Rightarrow> (Inr (), h2)
     | Some e \<Rightarrow> Webhook_loop isprint (\<lambda>_. None) w url payload (Suc n) (Some e) h2)"
    using assms(2) by (subst Webhook_loop.simps) (simp add: wait r split: option.split)
  then show ?thesis using d by (cases r) (auto simp: assms(5))
qed

text \<open>The branch of an address that parses: the states after one, two and three attempts.\<close>

lemma delivery_steps:
  fixes h :: "'z host_scheme"
  assumes "\<not> isl (url_Parse isprint url)"
  obtains h1 h2 h3 :: "'z host_scheme" and e :: go_error
  where "http_log h1 = http_log h @ replicate 1 (webhook_request url payload)" "waits h1 = waits h"
    and "http_log h2 = http_log h @ replicate 2 (webhook_request url payload)" "waits h2 = waits h @ [word_of_int Second]"
    and "http_log h3 = http_log h @ replicate 3 (webhook_request url payload)"
      "waits h3 = waits h @ [word_of_int Second, 2 * word_of_int Second]"
    and "Webhook_Dispatch isprint (\<lambda>_. None) Webhook_New url payload h =
      (if delivered h (webhook_request url payload) 0 then (Inr (), h1)
       else if delivered h (webhook_request url payload) 1 then (Inr (), h2)
       else if delivered h (webhook_request url payload) 2 then (Inr (), h3) else (Inl e, h3))"
proof -
  let ?q = "webhook_request url payload"
  let ?loop = "Webhook_loop isprint (\<lambda>_. None) Webhook_New url payload"
  define h1 where "h1 = h\<lparr>http_log := http_log h @ [?q]\<rparr>"
  define w1 where "w1 = h1\<lparr>waits := waits h1 @ [word_of_int Second]\<rparr>"
  define h2 where "h2 = w1\<lparr>http_log := http_log w1 @ [?q]\<rparr>"
  define w2 where "w2 = h2\<lparr>waits := waits h2 @ [word_of_int Second * 2]\<rparr>"
  define h3 where "h3 = w2\<lparr>http_log := http_log w2 @ [?q]\<rparr>"
  note defs = h1_def w1_def h2_def w2_def h3_def
  have d: "delivered w1 ?q 0 = delivered h ?q 1" "delivered w2 ?q 0 = delivered h ?q 2"
    by (simp_all add: delivered_def defs numeral_2_eq_2)
  note step = loop_step [where isprint = isprint and url = url and payload = payload and w = Webhook_New, OF assms]
  note backoff = maxAttempts_def Webhook_New_def Webhook_NewWithBackoff_def
  have "\<exists>e1. ?loop 1 None h = (if delivered h ?q 0 then (Inr (), h1) else ?loop 2 (Some e1) h1)"
    by (rule step) (simp_all add: maxAttempts_def h1_def)
  then obtain e1 where 1: "?loop 1 None h = (if delivered h ?q 0 then (Inr (), h1) else ?loop 2 (Some e1) h1)" ..
  have "\<exists>e2. ?loop 2 (Some e1) h1 = (if delivered h ?q 1 then (Inr (), h2) else ?loop 3 (Some e2) h2)"
    unfolding d(1) [symmetric] by (rule step) (simp_all add: backoff w1_def h2_def)
  then obtain e2 where 2: "?loop 2 (Some e1) h1 = (if delivered h ?q 1 then (Inr (), h2) else ?loop 3 (Some e2) h2)" ..
  have "\<exists>e3. ?loop 3 (Some e2) h2 = (if delivered h ?q 2 then (Inr (), h3) else ?loop 4 (Some e3) h3)"
    unfolding d(2) [symmetric] by (rule step) (simp_all add: backoff w2_def h3_def)
  then obtain e3 where 3: "?loop 3 (Some e2) h2 = (if delivered h ?q 2 then (Inr (), h3) else ?loop 4 (Some e3) h3)" ..
  have "\<exists>e4. ?loop 4 (Some e3) h3 = (Inl e4, h3)"
    by (subst Webhook_loop.simps) (simp add: maxAttempts_def)
  then obtain e4 where 4: "?loop 4 (Some e3) h3 = (Inl e4, h3)" ..
  show thesis
    by (rule that [of h1 h2 h3 e4])
      (simp_all only: Webhook_Dispatch_def 1 2 3 4,
       simp_all add: defs numeral_2_eq_2 numeral_3_eq_3 mult.commute)
qed

lemma delivery_parsed:
  assumes "\<not> isl (url_Parse isprint url)"
  shows "case Webhook_Dispatch isprint (\<lambda>_. None) Webhook_New url payload h of
     (Inr _, h') \<Rightarrow> \<exists>n \<in> {1, 2, 3}. delivered h (webhook_request url payload) (n - 1)
        \<and> (\<forall>i \<in> {..<n - 1}. \<not> delivered h (webhook_request url payload) i)
        \<and> http_log h' = http_log h @ replicate n (webhook_request url payload)
        \<and> waits h' = waits h @ take (n - 1) [word_of_int Second, 2 * word_of_int Second]
   | (Inl e, h') \<Rightarrow> (\<forall>i \<in> {..<3}. \<not> delivered h (webhook_request url payload) i)
        \<and> http_log h' = http_log h @ replicate 3 (webhook_request url payload)
        \<and> waits h' = waits h @ [word_of_int Second, 2 * word_of_int Second]"
proof -
  obtain h1 h2 h3 e where run: "http_log h1 = http_log h @ replicate 1 (webhook_request url payload)" "waits h1 = waits h"
    "http_log h2 = http_log h @ replicate 2 (webhook_request url payload)" "waits h2 = waits h @ [word_of_int Second]"
    "http_log h3 = http_log h @ replicate 3 (webhook_request url payload)"
    "waits h3 = waits h @ [word_of_int Second, 2 * word_of_int Second]"
    "Webhook_Dispatch isprint (\<lambda>_. None) Webhook_New url payload h =
      (if delivered h (webhook_request url payload) 0 then (Inr (), h1)
       else if delivered h (webhook_request url payload) 1 then (Inr (), h2)
       else if delivered h (webhook_request url payload) 2 then (Inr (), h3) else (Inl e, h3))"
    by (rule delivery_steps [OF assms])
  have two: "{..<2} = {0, 1 :: nat}" and three: "{..<3} = {0, 1, 2 :: nat}" by auto
  let ?d = "delivered h (webhook_request url payload)"
  consider "?d 0" | "\<not> ?d 0" "?d 1" | "\<not> ?d 0" "\<not> ?d 1" "?d 2" | "\<not> ?d 0" "\<not> ?d 1" "\<not> ?d 2" by blast
  then show ?thesis by cases (simp_all add: run two three)
qed

text \<open>
  C28. A dispatch that is not cancelled ends after at most three attempts: it succeeds at the
  first delivered one and stops there, or all three failed; it waits one and then two seconds
  between them. An address that does not parse is never requested, and its error is what the
  caller gets, after the same waits.
\<close>

theorem webhook_delivery:
  "case Webhook_Dispatch isprint (\<lambda>_. None) Webhook_New url payload h of
     (Inr _, h') \<Rightarrow> \<not> isl (url_Parse isprint url) \<and>
        (\<exists>n \<in> {1, 2, 3}. delivered h (webhook_request url payload) (n - 1)
          \<and> (\<forall>i \<in> {..<n - 1}. \<not> delivered h (webhook_request url payload) i)
          \<and> http_log h' = http_log h @ replicate n (webhook_request url payload)
          \<and> waits h' = waits h @ take (n - 1) [word_of_int Second, 2 * word_of_int Second])
   | (Inl e, h') \<Rightarrow> waits h' = waits h @ [word_of_int Second, 2 * word_of_int Second] \<and>
        (case url_Parse isprint url of
           Inl p \<Rightarrow> http_log h' = http_log h
             \<and> e = Wrapped (''webhook: giving up after 3 attempts: '' @ error_text p) p
         | Inr _ \<Rightarrow> (\<forall>i \<in> {..<3}. \<not> delivered h (webhook_request url payload) i)
             \<and> http_log h' = http_log h @ replicate 3 (webhook_request url payload))"
proof (cases "url_Parse isprint url")
  case (Inl p)
  then show ?thesis by (simp add: delivery_unparsed)
next
  case (Inr u)
  then show ?thesis using delivery_parsed [where isprint = isprint and url = url and payload = payload and h = h] by (simp split: prod.splits sum.splits)
qed

theorem webhook_delivery_witness:
  "http_log (snd (Webhook_Dispatch (\<lambda>_. False) (\<lambda>_. None) Webhook_New ''http://x'' ''body'' sample_host))
     = [webhook_request ''http://x'' ''body'']"
proof -
  have all: "delivered sample_host q i" for q i by (simp add: delivered_def)
  have parsed: "\<not> isl (url_Parse (\<lambda>_. False) ''http://x'')" by code_simp
  obtain r h' where run: "Webhook_Dispatch (\<lambda>_. False) (\<lambda>_. None) Webhook_New ''http://x'' ''body'' sample_host = (r, h')"
    by fastforce
  note law = webhook_delivery [where isprint = "\<lambda>_. False" and url = "''http://x''" and payload = "''body''"
      and h = sample_host, unfolded run]
  show ?thesis
  proof (cases r)
    case (Inl e)
    then have "0 \<notin> {..<3 :: nat}"
      using law all parsed by (auto split: sum.splits dest: spec [of _ "0 :: nat"])
    then show ?thesis by simp
  next
    case (Inr x)
    then obtain n where "n \<in> {1, 2, 3 :: nat}" and none: "\<forall>i \<in> {..<n - 1}. \<not> delivered sample_host (webhook_request ''http://x'' ''body'') i"
      and l: "http_log h' = http_log sample_host @ replicate n (webhook_request ''http://x'' ''body'')"
      using law by (simp only: sum.case prod.case) blast
    moreover have "n - 1 = 0" using none all by (cases "n - 1") auto
    ultimately have "n = 1" by auto
    then show ?thesis using l run by simp
  qed
qed

end
