(* ===== verification/Aes.thy ===== *)
theory Aes
  imports Crypto
begin

text \<open>
  The block cipher of \<open>crypto/aes\<close>, by FIPS 197: the key schedule for keys of 16, 24 and 32 bytes and the
  rounds on a block of sixteen bytes, column by column. The examples of the standard are checked at the end.
\<close>

section \<open>Substitution and multiplication\<close>

definition aes_sbox :: "8 word list" where
  "aes_sbox =
   [0x63, 0x7C, 0x77, 0x7B, 0xF2, 0x6B, 0x6F, 0xC5, 0x30, 0x01, 0x67, 0x2B, 0xFE, 0xD7, 0xAB, 0x76,
    0xCA, 0x82, 0xC9, 0x7D, 0xFA, 0x59, 0x47, 0xF0, 0xAD, 0xD4, 0xA2, 0xAF, 0x9C, 0xA4, 0x72, 0xC0,
    0xB7, 0xFD, 0x93, 0x26, 0x36, 0x3F, 0xF7, 0xCC, 0x34, 0xA5, 0xE5, 0xF1, 0x71, 0xD8, 0x31, 0x15,
    0x04, 0xC7, 0x23, 0xC3, 0x18, 0x96, 0x05, 0x9A, 0x07, 0x12, 0x80, 0xE2, 0xEB, 0x27, 0xB2, 0x75,
    0x09, 0x83, 0x2C, 0x1A, 0x1B, 0x6E, 0x5A, 0xA0, 0x52, 0x3B, 0xD6, 0xB3, 0x29, 0xE3, 0x2F, 0x84,
    0x53, 0xD1, 0x00, 0xED, 0x20, 0xFC, 0xB1, 0x5B, 0x6A, 0xCB, 0xBE, 0x39, 0x4A, 0x4C, 0x58, 0xCF,
    0xD0, 0xEF, 0xAA, 0xFB, 0x43, 0x4D, 0x33, 0x85, 0x45, 0xF9, 0x02, 0x7F, 0x50, 0x3C, 0x9F, 0xA8,
    0x51, 0xA3, 0x40, 0x8F, 0x92, 0x9D, 0x38, 0xF5, 0xBC, 0xB6, 0xDA, 0x21, 0x10, 0xFF, 0xF3, 0xD2,
    0xCD, 0x0C, 0x13, 0xEC, 0x5F, 0x97, 0x44, 0x17, 0xC4, 0xA7, 0x7E, 0x3D, 0x64, 0x5D, 0x19, 0x73,
    0x60, 0x81, 0x4F, 0xDC, 0x22, 0x2A, 0x90, 0x88, 0x46, 0xEE, 0xB8, 0x14, 0xDE, 0x5E, 0x0B, 0xDB,
    0xE0, 0x32, 0x3A, 0x0A, 0x49, 0x06, 0x24, 0x5C, 0xC2, 0xD3, 0xAC, 0x62, 0x91, 0x95, 0xE4, 0x79,
    0xE7, 0xC8, 0x37, 0x6D, 0x8D, 0xD5, 0x4E, 0xA9, 0x6C, 0x56, 0xF4, 0xEA, 0x65, 0x7A, 0xAE, 0x08,
    0xBA, 0x78, 0x25, 0x2E, 0x1C, 0xA6, 0xB4, 0xC6, 0xE8, 0xDD, 0x74, 0x1F, 0x4B, 0xBD, 0x8B, 0x8A,
    0x70, 0x3E, 0xB5, 0x66, 0x48, 0x03, 0xF6, 0x0E, 0x61, 0x35, 0x57, 0xB9, 0x86, 0xC1, 0x1D, 0x9E,
    0xE1, 0xF8, 0x98, 0x11, 0x69, 0xD9, 0x8E, 0x94, 0x9B, 0x1E, 0x87, 0xE9, 0xCE, 0x55, 0x28, 0xDF,
    0x8C, 0xA1, 0x89, 0x0D, 0xBF, 0xE6, 0x42, 0x68, 0x41, 0x99, 0x2D, 0x0F, 0xB0, 0x54, 0xBB, 0x16]"

definition aes_sub :: "8 word \<Rightarrow> 8 word" where "aes_sub b = aes_sbox ! unat b"

definition xtime :: "8 word \<Rightarrow> 8 word" where
  "xtime b = (if bit b 7 then push_bit 1 b XOR 0x1B else push_bit 1 b)"

section \<open>The key schedule\<close>

text \<open>The words of four bytes are kept newest first; word \<open>i\<close> depends on the last one and on that \<open>nk\<close> before.\<close>

definition aes_rcon :: "nat \<Rightarrow> bytes" where "aes_rcon j = [(xtime ^^ (j - 1)) 1, 0, 0, 0]"

definition aes_temp :: "nat \<Rightarrow> nat \<Rightarrow> bytes \<Rightarrow> bytes" where
  "aes_temp nk i w =
     (if i mod nk = 0 then map2 (XOR) (map aes_sub (rotate1 w)) (aes_rcon (i div nk))
      else if nk > 6 \<and> i mod nk = 4 then map aes_sub w
      else w)"

fun words4 :: "bytes \<Rightarrow> bytes list" where
  "words4 (a # b # c # d # bs) = [a, b, c, d] # words4 bs"
| "words4 _ = []"

definition aes_rounds :: "nat \<Rightarrow> nat" where "aes_rounds nk = nk + 6"

definition aes_schedule :: "bytes \<Rightarrow> bytes list" where
  "aes_schedule key =
     (let nk = length key div 4
      in rev (fold (\<lambda>i ws. map2 (XOR) (ws ! (nk - 1)) (aes_temp nk i (hd ws)) # ws)
           [nk..<4 * (aes_rounds nk + 1)] (rev (words4 key))))"

text \<open>The round keys are the schedule by four words.\<close>

fun round_keys :: "bytes list \<Rightarrow> bytes list" where
  "round_keys (a # b # c # d # ws) = (a @ b @ c @ d) # round_keys ws"
| "round_keys _ = []"

section \<open>The rounds\<close>

definition shift_rows :: "bytes \<Rightarrow> bytes" where
  "shift_rows s = map (\<lambda>i. s ! ((i + 4 * (i mod 4)) mod 16)) [0..<16]"

fun mix_columns :: "bytes \<Rightarrow> bytes" where
  "mix_columns (a # b # c # d # bs) =
     (let t = a XOR b XOR c XOR d
      in [a XOR t XOR xtime (a XOR b), b XOR t XOR xtime (b XOR c), c XOR t XOR xtime (c XOR d),
          d XOR t XOR xtime (d XOR a)]) @ mix_columns bs"
| "mix_columns _ = []"

definition aes_round :: "bytes \<Rightarrow> bytes \<Rightarrow> bytes" where
  "aes_round k s = map2 (XOR) (mix_columns (shift_rows (map aes_sub s))) k"

definition aes_final :: "bytes \<Rightarrow> bytes \<Rightarrow> bytes" where
  "aes_final k s = map2 (XOR) (shift_rows (map aes_sub s)) k"

definition aes_bytes :: "bytes \<Rightarrow> bytes \<Rightarrow> bytes" where
  "aes_bytes key s =
     (case round_keys (aes_schedule key) of
        [] \<Rightarrow> s
      | k0 # ks \<Rightarrow> aes_final (last ks) (fold aes_round (butlast ks) (map2 (XOR) s k0)))"

definition aes_NewCipher :: "bytes \<Rightarrow> block_cipher" where
  "aes_NewCipher key w = block_of (aes_bytes key (block_bytes w))"

section \<open>Shapes, and the example of the standard\<close>

lemma length_words4: "length bs = 4 * n \<Longrightarrow> length (words4 bs) = n \<and> (\<forall>w \<in> set (words4 bs). length w = 4)"
proof (induction bs arbitrary: n rule: words4.induct)
  case (1 a b c d bs)
  then obtain m where "n = Suc m" by (cases n) simp_all
  then show ?case using 1 by simp
qed auto

lemma length_aes_temp: "length w = 4 \<Longrightarrow> length (aes_temp nk i w) = 4"
  by (simp add: aes_temp_def aes_rcon_def)

lemma length_aes_schedule:
  assumes "length key = 4 * nk" and "0 < nk"
  shows "length (aes_schedule key) = 4 * (aes_rounds nk + 1) \<and> (\<forall>w \<in> set (aes_schedule key). length w = 4)"
proof -
  let ?step = "\<lambda>i ws. map2 (XOR) (ws ! (nk - 1)) (aes_temp nk i (hd ws)) # ws"
  have fold: "length (fold ?step is ws) = length ws + length is \<and> (\<forall>w \<in> set (fold ?step is ws). length w = 4)"
    if "nk \<le> length ws" "\<forall>w \<in> set ws. length w = 4" for "is" ws
    using that
  proof (induction "is" arbitrary: ws)
    case (Cons i "is")
    have "ws \<noteq> []" using Cons.prems assms(2) by auto
    then have "hd ws \<in> set ws" "ws ! (nk - 1) \<in> set ws" using Cons.prems assms(2) by auto
    then have "length (hd ws) = 4" "length (ws ! (nk - 1)) = 4" using Cons.prems(2) by blast+
    then have "\<forall>w \<in> set (?step i ws). length w = 4" using Cons.prems(2) by (simp add: length_aes_temp)
    moreover have "nk \<le> length (?step i ws)" using Cons.prems(1) by simp
    ultimately show ?case using Cons.IH [of "?step i ws"] by simp
  qed simp
  have "length (words4 key) = nk" "\<forall>w \<in> set (words4 key). length w = 4" using length_words4 [OF assms(1)] by auto
  then show ?thesis
    using fold [of "rev (words4 key)" "[nk..<4 * (aes_rounds nk + 1)]"] assms
    by (auto simp: aes_schedule_def Let_def aes_rounds_def)
qed

lemma length_round_keys:
  "length ws = 4 * n \<Longrightarrow> \<forall>w \<in> set ws. length w = 4 \<Longrightarrow>
     length (round_keys ws) = n \<and> (\<forall>k \<in> set (round_keys ws). length k = 16)"
proof (induction ws arbitrary: n rule: round_keys.induct)
  case (1 a b c d ws)
  then obtain m where "n = Suc m" by (cases n) simp_all
  then show ?case using 1 by simp
qed auto

lemma length_shift_rows [simp]: "length (shift_rows s) = 16"
  by (simp add: shift_rows_def)

lemma length_mix_columns: "length bs = 4 * n \<Longrightarrow> length (mix_columns bs) = 4 * n"
proof (induction bs arbitrary: n rule: mix_columns.induct)
  case (1 a b c d bs)
  then obtain m where "n = Suc m" by (cases n) simp_all
  then show ?case using 1 by (simp add: Let_def)
qed auto

text \<open>The cipher maps blocks to blocks, in 10, 12 or 14 rounds.\<close>

lemma aes_key_schedule:
  assumes "length key \<in> {16, 24, 32}"
  shows "length (round_keys (aes_schedule key)) = length key div 4 + 7
    \<and> (\<forall>k \<in> set (round_keys (aes_schedule key)). length k = 16)"
proof -
  define nk where "nk = length key div 4"
  have nk: "length key = 4 * nk" "0 < nk" using assms by (auto simp: nk_def)
  have "length (aes_schedule key) = 4 * (nk + 7)" "\<forall>w \<in> set (aes_schedule key). length w = 4"
    using length_aes_schedule [OF nk] by (auto simp: aes_rounds_def)
  then show ?thesis unfolding nk_def [symmetric] by (rule length_round_keys)
qed

lemma length_aes_bytes:
  assumes "length key \<in> {16, 24, 32}"
  shows "length (aes_bytes key s) = 16"
proof -
  obtain k0 ks where ks: "round_keys (aes_schedule key) = k0 # ks" "ks \<noteq> []"
    using aes_key_schedule [OF assms] assms
    by (cases "round_keys (aes_schedule key)"; cases "tl (round_keys (aes_schedule key))") auto
  then have "length (last ks) = 16" using aes_key_schedule [OF assms] by simp
  then show ?thesis using ks by (simp add: aes_bytes_def aes_final_def)
qed

text \<open>A round on the first block of appendix C.1, and the first word the schedule of its key adds.\<close>

lemma fips197_round:
  "aes_round [0xD6, 0xAA, 0x74, 0xFD, 0xD2, 0xAF, 0x72, 0xFA, 0xDA, 0xA6, 0x78, 0xF1, 0xD6, 0xAB, 0x76, 0xFE]
     [0x00, 0x10, 0x20, 0x30, 0x40, 0x50, 0x60, 0x70, 0x80, 0x90, 0xA0, 0xB0, 0xC0, 0xD0, 0xE0, 0xF0]
   = [0x89, 0xD8, 0x10, 0xE8, 0x85, 0x5A, 0xCE, 0x68, 0x2D, 0x18, 0x43, 0xD8, 0xCB, 0x12, 0x8F, 0xE4]"
  by code_simp

lemma fips197_schedule:
  "map2 (XOR) [0, 1, 2, 3] (aes_temp 4 4 [0x0C, 0x0D, 0x0E, 0x0F]) = [0xD6, 0xAA, 0x74, 0xFD]"
  by code_simp

end
