(* ===== verification/Server.thy ===== *)
theory Server
  imports Http_Api Config Webhook_Out Aes
begin

text \<open>
  The composition root, \<open>cmd/agentic-delegator/main.go\<close>: the production adapters wired into
  the use cases, the handler of every route, the startup of \<open>serve\<close>, and the events of a
  running server as a step relation: a request, the end of a container, a restart.

  Every event runs to completion before the next; the theory \<open>Races\<close> looks at what finer
  interleavings of two use cases do.
\<close>

section \<open>Parameters and wiring (\<open>runServe\<close>)\<close>

text \<open>What the server uses and the repository does not contain.\<close>

record deps =
  dep_bcrypt :: bcrypt
  dep_IsPrint :: "nat \<Rightarrow> bool"
  dep_ghi :: ghinstallation
  dep_json_errors :: decode_errors
  dep_zone :: time_zone
  dep_codec :: http_codec
  dep_tempDir :: string

definition srv_docker_config :: "Config \<Rightarrow> DockerConfig" where
  "srv_docker_config cfg =
       \<lparr>Docker_Image = cfg_RunnerImage cfg, Docker_EntryOverride = [], Docker_CPUs = ''2'',
        Docker_MemoryMB = 2048, Docker_PidsLimit = 0, Docker_Network = cfg_RunnerNetwork cfg,
        Docker_DNS = cfg_RunnerDNS cfg, Docker_WorkDirHost = cfg_WorkDirHost cfg,
        Docker_MaxJobDuration = cfg_MaxJobDuration cfg\<rparr>"

text \<open>The configuration \<open>docker.New\<close> keeps in the runner.\<close>

definition srv_docker :: "deps \<Rightarrow> Config \<Rightarrow> DockerConfig" where
  "srv_docker D cfg = Docker_defaults (dep_tempDir D) (srv_docker_config cfg)"

definition srv_runner :: "deps \<Rightarrow> Config \<Rightarrow> 'z host_scheme RunnerService" where
  "srv_runner D cfg = Docker_Runner (srv_docker D cfg)"

definition srv_secrets :: "deps \<Rightarrow> Config \<Rightarrow> 'z db_scheme SecretsRepository" where
  "srv_secrets D cfg = encryptingSecrets SecretsRepo (aes_NewCipher (cfg_MasterKey cfg))"

definition srv_keys :: "deps \<Rightarrow> 'z db_scheme APIKeysRepository" where
  "srv_keys D = keyhash_Repo (dep_bcrypt D) APIKeysRepo"

definition srv_app :: "Config \<Rightarrow> AppCreds" where
  "srv_app cfg = \<lparr>AppCreds_AppID = cfg_GHAppID cfg, AppCreds_PrivateKeyPEM = cfg_GHAppPrivateKey cfg\<rparr>"

definition srv_repo_creds :: "deps \<Rightarrow> Config \<Rightarrow> 'z db_scheme RepoCredentialsProvider" where
  "srv_repo_creds D cfg = RepoCredsProvider (dep_ghi D) (srv_app cfg) InstallationsRepo_ByUserAndRepo"

definition srv_anthropic :: "deps \<Rightarrow> Config \<Rightarrow> 'z db_scheme AnthropicCredentialsProvider" where
  "srv_anthropic D cfg = AnthropicCredsProvider (srv_secrets D cfg)"

definition srv_hooks :: "deps \<Rightarrow> 'z host_scheme WebhookDispatcher" where
  "srv_hooks D = HTTPWebhookDispatcher (dep_IsPrint D) Webhook_New"

definition srv_sessions :: "Config \<Rightarrow> 'z db_scheme Sessions" where
  "srv_sessions cfg = \<lparr>Sessions_store = SessionsRepo, Sessions_secure = cfg_CookieSecure cfg\<rparr>"

definition srv_oauth :: "Config \<Rightarrow> 'z db_scheme OAuth" where
  "srv_oauth cfg =
     \<lparr>OAuth_cfg = \<lparr>OAuth_ClientID = cfg_GHClientID cfg, OAuth_ClientSecret = cfg_GHClientSecret cfg,
                   OAuth_RedirectURL = cfg_GHOAuthRedirectURL cfg,
                   OAuth_CookieSecure = cfg_CookieSecure cfg\<rparr>,
      OAuth_sessions = srv_sessions cfg, OAuth_identities = IdentitiesRepo,
      OAuth_users = UsersBootstrapRepo_UpsertAdmin, OAuth_idgen = NanoID, OAuth_clock = SystemClock\<rparr>"

definition srv_resolve :: "deps \<Rightarrow> Config \<Rightarrow> http_in \<Rightarrow> ('z db_scheme, UserID) act" where
  "srv_resolve D cfg = Resolver_Resolve (dep_bcrypt D) (srv_sessions cfg) (srv_keys D)"

definition srv_enqueue :: "deps \<Rightarrow> Config \<Rightarrow> 'z host_scheme EnqueueJob" where
  "srv_enqueue D cfg =
     wire_enqueue JobsRepo (srv_repo_creds D cfg) (srv_anthropic D cfg) (srv_runner D cfg)
       NanoID SystemClock (cfg_LogDir cfg) (cfg_MaxConcurrentPerUser cfg) (cfg_MaxConcurrentGlobal cfg)"

definition srv_complete :: "deps \<Rightarrow> 'z host_scheme HandleRunnerCompletion" where
  "srv_complete D = wire_complete JobsRepo SystemClock (srv_hooks D)"

definition srv_reattach :: "deps \<Rightarrow> Config \<Rightarrow> 'z host_scheme ReattachRunningJobs" where
  "srv_reattach D cfg = wire_reattach JobsRepo (srv_runner D cfg) SystemClock"

definition srv_cancel :: "deps \<Rightarrow> Config \<Rightarrow> 'z host_scheme CancelJob" where
  "srv_cancel D cfg = wire_cancel JobsRepo (srv_runner D cfg) SystemClock"

definition srv_mint :: "deps \<Rightarrow> 'z db_scheme MintAPIKey" where
  "srv_mint D = \<lparr>MintAPIKey_Keys = srv_keys D, MintAPIKey_IDGen = NanoID, MintAPIKey_Clock = SystemClock\<rparr>"

section \<open>Requests\<close>

definition Healthz :: "'z db_scheme \<Rightarrow> http_out \<times> 'z db_scheme" where
  "Healthz s =
     (case pg_stmt (\<lambda>d. (Inr (), d)) s of
        (Inl e, s1) \<Rightarrow> (http_Error ''unhealthy'' 503, s1)
      | (Inr (), s1) \<Rightarrow> ((http_status 200)\<lparr>out_Body := ''ok''\<rparr>, s1))"

text \<open>The routes behind the middleware, with the user it found.\<close>

fun serve_user ::
  "deps \<Rightarrow> Config \<Rightarrow> route \<Rightarrow> UserID \<Rightarrow> http_in \<Rightarrow> 'z host_scheme \<Rightarrow> http_out \<times> 'z host_scheme" where
  "serve_user D cfg R_ListJobs uid r s =
     (case bind_limit (dep_codec D) (in_Query r) of
        Inl e \<Rightarrow> (http_Error (error_text e) 400, s)
      | Inr limit \<Rightarrow> JobsHandler_ListJobs (dep_zone D) JobsRepo uid limit s)"
| "serve_user D cfg R_EnqueueJob uid r s =
     JobsHandler_EnqueueJob (srv_enqueue D cfg) uid r s"
| "serve_user D cfg (R_GetJob i) uid r s =
     (case bind_id (dep_codec D) i of
        Inl e \<Rightarrow> (http_Error (error_text e) 400, s)
      | Inr jid \<Rightarrow> JobsHandler_GetJob (dep_zone D) JobsRepo uid jid s)"
| "serve_user D cfg R_SetAnthropic uid r s =
     SettingsHandler_SetAnthropic (srv_secrets D cfg) uid r s"
| "serve_user D cfg R_MintAPIKey uid r s =
     SettingsHandler_MintAPIKey (srv_mint D) uid r s"
| "serve_user D cfg (R_Cancel i) uid r s = JobsHandler_Cancel (srv_cancel D cfg) uid i s"
| "serve_user D cfg (R_RevokeAPIKey i) uid r s = SettingsHandler_RevokeAPIKey (srv_keys D) uid i s"
| "serve_user D cfg R_Dashboard uid r s = Dashboard_Dashboard (dep_codec D) JobsRepo uid s"
| "serve_user D cfg R_Settings uid r s =
     Dashboard_Settings (dep_codec D) (srv_keys D) (srv_secrets D cfg) uid s"
| "serve_user D cfg (R_Status i) uid r s = StatusPage_Render (dep_codec D) JobsRepo uid i s"
| "serve_user D cfg (R_LogTail i) uid r s = StatusPage_LogTail JobsRepo uid i s"
| "serve_user D cfg _ uid r s = (http_status 404, s)"

fun serve_public ::
  "deps \<Rightarrow> Config \<Rightarrow> route \<Rightarrow> http_in \<Rightarrow> 'z host_scheme \<Rightarrow> http_out \<times> 'z host_scheme" where
  "serve_public D cfg R_Healthz r s = Healthz s"
| "serve_public D cfg R_Landing r s =
     Dashboard_Landing (dep_codec D) (Some (srv_resolve D cfg)) r s"
| "serve_public D cfg (R_Static f) r s = (static_file (dep_codec D) f, s)"
| "serve_public D cfg R_Login r s = OAuth_Login (srv_oauth cfg) s"
| "serve_public D cfg R_OAuthCallback r s = OAuth_Callback (dep_json_errors D) (srv_oauth cfg) r s"
| "serve_public D cfg R_Install r s = (Install_Install (cfg_GHAppSlug cfg), s)"
| "serve_public D cfg R_InstallCallback r s =
     Install_Callback (dep_json_errors D) (dep_ghi D) (srv_app cfg) (srv_sessions cfg)
       InstallationsRepo_Upsert r s"
| "serve_public D cfg R_Webhook r s =
     Webhook_Handle (cfg_GHWebhookSecret cfg) InstallationsRepo_Delete r s"
| "serve_public D cfg _ r s = (http_status 404, s)"

definition serve_route ::
  "deps \<Rightarrow> Config \<Rightarrow> route \<Rightarrow> http_in \<Rightarrow> 'z host_scheme \<Rightarrow> http_out \<times> 'z host_scheme" where
  "serve_route D cfg rt r s =
     (if authenticated rt then BearerOrSession (srv_resolve D cfg) (serve_user D cfg rt) r s
      else serve_public D cfg rt r s)"

definition serve :: "deps \<Rightarrow> Config \<Rightarrow> http_in \<Rightarrow> 'z host_scheme \<Rightarrow> http_out \<times> 'z host_scheme" where
  "serve D cfg r s =
     (case route_of (in_Method r) (in_Path r) of
        Inl code \<Rightarrow> (http_status code, s)
      | Inr rt \<Rightarrow> serve_route D cfg rt r s)"

section \<open>The end of a container\<close>

text \<open>The supervisor goroutine of one container: supervision, then the completion callback.\<close>

definition runner_done ::
  "deps \<Rightarrow> Config \<Rightarrow> supervision \<Rightarrow> 'z host_scheme \<Rightarrow> (go_error + unit) \<times> 'z host_scheme" where
  "runner_done D cfg sv s =
     (let (res, s1) = supervise (srv_docker D cfg) sv s
      in HandleRunnerCompletion_Execute (dep_zone D) (srv_complete D) res s1)"

section \<open>Startup\<close>

text \<open>\<open>must\<close>: a fatal error ends the process with its text.\<close>

definition must :: "string \<Rightarrow> go_error \<Rightarrow> string" where
  "must what e = what @ '': '' @ error_text e"

text \<open>Reattach, and the sweep of secrets no running job needs; errors are only logged.\<close>

definition serve_recover :: "deps \<Rightarrow> Config \<Rightarrow> 'z host_scheme \<Rightarrow> 'z host_scheme" where
  "serve_recover D cfg s =
     (let s1 = snd (ReattachRunningJobs_Execute (srv_reattach D cfg) s)
      in case JobsRepo_ListByStatus JobStatusRunning s1 of
           (Inl e, s2) \<Rightarrow> s2
         | (Inr running, s2) \<Rightarrow>
             snd (SweepOrphanSecrets (cfg_WorkDirHost cfg) (map Job_ID running) s2))"

definition runServe :: "deps \<Rightarrow> Config \<Rightarrow> 'z host_scheme \<Rightarrow> (string + unit) \<times> 'z host_scheme" where
  "runServe D cfg s =
     (case Config_ValidateForServe cfg of
        Some e \<Rightarrow> (Inl (must ''config'' e), s)
      | None \<Rightarrow>
          (case NewAESGCM aes_NewCipher (cfg_MasterKey cfg) of
             Inl e \<Rightarrow> (Inl (must ''aes'' e), s)
           | Inr _ \<Rightarrow>
               (case MkdirAll (cfg_LogDir cfg) 0x1C0 s of
                  (Inl e, s1) \<Rightarrow> (Inl (must ''log dir'' e), s1)
                | (Inr _, s1) \<Rightarrow>
                    (case PreflightNetwork (dep_IsPrint D) (cfg_RunnerNetwork cfg) s1 of
                       (Some e, s2) \<Rightarrow> (Inl (must ''runner network preflight'' e), s2)
                     | (None, s2) \<Rightarrow>
                         let (_, s3) = Docker_New (dep_tempDir D) (srv_docker_config cfg) s2
                         in (Inr (), serve_recover D cfg s3)))))"

text \<open>A new process supervises nothing and remembers no delivery.\<close>

definition fresh_process :: "'z host_scheme \<Rightarrow> 'z host_scheme" where
  "fresh_process s = s\<lparr>supervised := [], delivery_seen := []\<rparr>"

section \<open>Events of the server\<close>

inductive srv_step :: "deps \<Rightarrow> Config \<Rightarrow> 'z host_scheme \<Rightarrow> 'z host_scheme \<Rightarrow> bool"
  for D :: deps and cfg :: Config where
  request: "srv_step D cfg s (snd (serve D cfg r s))"
| container: "sv \<in> set (supervised s) \<Longrightarrow>
    srv_step D cfg s (snd (runner_done D cfg sv (s\<lparr>supervised := remove1 sv (supervised s)\<rparr>)))"
| restart: "srv_step D cfg s (snd (runServe D cfg (fresh_process s)))"
| outside: "srv_step D cfg s (s\<lparr>fs_entries := es\<rparr>)"

abbreviation srv_steps :: "deps \<Rightarrow> Config \<Rightarrow> 'z host_scheme \<Rightarrow> 'z host_scheme \<Rightarrow> bool" where
  "srv_steps D cfg \<equiv> (srv_step D cfg)\<^sup>*\<^sup>*"

section \<open>A small server\<close>

text \<open>
  Parameters and a configuration for the concrete instances of the theorems: a hash that is the
  password itself, a zone that is UTC, an app library that mints one token.
\<close>

definition sample_codec :: http_codec where
  "sample_codec =
     \<lparr>page_landing = ''landing'',
      page_dashboard = (\<lambda>js. concat (map Job_ID js)), page_settings = (\<lambda>_ _. ''settings''),
      page_status = (\<lambda>j tail. tail), bind_limit = (\<lambda>_. Inr None), bind_id = Inr,
      static_file = (\<lambda>f. http_status 200)\<rparr>"

definition sample_bcrypt :: bcrypt where
  "sample_bcrypt =
     \<lparr>bcrypt_Generate = (\<lambda>salt p. if length p \<le> 72 then Inr p else Inl (Opaque ''password length'')),
      bcrypt_Compare = (\<lambda>h p. h = p)\<rparr>"

definition sample_deps :: deps where
  "sample_deps =
     \<lparr>dep_bcrypt = sample_bcrypt, dep_IsPrint = (\<lambda>_. False),
      dep_ghi = \<lparr>ghi_New = (\<lambda>_ _ _. None), ghi_Token = (\<lambda>_ _ _ _. Inr ''tok'')\<rparr>,
      dep_json_errors = (\<lambda>_. ''invalid json''), dep_zone = (\<lambda>_. 0), dep_codec = sample_codec, dep_tempDir = ''/tmp''\<rparr>"

definition sample_config :: Config where
  "sample_config =
     \<lparr>cfg_HTTPBind = ''127.0.0.1:8787'', cfg_DSN = ''dsn'', cfg_MasterKey = replicate 32 0,
      cfg_RunnerImage = ''runner'', cfg_RunnerNetwork = '''', cfg_RunnerDNS = [],
      cfg_WorkDirHost = ''/work'', cfg_LogDir = ''/work/logs'', cfg_MaxConcurrentPerUser = 3,
      cfg_MaxConcurrentGlobal = 10, cfg_MaxJobDuration = word_of_int (1800 * Second),
      cfg_CookieSecure = True, cfg_DBMaxOpenConns = 20, cfg_DBMaxIdleConns = 5, cfg_GHAppID = 1,
      cfg_GHAppPrivateKey = ''pem'', cfg_GHAppSlug = ''app'', cfg_GHClientID = ''id'',
      cfg_GHClientSecret = ''secret'', cfg_GHOAuthRedirectURL = ''http://x/cb'',
      cfg_GHWebhookSecret = [1, 2, 3]\<rparr>"

definition sample_request :: "string \<Rightarrow> string \<Rightarrow> http_in" where
  "sample_request meth path =
     \<lparr>in_Method = meth, in_Path = path, in_Query = [], in_Header = [], in_Cookies = [], in_Body = Inr ''''\<rparr>"

end
