(* ===== verification/Server_Invariant.thy ===== *)
theory Server_Invariant
  imports Server
begin

text \<open>
  The production adapters keep the contracts of the ports, so every event of the server
  refines the abstract job store: the interpretation of \<open>job_env\<close> on the wired adapters,
  the calls that leave the jobs alone, and the invariant of reachable states.
\<close>

section \<open>The calls of the production adapters\<close>

lemma Now_keeps_jobs [keeps_intros]: "keeps pg_ok pg_jobs_of (Clock_Now SystemClock)"
  by (auto intro!: keepsI simp: SystemClock_def time_Now_def)

lemma time_keeps [keeps_intros]: "keeps pg_ok pg_jobs_of (time_Now :: 'z db_scheme \<Rightarrow> _)"
  by (auto intro!: keepsI simp: time_Now_def)

lemma rand_keeps [keeps_intros]: "keeps pg_ok pg_jobs_of (rand_Read n :: 'z db_scheme \<Rightarrow> _)"
  by (auto intro!: keepsI simp: rand_Read_def)

lemma randBase32_keeps [keeps_intros]: "keeps pg_ok pg_jobs_of (randBase32 n :: 'z db_scheme \<Rightarrow> _)"
  by (auto intro!: keepsI simp: randBase32_def rand_Read_def)

lemma NanoID_keeps [keeps_intros]:
  "keeps pg_ok pg_jobs_of (IDGen_NewJobID NanoID :: 'z db_scheme \<Rightarrow> _)"
  "keeps pg_ok pg_jobs_of (IDGen_NewAPIKeyID NanoID :: 'z2 db_scheme \<Rightarrow> _)"
  "keeps pg_ok pg_jobs_of (IDGen_NewUserID NanoID :: 'z3 db_scheme \<Rightarrow> _)"
  "keeps pg_ok pg_jobs_of (IDGen_NewAPIKeyPlaintext NanoID :: 'z4 db_scheme \<Rightarrow> _)"
  by (auto intro!: keepsI simp: NanoID_def NanoID_NewJobID_def NanoID_NewAPIKeyID_def
      NanoID_NewUserID_def NanoID_NewAPIKeyPlaintext_def randBase32_def rand_Read_def Let_def)

lemma Encrypt_keeps [keeps_intros]: "keeps pg_ok pg_jobs_of (AESGCM_Encrypt c pt :: ('z db_scheme, _) act)"
  by (auto intro!: keepsI simp: AESGCM_Encrypt_def rand_Read_def Let_def)

lemma encryptingSecrets_keeps [keeps_intros]:
  "keeps pg_ok pg_jobs_of (Secrets_SetAnthropicCreds (encryptingSecrets SecretsRepo aes) u c :: ('z db_scheme, _) act)"
  "keeps pg_ok pg_jobs_of (Secrets_GetAnthropicCreds (encryptingSecrets SecretsRepo aes) u :: ('z2 db_scheme, _) act)"
  unfolding encryptingSecrets_def SecretsRepo_def encryptingSecrets_SetAnthropicCreds_def [abs_def]
    encryptingSecrets_GetAnthropicCreds_def [abs_def] SecretsRepository.simps
  by (intro keeps_intros Secrets_Set_keeps Secrets_Get_keeps)+

lemma AnthropicCreds_keeps [keeps_intros]:
  "keeps pg_ok pg_jobs_of
     (AnthropicCreds_For (AnthropicCredsProvider (encryptingSecrets SecretsRepo aes)) u :: ('z db_scheme, _) act)"
  unfolding AnthropicCredsProvider_def AnthropicCredsProvider_For_def [abs_def]
    AnthropicCredentialsProvider.simps
  by (intro keeps_intros)

lemma keyhash_keeps [keeps_intros]:
  "keeps pg_ok pg_jobs_of (Keys_Create (keyhash_Repo b APIKeysRepo) k :: ('z db_scheme, _) act)"
  "keeps pg_ok pg_jobs_of (Keys_GetByPrefix (keyhash_Repo b APIKeysRepo) p :: ('z2 db_scheme, _) act)"
  "keeps pg_ok pg_jobs_of (Keys_ListForUser (keyhash_Repo b APIKeysRepo) u :: ('z3 db_scheme, _) act)"
  "keeps pg_ok pg_jobs_of (Keys_Delete (keyhash_Repo b APIKeysRepo) i u :: ('z4 db_scheme, _) act)"
  "keeps pg_ok pg_jobs_of (Keys_RecordUsed (keyhash_Repo b APIKeysRepo) i t :: ('z5 db_scheme, _) act)"
  unfolding keyhash_Repo_def APIKeysRepo_def keyhash_Create_def [abs_def] GenerateFromPassword_def
    Let_def APIKeysRepository.simps
  by (intro keeps_intros APIKeys_keeps)+

interpretation prod: job_env "JobsRepo :: 'z host_scheme JobsRepository" pg_jobs_of pg_ok
  SystemClock NanoID "RepoCredsProvider lib app InstallationsRepo_ByUserAndRepo"
  "AnthropicCredsProvider (encryptingSecrets SecretsRepo aes)" "Docker_Runner dc"
  "HTTPWebhookDispatcher isprint w"
  for lib :: ghinstallation and app :: AppCreds and aes :: block_cipher and dc :: DockerConfig
    and isprint :: "nat \<Rightarrow> bool" and w :: HTTPWebhook
proof
  show "keeps pg_ok pg_jobs_of (RepoCreds_For (RepoCredsProvider lib app InstallationsRepo_ByUserAndRepo) u r)"
    for u r
    using RepoCredsProvider_keeps by (simp add: RepoCredsProvider_def)
  show "keeps pg_ok pg_jobs_of (Runner_Start (Docker_Runner dc) spec)" for spec
    using Docker_Start_keeps by (simp add: Docker_Runner_def)
  show "keeps pg_ok pg_jobs_of (Runner_Inspect (Docker_Runner dc) c)" for c
    using Docker_Inspect_keeps by (simp add: Docker_Runner_def)
  show "keeps pg_ok pg_jobs_of (Runner_Stop (Docker_Runner dc) c)" for c
    using Docker_Stop_keeps by (simp add: Docker_Runner_def)
  show "keeps pg_ok pg_jobs_of (Dispatcher_Dispatch (HTTPWebhookDispatcher isprint w) url body)" for url body
    using Webhook_Dispatch_keeps by (simp add: HTTPWebhookDispatcher_def)
qed (rule keeps_intros)+

section \<open>Calls that leave the jobs alone\<close>

lemma GetForUser_keeps_jobs [keeps_intros]:
  "keeps pg_ok pg_jobs_of (Jobs_GetForUser JobsRepo i u :: ('z db_scheme, _) act)"
  by (rule pg.GetForUser_keeps)

lemma ListForUser_keeps_jobs [keeps_intros]:
  "keeps pg_ok pg_jobs_of (Jobs_ListForUser JobsRepo u n :: ('z db_scheme, _) act)"
  by (rule pg.ListForUser_keeps)

lemma GetJob_keeps [keeps_intros]:
  "keeps pg_ok pg_jobs_of (GetJob_Execute JobsRepo i u :: ('z db_scheme, _) act)"
  unfolding GetJob_Execute_def [abs_def] by (intro keeps_intros)

lemma ListJobs_keeps [keeps_intros]:
  "keeps pg_ok pg_jobs_of (ListJobs_Execute JobsRepo u n :: ('z db_scheme, _) act)"
  unfolding ListJobs_Execute_def [abs_def] Let_def by (intro keeps_intros)

lemma SetAnthropic_keeps [keeps_intros]:
  "keeps pg_ok pg_jobs_of (SetAnthropicCredentials_Execute (srv_secrets D cfg) u k :: ('z db_scheme, _) act)"
  unfolding SetAnthropicCredentials_Execute_def [abs_def] srv_secrets_def by (intro keeps_intros)

lemma RevokeAPIKey_keeps [keeps_intros]:
  "keeps pg_ok pg_jobs_of (RevokeAPIKey_Execute (srv_keys D) i u :: ('z db_scheme, _) act)"
  unfolding RevokeAPIKey_Execute_def [abs_def] srv_keys_def by (intro keeps_intros)

lemma MintAPIKey_keeps [keeps_intros]:
  "keeps pg_ok pg_jobs_of (MintAPIKey_Execute (srv_mint D) u n :: ('z db_scheme, _) act)"
  unfolding MintAPIKey_Execute_def [abs_def] srv_mint_def srv_keys_def MintAPIKey.simps Let_def
  by (intro keeps_intros)

lemma resolveBearer_keeps_jobs [keeps_intros]:
  "keeps pg_ok pg_jobs_of (resolveBearer b (srv_keys D) plain :: ('z db_scheme, _) act)"
  unfolding resolveBearer_def [abs_def] srv_keys_def Let_def by (intro keeps_intros)

lemma Session_store_keeps [keeps_intros]:
  "keeps pg_ok pg_jobs_of (Session_Create SessionsRepo sid u t :: ('z db_scheme, _) act)"
  "keeps pg_ok pg_jobs_of (Session_ResolveUser SessionsRepo sid :: ('z2 db_scheme, _) act)"
  "keeps pg_ok pg_jobs_of (Session_Delete SessionsRepo sid :: ('z3 db_scheme, _) act)"
  unfolding SessionsRepo_def SessionStore.simps
  by (rule Session_Create_keeps Session_Resolve_keeps Session_Delete_keeps)+

lemma UserFromRequest_keeps [keeps_intros]:
  "keeps pg_ok pg_jobs_of (Sessions_UserFromRequest (srv_sessions cfg) r :: ('z db_scheme, _) act)"
  unfolding Sessions_UserFromRequest_def [abs_def] srv_sessions_def Sessions.simps by (intro keeps_intros)

lemma Login_keeps [keeps_intros]:
  "keeps pg_ok pg_jobs_of (Sessions_Login (srv_sessions cfg) u :: ('z db_scheme, _) act)"
  unfolding Sessions_Login_def [abs_def] srv_sessions_def Sessions.simps Let_def by (intro keeps_intros)

lemma Logout_keeps [keeps_intros]:
  "keeps pg_ok pg_jobs_of (Sessions_Logout (srv_sessions cfg) r :: 'z db_scheme \<Rightarrow> _)"
proof -
  have "keeps pg_ok pg_jobs_of (SessionsRepo_Delete sid :: ('z db_scheme, _) act)" for sid
    by (rule Session_Delete_keeps)
  then show ?thesis
    by (auto simp: Sessions_Logout_def srv_sessions_def SessionsRepo_def Let_def keeps_def split: option.splits)
qed

lemma Resolve_keeps [keeps_intros]:
  "keeps pg_ok pg_jobs_of (srv_resolve D cfg r :: ('z db_scheme, _) act)"
proof (cases "HasPrefix (Header_Get r ''Authorization'') bearer_prefix")
  case True
  then show ?thesis
    unfolding srv_resolve_def Resolver_Resolve_def [abs_def] Let_def by (simp only: if_True) (intro keeps_intros)
next
  case False
  then show ?thesis
    unfolding srv_resolve_def Resolver_Resolve_def [abs_def] Let_def
    by (simp only: if_False prod.case sum.case) (intro keeps_intros)
qed

lemma InstallationToken_keeps_jobs [keeps_intros]:
  "keeps pg_ok pg_jobs_of (InstallationToken lib app i :: ('z db_scheme, _) act)"
  by (rule InstallationToken_keeps) simp_all

lemma http_Do_keeps [keeps_intros]: "keeps pg_ok pg_jobs_of (http_Do req :: ('z host_scheme, _) act)"
  by (rule http_keeps)

lemma Upserts_keep [keeps_intros]:
  "keeps pg_ok pg_jobs_of (InstallationsRepo_Upsert i :: ('z db_scheme, _) act)"
  "keeps pg_ok pg_jobs_of (InstallationsRepo_Delete n :: ('z2 db_scheme, _) act)"
  "keeps pg_ok pg_jobs_of (UsersBootstrapRepo_UpsertAdmin u nm t :: ('z3 db_scheme, _) act)"
  "keeps pg_ok pg_jobs_of (Identity_Upsert IdentitiesRepo g :: ('z4 db_scheme, _) act)"
  "keeps pg_ok pg_jobs_of (Identity_ByGitHubID IdentitiesRepo gi :: ('z5 db_scheme, _) act)"
  unfolding IdentitiesRepo_def IdentityStore.simps
  by (rule Installation_Upsert_keeps Installation_Delete_keeps UpsertAdmin_keeps
      Identity_Upsert_keeps Identity_ByGitHubID_keeps)+

lemma github_calls_keep [keeps_intros]:
  "keeps pg_ok pg_jobs_of (fetchAccountAndRepos dec tok :: ('z host_scheme, _) act)"
  "keeps pg_ok pg_jobs_of (exchangeCode js oc code :: ('z2 host_scheme, _) act)"
  "keeps pg_ok pg_jobs_of (fetchUser js tok :: ('z3 host_scheme, _) act)"
  unfolding fetchAccountAndRepos_def [abs_def] exchangeCode_def [abs_def] fetchUser_def [abs_def] Let_def
  by (intro keeps_intros)+

lemma InstallCallback_keeps [keeps_intros]:
  "keeps pg_ok pg_jobs_of (Install_Callback dec lib app (srv_sessions cfg) InstallationsRepo_Upsert r
     :: 'z host_scheme \<Rightarrow> _)"
  unfolding Install_Callback_def [abs_def] Let_def by (intro keeps_intros)

lemma OAuth_account_keeps [keeps_intros]:
  "keeps pg_ok pg_jobs_of (OAuth_account (srv_oauth cfg) u :: ('z host_scheme, _) act)"
  unfolding OAuth_account_def [abs_def] srv_oauth_def OAuth.simps Let_def by (intro keeps_intros)

lemma OAuth_sign_in_keeps [keeps_intros]:
  "keeps pg_ok pg_jobs_of (OAuth_sign_in (srv_oauth cfg) r u :: 'z host_scheme \<Rightarrow> _)"
proof -
  have f: "OAuth_identities (srv_oauth cfg) = (IdentitiesRepo :: 'z host_scheme IdentityStore)"
    "OAuth_sessions (srv_oauth cfg) = (srv_sessions cfg :: 'z host_scheme Sessions)"
    by (simp_all add: srv_oauth_def)
  show ?thesis unfolding OAuth_sign_in_def [abs_def] f Let_def by (intro keeps_intros)
qed

lemma OAuth_Callback_keeps [keeps_intros]:
  "keeps pg_ok pg_jobs_of (OAuth_Callback js (srv_oauth cfg) r :: 'z host_scheme \<Rightarrow> _)"
  unfolding OAuth_Callback_def [abs_def] Let_def by (intro keeps_intros)

lemma OAuth_Login_keeps [keeps_intros]:
  "keeps pg_ok pg_jobs_of (OAuth_Login (srv_oauth cfg) :: 'z host_scheme \<Rightarrow> _)"
  unfolding OAuth_Login_def [abs_def] srv_oauth_def OAuth.simps Let_def by (intro keeps_intros)

lemma Webhook_Handle_keeps [keeps_intros]:
  "keeps pg_ok pg_jobs_of (Webhook_Handle secret InstallationsRepo_Delete r :: 'z host_scheme \<Rightarrow> _)"
proof (rule keepsI)
  fix s s' :: "'z host_scheme" and out
  assume ok: "pg_ok s" and run: "Webhook_Handle secret InstallationsRepo_Delete r s = (out, s')"
  have del: "pg_ok (snd (InstallationsRepo_Delete i t)) \<and> pg_jobs_of (snd (InstallationsRepo_Delete i t)) = pg_jobs_of t"
    if "pg_ok t" for i and t :: "'z host_scheme"
    using keeps_snd [OF Installation_Delete_keeps that] .
  show "pg_ok s' \<and> pg_jobs_of s' = pg_jobs_of s"
    using run ok del by (auto simp: Webhook_Handle_def time_Now_def Let_def split: sum.splits if_splits prod.splits)
qed

lemma ReadFile_keeps [keeps_intros]: "keeps pg_ok pg_jobs_of (ReadFile p :: ('z host_scheme, _) act)"
  by (rule fs_keeps)

lemma readLogTail_keeps [keeps_intros]: "keeps pg_ok pg_jobs_of (readLogTail p n :: 'z host_scheme \<Rightarrow> _)"
  unfolding readLogTail_def [abs_def] by (intro keeps_intros)

lemma Healthz_keeps [keeps_intros]: "keeps pg_ok pg_jobs_of (Healthz :: 'z db_scheme \<Rightarrow> _)"
proof -
  have ping: "keeps pg_ok pg_jobs_of (pg_stmt (\<lambda>d. (Inr (), d)) :: ('z db_scheme, unit) act)"
    by (rule pg_stmt_reads) simp_all
  show ?thesis
    unfolding Healthz_def [abs_def] by (intro keeps_intros ping) (simp add: keeps_def split: unit.splits)
qed

section \<open>Every event refines the job store\<close>

definition refines_store :: "int \<Rightarrow> int \<Rightarrow> ('z host_scheme \<Rightarrow> 'a \<times> 'z host_scheme) \<Rightarrow> bool" where
  "refines_store maxU maxG f \<longleftrightarrow>
     (\<forall>s r s'. pg_ok s \<and> wf_store (pg_jobs_of s) \<and> f s = (r, s') \<longrightarrow>
        pg_ok s' \<and> store_steps maxU maxG (pg_jobs_of s) (pg_jobs_of s'))"

named_theorems refines_intros "refinement of the store, by the shape of the call"

lemma refines_storeI:
  assumes "\<And>s r s'. pg_ok s \<Longrightarrow> wf_store (pg_jobs_of s) \<Longrightarrow> f s = (r, s') \<Longrightarrow>
    pg_ok s' \<and> store_steps maxU maxG (pg_jobs_of s) (pg_jobs_of s')"
  shows "refines_store maxU maxG f"
  using assms unfolding refines_store_def by blast

lemma refines_storeD:
  assumes "refines_store maxU maxG f" and "pg_ok s" and "wf_store (pg_jobs_of s)" and "f s = (r, s')"
  shows "pg_ok s'" and "store_steps maxU maxG (pg_jobs_of s) (pg_jobs_of s')" and "wf_store (pg_jobs_of s')"
proof -
  show "pg_ok s'" and st: "store_steps maxU maxG (pg_jobs_of s) (pg_jobs_of s')"
    using assms unfolding refines_store_def by blast+
  show "wf_store (pg_jobs_of s')" using store_steps_wf [OF st assms(3)] .
qed

lemma keeps_refines: "keeps pg_ok pg_jobs_of f \<Longrightarrow> refines_store maxU maxG f"
proof (rule refines_storeI)
  fix s r s'
  assume "keeps pg_ok pg_jobs_of f" "pg_ok s" "f s = (r, s')"
  from keepsD [OF this] show "pg_ok s' \<and> store_steps maxU maxG (pg_jobs_of s) (pg_jobs_of s')" by simp
qed

lemma refines_bind [refines_intros]:
  assumes f: "refines_store maxU maxG f" and g: "\<And>x. refines_store maxU maxG (g x)"
  shows "refines_store maxU maxG (\<lambda>s. case f s of (x, s') \<Rightarrow> g x s')"
proof (rule refines_storeI)
  fix s r s'
  assume ok: "pg_ok s" "wf_store (pg_jobs_of s)" and run: "(case f s of (x, s') \<Rightarrow> g x s') = (r, s')"
  obtain x s1 where x: "f s = (x, s1)" by fastforce
  note k1 = refines_storeD [OF f ok x]
  have "g x s1 = (r, s')" using run x by simp
  note k2 = refines_storeD [OF g k1(1,3) this]
  show "pg_ok s' \<and> store_steps maxU maxG (pg_jobs_of s) (pg_jobs_of s')"
    using k1 k2 by (meson rtranclp_trans)
qed

lemma refines_const [refines_intros]: "refines_store maxU maxG (\<lambda>s. (c, s))"
  by (rule keeps_refines) (rule keeps_const)

lemma refines_sum [refines_intros]:
  "(\<And>e. refines_store maxU maxG (f e)) \<Longrightarrow> (\<And>x. refines_store maxU maxG (g x)) \<Longrightarrow>
     refines_store maxU maxG (\<lambda>s. case r of Inl e \<Rightarrow> f e s | Inr x \<Rightarrow> g x s)"
  by (cases r) simp_all

lemma refines_option [refines_intros]:
  "refines_store maxU maxG f \<Longrightarrow> (\<And>x. refines_store maxU maxG (g x)) \<Longrightarrow>
     refines_store maxU maxG (\<lambda>s. case r of None \<Rightarrow> f s | Some x \<Rightarrow> g x s)"
  by (cases r) simp_all

lemma srv_enqueue_refines [refines_intros]:
  "refines_store (cfg_MaxConcurrentPerUser cfg) (cfg_MaxConcurrentGlobal cfg)
     (EnqueueJob_Execute (srv_enqueue D cfg) inp)"
proof (rule refines_storeI)
  fix s s' :: "'a host_scheme" and r
  assume ok: "pg_ok s" and run: "EnqueueJob_Execute (srv_enqueue D cfg) inp s = (r, s')"
  show "pg_ok s' \<and> store_steps (cfg_MaxConcurrentPerUser cfg) (cfg_MaxConcurrentGlobal cfg)
      (pg_jobs_of s) (pg_jobs_of s')"
    by (rule prod.enqueue_refines [OF ok _ run])
      (simp add: srv_enqueue_def srv_repo_creds_def srv_anthropic_def srv_secrets_def srv_runner_def)
qed

lemma srv_cancel_refines [refines_intros]:
  "refines_store maxU maxG (CancelJob_Execute (srv_cancel D cfg) i u)"
proof (rule refines_storeI)
  fix s s' :: "'a host_scheme" and r
  assume ok: "pg_ok s" "wf_store (pg_jobs_of s)" and run: "CancelJob_Execute (srv_cancel D cfg) i u s = (r, s')"
  show "pg_ok s' \<and> store_steps maxU maxG (pg_jobs_of s) (pg_jobs_of s')"
    using prod.cancel_refines [OF ok] run by (simp add: srv_cancel_def srv_runner_def)
qed

lemma srv_complete_refines [refines_intros]:
  "refines_store maxU maxG (HandleRunnerCompletion_Execute tz (srv_complete D) res)"
proof (rule refines_storeI)
  fix s s' :: "'a host_scheme" and r
  assume ok: "pg_ok s" "wf_store (pg_jobs_of s)"
    and run: "HandleRunnerCompletion_Execute tz (srv_complete D) res s = (r, s')"
  show "pg_ok s' \<and> store_steps maxU maxG (pg_jobs_of s) (pg_jobs_of s')"
    using prod.completion_refines [OF ok] run by (simp add: srv_complete_def srv_hooks_def)
qed

lemma srv_reattach_refines [refines_intros]:
  "refines_store maxU maxG (ReattachRunningJobs_Execute (srv_reattach D cfg))"
proof (rule refines_storeI)
  fix s s' :: "'a host_scheme" and r
  assume ok: "pg_ok s" "wf_store (pg_jobs_of s)"
    and run: "ReattachRunningJobs_Execute (srv_reattach D cfg) s = (r, s')"
  show "pg_ok s' \<and> store_steps maxU maxG (pg_jobs_of s) (pg_jobs_of s')"
    using prod.reattach_refines [OF ok] run by (simp add: srv_reattach_def srv_runner_def)
qed

lemma serve_user_refines [refines_intros]:
  "refines_store (cfg_MaxConcurrentPerUser cfg) (cfg_MaxConcurrentGlobal cfg) (serve_user D cfg rt uid r)"
proof (cases rt)
  case R_EnqueueJob
  show ?thesis
    unfolding R_EnqueueJob serve_user.simps [abs_def] JobsHandler_EnqueueJob_def [abs_def]
    by (intro refines_intros)
next
  case (R_Cancel i)
  show ?thesis
    unfolding R_Cancel serve_user.simps [abs_def] JobsHandler_Cancel_def [abs_def]
    by (intro refines_intros)
next
  case R_Settings
  show ?thesis
    unfolding R_Settings serve_user.simps [abs_def] Dashboard_Settings_def [abs_def] srv_keys_def srv_secrets_def
    by (intro keeps_refines keeps_intros)
qed (simp_all only: serve_user.simps [abs_def] JobsHandler_ListJobs_def [abs_def] JobsHandler_GetJob_def [abs_def]
    SettingsHandler_SetAnthropic_def [abs_def] SettingsHandler_MintAPIKey_def [abs_def]
    SettingsHandler_RevokeAPIKey_def [abs_def] Dashboard_Dashboard_def [abs_def]
    StatusPage_Render_def [abs_def] StatusPage_LogTail_def [abs_def]
    Let_def, (intro keeps_refines keeps_intros)+)

lemma serve_public_keeps: "keeps pg_ok pg_jobs_of (serve_public D cfg rt r :: 'z host_scheme \<Rightarrow> _)"
  by (cases rt) (simp_all only: serve_public.simps [abs_def] Dashboard_Landing_def [abs_def] option.case,
    (intro keeps_intros)+)

lemma serve_refines:
  "refines_store (cfg_MaxConcurrentPerUser cfg) (cfg_MaxConcurrentGlobal cfg)
     (serve D cfg r :: 'z host_scheme \<Rightarrow> _)"
proof (cases "route_of (in_Method r) (in_Path r)")
  case (Inl code)
  then show ?thesis unfolding serve_def [abs_def] by (simp only: sum.case) (rule refines_const)
next
  case (Inr rt)
  have "refines_store (cfg_MaxConcurrentPerUser cfg) (cfg_MaxConcurrentGlobal cfg)
      (BearerOrSession (srv_resolve D cfg) (serve_user D cfg rt) r :: 'z host_scheme \<Rightarrow> _)"
    unfolding BearerOrSession_def [abs_def]
    by (intro refines_intros keeps_refines [OF Resolve_keeps])
  then have "refines_store (cfg_MaxConcurrentPerUser cfg) (cfg_MaxConcurrentGlobal cfg)
      (serve_route D cfg rt r :: 'z host_scheme \<Rightarrow> _)"
    unfolding serve_route_def [abs_def]
    by (cases "authenticated rt") (simp_all add: keeps_refines [OF serve_public_keeps])
  then show ?thesis using Inr unfolding serve_def [abs_def] by (simp only: sum.case)
qed

lemma runner_done_refines:
  "refines_store maxU maxG (runner_done D cfg sv :: 'z host_scheme \<Rightarrow> _)"
  unfolding runner_done_def [abs_def] Let_def
  by (intro refines_intros keeps_refines [OF supervise_keeps])

lemma sweep_loop_keeps: "keeps pg_ok pg_jobs_of (sweep_loop running dirs :: 'z host_scheme \<Rightarrow> _)"
proof (induction dirs)
  case Nil
  then show ?case by (simp add: keeps_def)
next
  case (Cons d ds)
  have "keeps pg_ok pg_jobs_of (\<lambda>h :: 'z host_scheme. let (r, h1) = RemoveAll d h; (rest, h2) = sweep_loop running ds h1
      in (if isl r then rest else d # rest, h2))"
    unfolding Let_def by (intro keeps_intros RemoveAll_keeps Cons.IH)
  then show ?case using Cons.IH
    by (cases "TrimSuffix (base_name d) ''.secrets'' \<in> set running") (simp_all add: Let_def keeps_def)
qed

lemma serve_recover_refines:
  "refines_store maxU maxG (\<lambda>s :: 'z host_scheme. ((), serve_recover D cfg s))"
proof (rule refines_storeI)
  fix s s' :: "'z host_scheme" and r :: unit
  assume ok: "pg_ok s" "wf_store (pg_jobs_of s)" and run: "((), serve_recover D cfg s) = (r, s')"
  obtain a s1 where a: "ReattachRunningJobs_Execute (srv_reattach D cfg) s = (a, s1)" by fastforce
  note k1 = refines_storeD [OF srv_reattach_refines [of maxU maxG] ok a]
  obtain l s2 where l: "JobsRepo_ListByStatus JobStatusRunning s1 = (l, s2)" by fastforce
  have lk: "keeps pg_ok pg_jobs_of (JobsRepo_ListByStatus JobStatusRunning :: ('z host_scheme, _) act)"
    using pg.ListByStatus_keeps by (simp add: JobsRepo_def)
  note k2 = keepsD [OF lk k1(1) l]
  have "pg_ok s' \<and> pg_jobs_of s' = pg_jobs_of s2"
    using run a l keeps_snd [OF sweep_loop_keeps k2(1)] k2
    by (auto simp: serve_recover_def SweepOrphanSecrets_def split: sum.splits)
  then show "pg_ok s' \<and> store_steps maxU maxG (pg_jobs_of s) (pg_jobs_of s')"
    using k1(2) k2 by simp
qed

lemma Preflight_keeps: "keeps pg_ok pg_jobs_of (PreflightNetwork isprint n :: 'z host_scheme \<Rightarrow> _)"
  by (auto intro!: keepsI simp: PreflightNetwork_def checkNetwork_def exec_Command_def Let_def
      split: option.splits if_splits)

lemma Docker_New_keeps: "keeps pg_ok pg_jobs_of (Docker_New t dc :: 'z host_scheme \<Rightarrow> _)"
proof (rule keepsI)
  fix s s' :: "'z host_scheme" and r
  assume ok: "pg_ok s" and run: "Docker_New t dc s = (r, s')"
  let ?p = "Docker_WorkDirHost (Docker_defaults t dc)"
  note k1 = keeps_snd [OF fs_keeps(1) [of ?p "0x1C0"] ok]
  note k2 = keeps_snd [OF fs_keeps(2) [of ?p "0x1C0"] conjunct1 [OF k1]]
  show "pg_ok s' \<and> pg_jobs_of s' = pg_jobs_of s"
    using run k1 k2 by (auto simp: Docker_New_def Let_def)
qed

lemma runServe_refines: "refines_store maxU maxG (runServe D cfg :: 'z host_scheme \<Rightarrow> _)"
proof -
  have rec: "refines_store maxU maxG (\<lambda>s :: 'z host_scheme. (c, serve_recover D cfg s))" for c :: "string + unit"
    using serve_recover_refines unfolding refines_store_def by blast
  show ?thesis
    unfolding runServe_def [abs_def] Let_def
    by (intro refines_intros rec keeps_refines [OF fs_keeps(1)] keeps_refines [OF Preflight_keeps]
        keeps_refines [OF Docker_New_keeps])
qed

section \<open>Reachable states\<close>

lemma srv_step_refines:
  assumes "srv_step D cfg s s'" and "pg_ok s" and "wf_store (pg_jobs_of s)"
  shows "pg_ok s' \<and> store_steps (cfg_MaxConcurrentPerUser cfg) (cfg_MaxConcurrentGlobal cfg)
    (pg_jobs_of s) (pg_jobs_of s')"
  using assms(1)
proof (cases rule: srv_step.cases)
  case (request r)
  obtain out t where "serve D cfg r s = (out, t)" by fastforce
  from refines_storeD [OF serve_refines assms(2,3) this] this show ?thesis by (simp add: request)
next
  case (container sv)
  let ?s = "s\<lparr>supervised := remove1 sv (supervised s)\<rparr>"
  obtain out t where run: "runner_done D cfg sv ?s = (out, t)" by fastforce
  have "pg_ok ?s" "wf_store (pg_jobs_of ?s)" using assms(2,3) by simp_all
  from refines_storeD [OF runner_done_refines this run] run show ?thesis by (simp add: container)
next
  case restart
  obtain out t where run: "runServe D cfg (fresh_process s) = (out, t)" by fastforce
  have ok: "pg_ok (fresh_process s)" "wf_store (pg_jobs_of (fresh_process s))"
    and eq: "pg_jobs_of (fresh_process s) = pg_jobs_of s"
    using assms(2,3) by (simp_all add: fresh_process_def)
  from refines_storeD [OF runServe_refines ok run] run eq show ?thesis by (simp add: restart)
next
  case (outside es)
  then show ?thesis using assms(2) by simp
qed

lemma srv_steps_refine:
  assumes "srv_steps D cfg s s'" and "pg_ok s" and "wf_store (pg_jobs_of s)"
  shows "pg_ok s' \<and> wf_store (pg_jobs_of s') \<and>
    store_steps (cfg_MaxConcurrentPerUser cfg) (cfg_MaxConcurrentGlobal cfg) (pg_jobs_of s) (pg_jobs_of s')"
  using assms
proof (induction rule: rtranclp_induct)
  case base
  then show ?case by simp
next
  case (step y z)
  then have y: "pg_ok y" "wf_store (pg_jobs_of y)" by auto
  note z = srv_step_refines [OF step.hyps(2) y]
  then show ?case using step y store_steps_wf by (meson rtranclp_trans)
qed

section \<open>The completion of a job on the production adapters\<close>

lemma completion_stored:
  assumes ok: "pg_ok s" and wf: "wf_store (pg_jobs_of s)" and db: "db_faults s = []"
    and res: "RunnerResult_JobID res \<noteq> ''''" and j: "pg_jobs_of s (RunnerResult_JobID res) = Some j"
    and user: "user_exists (Job_UserID j) s"
    and run: "HandleRunnerCompletion_Execute m (srv_complete D) res s = (r, s')"
    and mk: "completion_mark j res (env_clock s (env_clock_reads s)) = (e, j')"
  obtains (refused) e' where "e = Some e'" "r = Inl e'" "s' = s\<lparr>env_clock_reads := Suc (env_clock_reads s)\<rparr>"
  | (stored) rows where "e = None" "r = Inr ()" "job_advance j j'"
      "s' = completion_webhook m (srv_complete D) j' res (s\<lparr>env_clock_reads := Suc (env_clock_reads s), db_jobs := rows\<rparr>)"
      "pg_jobs_of s' = (pg_jobs_of s)(Job_ID j \<mapsto> j')"
proof -
  have w: "Completion_Jobs (srv_complete D) = JobsRepo" "Completion_Clock (srv_complete D) = SystemClock"
    "Completion_Webhook (srv_complete D) \<in> {None, Some (srv_hooks D)}"
    by (simp_all add: srv_complete_def wire_complete_def)
  have id: "Job_ID j = RunnerResult_JobID res" "wf_job j" using wf j by (simp_all add: wf_store_def)
  define s1 where "s1 = s\<lparr>env_clock_reads := Suc (env_clock_reads s)\<rparr>"
  have s1: "pg_ok s1" "pg_jobs_of s1 = pg_jobs_of s" "db_faults s1 = []" "user_exists u s1 = user_exists u s" for u
    using ok db by (simp_all add: s1_def user_exists_def)
  have unf: "(case e of Some e \<Rightarrow> (Inl e, s1) | None \<Rightarrow>
       (case JobsRepo_Update j' s1 of (Inl e, s3) \<Rightarrow> (Inl e, s3)
        | (Inr _, s3) \<Rightarrow> (Inr (), completion_webhook m (srv_complete D) j' res s3))) = (r, s')"
    using run [unfolded HandleRunnerCompletion_Execute_def w] res j mk
    by (simp add: JobsRepo_def JobsRepo_Get_eq [OF ok db] SystemClock_def time_Now_def s1_def
        cong: option.case_cong)
  show thesis
  proof (cases e)
    case (Some e')
    then show thesis using unf refused by (simp add: s1_def)
  next
    case None
    have adv: "job_advance j j'" using completion_mark_advance [OF id(2)] mk None by blast
    note d = job_advanceD [OF adv]
    have ex: "pg_jobs_of s1 (Job_ID j') \<noteq> None" "user_exists (Job_UserID j') s1"
      using j user s1 id(1) d(1,2) by simp_all
    obtain rows where up: "JobsRepo_Update j' s1 = (Inr (), s1\<lparr>db_jobs := rows\<rparr>)"
      and ok2: "pg_ok (s1\<lparr>db_jobs := rows\<rparr>)" and js: "pg_jobs_of (s1\<lparr>db_jobs := rows\<rparr>) = (pg_jobs_of s1)(Job_ID j' \<mapsto> j')"
      using JobsRepo_Update_eq [OF s1(1,3) ex] by blast
    have r: "r = Inr ()" "s' = completion_webhook m (srv_complete D) j' res (s1\<lparr>db_jobs := rows\<rparr>)"
      using unf None up by simp_all
    have "pg_jobs_of s' = (pg_jobs_of s)(Job_ID j \<mapsto> j')"
      using prod.completion_webhook_keeps(2) [OF ok2, of "srv_complete D"] w(3) r(2) js s1(2) d(1)
      by (simp add: srv_hooks_def)
    then show thesis using stored [OF None r(1) adv] r(2) by (simp add: s1_def)
  qed
qed

lemma completion_run:
  assumes ok: "pg_ok s" and wf: "wf_store (pg_jobs_of s)" and db: "db_faults s = []"
    and res: "RunnerResult_JobID res \<noteq> ''''" and j: "pg_jobs_of s (RunnerResult_JobID res) = Some j"
    and user: "user_exists (Job_UserID j) s"
    and run: "HandleRunnerCompletion_Execute m (srv_complete D) res s = (r, s')"
  shows "if Job_Status j = JobStatusRunning \<or> Job_Status j = JobStatusQueued \<and> RunnerResult_ExitCode res \<noteq> 0
    then r = Inr () \<and> (\<exists>j'. pg_jobs_of s' = (pg_jobs_of s)(Job_ID j \<mapsto> j') \<and> same_request j j'
      \<and> (if RunnerResult_ExitCode res = 0
         then Job_Status j' = JobStatusSucceeded \<and> Job_PRURL j' = RunnerResult_PRURL res
         else Job_Status j' = JobStatusFailed \<and> Job_Error j' = completion_reason res)
      \<and> Job_FinishedAt j' = Some (env_clock s (env_clock_reads s)))
    else r = Inl ErrInvalidState \<and> pg_jobs_of s' = pg_jobs_of s \<and> http_log s' = http_log s"
proof -
  obtain e j' where mk: "completion_mark j res (env_clock s (env_clock_reads s)) = (e, j')" by fastforce
  note mark = completion_mark_def MarkSucceeded_def MarkFailed_def
  from ok wf db res j user run mk show ?thesis
  proof (cases rule: completion_stored)
    case (refused e')
    then have "e' = ErrInvalidState" "\<not> (Job_Status j = JobStatusRunning \<or> Job_Status j = JobStatusQueued \<and> RunnerResult_ExitCode res \<noteq> 0)"
      using mk by (auto simp: mark IsTerminal_def split: if_splits)
    then show ?thesis using refused by auto
  next
    case (stored rows)
    note d = job_advanceD [OF stored(3)]
    have "Job_Status j = JobStatusRunning \<or> Job_Status j = JobStatusQueued \<and> RunnerResult_ExitCode res \<noteq> 0"
      using mk stored(1) d(5) by (auto simp: mark active_status_def split: if_splits)
    moreover have "(if RunnerResult_ExitCode res = 0
         then Job_Status j' = JobStatusSucceeded \<and> Job_PRURL j' = RunnerResult_PRURL res
         else Job_Status j' = JobStatusFailed \<and> Job_Error j' = completion_reason res)
        \<and> Job_FinishedAt j' = Some (env_clock s (env_clock_reads s))"
      using mk stored(1) by (auto simp: mark split: if_splits)
    ultimately show ?thesis using stored(2,5) d(4) by auto
  qed
qed

end
