(* ===== verification/Races.thy ===== *)
theory Races
  imports Server_Invariant
begin

text \<open>
  Interleavings finer than the events of theory \<open>Server\<close>. \<open>EnqueueJob\<close> keeps the job it
  created in memory while the runner starts the container, and stores it with an
  unconditional update. Another goroutine may change the stored job in between: the
  supervisor of the container when it ends at once, or a request that cancels the job.
  Whatever was stored is then overwritten.
\<close>

lemma srv_enqueue_ports:
  "EnqueueJob_Clock (srv_enqueue D cfg) = SystemClock" "EnqueueJob_Jobs (srv_enqueue D cfg) = JobsRepo"
  by (simp_all add: srv_enqueue_def wire_enqueue_def)

text \<open>The update ignores what is stored.\<close>

lemma started_overwrites:
  fixes s :: "'z host_scheme"
  assumes ok: "pg_ok s" and db: "db_faults s = []" and user: "user_exists (Job_UserID job) s"
    and st: "pg_jobs_of s (Job_ID job) \<noteq> None" and q: "Job_Status job = JobStatusQueued"
    and run: "EnqueueJob_started (srv_enqueue D cfg) job cid s = (r, s')"
  shows "r = Inr \<lparr>EnqueueJobOutput_JobID = Job_ID job, EnqueueJobOutput_Status = JobStatusRunning\<rparr>
    \<and> pg_jobs_of s' (Job_ID job) = Some (job\<lparr>Job_Status := JobStatusRunning, Job_ContainerID := cid,
         Job_StartedAt := Some (env_clock s (env_clock_reads s))\<rparr>)
    \<and> supervised s' = supervised s"
proof -
  let ?t = "env_clock s (env_clock_reads s)"
  let ?s1 = "s\<lparr>env_clock_reads := Suc (env_clock_reads s)\<rparr>"
  let ?j = "job\<lparr>Job_Status := JobStatusRunning, Job_ContainerID := cid, Job_StartedAt := Some ?t\<rparr>"
  have s1: "pg_ok ?s1" "db_faults ?s1 = []" "pg_jobs_of ?s1 (Job_ID ?j) \<noteq> None" "user_exists (Job_UserID ?j) ?s1"
    using ok db user st by (simp_all add: user_exists_def)
  obtain rows where up: "JobsRepo_Update ?j ?s1 = (Inr (), ?s1\<lparr>db_jobs := rows\<rparr>)"
    and js: "pg_jobs_of (?s1\<lparr>db_jobs := rows\<rparr>) = (pg_jobs_of ?s1)(Job_ID ?j \<mapsto> ?j)"
    by (rule JobsRepo_Update_eq [OF s1])
  have "(r, s') = (Inr (EnqueueJob_output ?j), ?s1\<lparr>db_jobs := rows\<rparr>)"
    using run up by (simp add: EnqueueJob_started_def srv_enqueue_ports SystemClock_def time_Now_def
        MarkRunning_def q JobsRepo_def)
  then show ?thesis using js by (simp add: EnqueueJob_output_def)
qed

text \<open>Without a webhook a completion writes the jobs table and reads the clock, no more.\<close>

lemma completion_frame:
  fixes s :: "'z host_scheme"
  assumes run: "HandleRunnerCompletion_Execute tz (srv_complete D) res s = (c, s')"
    and hook: "RunnerResult_NotificationWebhook res = ''''" and ok: "pg_ok s" and db: "db_faults s = []"
  shows "pg_ok s' \<and> db_faults s' = [] \<and> db_users s' = db_users s \<and> supervised s' = supervised s
    \<and> dom (pg_jobs_of s') = dom (pg_jobs_of s)"
proof -
  have w: "Completion_Jobs (srv_complete D) = (JobsRepo :: 'z host_scheme JobsRepository)"
    "Completion_Clock (srv_complete D) = (SystemClock :: 'z host_scheme Clock)"
    by (simp_all add: srv_complete_def wire_complete_def)
  define s1 where "s1 = s\<lparr>env_clock_reads := Suc (env_clock_reads s)\<rparr>"
  have s1: "pg_ok s1" "db_faults s1 = []" "db_users s1 = db_users s" "supervised s1 = supervised s"
    "pg_jobs_of s1 = pg_jobs_of s"
    using ok db by (simp_all add: s1_def)
  have "s' = s \<or> s' = s1 \<or> (\<exists>j r. JobsRepo_Update j s1 = (r, s'))"
    using run [unfolded HandleRunnerCompletion_Execute_def w] hook
    by (auto simp: JobsRepo_def JobsRepo_Get_eq [OF ok db] SystemClock_def time_Now_def s1_def
        completion_webhook_def split: if_splits option.splits prod.splits sum.splits)
  then show ?thesis
  proof (elim disjE exE)
    fix j r
    assume up: "JobsRepo_Update j s1 = (r, s')"
    then obtain rows where s': "s' = s1\<lparr>db_jobs := rows\<rparr>" using s1(2) by (rule Update_calm)
    have "dom (pg_jobs_of s') = dom (pg_jobs_of s1) \<and> pg_ok s'"
    proof (cases r)
      case (Inl e)
      then show ?thesis using pg.Update_err [OF s1(1), of j e s'] up by (simp add: JobsRepo_def)
    next
      case (Inr x)
      then show ?thesis using pg.Update_ok [OF s1(1), of j x s'] up by (auto simp: JobsRepo_def)
    qed
    then show ?thesis using s1 s' by simp
  qed (use ok db s1 in simp_all)
qed

text \<open>
  C12. A container that ends before EnqueueJob has stored the job as running is lost: whatever
  the completion did, the unconditional update that follows leaves the job running, with no
  supervisor left for it.
\<close>

theorem completion_overwritten:
  fixes s :: "'z host_scheme"
  assumes "pg_ok s" and "db_faults s = []" and "pg_jobs_of s (Job_ID job) = Some job"
    and "Job_Status job = JobStatusQueued" and "user_exists (Job_UserID job) s"
    and "RunnerResult_JobID res = Job_ID job" and "RunnerResult_NotificationWebhook res = ''''"
    and "HandleRunnerCompletion_Execute tz (srv_complete D) res s = (c, s1)"
    and "EnqueueJob_started (srv_enqueue D cfg) job cid s1 = (r, s2)"
  shows "\<exists>j. pg_jobs_of s2 (Job_ID job) = Some j \<and> Job_Status j = JobStatusRunning
    \<and> Job_ContainerID j = cid \<and> supervised s2 = supervised s"
proof -
  have f: "pg_ok s1 \<and> db_faults s1 = [] \<and> db_users s1 = db_users s \<and> supervised s1 = supervised s
      \<and> dom (pg_jobs_of s1) = dom (pg_jobs_of s)"
    by (rule completion_frame [OF assms(8,7,1,2)])
  moreover have "user_exists (Job_UserID job) s1" and "pg_jobs_of s1 (Job_ID job) \<noteq> None"
    using f assms(3,5) by (auto simp: user_exists_def dom_def)
  ultimately show ?thesis
    using started_overwrites [of s1 job D cfg cid r s2] assms(4,9) by simp
qed

definition sample_exit :: RunnerResult where
  "sample_exit =
     \<lparr>RunnerResult_JobID = ''j_wait'', RunnerResult_ExitCode = 1, RunnerResult_PRURL = '''',
      RunnerResult_Error = ''boom'', RunnerResult_NotificationWebhook = '''', RunnerResult_LogTail = ''''\<rparr>"

theorem completion_overwritten_witness:
  "\<exists>j. pg_jobs_of (snd (EnqueueJob_started (srv_enqueue sample_deps sample_config) sample_queued ''c7''
        (snd (HandleRunnerCompletion_Execute (\<lambda>_. 0) (srv_complete sample_deps) sample_exit sample_host))))
      ''j_wait'' = Some j \<and> Job_Status j = JobStatusRunning"
proof -
  have "pg_jobs_of sample_host (Job_ID sample_queued) = Some sample_queued"
    by (simp add: sample_host_jobs sample_db_jobs)
  moreover have "db_faults sample_host = []" and "user_exists (Job_UserID sample_queued) sample_host"
    by (simp_all add: sample_host_def user_exists_def sample_db_def)
  moreover have "RunnerResult_JobID sample_exit = Job_ID sample_queued"
    and "RunnerResult_NotificationWebhook sample_exit = ''''"
    by (simp_all add: sample_exit_def)
  ultimately show ?thesis
    using completion_overwritten [OF sample_host_ok _ _ _ _ _ _ prod.collapse [symmetric] prod.collapse [symmetric],
      where job = sample_queued and res = sample_exit and D = sample_deps and cfg = sample_config
        and cid = "''c7''" and tz = "\<lambda>_. 0"] by auto
qed

end
