(* ===== verification/Fakes.thy ===== *)
theory Fakes
  imports Job_Refinement Tables
begin

text \<open>
  The in-memory adapters of \<open>core/testutil\<close>, which the unit tests of the use cases run on. A
  test's world is one record holding the state of each fake. Go maps are association lists
  with distinct keys. The fakes are shown to keep the contracts of the ports.
\<close>

record fake_world =
  FakeJobsRepo_m :: "(JobID \<times> Job) list"
  FakeAPIKeysRepo_m :: "(APIKeyID \<times> APIKey) list"
  FakeSecretsRepo_m :: "(UserID \<times> AnthropicCreds) list"
  FakeClock_now :: time
  FakeIDGenerator_jobCounter :: "64 word"
  FakeIDGenerator_keyCounter :: "64 word"
  FakeIDGenerator_userCounter :: "64 word"
  FakeRepoCreds_Creds :: GitCreds
  FakeRepoCreds_Err :: "go_error option"
  FakeAnthropicCreds_Creds :: AnthropicCreds
  FakeAnthropicCreds_Err :: "go_error option"
  FakeRunner_StartErr :: "go_error option"
  FakeRunner_started :: "(string \<times> RunnerStartSpec) list"
  FakeRunner_alive :: "(string \<times> bool) list"
  FakeRunner_nextCounter :: int
  FakeRunner_lastID :: string
  FakeRunner_StartedSpecs :: "RunnerStartSpec list"
  FakeWebhook_Err :: "go_error option"
  FakeWebhook_Calls :: "(string \<times> string) list"

section \<open>FakeJobsRepo\<close>

definition FakeJobsRepo_Create :: "Job \<Rightarrow> (fake_world, unit) act" where
  "FakeJobsRepo_Create j w =
     (if map_of (FakeJobsRepo_m w) (Job_ID j) \<noteq> None then (Inl ErrConflict, w)
      else (Inr (), w\<lparr>FakeJobsRepo_m := AList.update (Job_ID j) j (FakeJobsRepo_m w)\<rparr>))"

definition FakeJobsRepo_Get :: "JobID \<Rightarrow> (fake_world, Job) act" where
  "FakeJobsRepo_Get i w =
     (case map_of (FakeJobsRepo_m w) i of None \<Rightarrow> (Inl ErrNotFound, w) | Some j \<Rightarrow> (Inr j, w))"

definition FakeJobsRepo_GetForUser :: "JobID \<Rightarrow> UserID \<Rightarrow> (fake_world, Job) act" where
  "FakeJobsRepo_GetForUser i u w =
     (case FakeJobsRepo_Get i w of
        (Inl e, w') \<Rightarrow> (Inl e, w')
      | (Inr j, w') \<Rightarrow> if Job_UserID j \<noteq> u then (Inl ErrNotFound, w') else (Inr j, w'))"

definition FakeJobsRepo_ListForUser :: "UserID \<Rightarrow> int \<Rightarrow> (fake_world, Job list) act" where
  "FakeJobsRepo_ListForUser u limit w =
     (let out = order_newest (filter (\<lambda>j. Job_UserID j = u) (map snd (FakeJobsRepo_m w)))
      in (Inr (if limit > 0 \<and> int (length out) > limit then take (nat limit) out else out), w))"

definition FakeJobsRepo_ListByStatus :: "JobStatus \<Rightarrow> (fake_world, Job list) act" where
  "FakeJobsRepo_ListByStatus st w =
     (Inr (filter (\<lambda>j. Job_Status j = st) (map snd (FakeJobsRepo_m w))), w)"

definition FakeJobsRepo_Update :: "Job \<Rightarrow> (fake_world, unit) act" where
  "FakeJobsRepo_Update j w =
     (if map_of (FakeJobsRepo_m w) (Job_ID j) = None then (Inl ErrNotFound, w)
      else (Inr (), w\<lparr>FakeJobsRepo_m := AList.update (Job_ID j) j (FakeJobsRepo_m w)\<rparr>))"

definition FakeJobsRepo_CountActiveForUser :: "UserID \<Rightarrow> (fake_world, int) act" where
  "FakeJobsRepo_CountActiveForUser u w =
     (Inr (int (length (filter
        (\<lambda>j. Job_UserID j = u \<and> (Job_Status j = JobStatusQueued \<or> Job_Status j = JobStatusRunning))
        (map snd (FakeJobsRepo_m w))))), w)"

definition FakeJobsRepo_CountActiveGlobal :: "(fake_world, int) act" where
  "FakeJobsRepo_CountActiveGlobal w =
     (Inr (int (length (filter
        (\<lambda>j. Job_Status j = JobStatusQueued \<or> Job_Status j = JobStatusRunning)
        (map snd (FakeJobsRepo_m w))))), w)"

definition FakeJobsRepo :: "fake_world JobsRepository" where
  "FakeJobsRepo =
     \<lparr>Jobs_Create = FakeJobsRepo_Create, Jobs_Get = FakeJobsRepo_Get,
      Jobs_GetForUser = FakeJobsRepo_GetForUser, Jobs_ListForUser = FakeJobsRepo_ListForUser,
      Jobs_ListByStatus = FakeJobsRepo_ListByStatus, Jobs_Update = FakeJobsRepo_Update,
      Jobs_CountActiveForUser = FakeJobsRepo_CountActiveForUser,
      Jobs_CountActiveGlobal = FakeJobsRepo_CountActiveGlobal\<rparr>"

section \<open>FakeAPIKeysRepo and FakeSecretsRepo\<close>

definition FakeAPIKeysRepo_Create :: "APIKey \<Rightarrow> (fake_world, unit) act" where
  "FakeAPIKeysRepo_Create k w =
     (if map_of (FakeAPIKeysRepo_m w) (APIKey_ID k) \<noteq> None then (Inl ErrConflict, w)
      else (Inr (), w\<lparr>FakeAPIKeysRepo_m := AList.update (APIKey_ID k) k (FakeAPIKeysRepo_m w)\<rparr>))"

definition FakeAPIKeysRepo_GetByPrefix :: "string \<Rightarrow> (fake_world, APIKey list) act" where
  "FakeAPIKeysRepo_GetByPrefix p w =
     (Inr (filter (\<lambda>k. APIKey_Prefix k = p) (map snd (FakeAPIKeysRepo_m w))), w)"

definition FakeAPIKeysRepo_ListForUser :: "UserID \<Rightarrow> (fake_world, APIKey list) act" where
  "FakeAPIKeysRepo_ListForUser u w =
     (Inr (filter (\<lambda>k. APIKey_UserID k = u) (map snd (FakeAPIKeysRepo_m w))), w)"

definition FakeAPIKeysRepo_Delete :: "APIKeyID \<Rightarrow> UserID \<Rightarrow> (fake_world, unit) act" where
  "FakeAPIKeysRepo_Delete i u w =
     (case map_of (FakeAPIKeysRepo_m w) i of
        None \<Rightarrow> (Inl ErrNotFound, w)
      | Some k \<Rightarrow>
          if APIKey_UserID k \<noteq> u then (Inl ErrNotFound, w)
          else (Inr (), w\<lparr>FakeAPIKeysRepo_m := AList.delete i (FakeAPIKeysRepo_m w)\<rparr>))"

definition FakeAPIKeysRepo_RecordUsed :: "APIKeyID \<Rightarrow> time \<Rightarrow> (fake_world, unit) act" where
  "FakeAPIKeysRepo_RecordUsed i t w =
     (case map_of (FakeAPIKeysRepo_m w) i of
        None \<Rightarrow> (Inl ErrNotFound, w)
      | Some k \<Rightarrow>
          (Inr (), w\<lparr>FakeAPIKeysRepo_m :=
             AList.update i (k\<lparr>APIKey_LastUsedAt := Some t\<rparr>) (FakeAPIKeysRepo_m w)\<rparr>))"

definition FakeAPIKeysRepo :: "fake_world APIKeysRepository" where
  "FakeAPIKeysRepo =
     \<lparr>Keys_Create = FakeAPIKeysRepo_Create, Keys_GetByPrefix = FakeAPIKeysRepo_GetByPrefix,
      Keys_ListForUser = FakeAPIKeysRepo_ListForUser, Keys_Delete = FakeAPIKeysRepo_Delete,
      Keys_RecordUsed = FakeAPIKeysRepo_RecordUsed\<rparr>"

definition FakeSecretsRepo_SetAnthropicCreds ::
  "UserID \<Rightarrow> AnthropicCreds \<Rightarrow> (fake_world, unit) act" where
  "FakeSecretsRepo_SetAnthropicCreds u c w =
     (Inr (), w\<lparr>FakeSecretsRepo_m := AList.update u c (FakeSecretsRepo_m w)\<rparr>)"

definition FakeSecretsRepo_GetAnthropicCreds :: "UserID \<Rightarrow> (fake_world, AnthropicCreds) act" where
  "FakeSecretsRepo_GetAnthropicCreds u w =
     (case map_of (FakeSecretsRepo_m w) u of None \<Rightarrow> (Inl ErrNotFound, w) | Some c \<Rightarrow> (Inr c, w))"

definition FakeSecretsRepo_DeleteAnthropicCreds :: "UserID \<Rightarrow> (fake_world, unit) act" where
  "FakeSecretsRepo_DeleteAnthropicCreds u w =
     (case map_of (FakeSecretsRepo_m w) u of
        None \<Rightarrow> (Inl ErrNotFound, w)
      | Some _ \<Rightarrow> (Inr (), w\<lparr>FakeSecretsRepo_m := AList.delete u (FakeSecretsRepo_m w)\<rparr>))"

definition FakeSecretsRepo :: "fake_world SecretsRepository" where
  "FakeSecretsRepo =
     \<lparr>Secrets_SetAnthropicCreds = FakeSecretsRepo_SetAnthropicCreds,
      Secrets_GetAnthropicCreds = FakeSecretsRepo_GetAnthropicCreds,
      Secrets_DeleteAnthropicCreds = FakeSecretsRepo_DeleteAnthropicCreds\<rparr>"

section \<open>Clock, identifiers, credentials, runner and webhook\<close>

definition FakeClock_Advance :: "int \<Rightarrow> fake_world \<Rightarrow> fake_world" where
  "FakeClock_Advance d w = w\<lparr>FakeClock_now := FakeClock_now w + d\<rparr>"

definition FakeClock_Set :: "time \<Rightarrow> fake_world \<Rightarrow> fake_world" where
  "FakeClock_Set t w = w\<lparr>FakeClock_now := t\<rparr>"

definition FakeClock :: "fake_world Clock" where
  "FakeClock = \<lparr>Clock_Now = (\<lambda>w. (FakeClock_now w, w))\<rparr>"

definition FakeIDGenerator_NewJobID :: "fake_world \<Rightarrow> string \<times> fake_world" where
  "FakeIDGenerator_NewJobID w =
     (let n = FakeIDGenerator_jobCounter w + 1
      in (''j_'' @ show_nat (unat n), w\<lparr>FakeIDGenerator_jobCounter := n\<rparr>))"

definition FakeIDGenerator_NewAPIKeyID :: "fake_world \<Rightarrow> string \<times> fake_world" where
  "FakeIDGenerator_NewAPIKeyID w =
     (let n = FakeIDGenerator_keyCounter w + 1
      in (''k_'' @ show_nat (unat n), w\<lparr>FakeIDGenerator_keyCounter := n\<rparr>))"

definition FakeIDGenerator_NewUserID :: "fake_world \<Rightarrow> string \<times> fake_world" where
  "FakeIDGenerator_NewUserID w =
     (let n = FakeIDGenerator_userCounter w + 1
      in (''u_'' @ show_nat (unat n), w\<lparr>FakeIDGenerator_userCounter := n\<rparr>))"

text \<open>\<open>%016d\<close>: decimal, padded on the left with zeros to 16 digits.\<close>

definition pad_left :: "nat \<Rightarrow> char \<Rightarrow> string \<Rightarrow> string" where
  "pad_left n c s = replicate (n - length s) c @ s"

definition FakeIDGenerator_NewAPIKeyPlaintext :: "fake_world \<Rightarrow> (string \<times> string) \<times> fake_world" where
  "FakeIDGenerator_NewAPIKeyPlaintext w =
     (let n = FakeIDGenerator_keyCounter w + 1;
          plain = ''agdkey_test_'' @ pad_left 16 (CHR ''0'') (show_nat (unat n))
      in ((plain, take 8 plain), w\<lparr>FakeIDGenerator_keyCounter := n\<rparr>))"

definition FakeIDGenerator :: "fake_world IDGenerator" where
  "FakeIDGenerator =
     \<lparr>IDGen_NewJobID = FakeIDGenerator_NewJobID, IDGen_NewAPIKeyID = FakeIDGenerator_NewAPIKeyID,
      IDGen_NewUserID = FakeIDGenerator_NewUserID,
      IDGen_NewAPIKeyPlaintext = FakeIDGenerator_NewAPIKeyPlaintext\<rparr>"

definition FakeRepoCredsProvider :: "fake_world RepoCredentialsProvider" where
  "FakeRepoCredsProvider =
     \<lparr>RepoCreds_For = (\<lambda>u r w. case FakeRepoCreds_Err w of
        Some e \<Rightarrow> (Inl e, w) | None \<Rightarrow> (Inr (FakeRepoCreds_Creds w), w))\<rparr>"

definition FakeAnthropicCredsProvider :: "fake_world AnthropicCredentialsProvider" where
  "FakeAnthropicCredsProvider =
     \<lparr>AnthropicCreds_For = (\<lambda>u w. case FakeAnthropicCreds_Err w of
        Some e \<Rightarrow> (Inl e, w) | None \<Rightarrow> (Inr (FakeAnthropicCreds_Creds w), w))\<rparr>"

definition FakeRunner_Start :: "RunnerStartSpec \<Rightarrow> (fake_world, string) act" where
  "FakeRunner_Start spec w =
     (case FakeRunner_StartErr w of
        Some e \<Rightarrow> (Inl e, w)
      | None \<Rightarrow>
          let n = FakeRunner_nextCounter w + 1;
              cid = ''ctr_'' @ Itoa n
          in (Inr cid,
              w\<lparr>FakeRunner_nextCounter := n,
                FakeRunner_started := AList.update cid spec (FakeRunner_started w),
                FakeRunner_alive := AList.update cid True (FakeRunner_alive w),
                FakeRunner_lastID := cid,
                FakeRunner_StartedSpecs := FakeRunner_StartedSpecs w @ [spec]\<rparr>))"

definition FakeRunner_Inspect :: "string \<Rightarrow> (fake_world, bool) act" where
  "FakeRunner_Inspect cid w =
     (Inr (case map_of (FakeRunner_alive w) cid of None \<Rightarrow> False | Some b \<Rightarrow> b), w)"

definition FakeRunner_Stop :: "string \<Rightarrow> (fake_world, unit) act" where
  "FakeRunner_Stop cid w =
     (Inr (), w\<lparr>FakeRunner_alive := AList.delete cid (FakeRunner_alive w)\<rparr>)"

text \<open>
  \<open>Complete\<close> runs the callback of a container that was started, which is the \<open>OnComplete\<close> that
  \<open>EnqueueJob\<close> hands to every start; it may be nil.
\<close>

definition FakeRunner_Complete ::
  "(RunnerResult \<Rightarrow> fake_world \<Rightarrow> fake_world) option \<Rightarrow> string \<Rightarrow> RunnerResult \<Rightarrow>
   fake_world \<Rightarrow> fake_world" where
  "FakeRunner_Complete onComplete cid res w =
     (let cb = (if map_of (FakeRunner_started w) cid = None then None else onComplete);
          w1 = w\<lparr>FakeRunner_alive := AList.delete cid (FakeRunner_alive w)\<rparr>
      in case cb of Some f \<Rightarrow> f res w1 | None \<Rightarrow> w1)"

lemma FakeRunner_Complete_started:
  assumes "FakeRunner_Start spec w = (Inr cid, w1)"
  shows "FakeRunner_Complete (Some f) cid res w1 = f res (snd (FakeRunner_Stop cid w1))"
    and "FakeRunner_Inspect cid (snd (FakeRunner_Stop cid w1)) = (Inr False, snd (FakeRunner_Stop cid w1))"
  using assms
  by (auto simp: FakeRunner_Complete_def FakeRunner_Start_def FakeRunner_Stop_def FakeRunner_Inspect_def Let_def
      update_conv' AList.delete_conv split: option.splits)

definition FakeRunner_SetAlive :: "string \<Rightarrow> bool \<Rightarrow> fake_world \<Rightarrow> fake_world" where
  "FakeRunner_SetAlive cid b w =
     w\<lparr>FakeRunner_alive := AList.update cid b (FakeRunner_alive w)\<rparr>"

definition FakeRunner_LastStarted :: "fake_world \<Rightarrow> (string \<times> RunnerStartSpec) option" where
  "FakeRunner_LastStarted w =
     (if FakeRunner_lastID w = '''' then None
      else map_option (\<lambda>sp. (FakeRunner_lastID w, sp))
             (map_of (FakeRunner_started w) (FakeRunner_lastID w)))"

definition FakeRunnerService :: "fake_world RunnerService" where
  "FakeRunnerService =
     \<lparr>Runner_Start = FakeRunner_Start, Runner_Inspect = FakeRunner_Inspect,
      Runner_Stop = FakeRunner_Stop\<rparr>"

definition FakeWebhookDispatcher :: "fake_world WebhookDispatcher" where
  "FakeWebhookDispatcher =
     \<lparr>Dispatcher_Dispatch = (\<lambda>url payload w. case FakeWebhook_Err w of
        Some e \<Rightarrow> (Inl e, w)
      | None \<Rightarrow> (Inr (), w\<lparr>FakeWebhook_Calls := FakeWebhook_Calls w @ [(url, payload)]\<rparr>))\<rparr>"

section \<open>The fakes keep the ports' contracts\<close>

definition fake_jobs_of :: "fake_world \<Rightarrow> JobID \<rightharpoonup> Job" where
  "fake_jobs_of w = map_of (FakeJobsRepo_m w)"

definition fake_keys_of :: "fake_world \<Rightarrow> APIKeyID \<rightharpoonup> APIKey" where
  "fake_keys_of w = map_of (FakeAPIKeysRepo_m w)"

definition fake_secrets_of :: "fake_world \<Rightarrow> UserID \<rightharpoonup> AnthropicCreds" where
  "fake_secrets_of w = map_of (FakeSecretsRepo_m w)"

text \<open>An association list in which every value carries its key.\<close>

definition self_keyed :: "('v \<Rightarrow> 'k) \<Rightarrow> ('k \<times> 'v) list \<Rightarrow> bool" where
  "self_keyed key m \<longleftrightarrow> keyed m \<and> (\<forall>(k, v) \<in> set m. key v = k)"

definition fake_ok :: "fake_world \<Rightarrow> bool" where
  "fake_ok w \<longleftrightarrow> self_keyed Job_ID (FakeJobsRepo_m w) \<and> self_keyed APIKey_ID (FakeAPIKeysRepo_m w)"

lemma self_keyed_table:
  assumes "self_keyed key m"
  shows "table_ok key (map snd m)" and "map_of m = index_by key (map snd m)"
proof -
  have eq: "map (\<lambda>v. (key v, v)) (map snd m) = m"
    using assms by (induction m) (auto simp: self_keyed_def keyed_def)
  have "map key (map snd m) = map fst (map (\<lambda>v. (key v, v)) (map snd m))" by simp
  then show "table_ok key (map snd m)"
    using assms eq by (simp add: table_ok_def self_keyed_def keyed_def del: map_map)
  show "map_of m = index_by key (map snd m)"
    unfolding index_by_def by (simp only: eq)
qed

lemma self_keyed_lookup: "self_keyed key m \<Longrightarrow> map_of m k = Some v \<Longrightarrow> key v = k"
  by (auto simp: self_keyed_def dest: map_of_SomeD)

lemma set_update_subset: "set (AList.update k v m) \<subseteq> insert (k, v) (set m)"
  by (induction m) auto

lemma self_keyed_update: "self_keyed key m \<Longrightarrow> key v = k \<Longrightarrow> self_keyed key (AList.update k v m)"
  using set_update_subset [of k v m] by (auto simp: self_keyed_def)

lemma self_keyed_delete: "self_keyed key m \<Longrightarrow> self_keyed key (AList.delete k m)"
  using keyed_delete [of m k] by (auto simp: self_keyed_def AList.delete_eq)

lemmas fake_jobs_defs =
  FakeJobsRepo_def FakeJobsRepo_Create_def FakeJobsRepo_Get_def FakeJobsRepo_GetForUser_def
  FakeJobsRepo_ListForUser_def FakeJobsRepo_ListByStatus_def FakeJobsRepo_Update_def
  FakeJobsRepo_CountActiveForUser_def FakeJobsRepo_CountActiveGlobal_def

lemmas fake_keys_defs =
  FakeAPIKeysRepo_def FakeAPIKeysRepo_Create_def FakeAPIKeysRepo_GetByPrefix_def
  FakeAPIKeysRepo_ListForUser_def FakeAPIKeysRepo_Delete_def FakeAPIKeysRepo_RecordUsed_def

lemmas fake_env_defs =
  FakeClock_def FakeIDGenerator_def FakeIDGenerator_NewJobID_def FakeRepoCredsProvider_def
  FakeAnthropicCredsProvider_def FakeRunnerService_def FakeRunner_Start_def FakeRunner_Inspect_def
  FakeRunner_Stop_def FakeWebhookDispatcher_def

lemma active_index:
  "active_jobs (index_by Job_ID js) P
     = {i. \<exists>j. index_by Job_ID js i = Some j \<and> active_status (Job_Status j) \<and> P j}"
  by (simp add: active_jobs_def)

interpretation fake: jobs_port FakeJobsRepo fake_jobs_of fake_ok
proof
  fix s s' :: fake_world and i u limit st j js e x n
  assume ok: "fake_ok s"
  note sk = ok [unfolded fake_ok_def, THEN conjunct1]
  note tb = self_keyed_table [OF sk]
  show "finite (dom (fake_jobs_of s))" by (simp add: fake_jobs_of_def finite_dom_map_of)
  show "fake_jobs_of s i = Some j \<Longrightarrow> Job_ID j = i"
    using self_keyed_lookup [OF sk] by (simp add: fake_jobs_of_def)
  show "Jobs_Create FakeJobsRepo j s = (Inr x, s') \<Longrightarrow>
      fake_ok s' \<and> fake_jobs_of s (Job_ID j) = None \<and> fake_jobs_of s' = (fake_jobs_of s)(Job_ID j \<mapsto> j)"
    using ok self_keyed_update [OF sk]
    by (auto simp: fake_jobs_defs fake_jobs_of_def fake_ok_def update_conv' split: if_splits)
  show "Jobs_Create FakeJobsRepo j s = (Inl e, s') \<Longrightarrow> fake_ok s' \<and> fake_jobs_of s' = fake_jobs_of s"
    using ok by (auto simp: fake_jobs_defs split: if_splits)
  show "Jobs_Get FakeJobsRepo i s = (Inr j, s') \<Longrightarrow> fake_jobs_of s i = Some j"
    by (auto simp: fake_jobs_defs fake_jobs_of_def split: option.splits)
  show "Jobs_Get FakeJobsRepo i s = (Inl e, s') \<Longrightarrow> errors_Is e NotFound \<Longrightarrow> fake_jobs_of s i = None"
    by (auto simp: fake_jobs_defs fake_jobs_of_def split: option.splits)
  show "Jobs_GetForUser FakeJobsRepo i u s = (Inr j, s') \<Longrightarrow> fake_jobs_of s i = Some j \<and> Job_UserID j = u"
    by (auto simp: fake_jobs_defs fake_jobs_of_def split: option.splits if_splits)
  show "Jobs_GetForUser FakeJobsRepo i u s = (Inl e, s') \<Longrightarrow> errors_Is e NotFound \<Longrightarrow>
      \<not> (\<exists>j. fake_jobs_of s i = Some j \<and> Job_UserID j = u)"
    by (auto simp: fake_jobs_defs fake_jobs_of_def split: option.splits if_splits)
  show "Jobs_ListForUser FakeJobsRepo u limit s = (Inr js, s') \<Longrightarrow>
      newest_first js \<and> distinct (map Job_ID js) \<and> set js \<subseteq> user_jobs (fake_jobs_of s) u
      \<and> (limit > 0 \<longrightarrow> int (length js) = min limit (int (card (user_jobs (fake_jobs_of s) u))))
      \<and> (limit \<le> 0 \<longrightarrow> length js = card (user_jobs (fake_jobs_of s) u))
      \<and> (\<forall>j \<in> set js. \<forall>k \<in> user_jobs (fake_jobs_of s) u - set js. Job_CreatedAt k \<le> Job_CreatedAt j)"
    unfolding fake_jobs_of_def tb(2)
    by (rule list_rows_law [OF tb(1)])
      (auto simp: fake_jobs_defs limit_rows_def Let_def split: if_splits)
  show "Jobs_ListByStatus FakeJobsRepo st s = (Inr js, s') \<Longrightarrow>
      distinct (map Job_ID js) \<and> set js = {j \<in> ran (fake_jobs_of s). Job_Status j = st}"
    using filter_rows_law [OF tb(1), of "\<lambda>j. Job_Status j = st"] tb(2)
    by (simp add: fake_jobs_defs fake_jobs_of_def del: set_filter) blast
  show "Jobs_Update FakeJobsRepo j s = (Inr x, s') \<Longrightarrow>
      fake_ok s' \<and> fake_jobs_of s (Job_ID j) \<noteq> None \<and> fake_jobs_of s' = (fake_jobs_of s)(Job_ID j \<mapsto> j)"
    using ok self_keyed_update [OF sk]
    by (auto simp: fake_jobs_defs fake_jobs_of_def fake_ok_def update_conv' split: if_splits)
  show "Jobs_Update FakeJobsRepo j s = (Inl e, s') \<Longrightarrow> fake_ok s' \<and> fake_jobs_of s' = fake_jobs_of s
      \<and> (errors_Is e NotFound \<longrightarrow> fake_jobs_of s (Job_ID j) = None)"
    using ok by (auto simp: fake_jobs_defs fake_jobs_of_def split: if_splits)
  show "Jobs_CountActiveForUser FakeJobsRepo u s = (Inr n, s') \<Longrightarrow>
      n = int (card (active_jobs (fake_jobs_of s) (\<lambda>j. Job_UserID j = u)))"
    using count_rows [OF tb(1), of "\<lambda>j. active_status (Job_Status j) \<and> Job_UserID j = u"] tb(2)
    by (auto simp: fake_jobs_defs fake_jobs_of_def active_jobs_def active_status_def conj_commute)
  show "Jobs_CountActiveGlobal FakeJobsRepo s = (Inr n, s') \<Longrightarrow>
      n = int (card (active_jobs (fake_jobs_of s) (\<lambda>_. True)))"
    using count_rows [OF tb(1), of "\<lambda>j. active_status (Job_Status j)"] tb(2)
    by (auto simp: fake_jobs_defs fake_jobs_of_def active_jobs_def active_status_def)
qed (auto intro!: keepsI simp: fake_jobs_defs Let_def split: option.splits if_splits)

interpretation fake: keys_port FakeAPIKeysRepo fake_keys_of fake_ok
proof
  fix s s' :: fake_world and i u k e x ks p t
  assume ok: "fake_ok s"
  note sk = ok [unfolded fake_ok_def, THEN conjunct2]
  note tb = self_keyed_table [OF sk]
  show "finite (dom (fake_keys_of s))" by (simp add: fake_keys_of_def finite_dom_map_of)
  show "fake_keys_of s i = Some k \<Longrightarrow> APIKey_ID k = i"
    using self_keyed_lookup [OF sk] by (simp add: fake_keys_of_def)
  show "Keys_Create FakeAPIKeysRepo k s = (Inr x, s') \<Longrightarrow>
      fake_ok s' \<and> fake_keys_of s (APIKey_ID k) = None \<and> fake_keys_of s' = (fake_keys_of s)(APIKey_ID k \<mapsto> k)"
    using ok self_keyed_update [OF sk]
    by (auto simp: fake_keys_defs fake_keys_of_def fake_ok_def update_conv' split: if_splits)
  show "Keys_Create FakeAPIKeysRepo k s = (Inl e, s') \<Longrightarrow> fake_ok s' \<and> fake_keys_of s' = fake_keys_of s"
    using ok by (auto simp: fake_keys_defs split: if_splits)
  show "Keys_GetByPrefix FakeAPIKeysRepo p s = (Inr ks, s') \<Longrightarrow>
      distinct (map APIKey_ID ks) \<and> set ks = {k \<in> ran (fake_keys_of s). APIKey_Prefix k = p}"
    using filter_rows_law [OF tb(1), of "\<lambda>k. APIKey_Prefix k = p"] tb(2)
    by (simp add: fake_keys_defs fake_keys_of_def del: set_filter) blast
  show "Keys_ListForUser FakeAPIKeysRepo u s = (Inr ks, s') \<Longrightarrow>
      distinct (map APIKey_ID ks) \<and> set ks = {k \<in> ran (fake_keys_of s). APIKey_UserID k = u}"
    using filter_rows_law [OF tb(1), of "\<lambda>k. APIKey_UserID k = u"] tb(2)
    by (simp add: fake_keys_defs fake_keys_of_def del: set_filter) blast
  show "Keys_Delete FakeAPIKeysRepo i u s = (Inr x, s') \<Longrightarrow>
      fake_ok s' \<and> (\<exists>k. fake_keys_of s i = Some k \<and> APIKey_UserID k = u)
      \<and> fake_keys_of s' = (fake_keys_of s)(i := None)"
    using ok self_keyed_delete [OF sk]
    by (auto simp: fake_keys_defs fake_keys_of_def fake_ok_def delete_conv' split: option.splits if_splits)
  show "Keys_Delete FakeAPIKeysRepo i u s = (Inl e, s') \<Longrightarrow> fake_ok s' \<and> fake_keys_of s' = fake_keys_of s
      \<and> (errors_Is e NotFound \<longrightarrow> \<not> (\<exists>k. fake_keys_of s i = Some k \<and> APIKey_UserID k = u))"
    using ok by (auto simp: fake_keys_defs fake_keys_of_def split: option.splits if_splits)
  show "fake_ok s' \<and> (\<exists>k. fake_keys_of s i = Some k \<and>
                   fake_keys_of s' = (fake_keys_of s)(i \<mapsto> k\<lparr>APIKey_LastUsedAt := Some t\<rparr>))"
    if run: "Keys_RecordUsed FakeAPIKeysRepo i t s = (Inr x, s')"
  proof -
    obtain k where k: "map_of (FakeAPIKeysRepo_m s) i = Some k"
      using run by (auto simp: fake_keys_defs split: option.splits)
    let ?m = "AList.update i (k\<lparr>APIKey_LastUsedAt := Some t\<rparr>) (FakeAPIKeysRepo_m s)"
    have s': "s' = s\<lparr>FakeAPIKeysRepo_m := ?m\<rparr>" using run k by (simp add: fake_keys_defs)
    have "self_keyed APIKey_ID ?m"
      by (rule self_keyed_update [OF sk]) (simp add: self_keyed_lookup [OF sk k])
    then show ?thesis using ok k by (simp add: s' fake_ok_def fake_keys_of_def update_conv')
  qed
  show "Keys_RecordUsed FakeAPIKeysRepo i t s = (Inl e, s') \<Longrightarrow> fake_ok s' \<and> fake_keys_of s' = fake_keys_of s"
    using ok by (auto simp: fake_keys_defs split: option.splits)
qed (auto intro!: keepsI simp: fake_keys_defs)

interpretation fake: secrets_port FakeSecretsRepo fake_secrets_of fake_ok
  by unfold_locales
    (auto intro!: keepsI simp: FakeSecretsRepo_def FakeSecretsRepo_SetAnthropicCreds_def
       FakeSecretsRepo_GetAnthropicCreds_def FakeSecretsRepo_DeleteAnthropicCreds_def
       fake_secrets_of_def fake_ok_def update_conv' delete_conv' split: option.splits)

interpretation fake: job_env FakeJobsRepo fake_jobs_of fake_ok FakeClock FakeIDGenerator
  FakeRepoCredsProvider FakeAnthropicCredsProvider FakeRunnerService FakeWebhookDispatcher
  by unfold_locales
    (auto intro!: keepsI simp: fake_env_defs fake_jobs_of_def fake_ok_def Let_def
       split: option.splits)

section \<open>The use cases on the fakes, branch by branch\<close>

definition fake_enqueue :: "string \<Rightarrow> int \<Rightarrow> int \<Rightarrow> fake_world EnqueueJob" where
  "fake_enqueue logDir maxU maxG =
     wire_enqueue FakeJobsRepo FakeRepoCredsProvider FakeAnthropicCredsProvider FakeRunnerService
       FakeIDGenerator FakeClock logDir maxU maxG"

text \<open>The job the next request becomes.\<close>

definition fake_job :: "string \<Rightarrow> EnqueueJobInput \<Rightarrow> fake_world \<Rightarrow> Job" where
  "fake_job logDir inp w =
     EnqueueJob_new_job (fake_enqueue logDir 0 0) inp (fst (FakeIDGenerator_NewJobID w)) (FakeClock_now w)"

lemma fake_capped:
  assumes ok: "fake_ok w"
  shows "EnqueueJob_capped (fake_enqueue logDir maxU maxG) u w
    = (Inr (\<not> admitted maxU maxG (fake_jobs_of w) u), w)"
proof -
  let ?uc = "fake_enqueue logDir maxU maxG"
  have w: "EnqueueJob_Jobs ?uc = FakeJobsRepo" "EnqueueJob_MaxConcurrentPerUser ?uc = maxU"
    "EnqueueJob_MaxConcurrentGlobal ?uc = maxG"
    by (simp_all add: fake_enqueue_def wire_enqueue_def)
  have "\<exists>c. EnqueueJob_capped ?uc u w = (Inr c, w)"
    by (auto simp: EnqueueJob_capped_def EnqueueJob_global_capped_def w fake_jobs_defs)
  then obtain c where c: "EnqueueJob_capped ?uc u w = (Inr c, w)" by blast
  then show ?thesis
    using fake.capped_effect(3,4) [OF ok w(1) c] w by (cases c) auto
qed

lemma fake_wired:
  "EnqueueJob_Jobs (fake_enqueue logDir maxU maxG) = FakeJobsRepo"
  "EnqueueJob_RepoCreds (fake_enqueue logDir maxU maxG) = FakeRepoCredsProvider"
  "EnqueueJob_AnthropicCreds (fake_enqueue logDir maxU maxG) = FakeAnthropicCredsProvider"
  "EnqueueJob_Runner (fake_enqueue logDir maxU maxG) = FakeRunnerService"
  "EnqueueJob_IDGen (fake_enqueue logDir maxU maxG) = FakeIDGenerator"
  "EnqueueJob_Clock (fake_enqueue logDir maxU maxG) = FakeClock"
  by (simp_all add: fake_enqueue_def wire_enqueue_def)

text \<open>The job is stored in a world that differs from the first in the store and the counter of identifiers.\<close>

lemma fake_enqueue_stored:
  assumes "fake_ok w" and "\<not> EnqueueJob_invalid inp"
    and "job = fake_job logDir inp w" and "fake_jobs_of w (Job_ID job) = None"
  obtains w2 where "fake_ok w2" "fake_jobs_of w2 = (fake_jobs_of w)(Job_ID job \<mapsto> job)"
    "FakeRepoCreds_Err w2 = FakeRepoCreds_Err w" "FakeAnthropicCreds_Err w2 = FakeAnthropicCreds_Err w"
    "FakeRunner_StartErr w2 = FakeRunner_StartErr w" "FakeRepoCreds_Creds w2 = FakeRepoCreds_Creds w"
    "FakeAnthropicCreds_Creds w2 = FakeAnthropicCreds_Creds w" "FakeClock_now w2 = FakeClock_now w"
    "FakeRunner_StartedSpecs w2 = FakeRunner_StartedSpecs w" "FakeRunner_nextCounter w2 = FakeRunner_nextCounter w"
    "EnqueueJob_Execute (fake_enqueue logDir maxU maxG) inp w =
     (if \<not> admitted maxU maxG (fake_jobs_of w2) (EnqueueJobInput_UserID inp)
      then (Inr (EnqueueJob_output job), w2)
      else case EnqueueJob_creds (fake_enqueue logDir maxU maxG) inp w2 of
        (Inl e, s5) \<Rightarrow> (Inl e, s5)
      | (Inr (git, anth), s5) \<Rightarrow>
          EnqueueJob_start (fake_enqueue logDir maxU maxG) job (EnqueueJob_spec inp job git anth) s5)"
proof -
  let ?uc = "fake_enqueue logDir maxU maxG"
  obtain jid w1 where jid: "FakeIDGenerator_NewJobID w = (jid, w1)" by fastforce
  have job: "job = EnqueueJob_new_job ?uc inp jid (FakeClock_now w)"
    by (simp add: assms(3) fake_job_def EnqueueJob_new_job_def fake_enqueue_def wire_enqueue_def Let_def jid)
  have w1: "fake_jobs_of w1 = fake_jobs_of w" "fake_ok w1"
    using assms(1) jid by (auto simp: FakeIDGenerator_NewJobID_def Let_def fake_jobs_of_def fake_ok_def)
  obtain x w2 where cr: "Jobs_Create FakeJobsRepo job w1 = (x, w2)" by fastforce
  have x: "x = Inr ()" and w2: "w2 = w1\<lparr>FakeJobsRepo_m := AList.update (Job_ID job) job (FakeJobsRepo_m w1)\<rparr>"
    using cr assms(4) w1(1) by (auto simp: fake_jobs_defs fake_jobs_of_def split: if_splits)
  note c = fake.Create_ok [OF w1(2) cr [unfolded x]]
  then have ok2: "fake_ok w2" by simp
  show thesis
  proof (rule that [of w2])
    show "EnqueueJob_Execute ?uc inp w =
      (if \<not> admitted maxU maxG (fake_jobs_of w2) (EnqueueJobInput_UserID inp)
       then (Inr (EnqueueJob_output job), w2)
       else case EnqueueJob_creds ?uc inp w2 of
         (Inl e, s5) \<Rightarrow> (Inl e, s5)
       | (Inr (git, anth), s5) \<Rightarrow> EnqueueJob_start ?uc job (EnqueueJob_spec inp job git anth) s5)"
      using assms(2) cr x unfolding EnqueueJob_Execute_def fake_wired
      by (simp add: FakeClock_def FakeIDGenerator_def jid fake_capped [OF ok2] job [symmetric])
  qed (use c w1 w2 jid in \<open>auto simp: FakeIDGenerator_NewJobID_def Let_def\<close>)
qed

lemma fake_enqueue_run:
  assumes "fake_ok w" and "\<not> EnqueueJob_invalid inp"
    and "EnqueueJob_Execute (fake_enqueue logDir maxU maxG) inp w = (r, w')"
    and "job = fake_job logDir inp w" and "fake_jobs_of w (Job_ID job) = None"
  shows "let spec = EnqueueJob_spec inp job (FakeRepoCreds_Creds w) (FakeAnthropicCreds_Creds w);
      cid = ''ctr_'' @ Itoa (FakeRunner_nextCounter w + 1);
      after = (\<lambda>j. fake_jobs_of w' = (fake_jobs_of w)(Job_ID job \<mapsto> j));
      nothing_started = (FakeRunner_StartedSpecs w' = FakeRunner_StartedSpecs w)
    in if \<not> admitted maxU maxG ((fake_jobs_of w)(Job_ID job \<mapsto> job)) (EnqueueJobInput_UserID inp)
       then r = Inr (EnqueueJob_output job) \<and> after job \<and> nothing_started
       else case FakeRepoCreds_Err w of
         Some e \<Rightarrow>
           r = Inl (creds_missing (''repository credentials not available (is the GitHub App installed on ''
                      @ EnqueueJobInput_Repo inp @ ''?)'') e)
           \<and> after job \<and> nothing_started
       | None \<Rightarrow>
           (case FakeAnthropicCreds_Err w of
              Some e \<Rightarrow> r = Inl (creds_missing ''Anthropic API key not configured'' e) \<and> after job \<and> nothing_started
            | None \<Rightarrow>
                (case FakeRunner_StartErr w of
                   Some e \<Rightarrow> r = Inl e \<and> nothing_started
                     \<and> after (job\<lparr>Job_Status := JobStatusFailed, Job_Error := error_text e,
                                 Job_FinishedAt := Some (FakeClock_now w)\<rparr>)
                 | None \<Rightarrow>
                     r = Inr \<lparr>EnqueueJobOutput_JobID = Job_ID job, EnqueueJobOutput_Status = JobStatusRunning\<rparr>
                     \<and> after (job\<lparr>Job_Status := JobStatusRunning, Job_ContainerID := cid,
                                 Job_StartedAt := Some (FakeClock_now w)\<rparr>)
                     \<and> FakeRunner_StartedSpecs w' = FakeRunner_StartedSpecs w @ [spec]
                     \<and> map_of (FakeRunner_alive w') cid = Some True))"
proof -
  let ?uc = "fake_enqueue logDir maxU maxG"
  obtain w2 where w2: "fake_ok w2" "fake_jobs_of w2 = (fake_jobs_of w)(Job_ID job \<mapsto> job)"
    "FakeRepoCreds_Err w2 = FakeRepoCreds_Err w" "FakeAnthropicCreds_Err w2 = FakeAnthropicCreds_Err w"
    "FakeRunner_StartErr w2 = FakeRunner_StartErr w" "FakeRepoCreds_Creds w2 = FakeRepoCreds_Creds w"
    "FakeAnthropicCreds_Creds w2 = FakeAnthropicCreds_Creds w" "FakeClock_now w2 = FakeClock_now w"
    "FakeRunner_StartedSpecs w2 = FakeRunner_StartedSpecs w" "FakeRunner_nextCounter w2 = FakeRunner_nextCounter w"
    and run: "EnqueueJob_Execute ?uc inp w =
     (if \<not> admitted maxU maxG (fake_jobs_of w2) (EnqueueJobInput_UserID inp)
      then (Inr (EnqueueJob_output job), w2)
      else case EnqueueJob_creds ?uc inp w2 of
        (Inl e, s5) \<Rightarrow> (Inl e, s5)
      | (Inr (git, anth), s5) \<Rightarrow> EnqueueJob_start ?uc job (EnqueueJob_spec inp job git anth) s5)"
    by (rule fake_enqueue_stored [OF assms(1,2,4,5), of maxU maxG])
  have q: "Job_Status job = JobStatusQueued"
    by (simp add: assms(4) fake_job_def new_job_fields)
  show ?thesis
  proof (cases "admitted maxU maxG ((fake_jobs_of w)(Job_ID job \<mapsto> job)) (EnqueueJobInput_UserID inp)")
    case False
    then show ?thesis using run assms(3) w2 by (simp add: Let_def)
  next
    case adm: True
    then have rest: "(r, w') = (case EnqueueJob_creds ?uc inp w2 of
        (Inl e, s5) \<Rightarrow> (Inl e, s5)
      | (Inr (git, anth), s5) \<Rightarrow> EnqueueJob_start ?uc job (EnqueueJob_spec inp job git anth) s5)"
      using run assms(3) w2(2) by simp
    show ?thesis
      using rest adm w2 q
      by (auto simp: update_conv' EnqueueJob_creds_def fake_wired EnqueueJob_start_def EnqueueJob_started_def fake_env_defs
          Let_def MarkFailed_def MarkRunning_def IsTerminal_def fake_jobs_defs fake_jobs_of_def EnqueueJob_output_def
          split: option.splits)
  qed
qed

text \<open>A world whose runner refuses to start, with both credentials at hand.\<close>

definition sample_fakes :: fake_world where
  "sample_fakes =
     \<lparr>FakeJobsRepo_m = [], FakeAPIKeysRepo_m = [], FakeSecretsRepo_m = [], FakeClock_now = 5,
      FakeIDGenerator_jobCounter = 0, FakeIDGenerator_keyCounter = 0, FakeIDGenerator_userCounter = 0,
      FakeRepoCreds_Creds = \<lparr>GitCreds_Token = ''t'', GitCreds_ExpiresAt = 0\<rparr>, FakeRepoCreds_Err = None,
      FakeAnthropicCreds_Creds = \<lparr>AnthropicCreds_APIKey = ''k''\<rparr>, FakeAnthropicCreds_Err = None,
      FakeRunner_StartErr = Some (Opaque ''boom''), FakeRunner_started = [], FakeRunner_alive = [],
      FakeRunner_nextCounter = 0, FakeRunner_lastID = '''', FakeRunner_StartedSpecs = [],
      FakeWebhook_Err = None, FakeWebhook_Calls = []\<rparr>"

definition sample_input :: EnqueueJobInput where
  "sample_input =
     \<lparr>EnqueueJobInput_UserID = ''u1'', EnqueueJobInput_Repo = ''o/r'', EnqueueJobInput_BaseBranch = ''main'',
      EnqueueJobInput_WorkBranch = ''w'', EnqueueJobInput_Spec = \<lparr>Spec_Type = ''inline'', Spec_Value = ''x''\<rparr>,
      EnqueueJobInput_ModelOverride = '''', EnqueueJobInput_LogPath = ''''\<rparr>"

lemma sample_fakes_ok:
  "fake_ok sample_fakes" "fake_jobs_of sample_fakes = Map.empty" "\<not> EnqueueJob_invalid sample_input"
  by (simp_all add: fake_ok_def self_keyed_def fake_jobs_of_def sample_fakes_def EnqueueJob_invalid_def
      sample_input_def SpecSource_Valid_def SourceTypeInline_def)

lemma sample_fakes_answers:
  "FakeRepoCreds_Err sample_fakes = None" "FakeAnthropicCreds_Err sample_fakes = None"
  "FakeRunner_StartErr sample_fakes = Some (Opaque ''boom'')"
  by (simp_all add: sample_fakes_def)

lemma sample_fakes_admitted:
  "admitted 0 0 m u"
  by (simp add: admitted_def)

text \<open>
  C13. EnqueueJob on the in-memory fakes, branch by branch: over a cap the job stays queued and
  nothing is started; missing credentials give an error and leave the job queued; a runner that
  refuses to start fails the job with its message; otherwise one container is started with the
  credentials of the user and the job is running in it.
\<close>

theorem enqueue_branches:
  assumes "fake_ok w" and "\<not> EnqueueJob_invalid inp"
    and "EnqueueJob_Execute (fake_enqueue logDir maxU maxG) inp w = (r, w')"
    and "job = fake_job logDir inp w" and "fake_jobs_of w (Job_ID job) = None"
  shows "let spec = EnqueueJob_spec inp job (FakeRepoCreds_Creds w) (FakeAnthropicCreds_Creds w);
      cid = ''ctr_'' @ Itoa (FakeRunner_nextCounter w + 1);
      after = (\<lambda>j. fake_jobs_of w' = (fake_jobs_of w)(Job_ID job \<mapsto> j));
      nothing_started = (FakeRunner_StartedSpecs w' = FakeRunner_StartedSpecs w)
    in if \<not> admitted maxU maxG ((fake_jobs_of w)(Job_ID job \<mapsto> job)) (EnqueueJobInput_UserID inp)
       then r = Inr (EnqueueJob_output job) \<and> after job \<and> nothing_started
       else case FakeRepoCreds_Err w of
         Some e \<Rightarrow>
           r = Inl (creds_missing (''repository credentials not available (is the GitHub App installed on ''
                      @ EnqueueJobInput_Repo inp @ ''?)'') e)
           \<and> after job \<and> nothing_started
       | None \<Rightarrow>
           (case FakeAnthropicCreds_Err w of
              Some e \<Rightarrow> r = Inl (creds_missing ''Anthropic API key not configured'' e) \<and> after job \<and> nothing_started
            | None \<Rightarrow>
                (case FakeRunner_StartErr w of
                   Some e \<Rightarrow> r = Inl e \<and> nothing_started
                     \<and> after (job\<lparr>Job_Status := JobStatusFailed, Job_Error := error_text e,
                                 Job_FinishedAt := Some (FakeClock_now w)\<rparr>)
                 | None \<Rightarrow>
                     r = Inr \<lparr>EnqueueJobOutput_JobID = Job_ID job, EnqueueJobOutput_Status = JobStatusRunning\<rparr>
                     \<and> after (job\<lparr>Job_Status := JobStatusRunning, Job_ContainerID := cid,
                                 Job_StartedAt := Some (FakeClock_now w)\<rparr>)
                     \<and> FakeRunner_StartedSpecs w' = FakeRunner_StartedSpecs w @ [spec]
                     \<and> map_of (FakeRunner_alive w') cid = Some True))"
  by (rule fake_enqueue_run [OF assms])

theorem enqueue_branches_witness:
  "fst (EnqueueJob_Execute (fake_enqueue ''/l'' 0 0) sample_input sample_fakes) = Inl (Opaque ''boom'')"
  using enqueue_branches [OF sample_fakes_ok(1,3) prod.collapse [symmetric] refl, of "''/l''" 0 0]
  by (simp add: sample_fakes_ok sample_fakes_admitted sample_fakes_answers Let_def)

theorem missing_credentials_leave_job:
  assumes "fake_ok w" and "\<not> EnqueueJob_invalid inp"
    and "EnqueueJob_Execute (fake_enqueue logDir maxU maxG) inp w = (r, w')"
    and "job = fake_job logDir inp w" and "fake_jobs_of w (Job_ID job) = None"
    and "admitted maxU maxG ((fake_jobs_of w)(Job_ID job \<mapsto> job)) (EnqueueJobInput_UserID inp)"
    and "FakeRepoCreds_Err w = Some e" and "errors_Is e NotFound"
  shows "(\<exists>e'. r = Inl e' \<and> errors_Is e' InvalidInput)
    \<and> fake_jobs_of w' (Job_ID job) = Some job
    \<and> Job_ID job \<in> active_jobs (fake_jobs_of w') (\<lambda>j. Job_UserID j = EnqueueJobInput_UserID inp)"
proof -
  note run = fake_enqueue_run [OF assms(1-5)]
  have jobs: "fake_jobs_of w' = (fake_jobs_of w)(Job_ID job \<mapsto> job)"
    and r: "\<exists>m. r = Inl (creds_missing m e)"
    using run assms(6,7) by (auto simp: Let_def)
  have "Job_Status job = JobStatusQueued" "Job_UserID job = EnqueueJobInput_UserID inp"
    by (simp_all add: assms(4) fake_job_def new_job_fields)
  then show ?thesis
    using jobs r assms(8) by (auto simp: creds_missing_def active_jobs_def active_status_def)
qed

theorem missing_credentials_leave_job_witness:
  "''j_1'' \<in> active_jobs (fake_jobs_of (snd (EnqueueJob_Execute (fake_enqueue ''/l'' 0 0) sample_input
     (sample_fakes\<lparr>FakeRepoCreds_Err := Some ErrNotFound\<rparr>)))) (\<lambda>j. Job_UserID j = ''u1'')"
proof -
  let ?w = "sample_fakes\<lparr>FakeRepoCreds_Err := Some ErrNotFound\<rparr>"
  have w: "fake_ok ?w" "fake_jobs_of ?w = Map.empty"
    using sample_fakes_ok by (simp_all add: fake_ok_def fake_jobs_of_def)
  have "digit 1 = CHR ''1''" by code_simp
  then have "Job_ID (fake_job ''/l'' sample_input ?w) = ''j_1''"
    by (simp add: fake_job_def new_job_fields FakeIDGenerator_NewJobID_def sample_fakes_def show_nat.simps)
  then show ?thesis
    using missing_credentials_leave_job [OF w(1) sample_fakes_ok(3) prod.collapse [symmetric] refl, of "''/l''" 0 0 ErrNotFound]
    by (simp add: w(2) sample_fakes_admitted) (simp add: sample_input_def)
qed

definition fake_reattach :: "fake_world ReattachRunningJobs" where
  "fake_reattach = wire_reattach FakeJobsRepo FakeRunnerService FakeClock"

text \<open>What the pass does to one job.\<close>

definition reattached :: "(string \<times> bool) list \<Rightarrow> time \<Rightarrow> Job \<Rightarrow> Job" where
  "reattached alive now j =
     (if Job_Status j = JobStatusRunning \<and> map_of alive (Job_ContainerID j) \<noteq> Some True
      then j\<lparr>Job_Status := JobStatusFailed, Job_Error := ''api restarted while runner container gone'',
             Job_FinishedAt := Some now\<rparr>
      else j)"

lemma fake_reattach_loop:
  assumes "distinct (map Job_ID js)" and "\<forall>j \<in> set js. fake_jobs_of w (Job_ID j) = Some j \<and> Job_Status j = JobStatusRunning"
  shows "\<exists>w'. reattach_loop fake_reattach now js w = (Inr (), w')
    \<and> (\<forall>i. fake_jobs_of w' i = (if i \<in> Job_ID ` set js
        then map_option (reattached (FakeRunner_alive w) now) (fake_jobs_of w i) else fake_jobs_of w i))"
  using assms
proof (induction js arbitrary: w)
  case Nil
  then show ?case by simp
next
  case (Cons j js)
  have j: "fake_jobs_of w (Job_ID j) = Some j" "Job_Status j = JobStatusRunning" using Cons.prems(2) by simp_all
  define alive where "alive = (case map_of (FakeRunner_alive w) (Job_ContainerID j) of None \<Rightarrow> False | Some b \<Rightarrow> b)"
  have al: "alive \<longleftrightarrow> map_of (FakeRunner_alive w) (Job_ContainerID j) = Some True"
    by (auto simp: alive_def split: option.splits)
  define w1 where "w1 = (if alive then w else
    w\<lparr>FakeJobsRepo_m := AList.update (Job_ID j) (snd (MarkFailed j reattach_reason now)) (FakeJobsRepo_m w)\<rparr>)"
  have nt: "\<not> IsTerminal j" using j(2) by (simp add: IsTerminal_def)
  have step: "reattach_loop fake_reattach now (j # js) w = reattach_loop fake_reattach now js w1"
    using j nt by (simp add: fake_reattach_def wire_reattach_def fake_env_defs fake_jobs_defs w1_def alive_def
        MarkFailed_def fake_jobs_of_def)
  have w1: "FakeRunner_alive w1 = FakeRunner_alive w"
    "fake_jobs_of w1 = (fake_jobs_of w)(Job_ID j \<mapsto> reattached (FakeRunner_alive w) now j)"
    using j nt al by (auto simp: w1_def fake_jobs_of_def update_conv' reattached_def MarkFailed_def reattach_reason_def fun_eq_iff)
  have notin: "Job_ID j \<notin> Job_ID ` set js" using Cons.prems(1) by simp
  have "\<forall>k \<in> set js. fake_jobs_of w1 (Job_ID k) = Some k \<and> Job_Status k = JobStatusRunning"
  proof
    fix k assume k: "k \<in> set js"
    then have "Job_ID k \<in> Job_ID ` set js" by simp
    then have "Job_ID k \<noteq> Job_ID j" using notin by metis
    then show "fake_jobs_of w1 (Job_ID k) = Some k \<and> Job_Status k = JobStatusRunning"
      using Cons.prems(2) k by (simp add: w1(2))
  qed
  then obtain w' where "reattach_loop fake_reattach now js w1 = (Inr (), w')"
    and "\<forall>i. fake_jobs_of w' i = (if i \<in> Job_ID ` set js
        then map_option (reattached (FakeRunner_alive w1) now) (fake_jobs_of w1 i) else fake_jobs_of w1 i)"
    using Cons.IH [of w1] Cons.prems(1) by auto
  then show ?case using step w1 j(1) notin by (intro exI [of _ w']) auto
qed



end
