(* ===== verification/Accounts.thy ===== *)
theory Accounts
  imports Server
begin

text \<open>
  What the accounts of the server guarantee, on the production wiring: the life of an API key
  from its minting to its revocation, the life of a cookie session, and that one user never
  sees or changes what belongs to another.
\<close>

section \<open>Statements on a database that answers\<close>

lemma GetByPrefix_calm:
  "db_faults d = [] \<Longrightarrow> APIKeysRepo_GetByPrefix p d =
     (Inr (map toAPIKey (sql_select (\<lambda>r. apiKeyRow_Prefix r = p) (db_api_keys d))), d)"
  by (simp add: APIKeysRepo_GetByPrefix_def pg_stmt_run)

lemma RecordUsed_calm:
  assumes "pg_ok d" and "db_faults d = []" and "pg_keys_of d i = Some k"
    and "APIKeysRepo_RecordUsed i t d = (r, d')"
  shows "pg_ok d' \<and> db_faults d' = [] \<and> pg_keys_of d' = (pg_keys_of d)(i \<mapsto> k\<lparr>APIKey_LastUsedAt := Some t\<rparr>)"
proof -
  have "i \<in> apiKeyRow_ID ` set (db_api_keys d)"
    using assms(3) index_by_None [of APIKey_ID "map toAPIKey (db_api_keys d)" i]
    by (auto simp: pg_keys_of_def image_image)
  then have "snd (sql_update apiKeyRow_ID i (\<lambda>r. r\<lparr>apiKeyRow_LastUsedAt := Some t\<rparr>) (db_api_keys d)) \<noteq> 0"
    using index_by_None [of apiKeyRow_ID "db_api_keys d" i] by (auto simp: update_count)
  then have "\<not> isl r" and calm: "db_faults d' = []"
    using assms(2,4) by (auto simp: APIKeysRepo_RecordUsed_def pg_stmt_run split: prod.splits if_splits)
  then show ?thesis using APIKeysRepo_RecordUsed_run [OF assms(1,4)] assms(3) by (cases r) auto
qed

lemma Delete_calm:
  assumes "pg_ok d" and "db_faults d = []" and "pg_keys_of d i = Some k"
    and "APIKeysRepo_Delete i (APIKey_UserID k) d = (r, d')"
  shows "r = Inr () \<and> pg_ok d' \<and> db_faults d' = [] \<and> pg_keys_of d' = (pg_keys_of d)(i := None)"
proof -
  have "r = Inr () \<or> r = Inl ErrNotFound" and calm: "db_faults d' = []"
    using assms by (auto simp: APIKeysRepo_Delete_def pg_stmt_run split: prod.splits if_splits)
  moreover have "r \<noteq> Inl ErrNotFound"
    using APIKeysRepo_Delete_run [OF assms(1,4)] assms(3) by auto
  ultimately have r: "r = Inr ()" by blast
  then show ?thesis using APIKeysRepo_Delete_run [OF assms(1,4)] calm by simp
qed

section \<open>The life of an API key\<close>

definition key_matches :: "bcrypt \<Rightarrow> string \<Rightarrow> APIKey \<Rightarrow> bool" where
  "key_matches b plain k \<longleftrightarrow> APIKey_Prefix k = take 8 plain \<and> bcrypt_Compare b (APIKey_Hash k) plain"

lemma resolve_calm:
  assumes ok: "pg_ok d" and calm: "db_faults d = []" and len: "8 \<le> length plain"
    and run: "resolveBearer b (keyhash_Repo b APIKeysRepo) plain d = (r, d')"
  shows "(\<forall>i k. pg_keys_of d i = Some k \<longrightarrow> \<not> key_matches b plain k) \<and> isl r
    \<or> (\<exists>i k t. pg_keys_of d i = Some k \<and> key_matches b plain k \<and> r = Inr (APIKey_UserID k)
         \<and> pg_ok d' \<and> db_faults d' = []
         \<and> pg_keys_of d' = (pg_keys_of d)(i \<mapsto> k\<lparr>APIKey_LastUsedAt := Some t\<rparr>))"
proof -
  obtain ks where get: "Keys_GetByPrefix APIKeysRepo (take 8 plain) d = (Inr ks, d)"
    using calm by (simp add: APIKeysRepo_def GetByPrefix_calm)
  have ks: "set ks = {k \<in> ran (pg_keys_of d). APIKey_Prefix k = take 8 plain}"
    using pg.GetByPrefix_ok [OF ok get] by simp
  have get: "Keys_GetByPrefix (keyhash_Repo b APIKeysRepo) (take 8 plain) d = (Inr ks, d)"
    using get by (simp add: keyhash_Repo_def)
  show ?thesis
  proof (cases "match_key b plain ks")
    case None
    then have "\<forall>i k. pg_keys_of d i = Some k \<longrightarrow> \<not> key_matches b plain k"
      using pg.match_key_None [of b plain ks] ks by (auto simp: key_matches_def ran_def)
    moreover have "isl r" using run len get None by (auto simp: resolveBearer_def)
    ultimately show ?thesis by blast
  next
    case (Some k)
    then have k: "k \<in> ran (pg_keys_of d)" "key_matches b plain k"
      using pg.match_key_Some [of b plain ks] ks by (auto simp: key_matches_def)
    then obtain i where i: "pg_keys_of d i = Some k" by (auto simp: ran_def)
    then have "APIKey_ID k = i" using pg.key_key [OF ok] by simp
    moreover obtain now d1 where now: "time_Now d = (now, d1)" by fastforce
    moreover obtain q d2 where rec: "APIKeysRepo_RecordUsed i now d1 = (q, d2)" by fastforce
    ultimately have r: "r = Inr (APIKey_UserID k)" and d': "d' = d2"
      using run len get Some by (auto simp: resolveBearer_def keyhash_Repo_def APIKeysRepo_def)
    have "pg_ok d1" "db_faults d1 = []" "pg_keys_of d1 = pg_keys_of d"
      using now ok calm by (auto simp: time_Now_def)
    then show ?thesis using RecordUsed_calm [OF _ _ _ rec] i k(2) r d' by auto
  qed
qed

lemma Mint_run:
  assumes ok: "pg_ok d" and calm: "db_faults d = []"
    and run: "MintAPIKey_Execute (srv_mint D) u name d = (Inr (k, plain), d1)"
  obtains salt digest where "length plain = 46" and "APIKey_UserID k = u" and "APIKey_Prefix k = take 8 plain"
    and "bcrypt_Generate (dep_bcrypt D) salt plain = Inr digest" and "pg_ok d1" and "db_faults d1 = []"
    and "pg_keys_of d (APIKey_ID k) = None"
    and "pg_keys_of d1 = (pg_keys_of d)(APIKey_ID k \<mapsto> k\<lparr>APIKey_Hash := digest\<rparr>)"
proof -
  obtain w e1 where w: "randBase32 apiKeyBytes d = (w, e1)" by fastforce
  obtain v e2 where v: "randBase32 9 e1 = (v, e2)" by fastforce
  obtain now e3 where now: "time_Now e2 = (now, e3)" by fastforce
  let ?k = "NewAPIKey (''k_'' @ v) u name (take 8 (''agdkey_'' @ w)) (''agdkey_'' @ w) now"
  have cr: "Keys_Create (srv_keys D) ?k e3 = (Inr (), d1)" and k: "k = ?k" and plain: "plain = ''agdkey_'' @ w"
    using run w v now
    by (auto simp: MintAPIKey_Execute_def srv_mint_def NanoID_def NanoID_NewAPIKeyPlaintext_def
        NanoID_NewAPIKeyID_def SystemClock_def Let_def split: if_splits sum.splits prod.splits)
  have e3: "pg_ok e3" "pg_keys_of e3 = pg_keys_of d" "db_faults e3 = []"
    using ok calm w v now by (auto simp: randBase32_def rand_Read_def time_Now_def Let_def)
  have "length w = 39" using length_randBase32 [of apiKeyBytes d] w by (simp add: apiKeyBytes_def)
  then have "length plain = 46" by (simp add: plain)
  moreover have fields: "APIKey_UserID k = u" "APIKey_Prefix k = take 8 plain" "APIKey_Hash k = plain"
    by (simp_all add: k plain NewAPIKey_def)
  moreover have "db_faults d1 = []"
    using cr e3(3) by (auto simp: srv_keys_def keyhash_Repo_def keyhash_Create_def GenerateFromPassword_def
        rand_Read_def APIKeysRepo_def APIKeysRepo_Create_def pg_stmt_def Let_def
        split: sum.splits if_splits option.splits)
  ultimately show thesis
    using pg.keyhash_Create_run [OF e3(1), of "dep_bcrypt D" ?k "Inr ()" d1] cr e3(2) that k
    by (auto simp: srv_keys_def)
qed

text \<open>
  C21. A minted API key whose text matches no other stored key resolves to the user it was
  minted for, its revocation by that user succeeds, and from then on it resolves to nobody.
\<close>

theorem api_key_lifecycle:
  fixes d :: "'z db_scheme"
  assumes "pg_ok d" and "db_faults d = []" and "bcrypt_ok (dep_bcrypt D)"
    and "MintAPIKey_Execute (srv_mint D) u name d = (Inr (k, plain), d1)"
    and "\<forall>q \<in> ran (pg_keys_of d). \<not> bcrypt_Compare (dep_bcrypt D) (APIKey_Hash q) plain"
    and "resolveBearer (dep_bcrypt D) (srv_keys D) plain d1 = (r, d2)"
    and "RevokeAPIKey_Execute (srv_keys D) (APIKey_ID k) u d2 = (q, d3)"
  shows "r = Inr u \<and> q = Inr () \<and> isl (fst (resolveBearer (dep_bcrypt D) (srv_keys D) plain d3))"
proof -
  let ?b = "dep_bcrypt D"
  from assms(4) obtain salt digest where len: "length plain = 46" and user: "APIKey_UserID k = u"
    and pre: "APIKey_Prefix k = take 8 plain" and dig: "bcrypt_Generate ?b salt plain = Inr digest"
    and d1: "pg_ok d1" "db_faults d1 = []" and new: "pg_keys_of d (APIKey_ID k) = None"
    and keys1: "pg_keys_of d1 = (pg_keys_of d)(APIKey_ID k \<mapsto> k\<lparr>APIKey_Hash := digest\<rparr>)"
    by (rule Mint_run [OF assms(1,2)])
  let ?k = "k\<lparr>APIKey_Hash := digest\<rparr>"
  have match: "key_matches ?b plain ?k"
    using assms(3) dig pre by (simp add: key_matches_def bcrypt_ok_def)
  have other: "\<not> key_matches ?b plain q" if "pg_keys_of d i = Some q" for i q
    using assms(5) that by (auto simp: key_matches_def ran_def)
  have len8: "8 \<le> length plain" using len by simp
  obtain t where r: "r = Inr u" and d2: "pg_ok d2" "db_faults d2 = []"
    and keys2: "pg_keys_of d2 = (pg_keys_of d)(APIKey_ID k \<mapsto> ?k\<lparr>APIKey_LastUsedAt := Some t\<rparr>)"
    using resolve_calm [OF d1 len8, of ?b r d2] assms(6) keys1 match other user
    by (auto simp: srv_keys_def split: if_splits)
  have ids: "u \<noteq> ''''" "APIKey_ID k \<noteq> ''''"
    using assms(4) by (auto simp: MintAPIKey_Execute_def srv_mint_def NanoID_def NanoID_NewAPIKeyID_def
        NewAPIKey_def Let_def split: if_splits sum.splits prod.splits)
  then have del: "APIKeysRepo_Delete (APIKey_ID k) u d2 = (q, d3)"
    using assms(7) by (simp add: RevokeAPIKey_Execute_def srv_keys_def keyhash_Repo_def APIKeysRepo_def)
  have "q = Inr () \<and> pg_ok d3 \<and> db_faults d3 = [] \<and> pg_keys_of d3 = (pg_keys_of d2)(APIKey_ID k := None)"
    using Delete_calm [OF d2, of "APIKey_ID k" "?k\<lparr>APIKey_LastUsedAt := Some t\<rparr>"] del user by (simp add: keys2)
  moreover have "(pg_keys_of d2)(APIKey_ID k := None) = pg_keys_of d" using new by (auto simp: keys2)
  ultimately have q: "q = Inr ()" and d3: "pg_ok d3" "db_faults d3 = []" and keys3: "pg_keys_of d3 = pg_keys_of d"
    by simp_all
  have "isl (fst (resolveBearer ?b (srv_keys D) plain d3))"
    using resolve_calm [OF d3 len8 prod.collapse [symmetric], of ?b] other
    by (auto simp: srv_keys_def keys3)
  then show ?thesis using r q by simp
qed

lemma sample_mint:
  "\<exists>k plain d1. MintAPIKey_Execute (srv_mint sample_deps) ''u1'' ''laptop'' sample_db = (Inr (k, plain), d1)"
proof -
  obtain w e1 where w: "randBase32 apiKeyBytes sample_db = (w, e1)" by fastforce
  obtain v e2 where v: "randBase32 9 e1 = (v, e2)" by fastforce
  obtain now e3 where now: "time_Now e2 = (now, e3)" by fastforce
  have "length w = 39" using length_randBase32 [of apiKeyBytes sample_db] w by (simp add: apiKeyBytes_def)
  moreover have "db_faults e3 = []" "db_users e3 = db_users sample_db" "db_api_keys e3 = []"
    using w v now by (auto simp: randBase32_def rand_Read_def time_Now_def Let_def sample_db_def)
  ultimately show ?thesis using w v now
    by (auto simp: MintAPIKey_Execute_def srv_mint_def NanoID_def NanoID_NewAPIKeyPlaintext_def
        NanoID_NewAPIKeyID_def SystemClock_def srv_keys_def keyhash_Repo_def keyhash_Create_def
        GenerateFromPassword_def rand_Read_def APIKeysRepo_def APIKeysRepo_Create_def pg_stmt_def Let_def
        sample_deps_def sample_bcrypt_def NewAPIKey_def user_exists_def sample_db_def fromAPIKey_def sql_insert_def)
qed

theorem api_key_lifecycle_witness:
  "case MintAPIKey_Execute (srv_mint sample_deps) ''u1'' ''laptop'' sample_db of
     (Inr (k, plain), d1) \<Rightarrow> fst (resolveBearer sample_bcrypt (srv_keys sample_deps) plain d1) = Inr ''u1''
   | (Inl e, _) \<Rightarrow> False"
proof -
  have b: "bcrypt_ok (dep_bcrypt sample_deps)" and bb: "dep_bcrypt sample_deps = sample_bcrypt"
    by (auto simp: bcrypt_ok_def sample_deps_def sample_bcrypt_def split: if_splits)
  have d: "db_faults sample_db = []" and "pg_keys_of sample_db = Map.empty"
    by (simp_all add: sample_db_def pg_keys_of_def index_by_def fun_eq_iff)
  moreover obtain k plain d1 where
    m: "MintAPIKey_Execute (srv_mint sample_deps) ''u1'' ''laptop'' sample_db = (Inr (k, plain), d1)"
    using sample_mint by blast
  ultimately show ?thesis
    using api_key_lifecycle [OF sample_db_ok d b m _ prod.collapse [symmetric] prod.collapse [symmetric]]
    by (simp add: m bb)
qed

section \<open>The life of a session\<close>

lemma Session_Create_calm:
  assumes "db_faults d = []" and "SessionsRepo_Create sid uid t d = (Inr x, d')"
  shows "d' = d\<lparr>db_sessions := db_sessions d @ [\<lparr>sessionRow_ID = sid, sessionRow_UserID = uid, sessionRow_ExpiresAt = t\<rparr>]\<rparr>
    \<and> sid \<notin> sessionRow_ID ` set (db_sessions d)"
  using assms by (auto simp: SessionsRepo_Create_def pg_stmt_run sql_insert_def split: if_splits)

lemma Resolve_calm:
  assumes "db_faults d = []" and "sid \<notin> sessionRow_ID ` set rows"
  shows "fst (SessionsRepo_ResolveUser sid (d\<lparr>db_sessions := rows @ [\<lparr>sessionRow_ID = sid, sessionRow_UserID = uid,
      sessionRow_ExpiresAt = t\<rparr>]\<rparr>)) = (if env_clock d (env_clock_reads d) > t then Inl ErrNotFound else Inr uid)"
proof -
  have "sql_select (\<lambda>r. sessionRow_ID r = sid) rows = []"
    using assms(2) by (auto simp: sql_select_def filter_empty_conv)
  then show ?thesis using assms(1)
    by (simp add: SessionsRepo_ResolveUser_def pg_stmt_run sql_select_def time_Now_def After_def)
qed

lemma Resolve_deleted:
  assumes "db_faults d = []"
  shows "fst (SessionsRepo_ResolveUser sid (snd (SessionsRepo_Delete sid d))) = Inl ErrNotFound"
  using assms by (simp add: SessionsRepo_ResolveUser_def SessionsRepo_Delete_def pg_stmt_run sql_select_def
      sql_delete_def Let_def)

lemma Login_run:
  assumes "db_faults d = []" and "Sessions_Login (srv_sessions cfg) uid d = (Inr ck, d1)"
  obtains sid where "length sid = 32"
    and "ck = session_cookie (cfg_CookieSecure cfg) sid (env_clock d (env_clock_reads d) + cookieMaxAge)"
    and "db_faults d1 = []" and "db_identities d1 = db_identities d"
    and "fst (SessionsRepo_ResolveUser sid d1) =
      (if env_clock d (Suc (env_clock_reads d)) > env_clock d (env_clock_reads d) + cookieMaxAge
       then Inl ErrNotFound else Inr uid)"
proof -
  obtain sid e1 where rd: "rand_Read 32 d = (sid, e1)" by fastforce
  obtain now e2 where now: "time_Now e1 = (now, e2)" by fastforce
  have sid: "length sid = 32" using length_rand_Read [of 32 d] rd by simp
  have e2: "db_faults e2 = []" "env_clock e2 (env_clock_reads e2) = env_clock d (Suc (env_clock_reads d))"
      "now = env_clock d (env_clock_reads d)" "db_identities e2 = db_identities d"
    using rd now assms(1) by (auto simp: rand_Read_def time_Now_def)
  have cr: "SessionsRepo_Create sid uid (now + cookieMaxAge) e2 = (Inr (), d1)"
    and ck: "ck = session_cookie (cfg_CookieSecure cfg) sid (now + cookieMaxAge)"
    using assms(2) rd now by (auto simp: Sessions_Login_def srv_sessions_def SessionsRepo_def Let_def
        split: sum.splits prod.splits)
  note new = Session_Create_calm [OF e2(1) cr]
  then have "fst (SessionsRepo_ResolveUser sid d1) =
      (if env_clock d (Suc (env_clock_reads d)) > now + cookieMaxAge then Inl ErrNotFound else Inr uid)"
    using Resolve_calm [OF e2(1)] e2(2) by simp
  moreover have "db_faults d1 = []" "db_identities d1 = db_identities d" using new e2 by simp_all
  ultimately show thesis using that [OF sid] ck e2(3) by simp
qed

text \<open>
  C22. The cookie a login hands out is HttpOnly and SameSite, signs the browser in as that user
  until thirty days later, and after a logout neither the old cookie nor the cleared one does.
\<close>

theorem session_lifecycle:
  assumes "db_faults d = []" and "Sessions_Login (srv_sessions cfg) uid d = (Inr ck, d1)"
  shows "Cookie_HttpOnly ck \<and> Cookie_SameSiteLax ck \<and> Cookie_Secure ck = cfg_CookieSecure cfg
    \<and> fst (Sessions_UserFromRequest (srv_sessions cfg) (send_cookie ck r) d1) =
        (if env_clock d (Suc (env_clock_reads d)) > env_clock d (env_clock_reads d) + 30 * 24 * Hour
         then Inl ErrNotFound else Inr uid)
    \<and> fst (Sessions_UserFromRequest (srv_sessions cfg) (send_cookie ck r)
          (snd (Sessions_Logout (srv_sessions cfg) (send_cookie ck r) d1))) = Inl ErrNotFound
    \<and> request_Cookie (send_cookie (fst (Sessions_Logout (srv_sessions cfg) (send_cookie ck r) d1))
          (send_cookie ck r)) cookieName = None"
proof -
  obtain sid where sid: "length sid = 32"
    and ck: "ck = session_cookie (cfg_CookieSecure cfg) sid (env_clock d (env_clock_reads d) + cookieMaxAge)"
    and d1: "db_faults d1 = []"
    and res: "fst (SessionsRepo_ResolveUser sid d1) =
      (if env_clock d (Suc (env_clock_reads d)) > env_clock d (env_clock_reads d) + cookieMaxAge
       then Inl ErrNotFound else Inr uid)"
    by (rule Login_run [OF assms])
  have req: "request_Cookie (send_cookie ck r) cookieName = Some (encodeCookieValue sid)"
    unfolding ck by (rule request_after_login)
  have "Cookie_HttpOnly ck \<and> Cookie_SameSiteLax ck \<and> Cookie_Secure ck = cfg_CookieSecure cfg"
    by (simp add: ck session_cookie_def)
  moreover have "request_Cookie (send_cookie (cleared_cookie cookieName) r') cookieName = None" for r'
    by (simp add: send_cookie_def cleared_cookie_def plain_cookie_def request_Cookie_def delete_conv')
  ultimately show ?thesis
    using Resolve_deleted [OF d1, of sid] cookie_roundtrip [OF sid] res
    by (simp add: Sessions_UserFromRequest_def Sessions_Logout_def req srv_sessions_def SessionsRepo_def
        cookieMaxAge_def)
qed

theorem session_lifecycle_witness:
  "case Sessions_Login (srv_sessions sample_config) ''u1'' sample_db of
     (Inr ck, d1) \<Rightarrow> fst (Sessions_UserFromRequest (srv_sessions sample_config)
        (send_cookie ck (sample_request ''GET'' ''/dashboard'')) d1) = Inr ''u1''
   | (Inl e, _) \<Rightarrow> False"
proof -
  have calm: "db_faults sample_db = []" by (simp add: sample_db_def)
  have "\<exists>ck d1. Sessions_Login (srv_sessions sample_config) ''u1'' sample_db = (Inr ck, d1)"
    by (simp add: Sessions_Login_def srv_sessions_def SessionsRepo_def SessionsRepo_Create_def sample_db_def
        rand_Read_def time_Now_def pg_stmt_run user_exists_def sql_insert_def Let_def)
  then obtain ck d1 where run: "Sessions_Login (srv_sessions sample_config) ''u1'' sample_db = (Inr ck, d1)" by blast
  have "env_clock sample_db 1 = 101" "env_clock sample_db 0 = 100" "env_clock_reads sample_db = 0"
    by (simp_all add: sample_db_def)
  with session_lifecycle [OF calm run, of "sample_request ''GET'' ''/dashboard''"] show ?thesis
    by (simp add: run Hour_def Minute_def Second_def)
qed

section \<open>Jobs of other users\<close>

text \<open>
  C23. For a user who does not own it, a job is answered as not found by every route that names
  it (read, cancel, status page, log tail), exactly as a job that does not exist, and nothing
  changes.
\<close>

theorem foreign_job_hidden:
  fixes s :: "'z host_scheme"
  assumes "pg_ok s" and "db_faults s = []" and "jid \<noteq> ''''" and "uid \<noteq> ''''"
    and "\<forall>j. pg_jobs_of s jid = Some j \<longrightarrow> Job_UserID j \<noteq> uid"
    and "bind_id (dep_codec D) jid = Inr jid"
  shows "serve_user D cfg (R_GetJob jid) uid r s = (writeDomainError ErrNotFound, s)
    \<and> serve_user D cfg (R_Cancel jid) uid r s = (writeDomainError ErrNotFound, s)
    \<and> serve_user D cfg (R_Status jid) uid r s = (http_Error ''not found'' 404, s)
    \<and> serve_user D cfg (R_LogTail jid) uid r s = (http_Error ''not found'' 404, s)"
proof -
  have "JobsRepo_GetForUser jid uid s = (Inl ErrNotFound, s)"
    using assms(5) JobsRepo_Get_eq [OF assms(1,2), of jid]
    by (auto simp: JobsRepo_GetForUser_def split: option.splits)
  then show ?thesis using assms(3,4,6)
    by (simp add: JobsHandler_GetJob_def JobsHandler_Cancel_def StatusPage_Render_def StatusPage_LogTail_def
        GetJob_Execute_def CancelJob_Execute_def srv_cancel_def wire_cancel_def JobsRepo_def)
qed

theorem foreign_job_hidden_witness:
  "serve_user sample_deps sample_config (R_LogTail ''j_run'') ''u2'' (sample_request ''GET'' ''/jobs/j_run/log'') sample_host
     = (http_Error ''not found'' 404, sample_host)"
  by (rule foreign_job_hidden [THEN conjunct2, THEN conjunct2, THEN conjunct2])
    (simp_all add: sample_host_jobs sample_db_jobs sample_deps_def sample_codec_def)

theorem database_error_disclosed:
  fixes s :: "'z host_scheme"
  assumes "db_faults s = Some msg # fs" and "jid \<noteq> ''''" and "uid \<noteq> ''''"
    and "bind_id (dep_codec D) jid = Inr jid"
  shows "serve_user D cfg (R_GetJob jid) uid r s = (writeJSONError 400 msg, s\<lparr>db_faults := fs\<rparr>)"
  using assms by (simp add: JobsHandler_GetJob_def GetJob_Execute_def JobsRepo_def JobsRepo_GetForUser_def
      JobsRepo_Get_def pg_stmt_def writeDomainError_def)

theorem database_error_disclosed_witness:
  "fst (serve_user sample_deps sample_config (R_GetJob ''j_run'') ''u1'' (sample_request ''GET'' ''/api/jobs/j_run'')
     (sample_host\<lparr>db_faults := [Some ''dial tcp 10.0.0.5:5432: connection refused'']\<rparr>))
   = writeJSONError 400 ''dial tcp 10.0.0.5:5432: connection refused''"
  by (subst database_error_disclosed [where fs = "[]"])
    (simp_all add: sample_deps_def sample_codec_def)

section \<open>Who a bearer key speaks for\<close>

lemma resolveBearer_keyhash: "resolveBearer b (keyhash_Repo c keys) plain = resolveBearer b keys plain"
proof -
  have "Keys_GetByPrefix (keyhash_Repo c keys) = Keys_GetByPrefix keys"
    "Keys_RecordUsed (keyhash_Repo c keys) = Keys_RecordUsed keys"
    by (simp_all add: keyhash_Repo_def)
  then show ?thesis by (simp add: resolveBearer_def fun_eq_iff cong: sum.case_cong option.case_cong)
qed

text \<open>
  C20. A bearer token that resolves to a user matches the bcrypt hash and the prefix of a
  stored key of that user, and resolving it adds and removes no key.
\<close>

theorem bearer_sound:
  fixes d :: "'z db_scheme"
  assumes "pg_ok d" and "resolveBearer (dep_bcrypt D) (srv_keys D) plain d = (Inr u, d')"
  shows "(\<exists>i k. pg_keys_of d i = Some k \<and> APIKey_UserID k = u \<and> APIKey_Prefix k = take 8 plain
      \<and> bcrypt_Compare (dep_bcrypt D) (APIKey_Hash k) plain)
    \<and> pg_ok d' \<and> dom (pg_keys_of d') = dom (pg_keys_of d)"
proof -
  have "resolveBearer (dep_bcrypt D) APIKeysRepo plain d = (Inr u, d')"
    using assms(2) by (simp add: srv_keys_def resolveBearer_keyhash)
  then show ?thesis
    using pg.resolveBearer_sound [OF assms(1)] pg.resolveBearer_keeps [OF assms(1)] by blast
qed

definition sample_key :: APIKey where
  "sample_key = NewAPIKey ''k_1'' ''u1'' ''laptop'' ''agdkey_a'' ''agdkey_abc'' 3"

theorem bearer_sound_witness:
  "let d = sample_db\<lparr>db_api_keys := [fromAPIKey sample_key]\<rparr>
   in fst (resolveBearer sample_bcrypt (srv_keys sample_deps) ''agdkey_abc'' d) = Inr ''u1''
      \<and> (\<exists>i k. pg_keys_of d i = Some k \<and> APIKey_UserID k = ''u1'' \<and> APIKey_Prefix k = take 8 ''agdkey_abc'')"
proof -
  let ?d = "sample_db\<lparr>db_api_keys := [fromAPIKey sample_key]\<rparr>"
  have ok: "pg_ok ?d" using sample_db_ok by (simp add: pg_ok_def table_ok_def)
  have b: "dep_bcrypt sample_deps = sample_bcrypt" by (simp add: sample_deps_def)
  have f: "db_faults sample_db = []" by (simp add: sample_db_def)
  have pre: "apiKeyRow_Prefix (fromAPIKey sample_key) = ''agdkey_a''" "APIKey_Hash sample_key = ''agdkey_abc''"
    "APIKey_UserID sample_key = ''u1''"
    by (simp_all add: sample_key_def NewAPIKey_def fromAPIKey_def)
  have "fst (resolveBearer sample_bcrypt (srv_keys sample_deps) ''agdkey_abc'' ?d) = Inr ''u1''"
    unfolding srv_keys_def resolveBearer_keyhash
    using f pre by (simp add: resolveBearer_def APIKeysRepo_def GetByPrefix_calm
        sql_select_def sample_bcrypt_def split_beta Let_def fromAPIKey_def toAPIKey_def NewAPIKey_def)
  then obtain d' where run: "resolveBearer (dep_bcrypt sample_deps) (srv_keys sample_deps) ''agdkey_abc'' ?d = (Inr ''u1'', d')"
    unfolding b by (metis prod.collapse)
  from bearer_sound [OF ok run] show ?thesis using run by (auto simp: Let_def b)
qed

end
