(* ===== verification/Runner_Facts.thy ===== *)
theory Runner_Facts
  imports Docker_Runner
begin

text \<open>
  What the docker runner guarantees: which commands a start executes and what it leaves behind,
  that credentials never reach a command line, what the supervision of a container cleans up,
  and what the sweep of secrets at startup removes.
\<close>

section \<open>Which commands run\<close>

text \<open>A system call executes no command and supervises nothing.\<close>

definition quiet :: "('z host_scheme, 'a) act \<Rightarrow> bool" where
  "quiet f \<longleftrightarrow> (\<forall>h. exec_log (snd (f h)) = exec_log h \<and> supervised (snd (f h)) = supervised h
     \<and> exec_answer (snd (f h)) = exec_answer h)"

lemma quietD:
  assumes "quiet f" and "f h = (r, h')"
  shows "exec_log h' = exec_log h" and "supervised h' = supervised h" and "exec_answer h' = exec_answer h"
  using assms unfolding quiet_def by (metis snd_conv)+

lemma quiet_fs_call: "quiet body \<Longrightarrow> quiet (fs_call body)"
  by (auto simp: quiet_def fs_call_def split: list.split option.split)

lemma quiet_try_then: "quiet f \<Longrightarrow> (\<And>x. quiet (g x)) \<Longrightarrow> quiet (try_then f g)"
  by (auto simp: quiet_def try_then_def split: prod.split sum.split) (metis snd_conv)+

lemma quiet_calls [intro!]:
  "quiet (MkdirAll p m)" "quiet (Chmod p m)" "quiet (WriteFile p c m)" "quiet (ReadFile p)" "quiet (RemoveAll p)"
proof -
  show "quiet (MkdirAll p m)" "quiet (Chmod p m)" "quiet (WriteFile p c m)" "quiet (ReadFile p)"
    unfolding MkdirAll_def Chmod_def WriteFile_def ReadFile_def
    by (rule quiet_fs_call, simp add: quiet_def split: option.split fs_entry.split)+
  show "quiet (RemoveAll p)"
    by (auto simp: quiet_def RemoveAll_def fs_call_def split: list.split option.split)
qed

lemma RemoveAll_quiet [simp]:
  "exec_log (snd (RemoveAll p h)) = exec_log h" "supervised (snd (RemoveAll p h)) = supervised h"
  "exec_answer (snd (RemoveAll p h)) = exec_answer h"
  by (simp_all add: quiet_calls(5) [unfolded quiet_def, rule_format])

lemma quiet_writeSecrets [intro!]: "quiet (writeSecrets w j g a)"
  unfolding writeSecrets_def writeSecretFile_def Let_def
  by (intro quiet_try_then quiet_calls) (simp add: quiet_def)

lemma quiet_Start_workspace [intro!]: "quiet (Start_workspace d :: ('z host_scheme, unit) act)"
proof -
  have "exec_log (snd (Start_workspace d h)) = exec_log h \<and> supervised (snd (Start_workspace d h)) = supervised h
      \<and> exec_answer (snd (Start_workspace d h)) = exec_answer h" for h :: "'z host_scheme"
  proof -
    obtain r1 h1 where m: "MkdirAll d 0x1FF h = (r1, h1)" by fastforce
    obtain r2 h2 where c: "Chmod d 0x1FF h1 = (r2, h2)" by fastforce
    show ?thesis using m c quietD [OF quiet_calls(1) m] quietD [OF quiet_calls(2) c]
      by (simp add: Start_workspace_def split: sum.split)
  qed
  then show ?thesis by (simp add: quiet_def)
qed

text \<open>
  C24. A start of the docker runner that succeeds executes one docker run and leaves exactly
  one new supervisor, for that container and job; one that fails leaves none, and either never
  ran docker or docker itself reported the error.
\<close>

theorem start_supervised:
  "case Docker_Start cfg spec h of
     (Inr cid, h') \<Rightarrow> \<exists>sv. supervised h' = supervised h @ [sv] \<and> sup_ContainerID sv = cid
        \<and> sup_JobID sv = RunnerStartSpec_JobID spec
        \<and> exec_log h' = exec_log h @ [''docker'' # buildRunArgs cfg spec (sup_JobDir sv) (sup_SecretsDir sv)]
        \<and> exec_err (exec_answer h (length (exec_log h)) (last (exec_log h'))) = None
   | (Inl e, h') \<Rightarrow> supervised h' = supervised h \<and>
        (exec_log h' = exec_log h
         \<or> (\<exists>args. exec_log h' = exec_log h @ [args]
              \<and> exec_err (exec_answer h (length (exec_log h)) args) \<noteq> None))"
proof -
  let ?jd = "filepath_Join [Docker_WorkDirHost cfg, RunnerStartSpec_JobID spec]"
  obtain r1 h1 where w: "Start_workspace ?jd h = (r1, h1)" by fastforce
  obtain r2 h2 where ws: "writeSecrets (Docker_WorkDirHost cfg) (RunnerStartSpec_JobID spec)
      (GitCreds_Token (RunnerStartSpec_GitCreds spec)) (AnthropicCreds_APIKey (RunnerStartSpec_Anthropic spec)) h1
      = (r2, h2)" by fastforce
  note q1 = quietD [OF quiet_Start_workspace w] and q2 = quietD [OF quiet_writeSecrets ws]
  show ?thesis
  proof (cases r1)
    case (Inl e)
    then show ?thesis using w q1 by (simp add: Docker_Start_def Let_def)
  next
    case r1: (Inr x)
    show ?thesis
    proof (cases r2)
      case (Inl e)
      then show ?thesis using w ws r1 q1 q2 by (simp add: Docker_Start_def Let_def)
    next
      case (Inr sd)
      then show ?thesis using w ws r1 q1 q2
        by (auto simp: Docker_Start_def Start_run_def exec_Command_def Let_def split: option.split)
    qed
  qed
qed
section \<open>Credentials stay off the command line\<close>

text \<open>
  Two hosts that differ at most in the contents of files answer the system calls of a start
  in the same way.
\<close>

fun erase :: "fs_entry \<Rightarrow> fs_entry" where
  "erase (Dir m) = Dir m"
| "erase (File m c) = File m ''''"

definition shape :: "(string \<times> fs_entry) list \<Rightarrow> string \<Rightarrow> fs_entry option" where
  "shape es p = map_option erase (map_of es p)"

definition same_shape :: "'z host_scheme \<Rightarrow> 'z host_scheme \<Rightarrow> bool" where
  "same_shape h k \<longleftrightarrow> (\<exists>es. k = h\<lparr>fs_entries := es\<rparr> \<and> shape es = shape (fs_entries h))"

definition uniform :: "('z host_scheme, 'a) act \<Rightarrow> ('z host_scheme, 'a) act \<Rightarrow> bool" where
  "uniform f g \<longleftrightarrow> (\<forall>h k. same_shape h k \<longrightarrow> fst (f h) = fst (g k) \<and> same_shape (snd (f h)) (snd (g k)))"

lemma uniformD:
  assumes "uniform f g" and "same_shape h k" and "f h = (r, h')"
  obtains k' where "g k = (r, k')" and "same_shape h' k'"
  using assms unfolding uniform_def by (metis fst_conv prod.collapse snd_conv)

lemma uniform_try_then:
  assumes "uniform f f'" and "\<And>x. uniform (g x) (g' x)"
  shows "uniform (try_then f g) (try_then f' g')"
  unfolding uniform_def
proof (intro allI impI)
  fix h k :: "'a host_scheme"
  assume hk: "same_shape h k"
  obtain r h1 where f: "f h = (r, h1)" by fastforce
  obtain k1 where f': "f' k = (r, k1)" and 1: "same_shape h1 k1"
    by (rule uniformD [OF assms(1) hk f])
  show "fst (try_then f g h) = fst (try_then f' g' k)
      \<and> same_shape (snd (try_then f g h)) (snd (try_then f' g' k))"
    using assms(2) 1 f f' by (cases r) (auto simp: try_then_def uniform_def)
qed

lemma uniform_fs_call:
  assumes "uniform f g"
  shows "uniform (fs_call f) (fs_call g)"
  unfolding uniform_def
proof (intro allI impI)
  fix h k :: "'a host_scheme"
  assume hk: "same_shape h k"
  then obtain es where k: "k = h\<lparr>fs_entries := es\<rparr>" and es: "shape es = shape (fs_entries h)"
    by (auto simp: same_shape_def)
  have f: "same_shape (h\<lparr>fs_faults := fs\<rparr>) (k\<lparr>fs_faults := fs\<rparr>)" for fs
    using es by (auto simp: same_shape_def k intro!: exI [of _ es])
  show "fst (fs_call f h) = fst (fs_call g k) \<and> same_shape (snd (fs_call f h)) (snd (fs_call g k))"
    using assms hk f by (auto simp: fs_call_def k uniform_def split: list.split option.split)
qed

lemma shape_tests:
  assumes "shape es p = shape fs p"
  shows "is_dir (map_of es p) = is_dir (map_of fs p)" and "is_file (map_of es p) = is_file (map_of fs p)"
    and "map_of es p = None \<longleftrightarrow> map_of fs p = None"
  using assms by (auto simp: shape_def elim!: erase.elims split: option.splits; (cases "map_of es p"; cases "map_of fs p"; auto elim!: erase.elims is_dir.elims is_file.elims))+

lemma shape_update: "shape (AList.update p e es) = (shape es)(p \<mapsto> erase e)"
  by (auto simp: shape_def update_conv' fun_eq_iff)

lemma shape_entry:
  assumes "shape es = shape fs"
  shows "(\<exists>m. map_of es p = Some (Dir m) \<and> map_of fs p = Some (Dir m))
    \<or> (\<exists>m c c'. map_of es p = Some (File m c) \<and> map_of fs p = Some (File m c'))
    \<or> map_of es p = None \<and> map_of fs p = None"
  using fun_cong [OF assms, of p]
  by (cases "map_of es p"; cases "map_of fs p") (auto simp: shape_def elim!: erase.elims)

lemma shape_put_file:
  assumes eq: "shape es = shape fs"
  shows "shape (put_file m p c es) = shape (put_file m p c' fs)"
  using shape_entry [OF eq, of p]
  by (elim disjE exE conjE) (simp_all add: put_file_def shape_update eq)

lemma shape_add_dirs: "shape es = shape fs \<Longrightarrow> shape (fold (add_dir m) ps es) = shape (fold (add_dir m) ps fs)"
proof (induction ps arbitrary: es fs)
  case (Cons p ps)
  have "shape (add_dir m p es) = shape (add_dir m p fs)"
    using shape_entry [OF Cons.prems, of p]
    by (elim disjE exE conjE) (simp_all add: add_dir_def shape_update Cons.prems)
  from Cons.IH [OF this] show ?case by simp
qed simp

lemma shape_filter:
  "shape es = shape fs \<Longrightarrow> shape (filter (\<lambda>(q, _). \<not> below p q) es) = shape (filter (\<lambda>(q, _). \<not> below p q) fs)"
  by (auto simp: shape_def map_of_filter_below fun_eq_iff)

text \<open>
  A body that changes only the entries, by the umask and the entries, and whose answer depends
  on the shape of the entries only.
\<close>

lemma uniform_body:
  assumes "\<And>h. f h = (r (fs_entries h), h\<lparr>fs_entries := u (fs_umask h) (fs_entries h)\<rparr>)"
    and "\<And>h. g h = (r' (fs_entries h), h\<lparr>fs_entries := v (fs_umask h) (fs_entries h)\<rparr>)"
    and "\<And>es fs. shape es = shape fs \<Longrightarrow> r es = r' fs"
    and "\<And>um es fs. shape es = shape fs \<Longrightarrow> shape (v um fs) = shape (u um es)"
  shows "uniform f g"
  unfolding uniform_def
proof (intro allI impI)
  fix h k :: "'a host_scheme"
  assume "same_shape h k"
  then obtain es where k: "k = h\<lparr>fs_entries := es\<rparr>" and es: "shape (fs_entries h) = shape es"
    by (auto simp: same_shape_def)
  show "fst (f h) = fst (g k) \<and> same_shape (snd (f h)) (snd (g k))"
    using assms(3) [OF es] assms(4) [OF es] by (auto simp: k same_shape_def assms(1,2))
qed

lemma uniform_MkdirAll: "uniform (MkdirAll p m) (MkdirAll p m)"
  unfolding MkdirAll_def
proof (rule uniform_fs_call)
  let ?bad = "\<lambda>es. \<exists>q \<in> set (dir_prefixes p). is_file (map_of es q)"
  show "uniform (\<lambda>h :: 'a host_scheme. if \<exists>q \<in> set (dir_prefixes p). is_file (fs_lookup h q)
        then (Inl (Opaque ''not a directory''), h)
        else (Inr (), h\<lparr>fs_entries := fold (add_dir (m AND NOT (fs_umask h))) (dir_prefixes p) (fs_entries h)\<rparr>))
     (\<lambda>h. if \<exists>q \<in> set (dir_prefixes p). is_file (fs_lookup h q)
        then (Inl (Opaque ''not a directory''), h)
        else (Inr (), h\<lparr>fs_entries := fold (add_dir (m AND NOT (fs_umask h))) (dir_prefixes p) (fs_entries h)\<rparr>))"
    (is "uniform ?f ?f")
  proof (rule uniform_body [where r = "\<lambda>es. if ?bad es then Inl (Opaque ''not a directory'') else Inr ()"
        and r' = "\<lambda>es. if ?bad es then Inl (Opaque ''not a directory'') else Inr ()"
        and u = "\<lambda>um es. if ?bad es then es else fold (add_dir (m AND NOT um)) (dir_prefixes p) es"
        and v = "\<lambda>um es. if ?bad es then es else fold (add_dir (m AND NOT um)) (dir_prefixes p) es"])
    fix es fs :: "(string \<times> fs_entry) list"
    assume eq: "shape es = shape fs"
    then have "?bad es = ?bad fs" using shape_tests(2) by metis
    then show "(if ?bad es then Inl (Opaque ''not a directory'') else Inr ())
        = (if ?bad fs then Inl (Opaque ''not a directory'') else (Inr () :: go_error + unit))"
      and "\<And>um. shape (if ?bad fs then fs else fold (add_dir (m AND NOT um)) (dir_prefixes p) fs)
        = shape (if ?bad es then es else fold (add_dir (m AND NOT um)) (dir_prefixes p) es)"
      using shape_add_dirs [OF eq] eq by simp_all
  qed (simp_all add: fs_lookup_def)
qed

lemma uniform_Chmod: "uniform (Chmod p m) (Chmod p m)"
  unfolding Chmod_def
proof (rule uniform_fs_call)
  let ?r = "\<lambda>es. if map_of es p = None then Inl (Opaque ''no such file or directory'') else Inr () :: go_error + unit"
  let ?u = "\<lambda>um :: file_mode. \<lambda>es. case map_of es p of None \<Rightarrow> es | Some (Dir _) \<Rightarrow> AList.update p (Dir m) es
      | Some (File _ c) \<Rightarrow> AList.update p (File m c) es"
  show "uniform (\<lambda>h :: 'a host_scheme. case fs_lookup h p of
         None \<Rightarrow> (Inl (Opaque ''no such file or directory''), h)
       | Some (Dir _) \<Rightarrow> (Inr (), h\<lparr>fs_entries := AList.update p (Dir m) (fs_entries h)\<rparr>)
       | Some (File _ c) \<Rightarrow> (Inr (), h\<lparr>fs_entries := AList.update p (File m c) (fs_entries h)\<rparr>))
     (\<lambda>h. case fs_lookup h p of
         None \<Rightarrow> (Inl (Opaque ''no such file or directory''), h)
       | Some (Dir _) \<Rightarrow> (Inr (), h\<lparr>fs_entries := AList.update p (Dir m) (fs_entries h)\<rparr>)
       | Some (File _ c) \<Rightarrow> (Inr (), h\<lparr>fs_entries := AList.update p (File m c) (fs_entries h)\<rparr>))"
  proof (rule uniform_body [where r = ?r and r' = ?r and u = ?u and v = ?u])
    fix um :: file_mode and es fs :: "(string \<times> fs_entry) list"
    assume eq: "shape es = shape fs"
    show "?r es = ?r fs" and "shape (?u um fs) = shape (?u um es)"
      using shape_entry [OF eq, of p] by (elim disjE exE conjE; simp add: shape_update eq)+
  qed (simp_all add: fs_lookup_def split: option.split fs_entry.split)
qed

lemma uniform_WriteFile: "uniform (WriteFile p c m) (WriteFile p c' m)"
  unfolding WriteFile_def
proof (rule uniform_fs_call)
  let ?bad = "\<lambda>es. \<not> is_dir (map_of es (parent_dir p)) \<or> is_dir (map_of es p)"
  let ?r = "\<lambda>es. if ?bad es then Inl (Opaque ''no such file or directory'') else Inr () :: go_error + unit"
  let ?u = "\<lambda>c um es. if ?bad es then es else put_file (m AND NOT um) p c es"
  show "uniform (\<lambda>h :: 'a host_scheme. if \<not> is_dir (fs_lookup h (parent_dir p)) \<or> is_dir (fs_lookup h p)
        then (Inl (Opaque ''no such file or directory''), h)
        else (Inr (), h\<lparr>fs_entries := put_file (m AND NOT (fs_umask h)) p c (fs_entries h)\<rparr>))
     (\<lambda>h. if \<not> is_dir (fs_lookup h (parent_dir p)) \<or> is_dir (fs_lookup h p)
        then (Inl (Opaque ''no such file or directory''), h)
        else (Inr (), h\<lparr>fs_entries := put_file (m AND NOT (fs_umask h)) p c' (fs_entries h)\<rparr>))"
  proof (rule uniform_body [where r = ?r and r' = ?r and u = "?u c" and v = "?u c'"])
    fix um :: file_mode and es fs :: "(string \<times> fs_entry) list"
    assume eq: "shape es = shape fs"
    have "?bad es = ?bad fs" using shape_tests(1) [OF fun_cong [OF eq]] by simp
    then show "?r es = ?r fs" and "shape (?u c' um fs) = shape (?u c um es)"
      using shape_put_file [OF eq, of "m AND NOT um" p c c'] eq by simp_all
  qed (simp_all add: fs_lookup_def)
qed

lemma uniform_writeSecrets: "uniform (writeSecrets w j g a) (writeSecrets w j g' a')"
  unfolding writeSecrets_def writeSecretFile_def Let_def
  by (intro uniform_try_then uniform_MkdirAll uniform_Chmod uniform_WriteFile) (simp add: uniform_def)

lemma same_shape_fields: "same_shape h k \<Longrightarrow> exec_log k = exec_log h \<and> exec_answer k = exec_answer h"
  by (auto simp: same_shape_def)

lemma same_shape_refl [simp]: "same_shape h h"
  unfolding same_shape_def by (intro exI [of _ "fs_entries h"]) simp

text \<open>
  C25. The commands that a start executes do not depend on the git token or the Anthropic key:
  no credential reaches a command line.
\<close>

theorem credentials_not_in_commands:
  "exec_log (snd (Docker_Start cfg (spec\<lparr>RunnerStartSpec_GitCreds := g, RunnerStartSpec_Anthropic := a\<rparr>) h))
   = exec_log (snd (Docker_Start cfg spec h))"
proof -
  let ?spec = "spec\<lparr>RunnerStartSpec_GitCreds := g, RunnerStartSpec_Anthropic := a\<rparr>"
  let ?w = "Docker_WorkDirHost cfg" and ?j = "RunnerStartSpec_JobID spec"
  let ?jd = "filepath_Join [?w, ?j]"
  obtain r1 h1 where w: "Start_workspace ?jd h = (r1, h1)" by fastforce
  obtain r2 h2 where ws: "writeSecrets ?w ?j (GitCreds_Token (RunnerStartSpec_GitCreds spec))
      (AnthropicCreds_APIKey (RunnerStartSpec_Anthropic spec)) h1 = (r2, h2)" by fastforce
  obtain k2 where ws': "writeSecrets ?w ?j (GitCreds_Token g) (AnthropicCreds_APIKey a) h1 = (r2, k2)"
    and sh: "same_shape h2 k2"
    by (rule uniformD [OF uniform_writeSecrets same_shape_refl ws])
  have args: "buildRunArgs cfg ?spec jd sd = buildRunArgs cfg spec jd sd" for jd sd
    by (simp add: buildRunArgs_def)
  show ?thesis
    using w ws ws' same_shape_fields [OF sh]
    by (cases r1; cases r2) (auto simp: Docker_Start_def Start_run_def exec_Command_def args Let_def split: option.split)
qed

section \<open>What supervision cleans up\<close>

lemma ReadFile_calm: "ReadFile p h = (r, h') \<Longrightarrow> fs_faults h = [] \<Longrightarrow> fs_faults h' = []"
  by (auto simp: ReadFile_def fs_call_def split: option.splits fs_entry.splits)

lemma WriteFile_calm: "WriteFile p c m h = (r, h') \<Longrightarrow> fs_faults h = [] \<Longrightarrow> fs_faults h' = []"
  by (auto simp: WriteFile_def fs_call_def split: if_splits)

lemma exec_calm [simp]: "fs_faults (snd (exec_Command args h)) = fs_faults h"
  by (simp add: exec_Command_def Let_def)

lemma docker_wait_calm: "fs_faults (snd (docker_wait cfg c h)) = fs_faults h"
  by (simp add: docker_wait_def exec_Command_def Let_def)

lemma docker_logs_calm: "fs_faults h = [] \<Longrightarrow> fs_faults (docker_logs c p h) = []"
  by (auto simp: docker_logs_def exec_Command_def Let_def dest: WriteFile_calm split: prod.split sum.split)

lemma docker_exit_code_calm: "fs_faults (snd (docker_exit_code t c h)) = fs_faults h"
  by (simp add: docker_exit_code_def exec_Command_def Let_def)

lemma readTrimmed_calm: "fs_faults h = [] \<Longrightarrow> fs_faults (snd (readTrimmed p h)) = []"
  by (auto simp: readTrimmed_def dest: ReadFile_calm split: prod.split sum.split)

lemma tailFile_calm: "fs_faults h = [] \<Longrightarrow> fs_faults (snd (tailFile p n h)) = []"
  by (auto simp: tailFile_def dest: ReadFile_calm split: prod.split sum.split)

text \<open>The state in which the container is removed, and the result that is then already known.\<close>

lemma supervise_split:
  obtains h6 where "snd (supervise cfg sv h) =
      snd (RemoveAll (sup_SecretsDir sv) (snd (RemoveAll (sup_JobDir sv)
        (snd (exec_Command [''docker'', ''rm'', ''-f'', sup_ContainerID sv] h6)))))"
    and "fs_faults h = [] \<Longrightarrow> fs_faults h6 = []"
proof -
  let ?c = "sup_ContainerID sv"
  obtain t h1 where 1: "docker_wait cfg ?c h = (t, h1)" by fastforce
  let ?h2 = "docker_logs ?c (sup_LogPath sv) h1"
  obtain x h3 where 3: "docker_exit_code t ?c ?h2 = (x, h3)" by fastforce
  obtain u h4 where 4: "readTrimmed (filepath_Join [sup_JobDir sv, ''.pr-url'']) h3 = (u, h4)" by fastforce
  obtain v h5 where 5: "readTrimmed (filepath_Join [sup_JobDir sv, ''.notification-webhook'']) h4 = (v, h5)" by fastforce
  obtain l h6 where 6: "tailFile (sup_LogPath sv) logTailBytes h5 = (l, h6)" by fastforce
  have "fs_faults h6 = []" if "fs_faults h = []"
  proof -
    have "fs_faults ?h2 = []" using docker_wait_calm [of cfg ?c h] docker_logs_calm 1 that by simp
    then have "fs_faults h3 = []" using docker_exit_code_calm [of t ?c ?h2] 3 by simp
    then have "fs_faults h4 = []" using readTrimmed_calm [OF _, of h3] 4 by (metis snd_conv)
    then have "fs_faults h5 = []" using readTrimmed_calm [OF _, of h4] 5 by (metis snd_conv)
    then show "fs_faults h6 = []" using tailFile_calm [OF _, of h5] 6 by (metis snd_conv)
  qed
  then show thesis using that [of h6] 1 3 4 5 6
    by (simp add: supervise_def Let_def split_beta)
qed

text \<open>
  C26. However a container ends, on a file system without errors its supervisor leaves no file
  of the working directory of the job nor of its secrets, and its last command removes the
  container.
\<close>

theorem supervise_cleans_up:
  assumes "fs_faults h = []" and "sup_JobDir sv \<noteq> ''''" and "sup_SecretsDir sv \<noteq> ''''"
    and "supervise cfg sv h = (res, h')"
  shows "(\<forall>p. below (sup_JobDir sv) p \<or> below (sup_SecretsDir sv) p \<longrightarrow> fs_lookup h' p = None)
    \<and> last (exec_log h') = [''docker'', ''rm'', ''-f'', sup_ContainerID sv]"
proof -
  obtain h6 where h': "h' = snd (RemoveAll (sup_SecretsDir sv) (snd (RemoveAll (sup_JobDir sv)
        (snd (exec_Command [''docker'', ''rm'', ''-f'', sup_ContainerID sv] h6)))))"
    and calm: "fs_faults h6 = []"
    using supervise_split [of cfg sv h] assms(1,4) by (metis snd_conv)
  obtain res7 h7 where rm: "exec_Command [''docker'', ''rm'', ''-f'', sup_ContainerID sv] h6 = (res7, h7)" by fastforce
  have h7: "fs_faults h7 = []" "exec_log h7 = exec_log h6 @ [[''docker'', ''rm'', ''-f'', sup_ContainerID sv]]"
    using rm calm by (auto simp: exec_Command_def Let_def)
  obtain h8 where 8: "RemoveAll (sup_JobDir sv) h7 = (Inr (), h8)" and f8: "fs_faults h8 = []"
    using RemoveAll_run [OF h7(1) assms(2)] h7(1) by simp
  obtain h9 where 9: "RemoveAll (sup_SecretsDir sv) h8 = (Inr (), h9)"
    using RemoveAll_run [OF f8 assms(3)] by blast
  have "exec_log h9 = exec_log h7"
    using RemoveAll_quiet(1) [of "sup_JobDir sv" h7] RemoveAll_quiet(1) [of "sup_SecretsDir sv" h8] 8 9 by simp
  then show ?thesis
    using RemoveAll_lookup [OF 8 assms(2)] RemoveAll_lookup [OF 9 assms(3)] h7(2) by (simp add: h' rm 8 9)
qed

definition sample_supervision :: supervision where
  "sample_supervision =
     \<lparr>sup_ContainerID = ''c1'', sup_JobDir = ''/work/j_run'', sup_SecretsDir = ''/work/j_run.secrets'',
      sup_LogPath = ''/work/logs/j_run.log'', sup_JobID = ''j_run''\<rparr>"

definition sample_docker :: DockerConfig where
  "sample_docker =
     \<lparr>Docker_Image = ''runner'', Docker_EntryOverride = [], Docker_CPUs = '''', Docker_MemoryMB = 0,
      Docker_PidsLimit = 512, Docker_Network = '''', Docker_DNS = [], Docker_WorkDirHost = ''/work'',
      Docker_MaxJobDuration = word_of_int (30 * Minute)\<rparr>"

theorem supervise_cleans_up_witness:
  "fs_lookup (snd (supervise sample_docker sample_supervision
     (sample_host\<lparr>fs_entries := [(''/work/j_run.secrets/gh-token'', File 0x1A4 ''tok'')]\<rparr>))) ''/work/j_run.secrets/gh-token'' = None"
proof -
  have "below ''/work/j_run.secrets'' ''/work/j_run.secrets/gh-token''"
    by (simp add: below_def HasPrefix_iff)
  then show ?thesis
    using supervise_cleans_up [OF _ _ _ prod.collapse [symmetric], of
        "sample_host\<lparr>fs_entries := [(''/work/j_run.secrets/gh-token'', File 0x1A4 ''tok'')]\<rparr>" sample_supervision sample_docker]
    by (simp add: sample_supervision_def)
qed

section \<open>The sweep of secrets at startup\<close>

lemma sweep_loop_run:
  assumes "fs_faults h = []" and "'''' \<notin> set dirs" and "sweep_loop running dirs h = (rm, h')"
  shows "rm = filter (\<lambda>d. TrimSuffix (base_name d) ''.secrets'' \<notin> set running) dirs
    \<and> (\<forall>p. fs_lookup h' p = (if \<exists>d \<in> set rm. below d p then None else fs_lookup h p))"
  using assms
proof (induction dirs arbitrary: h rm)
  case (Cons d dirs)
  show ?case
  proof (cases "TrimSuffix (base_name d) ''.secrets'' \<in> set running")
    case True
    then show ?thesis using Cons.IH [of h rm] Cons.prems by simp
  next
    case False
    have d: "d \<noteq> ''''" using Cons.prems(2) by auto
    let ?h1 = "h\<lparr>fs_entries := filter (\<lambda>(q, _). \<not> below d q) (fs_entries h)\<rparr>"
    note rm1 = RemoveAll_run [OF Cons.prems(1) d]
    obtain rest h2 where rest: "sweep_loop running dirs ?h1 = (rest, h2)" by fastforce
    then have "rm = d # rest" and "h' = h2" using Cons.prems(3) False rm1 by simp_all
    then show ?thesis using Cons.IH [of ?h1 rest] Cons.prems(1,2) rest False
      by (auto simp: fs_lookup_def map_of_filter_below)
  qed
qed simp

theorem sweep_exact:
  assumes "fs_faults h = []" and "w \<noteq> ''''" and "SweepOrphanSecrets w running h = (removed, h')"
  shows "set removed = {d \<in> fst ` set (fs_entries h). d \<noteq> w \<and> parent_dir d = w \<and> HasSuffix (base_name d) ''.secrets''
        \<and> TrimSuffix (base_name d) ''.secrets'' \<notin> set running}
    \<and> (\<forall>p. fs_lookup h' p = (if \<exists>d \<in> set removed. below d p then None else fs_lookup h p))"
proof -
  have "'''' \<notin> set (Glob_suffix w ''.secrets'' h)"
    using assms(2) by (auto simp: Glob_suffix_def parent_dir_def)
  from sweep_loop_run [OF assms(1) this assms(3) [unfolded SweepOrphanSecrets_def]]
  show ?thesis by (auto simp: Glob_suffix_def image_iff)
qed

theorem sweep_exact_witness:
  "let h = sample_host\<lparr>fs_entries := [(''/work/a.secrets'', Dir 0x1C9), (''/work/a.secrets/gh-token'', File 0x1A4 ''x''),
             (''/work/b.secrets'', Dir 0x1C9)]\<rparr>;
       h' = snd (SweepOrphanSecrets ''/work'' [''b''] h)
   in fs_lookup h' ''/work/a.secrets/gh-token'' = None \<and> fs_lookup h' ''/work/b.secrets'' = Some (Dir 0x1C9)"
proof -
  let ?h = "sample_host\<lparr>fs_entries := [(''/work/a.secrets'', Dir 0x1C9), (''/work/a.secrets/gh-token'', File 0x1A4 ''x''),
             (''/work/b.secrets'', Dir 0x1C9)]\<rparr>"
  have names: "parent_dir ''/work/a.secrets'' = ''/work''" "parent_dir ''/work/b.secrets'' = ''/work''"
    "parent_dir ''/work/a.secrets/gh-token'' = ''/work/a.secrets''"
    "base_name ''/work/a.secrets'' = ''a.secrets''" "base_name ''/work/b.secrets'' = ''b.secrets''"
    "HasSuffix ''a.secrets'' ''.secrets''" "HasSuffix ''b.secrets'' ''.secrets''"
    "TrimSuffix ''a.secrets'' ''.secrets'' = ''a''" "TrimSuffix ''b.secrets'' ''.secrets'' = ''b''"
    "below ''/work/a.secrets'' ''/work/a.secrets/gh-token''" "\<not> below ''/work/a.secrets'' ''/work/b.secrets''"
    by code_simp+
  obtain removed h' where run: "SweepOrphanSecrets ''/work'' [''b''] ?h = (removed, h')" by fastforce
  have law: "set removed = {d \<in> fst ` set (fs_entries ?h). d \<noteq> ''/work'' \<and> parent_dir d = ''/work''
        \<and> HasSuffix (base_name d) ''.secrets'' \<and> TrimSuffix (base_name d) ''.secrets'' \<notin> set [''b'']}
    \<and> (\<forall>p. fs_lookup h' p = (if \<exists>d \<in> set removed. below d p then None else fs_lookup ?h p))"
    by (rule sweep_exact [OF _ _ run]) simp_all
  have "set removed = {''/work/a.secrets''}"
    unfolding law [THEN conjunct1] by (auto simp: names)
  then show ?thesis using law run by (simp add: names Let_def fs_lookup_def)
qed

section \<open>A failure that leaves a token behind\<close>

text \<open>
  C27. When writing the secrets fails half way, the start reports the error but removes no
  secret: a token file that was already written is still on disk afterwards.
\<close>

theorem failed_start_leaves_secrets:
  assumes "Start_workspace (filepath_Join [Docker_WorkDirHost cfg, RunnerStartSpec_JobID spec]) h = (Inr x, h1)"
    and "writeSecrets (Docker_WorkDirHost cfg) (RunnerStartSpec_JobID spec) (GitCreds_Token (RunnerStartSpec_GitCreds spec))
        (AnthropicCreds_APIKey (RunnerStartSpec_Anthropic spec)) h1 = (Inl e, h2)"
    and "fs_lookup h2 p = Some f" and "\<not> below (filepath_Join [Docker_WorkDirHost cfg, RunnerStartSpec_JobID spec]) p"
  shows "fst (Docker_Start cfg spec h) = Inl e \<and> fs_lookup (snd (Docker_Start cfg spec h)) p = Some f"
proof -
  have "fs_lookup (snd (RemoveAll q k)) p = fs_lookup k p" if "\<not> below q p" for q and k :: "'a host_scheme"
    using that by (auto simp: RemoveAll_def fs_call_def fs_lookup_def map_of_filter_below split: list.split option.split)
  moreover have "fs_lookup (snd (RemoveAll '''' k)) p = fs_lookup k p" for k :: "'a host_scheme"
    by (simp add: RemoveAll_def)
  ultimately show ?thesis using assms by (simp add: Docker_Start_def Let_def)
qed

definition sample_run_spec :: RunnerStartSpec where
  "sample_run_spec =
     \<lparr>RunnerStartSpec_JobID = ''j1'', RunnerStartSpec_Repo = ''o/r'', RunnerStartSpec_BaseBranch = ''main'',
      RunnerStartSpec_WorkBranch = ''w'', RunnerStartSpec_Spec = sample_spec,
      RunnerStartSpec_GitCreds = \<lparr>GitCreds_Token = ''ghs_1'', GitCreds_ExpiresAt = 0\<rparr>,
      RunnerStartSpec_Anthropic = \<lparr>AnthropicCreds_APIKey = ''sk-1''\<rparr>,
      RunnerStartSpec_Model = '''', RunnerStartSpec_LogPath = ''''\<rparr>"

text \<open>The disk is full when the second secret is written: the first one stays.\<close>

theorem failed_start_leaves_secrets_witness:
  "let h = sample_host\<lparr>fs_faults := [None, None, None, None, None, None, Some ''no space left on device'']\<rparr>;
       (r, h') = Docker_Start sample_docker sample_run_spec h
   in r = Inl (Opaque ''no space left on device'')
      \<and> fs_lookup h' ''/work/j1.secrets/gh-token'' = Some (File 0x1A4 ''ghs_1'')"
proof -
  let ?h = "sample_host\<lparr>fs_faults := [None, None, None, None, None, None, Some ''no space left on device'']\<rparr>"
  have names: "filepath_Join [''/work'', ''j1''] = ''/work/j1''" "secrets_dir ''/work'' ''j1'' = ''/work/j1.secrets''"
    "filepath_Join [''/work/j1.secrets'', ''gh-token''] = ''/work/j1.secrets/gh-token''"
    "filepath_Join [''/work/j1.secrets'', ''anthropic-key''] = ''/work/j1.secrets/anthropic-key''"
    "dir_prefixes ''/work/j1'' = [''/work'', ''/work/j1'']"
    "dir_prefixes ''/work/j1.secrets'' = [''/work'', ''/work/j1.secrets'']"
    "parent_dir ''/work/j1.secrets/gh-token'' = ''/work/j1.secrets''"
    "\<not> below ''/work/j1'' ''/work/j1.secrets/gh-token''"
    by code_simp+
  obtain x h1 where w: "Start_workspace ''/work/j1'' ?h = (Inr x, h1)"
    and h1: "fs_faults h1 = [None, None, None, None, Some ''no space left on device'']"
      "fs_entries h1 = [(''/work'', Dir 0x1C0), (''/work/j1'', Dir 0x1FF)]"
    by (simp add: Start_workspace_def MkdirAll_def Chmod_def fs_call_def fs_lookup_def names add_dir_def)
  obtain h2 where s: "writeSecrets ''/work'' ''j1'' ''ghs_1'' ''sk-1'' h1 = (Inl (Opaque ''no space left on device''), h2)"
    and h2: "fs_lookup h2 ''/work/j1.secrets/gh-token'' = Some (File 0x1A4 ''ghs_1'')"
    by (simp add: writeSecrets_def writeSecretFile_def try_then_def MkdirAll_def Chmod_def WriteFile_def fs_call_def
        fs_lookup_def names h1 add_dir_def put_file_def Let_def)
  show ?thesis
    using failed_start_leaves_secrets [of sample_docker sample_run_spec ?h x h1 _ h2 "''/work/j1.secrets/gh-token''"] w s h2
    by (simp add: sample_docker_def sample_run_spec_def names split_beta Let_def)
qed

section \<open>The runner does not touch the rest of the host\<close>

definition outside_runner :: "'z host_scheme \<Rightarrow> _" where
  "outside_runner h = (db_faults h, db_users h, env_clock h, env_clock_reads h, http_log h, http_answer h)"

lemma fs_outside [simp]:
  "outside_runner (snd (ReadFile p h)) = outside_runner h" "outside_runner (snd (WriteFile p c m h)) = outside_runner h"
  "outside_runner (snd (RemoveAll p h)) = outside_runner h" "outside_runner (snd (exec_Command args h)) = outside_runner h"
  "outside_runner (h\<lparr>fs_entries := x\<rparr>) = outside_runner h"
  by (simp_all add: outside_runner_def ReadFile_def WriteFile_def RemoveAll_def exec_Command_def fs_call_def Let_def
      split: list.split option.split fs_entry.split)

lemma runner_outside [simp]:
  "outside_runner (snd (docker_wait cfg c h)) = outside_runner h" "outside_runner (docker_logs c p h) = outside_runner h"
  "outside_runner (snd (docker_exit_code t c h)) = outside_runner h" "outside_runner (snd (readTrimmed p h)) = outside_runner h"
  "outside_runner (snd (tailFile p n h)) = outside_runner h"
  by (simp_all add: docker_wait_def docker_logs_def docker_exit_code_def readTrimmed_def tailFile_def Let_def split_beta
      split: sum.split)

lemma supervise_outside [simp]: "outside_runner (snd (supervise cfg sv h)) = outside_runner h"
  by (simp add: supervise_def Let_def split_beta)

lemma supervise_frames [simp]:
  "db_faults (snd (supervise cfg sv h)) = db_faults h" "db_users (snd (supervise cfg sv h)) = db_users h"
  "env_clock (snd (supervise cfg sv h)) = env_clock h" "env_clock_reads (snd (supervise cfg sv h)) = env_clock_reads h"
  "http_log (snd (supervise cfg sv h)) = http_log h" "http_answer (snd (supervise cfg sv h)) = http_answer h"
  using supervise_outside [of cfg sv h] by (simp_all add: outside_runner_def)

section \<open>When the docker daemon does not answer\<close>

definition docker_down :: "'z host_scheme \<Rightarrow> bool" where
  "docker_down h \<longleftrightarrow> (\<forall>n args. exec_err (exec_answer h n args) \<noteq> None \<and> exec_out (exec_answer h n args) = ''''
     \<and> \<not> exec_late (exec_answer h n args))"

lemma docker_wait_down:
  assumes "docker_down h" and "sint (Docker_MaxJobDuration cfg) > 0"
  shows "fst (docker_wait cfg c h) = False \<and> docker_down (snd (docker_wait cfg c h))"
  using assms by (auto simp: docker_wait_def docker_down_def exec_Command_def Let_def)

lemma docker_logs_answer: "exec_answer (docker_logs c p h) = exec_answer h"
proof -
  have "exec_answer (snd (WriteFile p q m k)) = exec_answer k" for q m and k :: "'a host_scheme"
    by (simp add: WriteFile_def fs_call_def split: list.split option.split)
  then show ?thesis
    by (simp add: docker_logs_def exec_Command_def Let_def split_beta split: sum.split)
qed

lemma docker_logs_down: "docker_down h \<Longrightarrow> docker_down (docker_logs c p h)"
  by (simp add: docker_down_def docker_logs_answer)

lemma supervise_down:
  assumes "docker_down h" and "sint (Docker_MaxJobDuration cfg) > 0"
  shows "RunnerResult_ExitCode (fst (supervise cfg sv h)) = 0 \<and> RunnerResult_Error (fst (supervise cfg sv h)) = ''''"
proof -
  let ?c = "sup_ContainerID sv"
  obtain h1 where 1: "docker_wait cfg ?c h = (False, h1)" and d1: "docker_down h1"
    using docker_wait_down [OF assms, of ?c] by (metis prod.collapse)
  have "docker_down (docker_logs ?c (sup_LogPath sv) h1)" by (rule docker_logs_down [OF d1])
  then have "fst (docker_exit_code False ?c (docker_logs ?c (sup_LogPath sv) h1)) = 0"
    by (simp add: docker_exit_code_def exec_Command_def docker_down_def Let_def Sscanf_d_def TrimSpace_def
        HasPrefix_def ParseInt64_def)
  then show ?thesis by (simp add: supervise_def Let_def split_beta 1 supervise_error_def)
qed

end
