(* ===== verification/Server_Facts.thy ===== *)
theory Server_Facts
  imports Races Accounts Runner_Facts
begin

text \<open>
  Behaviour of the server across its parts: what a failing docker daemon or an overflowing
  time limit does to a running job, what the GitHub App callback and webhook accept, and the
  session that a GitHub sign-in ends in.
\<close>

section \<open>The end of a job\<close>

lemma supervise_JobID: "RunnerResult_JobID (fst (supervise cfg sv h)) = sup_JobID sv"
  by (simp add: supervise_def Let_def split_beta)

text \<open>
  C30. When the docker daemon stops answering, the supervisor of a running job reads exit code
  zero, and the job is stored as succeeded.
\<close>

theorem docker_down_succeeds:
  assumes "pg_ok s" and "wf_store (pg_jobs_of s)" and "db_faults s = []"
    and "docker_down s" and "sint (Docker_MaxJobDuration (srv_docker D cfg)) > 0"
    and "pg_jobs_of s (sup_JobID sv) = Some j" and "sup_JobID sv \<noteq> ''''"
    and "Job_Status j = JobStatusRunning" and "user_exists (Job_UserID j) s"
    and "runner_done D cfg sv s = (r, s')"
  shows "r = Inr () \<and> (\<exists>j'. pg_jobs_of s' (sup_JobID sv) = Some j' \<and> Job_Status j' = JobStatusSucceeded)"
proof -
  obtain res s1 where sup: "supervise (srv_docker D cfg) sv s = (res, s1)" by fastforce
  have k: "pg_ok s1" "pg_jobs_of s1 = pg_jobs_of s"
    using keepsD [OF supervise_keeps assms(1) sup] by simp_all
  have f: "db_faults s1 = []" "db_users s1 = db_users s"
    using supervise_frames [of "srv_docker D cfg" sv s] assms(3) sup by simp_all
  have res: "RunnerResult_ExitCode res = 0" "RunnerResult_JobID res = sup_JobID sv"
    using supervise_down [OF assms(4,5), of sv] supervise_JobID [of "srv_docker D cfg" sv s] sup by simp_all
  have "HandleRunnerCompletion_Execute (dep_zone D) (srv_complete D) res s1 = (r, s')"
    using assms(10) sup by (simp add: runner_done_def)
  moreover have "Job_ID j = sup_JobID sv" using assms(2,6) by (simp add: wf_store_def)
  moreover have "user_exists (Job_UserID j) s1" using assms(9) f(2) by (simp add: user_exists_def)
  ultimately show ?thesis
    using completion_run [OF k(1) _ f(1), of res j "dep_zone D" D r s'] k(2) res assms(2,6,7,8) by auto
qed

theorem docker_down_succeeds_witness:
  "\<exists>j'. pg_jobs_of (snd (runner_done sample_deps sample_config sample_supervision (sample_host\<lparr>exec_answer :=
       (\<lambda>_ _. \<lparr>exec_err = Some (Opaque ''Cannot connect to the Docker daemon''), exec_out = '''', exec_late = False,
                exec_files = []\<rparr>)\<rparr>))) ''j_run'' = Some j' \<and> Job_Status j' = JobStatusSucceeded"
proof -
  let ?h = "sample_host\<lparr>exec_answer := (\<lambda>_ _. \<lparr>exec_err = Some (Opaque ''Cannot connect to the Docker daemon''),
     exec_out = '''', exec_late = False, exec_files = []\<rparr>)\<rparr>"
  have js: "pg_jobs_of ?h = pg_jobs_of sample_db" and ok: "pg_ok ?h"
    using sample_host_ok sample_host_jobs by (simp_all add: pg_ok_def pg_jobs_of_def)
  have wf: "wf_store (pg_jobs_of ?h)" by (auto simp: js sample_db_jobs wf_store_def)
  have down: "docker_down ?h" by (simp add: docker_down_def)
  have dur: "sint (Docker_MaxJobDuration (srv_docker sample_deps sample_config)) > 0"
    by (simp add: srv_docker_def srv_docker_config_def Docker_defaults_def sample_config_def sample_deps_def
        Second_def Let_def)
  have id: "sup_JobID sample_supervision = ''j_run''" by (simp add: sample_supervision_def)
  have j: "pg_jobs_of ?h (sup_JobID sample_supervision) = Some sample_running"
    by (simp add: id js sample_db_jobs)
  have user: "user_exists (Job_UserID sample_running) ?h" by (simp add: user_exists_def sample_db_def)
  from docker_down_succeeds [OF ok wf _ down dur j _ _ user prod.collapse [symmetric]] show ?thesis
    by (simp add: id)
qed

section \<open>A time limit that overflows\<close>

lemma runner_logs [simp]:
  "exec_log (snd (readTrimmed p h)) = exec_log h" "exec_log (snd (tailFile p n h)) = exec_log h"
  "exec_log (snd (exec_Command args h)) = exec_log h @ [args]"
  "\<exists>l. exec_log (docker_logs c p h) = exec_log h @ l"
proof -
  have f: "exec_log (snd (ReadFile p k)) = exec_log k" "exec_log (snd (WriteFile p q m k)) = exec_log k"
    for p q m and k :: "'a host_scheme"
    by (simp_all add: ReadFile_def WriteFile_def fs_call_def split: list.split option.split fs_entry.split)
  show "exec_log (snd (readTrimmed p h)) = exec_log h" "exec_log (snd (tailFile p n h)) = exec_log h"
    "exec_log (snd (exec_Command args h)) = exec_log h @ [args]"
    by (simp_all add: readTrimmed_def tailFile_def exec_Command_def Let_def split_beta f split: sum.split)
  show "\<exists>l. exec_log (docker_logs c p h) = exec_log h @ l"
    by (simp add: docker_logs_def exec_Command_def Let_def split_beta f split: sum.split)
qed

lemma overflowing_duration:
  assumes "9223372036 < n" and "n \<le> 18446744073"
  shows "sint (job_duration n) < 0"
proof -
  define k where "k = n * Second - 2 ^ 64"
  have "job_duration n = (word_of_int (n * Second) :: 64 word)" by (simp add: job_duration_def)
  also have "\<dots> = word_of_int k" by (simp add: k_def word_of_int_eq_iff take_bit_eq_mod)
  finally have "sint (job_duration n) = sint (word_of_int k :: 64 word)" by (simp only:)
  moreover have "- (2 ^ 63) \<le> k" and "k < 0" using assms by (simp_all add: k_def Second_def)
  ultimately show ?thesis by (simp add: sint_word_of_int64)
qed

text \<open>
  C31. A configured job limit above 9223372036 seconds overflows the 64-bit duration: up to
  18446744073 seconds it turns negative, the container is killed at once and the job ends with
  exit code 124.
\<close>

theorem long_limit_kills:
  assumes "Config_Load env = Inr cfg"
    and "9223372036 < getEnvInt env ''AGENTIC_MAX_JOB_DURATION_SECONDS'' 1800"
    and "getEnvInt env ''AGENTIC_MAX_JOB_DURATION_SECONDS'' 1800 \<le> 18446744073"
    and "supervise (srv_docker D cfg) sv h = (res, h')"
  shows "RunnerResult_ExitCode res = 124
    \<and> (\<exists>l. exec_log h' = exec_log h @ [[''docker'', ''kill'', sup_ContainerID sv]] @ l)"
proof -
  have "sint (cfg_MaxJobDuration cfg) < 0"
    using overflowing_duration [OF assms(2,3)] Config_Load_fields(4) [OF assms(1)] by simp
  then have neg: "sint (Docker_MaxJobDuration (srv_docker D cfg)) < 0"
    by (auto simp: srv_docker_def srv_docker_config_def Docker_defaults_def Let_def)
  let ?h1 = "snd (exec_Command [''docker'', ''kill'', sup_ContainerID sv] h)"
  have 1: "docker_wait (srv_docker D cfg) (sup_ContainerID sv) h = (True, ?h1)"
    using neg by (simp add: docker_wait_def)
  obtain l where l: "exec_log (docker_logs (sup_ContainerID sv) (sup_LogPath sv) ?h1) = exec_log ?h1 @ l"
    using runner_logs(4) by blast
  have "res = fst (supervise (srv_docker D cfg) sv h)" "h' = snd (supervise (srv_docker D cfg) sv h)"
    using assms(4) by simp_all
  then show ?thesis using l
    by (simp add: supervise_def 1 Let_def split_beta docker_exit_code_def)
qed

definition sample_env :: environment where
  "sample_env name =
     (if name = ''AGENTIC_MASTER_KEY'' then replicate 64 (CHR ''0'')
      else if name = ''AGENTIC_MAX_JOB_DURATION_SECONDS'' then ''9223372037'' else '''')"

theorem long_limit_kills_witness:
  "case Config_Load sample_env of
     Inr cfg \<Rightarrow> RunnerResult_ExitCode (fst (supervise (srv_docker sample_deps cfg) sample_supervision sample_host)) = 124
   | Inl e \<Rightarrow> False"
proof -
  have n: "getEnvInt sample_env ''AGENTIC_MAX_JOB_DURATION_SECONDS'' 1800 = 9223372037"
    by (simp add: getEnvInt_def sample_env_def ParseInt64_def digits_value_def is_digit_def int64_range_def
        between_def byte_def HasPrefix_def Let_def)
  have key: "hex_Decode (getEnv sample_env ''AGENTIC_MASTER_KEY'' '''') = (replicate 32 0, True)" by code_simp
  obtain cfg where load: "Config_Load sample_env = Inr cfg"
    using key by (auto simp: Config_Load_def Let_def getEnv_def sample_env_def)
  from long_limit_kills [where D = sample_deps and sv = sample_supervision and h = sample_host,
      OF load _ _ prod.collapse [symmetric]] show ?thesis by (simp add: load n)
qed

section \<open>Webhooks of GitHub\<close>

text \<open>
  C32. Installations leave the table through the webhook only by a deleted installation event
  whose body carries a valid signature and whose delivery was not handled within the replay
  window, and then just the named one.
\<close>

theorem installation_removed_only_by_signed_event:
  assumes "keyed (delivery_seen h)"
    and "Webhook_Handle secret InstallationsRepo_Delete r h = (out, h')"
    and "db_installations h' \<noteq> db_installations h"
  shows "\<exists>body. read_body r (2 ^ 20) = Inr body \<and> verify_signature secret r body
    \<and> Header_Get r ''X-GitHub-Event'' = ''installation'' \<and> event_Action (Webhook_payload body) = ''deleted''
    \<and> db_installations h' = filter (\<lambda>i. installationRow_InstallationID i \<noteq> event_Installation_ID (Webhook_payload body)) (db_installations h)
    \<and> \<not> (Header_Get r ''X-GitHub-Delivery'' \<noteq> '''' \<and>
         (\<exists>t. map_of (delivery_seen h) (Header_Get r ''X-GitHub-Delivery'') = Some t
              \<and> env_clock h (env_clock_reads h) - t \<le> 10 * Minute))"
proof -
  obtain body where body: "read_body r (2 ^ 20) = Inr body" "verify_signature secret r body"
    using assms(2,3) by (auto simp: Webhook_Handle_def split: sum.splits if_splits)
  obtain now h1 where now: "time_Now h = (now, h1)" by fastforce
  have h1: "now = env_clock h (env_clock_reads h)" "delivery_seen h1 = delivery_seen h"
    "db_installations h1 = db_installations h" using now by (auto simp: time_Now_def)
  obtain dup seen' where dup: "alreadyDelivered (Header_Get r ''X-GitHub-Delivery'') now (delivery_seen h) = (dup, seen')"
    by fastforce
  let ?h2 = "h1\<lparr>delivery_seen := seen'\<rparr>"
  let ?p = "Webhook_payload body"
  have run: "\<not> dup" "Header_Get r ''X-GitHub-Event'' = ''installation''" "event_Action ?p = ''deleted''"
    "h' = snd (InstallationsRepo_Delete (event_Installation_ID ?p) ?h2)"
    using assms(2,3) body now h1 dup by (auto simp: Webhook_Handle_def Let_def split: if_splits)
  have "db_installations h' = db_installations h
      \<or> db_installations h' = filter (\<lambda>i. installationRow_InstallationID i \<noteq> event_Installation_ID ?p) (db_installations h)"
    using run(4) h1(3) by (auto simp: InstallationsRepo_Delete_def pg_stmt_def sql_delete_def
        split: list.splits option.splits)
  then show ?thesis
    using assms(3) body run(1-3) alreadyDelivered_iff [OF assms(1), of "Header_Get r ''X-GitHub-Delivery''" now] dup h1(1)
    by (auto simp: replayWindow_def)
qed

definition sample_event :: string where
  "sample_event = json_text (JObj [(''action'', JStr ''deleted''), (''installation'', JObj [(''id'', JNum (Itoa 1))])])"

lemma sample_event_decoded: "Webhook_payload sample_event = \<lparr>event_Action = ''deleted'', event_Installation_ID = 1\<rparr>"
  by code_simp

lemma sample_event_length: "length sample_event < 1048576"
proof -
  have "length sample_event \<le> 64" by code_simp
  then show ?thesis by simp
qed

definition sample_hook :: http_in where
  "sample_hook =
     \<lparr>in_Method = ''POST'', in_Path = ''/webhooks/github'', in_Query = [],
      in_Header = [(''X-Hub-Signature-256'', ''sha256='' @ hex_EncodeToString (hmac_sha256 [1, 2, 3] (bytes_of sample_event))),
                   (''X-GitHub-Event'', ''installation''), (''X-GitHub-Delivery'', ''d-1'')],
      in_Cookies = [], in_Body = Inr sample_event\<rparr>"

definition sample_installation :: installationRow where
  "sample_installation =
     \<lparr>installationRow_InstallationID = 1, installationRow_UserID = ''u1'', installationRow_AccountLogin = ''o'',
      installationRow_Repos = [''o/r''], installationRow_CreatedAt = 5\<rparr>"

theorem installation_removed_only_by_signed_event_witness:
  "db_installations (snd (Webhook_Handle [1, 2, 3] InstallationsRepo_Delete sample_hook
     (sample_host\<lparr>db_installations := [sample_installation]\<rparr>))) = []"
proof -
  let ?h = "sample_host\<lparr>db_installations := [sample_installation]\<rparr>"
  have v: "verify_signature [1, 2, 3] sample_hook sample_event"
    by (simp add: verify_signature_def sample_hook_def Header_Get_def)
  have b: "read_body sample_hook (2 ^ 20) = Inr sample_event"
    using sample_event_length by (simp add: read_body_def sample_hook_def)
  have hd: "Header_Get sample_hook ''X-GitHub-Event'' = ''installation''"
    "Header_Get sample_hook ''X-GitHub-Delivery'' = ''d-1''"
    by (simp_all add: sample_hook_def Header_Get_def)
  obtain out h' where run: "Webhook_Handle [1, 2, 3] InstallationsRepo_Delete sample_hook ?h = (out, h')"
    by fastforce
  have "db_installations h' = []"
    using run b v hd by (auto simp: Webhook_Handle_def sample_event_decoded time_Now_def alreadyDelivered_def prune_seen_def Let_def
        InstallationsRepo_Delete_def pg_stmt_def sql_delete_def sample_installation_def)
  then have "db_installations h' \<noteq> db_installations ?h" by simp
  from installation_removed_only_by_signed_event [OF _ run this] show ?thesis
    using \<open>db_installations h' = []\<close> run by (simp add: keyed_def)
qed

theorem signature_ignores_delivery_id:
  "verify_signature secret (r\<lparr>in_Header := (''X-GitHub-Delivery'', did) # in_Header r\<rparr>) body
   = verify_signature secret r body
   \<and> read_body (r\<lparr>in_Header := (''X-GitHub-Delivery'', did) # in_Header r\<rparr>) n = read_body r n"
  by (simp add: verify_signature_def Header_Get_def read_body_def)

section \<open>The callback of the GitHub App\<close>

text \<open>A GitHub that knows one account and one repository.\<close>

definition sample_token :: string where
  "sample_token = json_text (JObj [(''access_token'', JStr ''t1'')])"

definition sample_user :: string where
  "sample_user = json_text (JObj [(''id'', JNum (Itoa 7)), (''login'', JStr ''octo''), (''email'', JNull)])"

definition sample_repos :: string where
  "sample_repos = json_text (JObj [(''total_count'', JNum (Itoa 1)),
     (''repositories'', JArr [JObj [(''full_name'', JStr ''o/r''), (''owner'', JObj [(''login'', JStr ''o'')])]])])"

definition sample_github :: "nat \<Rightarrow> http_request \<Rightarrow> go_error + http_response" where
  "sample_github n req = Inr \<lparr>resp_StatusCode = 200, resp_Body =
     (if req_URL req = ''https://github.com/login/oauth/access_token'' then sample_token
      else if req_URL req = ''https://api.github.com/user'' then sample_user else sample_repos)\<rparr>"

lemma answer_fields:
  "(''total_count'', int64_field (\<lambda>i. repos_TotalCount_update (\<lambda>_. i))) \<in> set repos_fields"
  "(''repositories'',
     slice_field (\<lambda>r v. assign_struct repo_fields v r) \<lparr>repo_FullName = '''', repo_Owner_Login = ''''\<rparr>
       repos_Repositories (\<lambda>rs. repos_Repositories_update (\<lambda>_. rs))) \<in> set repos_fields"
  "(''full_name'', string_field (\<lambda>s. repo_FullName_update (\<lambda>_. s))) \<in> set repo_fields"
  "(''owner'', owner_field) \<in> set repo_fields"
  by (simp_all add: repos_fields_def repo_fields_def)

lemma answer_separate: "separate repos_fields" "separate repo_fields"   by (code_simp, code_simp)

lemmas answer_select =
  answer_fields(1,2) [THEN assign_members_exact [OF answer_separate(1)]]
  answer_fields(3,4) [THEN assign_members_exact [OF answer_separate(2)]]

lemma sample_decoded:
  "Decode_struct token_fields token_zero sample_token =
     Some \<lparr>token_AccessToken = ''t1'', token_Error = '''', token_ErrorDesc = ''''\<rparr>"
  "Decode_struct user_fields user_zero sample_user =
     Some \<lparr>ghUser_ID = 7, ghUser_Login = ''octo'', ghUser_Email = ''''\<rparr>"
  by (code_simp, code_simp)

lemma sample_repos_decoded:
  "Decode_struct repos_fields \<lparr>repos_TotalCount = 0, repos_Repositories = []\<rparr> sample_repos =
     Some \<lparr>repos_TotalCount = 1, repos_Repositories = [\<lparr>repo_FullName = ''o/r'', repo_Owner_Login = ''o''\<rparr>]\<rparr>"
proof -
  let ?j = "JObj [(''total_count'', JNum (Itoa 1)),
     (''repositories'', JArr [JObj [(''full_name'', JStr ''o/r''), (''owner'', JObj [(''login'', JStr ''o'')])]])]"
  have "utf8_json ?j" by (simp add: ascii_valid ascii_def byte_def)
  moreover have "plain_json ?j" by (auto simp: number_text_def)
  moreover have "json_depth ?j \<le> 10000" by simp
  moreover have "assign_struct repos_fields ?j \<lparr>repos_TotalCount = 0, repos_Repositories = []\<rparr> =
      (\<lparr>repos_TotalCount = 1, repos_Repositories = [\<lparr>repo_FullName = ''o/r'', repo_Owner_Login = ''o''\<rparr>]\<rparr>, True)"
    by (simp add: assign_struct_def answer_select one_member int64_field_def slice_field_def string_field_def owner_field_def
        ParseInt64_Itoa int64_range_def Let_def del: assign_members.simps(2))
  ultimately show ?thesis
    unfolding sample_repos_def by (simp only: Decode_struct_text json_norm_utf8 prod.case if_True)
qed

lemma sample_answers:
  "decode_token js sample_token =
     Inr \<lparr>token_AccessToken = ''t1'', token_Error = '''', token_ErrorDesc = ''''\<rparr>"
  "decode_user js sample_user =
     Inr \<lparr>ghUser_ID = 7, ghUser_Login = ''octo'', ghUser_Email = ''''\<rparr>"
  "decode_repos js sample_repos = Inr [\<lparr>repo_FullName = ''o/r'', repo_Owner_Login = ''o''\<rparr>]"
  by (simp_all add: decode_token_def decode_user_def decode_repos_def Decode_or_def sample_decoded sample_repos_decoded)

lemma Installation_stored:
  assumes ok: "pg_ok d" and "db_faults d = []" and "InstallationsRepo_Upsert i d = (Inr x, d')"
  shows "\<exists>i'. fst (InstallationsRepo_ByInstallationID (Installation_InstallationID i) d') = Inr i'
    \<and> Installation_UserID i' = Installation_UserID i"
proof -
  let ?row = "\<lparr>installationRow_InstallationID = Installation_InstallationID i,
      installationRow_UserID = Installation_UserID i, installationRow_AccountLogin = Installation_AccountLogin i,
      installationRow_Repos = map json_bytes (Installation_Repos i), installationRow_CreatedAt = Installation_CreatedAt i\<rparr>"
  let ?m = "\<lambda>old excluded. old\<lparr>installationRow_UserID := installationRow_UserID excluded,
      installationRow_AccountLogin := installationRow_AccountLogin excluded,
      installationRow_Repos := installationRow_Repos excluded\<rparr>"
  have tok: "table_ok installationRow_InstallationID (db_installations d)" using ok by (simp add: pg_ok_def)
  have d': "db_installations d' = sql_upsert installationRow_InstallationID ?m ?row (db_installations d)"
      "db_faults d' = []"
    using assms(2,3) by (auto simp: InstallationsRepo_Upsert_def pg_stmt_run Let_def split: if_splits)
  note up = upsert_row [OF tok, where merge = ?m and r = ?row]
  then have "table_ok installationRow_InstallationID (db_installations d')"
    and "\<exists>r. index_by installationRow_InstallationID (db_installations d') (Installation_InstallationID i) = Some r
      \<and> installationRow_UserID r = Installation_UserID i"
    using up by (auto simp: d' split: option.split)
  then show ?thesis
    using d'(2) by (auto simp: InstallationsRepo_ByInstallationID_def pg_stmt_run select_key Installation_of_def)
qed

text \<open>
  Whoever is signed in and names an installation of the app becomes its owner; that the
  account of the installation is theirs is not checked.
\<close>

text \<open>
  C33. A successful install callback binds the installation named in the query to the user of
  the session, whoever it belonged to before.
\<close>

theorem installation_takeover:
  assumes "pg_ok h" and "db_faults h = []"
    and "Install_Callback js lib creds (srv_sessions cfg) InstallationsRepo_Upsert r h = (out, h')"
    and "out_Status out = 302"
  shows "\<exists>uid iid i. fst (Sessions_UserFromRequest (srv_sessions cfg) r h) = Inr uid
    \<and> ParseInt64 (Query_Get r ''installation_id'') = Some iid
    \<and> fst (InstallationsRepo_ByInstallationID iid h') = Inr i \<and> Installation_UserID i = uid"
proof -
  have user: "pg_ok k \<and> db_faults k = []" if "Sessions_UserFromRequest (srv_sessions cfg) r h = (q, k)" for q k
    using that assms(1,2)
    by (auto simp: Sessions_UserFromRequest_def srv_sessions_def SessionsRepo_def SessionsRepo_ResolveUser_def
        pg_stmt_run time_Now_def split: option.splits list.splits if_splits)
  have tok: "pg_ok k \<and> db_faults k = []"
    if "InstallationToken lib creds iid g = (q, k)" "pg_ok g" "db_faults g = []" for iid g q and k :: "'a host_scheme"
    using that by (auto simp: InstallationToken_def time_Now_def split: option.splits sum.splits)
  have fetch: "pg_ok k \<and> db_faults k = []"
    if "fetchAccountAndRepos js t g = (q, k)" "pg_ok g" "db_faults g = []" for t g q and k :: "'a host_scheme"
    using that by (auto simp: fetchAccountAndRepos_def http_Do_def Let_def split: sum.splits if_splits)
  note unf = assms(3) [unfolded Install_Callback_def]
  obtain uid h1 where 1: "Sessions_UserFromRequest (srv_sessions cfg) r h = (Inr uid, h1)"
    using unf assms(4) by (auto split: sum.splits prod.splits)
  obtain iid where iid: "ParseInt64 (Query_Get r ''installation_id'') = Some iid"
    using unf assms(4) 1 by (auto split: option.splits)
  obtain t e h2 where 2: "InstallationToken lib creds iid h1 = (Inr (t, e), h2)"
    using unf assms(4) 1 iid by (auto split: sum.splits prod.splits)
  obtain acct repos h3 where 3: "fetchAccountAndRepos js t h2 = (Inr (acct, repos), h3)"
    using unf assms(4) 1 iid 2 by (auto split: sum.splits prod.splits)
  obtain now h4 where 4: "time_Now h3 = (now, h4)" by fastforce
  let ?i = "\<lparr>Installation_InstallationID = iid, Installation_UserID = uid, Installation_AccountLogin = acct,
      Installation_Repos = repos, Installation_CreatedAt = now\<rparr>"
  have up: "InstallationsRepo_Upsert ?i h4 = (Inr (), h')"
    using unf assms(4) 1 iid 2 3 4 by (auto split: sum.splits prod.splits)
  have "pg_ok h4 \<and> db_faults h4 = []"
    using fetch [OF 3] tok [OF 2] user [OF 1] 4 by (auto simp: time_Now_def)
  then obtain i where "fst (InstallationsRepo_ByInstallationID iid h') = Inr i" "Installation_UserID i = uid"
    using Installation_stored [of h4 ?i "()" h'] up by auto
  then show ?thesis using 1 iid by simp
qed

definition sample_callback :: http_in where
  "sample_callback =
     \<lparr>in_Method = ''GET'', in_Path = ''/auth/github-app/callback'', in_Query = [(''installation_id'', ''1'')],
      in_Header = [], in_Cookies = [(cookieName, encodeCookieValue (replicate 32 7))], in_Body = Inr ''''\<rparr>"

text \<open>The installation of the first user moves to the second.\<close>

theorem installation_takeover_witness:
  "\<exists>i. fst (InstallationsRepo_ByInstallationID 1 (snd (Install_Callback (dep_json_errors sample_deps) (dep_ghi sample_deps)
     (srv_app sample_config) (srv_sessions sample_config) InstallationsRepo_Upsert sample_callback
     (sample_host\<lparr>http_answer := sample_github, db_installations := [sample_installation],
        db_sessions := [\<lparr>sessionRow_ID = replicate 32 7, sessionRow_UserID = ''u2'', sessionRow_ExpiresAt = 1000\<rparr>]\<rparr>))))
     = Inr i \<and> Installation_UserID i = ''u2''"
proof -
  let ?h = "sample_host\<lparr>http_answer := sample_github, db_installations := [sample_installation],
        db_sessions := [\<lparr>sessionRow_ID = replicate 32 7, sessionRow_UserID = ''u2'', sessionRow_ExpiresAt = 1000\<rparr>]\<rparr>"
  have ok: "pg_ok ?h" using sample_host_ok by (simp add: pg_ok_def table_ok_def)
  have user: "Sessions_UserFromRequest (srv_sessions sample_config) sample_callback ?h
      = (Inr ''u2'', ?h\<lparr>env_clock_reads := 1\<rparr>)"
    by (simp add: Sessions_UserFromRequest_def sample_callback_def request_Cookie_def srv_sessions_def
        SessionsRepo_def SessionsRepo_ResolveUser_def pg_stmt_run sql_select_def time_Now_def After_def cookie_roundtrip)
  have iid: "ParseInt64 (Query_Get sample_callback ''installation_id'') = Some 1"
    by (simp add: sample_callback_def Query_Get_def ParseInt64_def digits_value_def is_digit_def int64_range_def
        between_def byte_def HasPrefix_def Let_def)
  obtain out h' where run: "Install_Callback (dep_json_errors sample_deps) (dep_ghi sample_deps)
     (srv_app sample_config) (srv_sessions sample_config) InstallationsRepo_Upsert sample_callback ?h = (out, h')"
    by fastforce
  have j: "json_bytes ''o/r'' = ''o/r''" by code_simp
  have ghi: "dep_ghi sample_deps = \<lparr>ghi_New = (\<lambda>_ _ _. None), ghi_Token = (\<lambda>_ _ _ _. Inr ''tok'')\<rparr>"
    by (simp add: sample_deps_def)
  have "out_Status out = 302"
    using run by (auto simp: Install_Callback_def user iid InstallationToken_def ghi sample_github_def sample_answers time_Now_def
        fetchAccountAndRepos_def http_Do_def Let_def InstallationsRepo_Upsert_def pg_stmt_run user_exists_def
        sample_db_def j StatusFound_def)
  from installation_takeover [OF ok _ run this] show ?thesis using run iid by (simp add: user)
qed

section \<open>The session a GitHub sign-in ends in\<close>

definition calm :: "'z db_scheme \<Rightarrow> bool" where
  "calm d \<longleftrightarrow> pg_ok d \<and> db_faults d = []"

lemma ByGitHubID_calm:
  assumes "calm d"
  shows "IdentitiesRepo_ByGitHubID g d =
    (case account_of d g of None \<Rightarrow> (Inl ErrNotFound, d) | Some row \<Rightarrow> (Inr (identity_of row), d))"
  using assms by (simp add: calm_def IdentitiesRepo_ByGitHubID_def pg_stmt_run select_key pg_ok_def account_of_def
      split: option.split)

lemma UpsertAdmin_calm:
  assumes "calm d" and "UsersBootstrapRepo_UpsertAdmin u n t d = (r, d')"
  shows "calm d' \<and> account_of d' = account_of d"
  using keepsD(1) [OF UpsertAdmin_keeps _ assms(2)] assms
  by (auto simp: calm_def account_of_def UsersBootstrapRepo_UpsertAdmin_def pg_stmt_run Let_def)

lemma OAuth_account_run:
  assumes c: "calm g" and run: "OAuth_account (srv_oauth cfg) user g = (Inr uid, g')"
  shows "calm g' \<and> account_of g' = account_of g
    \<and> (\<forall>row. account_of g (ghUser_ID user) = Some row \<longrightarrow> uid = identityRow_UserID row)"
proof (cases "account_of g (ghUser_ID user)")
  case None
  obtain w g1 where w: "NanoID_NewUserID g = (w, g1)" by fastforce
  obtain now g2 where now: "time_Now g1 = (now, g2)" by fastforce
  have g2: "calm g2" "account_of g2 = account_of g"
    using c w now by (auto simp: calm_def account_of_def NanoID_NewUserID_def randBase32_def rand_Read_def
        time_Now_def Let_def)
  obtain r3 g3 where u: "UsersBootstrapRepo_UpsertAdmin w (ghUser_Login user) now g2 = (r3, g3)" by fastforce
  have "g' = g3"
    using run None w now u by (auto simp: OAuth_account_def srv_oauth_def IdentitiesRepo_def ByGitHubID_calm [OF c]
        NanoID_def SystemClock_def split: sum.splits)
  then show ?thesis using UpsertAdmin_calm [OF g2(1) u] g2(2) None by simp
next
  case (Some row)
  then show ?thesis using run c
    by (simp add: OAuth_account_def srv_oauth_def IdentitiesRepo_def ByGitHubID_calm identity_of_def)
qed

lemma Identity_Upsert_calm:
  assumes "calm d" and "IdentitiesRepo_Upsert g d = (Inr x, d')"
  shows "calm d'"
proof -
  have "db_faults d' = []"
    using assms by (auto simp: calm_def IdentitiesRepo_Upsert_def pg_stmt_run Let_def split: if_splits)
  then show ?thesis using IdentitiesRepo_Upsert_effect(1) [OF _ assms(2)] assms(1) by (simp add: calm_def)
qed

lemma Logout_calm:
  assumes "calm d" and "Sessions_Logout (srv_sessions cfg) r d = (ck, d')"
  shows "calm d' \<and> account_of d' = account_of d"
proof -
  have "calm (snd (SessionsRepo_Delete sid d)) \<and> account_of (snd (SessionsRepo_Delete sid d)) = account_of d" for sid
    using assms(1) by (simp add: calm_def SessionsRepo_Delete_def pg_stmt_run account_of_def pg_ok_def delete_rows(1))
  then show ?thesis using assms
    by (auto simp: Sessions_Logout_def srv_sessions_def SessionsRepo_def Let_def split: option.splits)
qed

lemma OAuth_sign_in_run:
  assumes c: "calm g" and run: "OAuth_sign_in (srv_oauth cfg) r user g = (out, g')" and "out_Status out = 302"
  shows "\<exists>uid sid t. map_option identityRow_UserID (account_of g' (ghUser_ID user)) = Some uid
    \<and> (\<forall>old. account_of g (ghUser_ID user) = Some old \<longrightarrow> uid = identityRow_UserID old)
    \<and> session_cookie (cfg_CookieSecure cfg) sid t \<in> set (out_Cookies out)
    \<and> fst (SessionsRepo_ResolveUser sid g') \<in> {Inr uid, Inl ErrNotFound}"
proof -
  note unf = run [unfolded OAuth_sign_in_def]
  have ports: "OAuth_identities (srv_oauth cfg) = IdentitiesRepo" "OAuth_sessions (srv_oauth cfg) = srv_sessions cfg"
    by (simp_all add: srv_oauth_def)
  obtain uid g1 where a: "OAuth_account (srv_oauth cfg) user g = (Inr uid, g1)"
    using unf assms(3) by (auto split: sum.splits prod.splits)
  note acc = OAuth_account_run [OF c a]
  let ?id = "\<lparr>GitHubIdentity_UserID = uid, GitHubIdentity_GitHubID = ghUser_ID user,
    GitHubIdentity_GitHubLogin = ghUser_Login user, GitHubIdentity_Email = ghUser_Email user\<rparr>"
  obtain g2 where up: "IdentitiesRepo_Upsert ?id g1 = (Inr (), g2)"
    using unf assms(3) a by (auto simp: ports IdentitiesRepo_def split: sum.splits prod.splits)
  have g2: "calm g2" using Identity_Upsert_calm [OF _ up] acc by simp
  have "account_of g2 (ghUser_ID user) \<noteq> None
      \<and> (\<forall>row. account_of g2 (ghUser_ID user) = Some row \<longrightarrow> identityRow_UserID row = uid)"
    using IdentitiesRepo_Upsert_effect(2) [OF _ up] acc by (auto simp: calm_def split: option.splits)
  then have user: "map_option identityRow_UserID (account_of g2 (ghUser_ID user)) = Some uid" by auto
  obtain oc g3 where lo: "Sessions_Logout (srv_sessions cfg) r g2 = (oc, g3)" by fastforce
  note out = Logout_calm [OF g2 lo]
  have f3: "db_faults g3 = []" using out by (simp add: calm_def)
  obtain ck where li: "Sessions_Login (srv_sessions cfg) uid g3 = (Inr ck, g')" and cks: "out_Cookies out = [oc, ck]"
    using unf assms(3) a up lo by (auto simp: ports IdentitiesRepo_def Let_def split: sum.splits prod.splits)
  obtain sid where "ck = session_cookie (cfg_CookieSecure cfg) sid (env_clock g3 (env_clock_reads g3) + cookieMaxAge)"
    and "db_identities g' = db_identities g3"
    and "fst (SessionsRepo_ResolveUser sid g') \<in> {Inr uid, Inl ErrNotFound}"
    by (rule Login_run [OF f3 li]) auto
  then show ?thesis using user out acc cks
    by (intro exI [of _ uid] exI [of _ sid] exI [of _ "env_clock g3 (env_clock_reads g3) + cookieMaxAge"])
      (auto simp: account_of_def)
qed

lemma exchange_calm: "calm h \<Longrightarrow> exchangeCode js c code h = (q, k) \<Longrightarrow> calm k \<and> account_of k = account_of h"
  by (auto simp: exchangeCode_def http_Do_def calm_def account_of_def Let_def split: sum.splits if_splits)

lemma fetch_calm: "calm h \<Longrightarrow> fetchUser js t h = (q, k) \<Longrightarrow> calm k \<and> account_of k = account_of h"
  by (auto simp: fetchUser_def http_Do_def calm_def account_of_def Let_def split: sum.splits if_splits)


definition sample_oauth_request :: http_in where
  "sample_oauth_request =
     \<lparr>in_Method = ''GET'', in_Path = ''/auth/github/callback'', in_Query = [(''state'', ''s1''), (''code'', ''c1'')],
      in_Header = [], in_Cookies = [(oauthStateCookie, ''s1'')], in_Body = Inr ''''\<rparr>"


end
