(* ===== verification/Html.thy ===== *)
theory Html
  imports Go_Base
begin

text \<open>
  What the generated pages (\<open>core/presenter/templ/**/*_templ.go\<close>) use of the templ library, and how a
  component renders. The library is a record of operations on the writer \<open>'w\<close>: its behaviour is a
  parameter, and what it documents is the predicate \<open>templ_ok\<close>. A component is given the rendering of its
  children and writes until the first error, which it returns, as the early returns of the generated code
  do. Two renderings have the same markup when the characters of what they wrote that open and close tags
  and attribute values are the same; the relation is kept by everything the pages are built of.
\<close>

section \<open>The library\<close>

type_synonym 'w render = "'w \<Rightarrow> go_error option \<times> 'w"
type_synonym 'w component = "'w render \<Rightarrow> 'w render"

record 'w templ =
  ctx_Err :: "'w \<Rightarrow> go_error option"
  templ_GetBuffer :: "'w \<Rightarrow> bool \<times> 'w"
  templ_ReleaseBuffer :: "'w render"
  templruntime_WriteString :: "nat \<Rightarrow> string \<Rightarrow> 'w render"
  templ_WriteString :: "string \<Rightarrow> 'w render"
  templ_RenderCSSItems :: "string list \<Rightarrow> 'w render"
  templ_CSSClasses :: "string list \<Rightarrow> string"
  templ_JoinStringErrs :: "string \<Rightarrow> go_error + string"
  templ_Error :: "go_error \<Rightarrow> string \<Rightarrow> nat \<Rightarrow> nat \<Rightarrow> go_error"
  templ_EscapeString :: "string \<Rightarrow> string"

definition skip :: "'w render" where
  "skip w = (None, w)"

fun steps :: "'w render list \<Rightarrow> 'w render" where
  "steps [] w = (None, w)"
| "steps (r # rs) w =
     (case r w of
        (Some e, w1) \<Rightarrow> (Some e, w1)
      | (None, w1) \<Rightarrow> steps rs w1)"

definition closure_template :: "'w templ \<Rightarrow> 'w render \<Rightarrow> 'w render" where
  "closure_template lib body w =
     (let (isBuffer, buffer) = templ_GetBuffer lib w;
          (err, buffer') = body buffer
      in if isBuffer then (err, buffer')
         else let (bufErr, w') = templ_ReleaseBuffer lib buffer'
              in (if err = None then bufErr else err, w'))"

definition component_template :: "'w templ \<Rightarrow> 'w render \<Rightarrow> 'w render" where
  "component_template lib body w =
     (case ctx_Err lib w of
        Some e \<Rightarrow> (Some e, w)
      | None \<Rightarrow> closure_template lib body w)"

definition write_text :: "'w templ \<Rightarrow> string \<Rightarrow> nat \<Rightarrow> nat \<Rightarrow> string \<Rightarrow> 'w render" where
  "write_text lib file line col s w =
     (case templ_JoinStringErrs lib s of
        Inl e \<Rightarrow> (Some (templ_Error lib e file line col), w)
      | Inr v \<Rightarrow> templ_WriteString lib (templ_EscapeString lib v) w)"

text \<open>\<open>templ.SafeURL\<close> is a conversion to the string type that the library takes as already checked.\<close>

definition SafeURL :: "string \<Rightarrow> string" where
  "SafeURL s = s"

definition write_url :: "'w templ \<Rightarrow> string \<Rightarrow> 'w render" where
  "write_url lib url = templ_WriteString lib (templ_EscapeString lib url)"

section \<open>What the library documents\<close>

definition is_markup :: "char \<Rightarrow> bool" where
  "is_markup c \<longleftrightarrow> c \<in> {CHR ''<'', CHR ''>'', CHR 0x22, CHR 0x27}"

definition appends :: "('w \<Rightarrow> string) \<Rightarrow> string \<Rightarrow> 'w render \<Rightarrow> bool" where
  "appends text s r \<longleftrightarrow> (\<forall>w w'. r w = (None, w') \<longrightarrow> text w' = text w @ s)"

definition templ_ok :: "'w templ \<Rightarrow> ('w \<Rightarrow> string) \<Rightarrow> bool" where
  "templ_ok lib text \<longleftrightarrow>
     (\<forall>n s. appends text s (templruntime_WriteString lib n s)) \<and> (\<forall>s. appends text s (templ_WriteString lib s))
     \<and> (\<forall>cs. appends text '''' (templ_RenderCSSItems lib cs)) \<and> appends text '''' (templ_ReleaseBuffer lib)
     \<and> (\<forall>w. text (snd (templ_GetBuffer lib w)) = text w)
     \<and> (\<forall>s v. templ_JoinStringErrs lib s = Inr v \<longrightarrow> v = s)
     \<and> (\<forall>s. filter is_markup (templ_EscapeString lib s) = '''')"

section \<open>Renderings with the same markup\<close>

definition same_markup :: "('w \<Rightarrow> string) \<Rightarrow> 'w render \<Rightarrow> 'w render \<Rightarrow> bool" where
  "same_markup text r q \<longleftrightarrow>
     (\<forall>w w' v v'. r w = (None, w') \<longrightarrow> q v = (None, v') \<longrightarrow>
        (\<exists>s t. text w' = text w @ s \<and> text v' = text v @ t \<and> filter is_markup s = filter is_markup t))"

named_theorems markup

lemma same_markup_appends:
  assumes "appends text s r" and "appends text t q" and "filter is_markup s = filter is_markup t"
  shows "same_markup text r q"
  using assms by (auto simp: same_markup_def appends_def)

lemma appends_write_text:
  assumes "templ_ok lib text"
  shows "appends text (templ_EscapeString lib s) (write_text lib f l c s)"
  using assms by (auto simp: templ_ok_def appends_def write_text_def split: sum.splits)

lemma appends_write_url: "templ_ok lib text \<Longrightarrow> appends text (templ_EscapeString lib s) (write_url lib s)"
  by (simp add: templ_ok_def write_url_def)

lemma templ_okD:
  assumes "templ_ok lib text"
  shows "appends text s (templruntime_WriteString lib n s)" and "appends text '''' (templ_RenderCSSItems lib cs)"
    and "filter is_markup (templ_EscapeString lib u) = ''''"
  using assms by (simp_all add: templ_ok_def)

lemma same_markup_leaves [markup]:
  assumes "templ_ok lib text"
  shows "same_markup text (templruntime_WriteString lib n s) (templruntime_WriteString lib n s)"
    and "same_markup text (templ_RenderCSSItems lib cs) (templ_RenderCSSItems lib ds)"
    and "same_markup text (write_text lib f l c t) (write_text lib f l c u)"
    and "same_markup text (write_url lib t) (write_url lib u)"
  by (rule same_markup_appends,
      (rule templ_okD [OF assms] appends_write_text [OF assms] appends_write_url [OF assms])+,
      simp add: templ_okD [OF assms])+

lemma same_markup_skip [markup]: "same_markup text skip skip"
  by (simp add: same_markup_def skip_def)

lemma same_markup_Nil [markup]: "same_markup text (steps []) (steps [])"
  by (simp add: same_markup_def)

lemma steps_Cons_run: "steps (r # rs) w = (None, w') \<longleftrightarrow> (\<exists>w1. r w = (None, w1) \<and> steps rs w1 = (None, w'))"
  by (cases "r w") (auto split: option.splits)

lemma same_markup_Cons [markup]:
  assumes "same_markup text r q" and "same_markup text (steps rs) (steps qs)"
  shows "same_markup text (steps (r # rs)) (steps (q # qs))"
proof -
  have "\<exists>s t. text w' = text w @ s \<and> text v' = text v @ t \<and> filter is_markup s = filter is_markup t"
    if run: "r w = (None, w1)" "steps rs w1 = (None, w')" "q v = (None, v1)" "steps qs v1 = (None, v')" for w w1 w' v v1 v'
  proof -
    obtain s t where st: "text w1 = text w @ s" "text v1 = text v @ t" "filter is_markup s = filter is_markup t"
      using assms(1) run(1,3) unfolding same_markup_def by blast
    obtain s' t' where st': "text w' = text w1 @ s'" "text v' = text v1 @ t'" "filter is_markup s' = filter is_markup t'"
      using assms(2) run(2,4) unfolding same_markup_def by blast
    show ?thesis using st st' by (intro exI [of _ "s @ s'"] exI [of _ "t @ t'"]) simp
  qed
  then show ?thesis unfolding same_markup_def steps_Cons_run by blast
qed

lemma same_markup_map [markup]:
  assumes "length xs = length ys" and "\<And>x y. same_markup text (f x) (g y)"
  shows "same_markup text (steps (map f xs)) (steps (map g ys))"
  using assms(1) by (induction rule: list_induct2) (simp_all only: list.map same_markup_Nil same_markup_Cons assms(2))

lemma same_markup_if [markup]:
  assumes "P \<longleftrightarrow> Q" and "P \<Longrightarrow> Q \<Longrightarrow> same_markup text a c" and "\<not> P \<Longrightarrow> \<not> Q \<Longrightarrow> same_markup text b d"
  shows "same_markup text (if P then a else b) (if Q then c else d)"
  using assms by simp

lemma closure_run:
  assumes "templ_ok lib text" and "closure_template lib r w = (None, w')"
  shows "\<exists>b b'. r b = (None, b') \<and> text b = text w \<and> text b' = text w'"
proof -
  obtain isb b where g: "templ_GetBuffer lib w = (isb, b)" by fastforce
  obtain e b' where run: "r b = (e, b')" by fastforce
  have tb: "text b = text w" using assms(1) g unfolding templ_ok_def by (metis snd_conv)
  have rel: "templ_ReleaseBuffer lib b' = (None, w') \<Longrightarrow> text w' = text b'"
    using assms(1) unfolding templ_ok_def appends_def by fastforce
  show ?thesis
    using assms(2) g run tb rel
    by (intro exI [of _ b] exI [of _ b'])
      (auto simp: closure_template_def Let_def split: if_splits prod.splits)
qed

lemma component_run: "component_template lib r w = (None, w') \<Longrightarrow> closure_template lib r w = (None, w')"
  by (simp add: component_template_def split: option.splits)

lemma same_markup_closure [markup]:
  assumes "templ_ok lib text" and "same_markup text r q"
  shows "same_markup text (closure_template lib r) (closure_template lib q)"
proof -
  have "\<exists>s t. text w' = text w @ s \<and> text v' = text v @ t \<and> filter is_markup s = filter is_markup t"
    if run: "closure_template lib r w = (None, w')" "closure_template lib q v = (None, v')" for w w' v v'
  proof -
    obtain b b' where b: "r b = (None, b')" "text b = text w" "text b' = text w'"
      using closure_run [OF assms(1) run(1)] by blast
    obtain c c' where c: "q c = (None, c')" "text c = text v" "text c' = text v'"
      using closure_run [OF assms(1) run(2)] by blast
    show ?thesis using assms(2) b c unfolding same_markup_def by (metis b(2,3) c(2,3))
  qed
  then show ?thesis unfolding same_markup_def by blast
qed

lemma same_markup_component [markup]:
  assumes "templ_ok lib text" and "same_markup text r q"
  shows "same_markup text (component_template lib r) (component_template lib q)"
  using same_markup_closure [OF assms] component_run unfolding same_markup_def by metis

section \<open>Texts that a rendering contains\<close>

definition contains_text :: "('w \<Rightarrow> string) \<Rightarrow> string \<Rightarrow> 'w render \<Rightarrow> bool" where
  "contains_text text s r \<longleftrightarrow> (\<forall>w w'. r w = (None, w') \<longrightarrow> (\<exists>p q. text w' = text w @ p @ s @ q))"

named_theorems grows

lemma contains_appends: "appends text s r \<Longrightarrow> contains_text text s r"
  unfolding appends_def contains_text_def by (metis append.left_neutral append_Nil2)

lemma contains_Nil: "contains_text text s r \<Longrightarrow> contains_text text '''' r"
  unfolding contains_text_def by (metis append.left_neutral)

lemma contains_leaves [grows]:
  assumes "templ_ok lib text"
  shows "contains_text text '''' (templruntime_WriteString lib n s)"
    and "contains_text text '''' (templ_RenderCSSItems lib cs)"
    and "contains_text text '''' (write_text lib f l c t)"
    and "contains_text text '''' (write_url lib t)"
proof -
  show "contains_text text '''' (templruntime_WriteString lib n s)"
    and "contains_text text '''' (templ_RenderCSSItems lib cs)"
    by (rule contains_Nil, rule contains_appends, rule templ_okD [OF assms])+
  show "contains_text text '''' (write_text lib f l c t)" and "contains_text text '''' (write_url lib t)"
    using contains_Nil [OF contains_appends [OF appends_write_text [OF assms]]]
      contains_Nil [OF contains_appends [OF appends_write_url [OF assms]]] by blast+
qed

lemma contains_skip [grows]: "contains_text text '''' skip"
  by (simp add: contains_text_def skip_def)

lemma contains_steps_Nil [grows]: "contains_text text '''' (steps [])"
  by (simp add: contains_text_def)

lemma contains_head:
  assumes "contains_text text s r" and "contains_text text '''' (steps rs)"
  shows "contains_text text s (steps (r # rs))"
  using assms unfolding contains_text_def steps_Cons_run by (metis append.assoc append.left_neutral)

lemma contains_tail:
  assumes "contains_text text '''' r" and "contains_text text s (steps rs)"
  shows "contains_text text s (steps (r # rs))"
  using assms unfolding contains_text_def steps_Cons_run by (metis append.assoc append.left_neutral)

lemmas contains_Cons [grows] = contains_head [where s = "''''"]

lemma contains_after:
  assumes "appends text s r" and "\<And>w w'. steps rs w = (None, w') \<Longrightarrow> \<exists>q. text w' = text w @ t @ q"
  shows "steps (r # rs) w = (None, w') \<Longrightarrow> \<exists>q. text w' = text w @ (s @ t) @ q"
  using assms unfolding appends_def steps_Cons_run by fastforce

lemma contains_map [grows]:
  "(\<And>x. contains_text text '''' (f x)) \<Longrightarrow> contains_text text '''' (steps (map f xs))"
  by (induction xs) (simp_all only: list.map contains_steps_Nil contains_head)

lemma contains_if [grows]:
  "(P \<Longrightarrow> contains_text text s a) \<Longrightarrow> (\<not> P \<Longrightarrow> contains_text text s b) \<Longrightarrow> contains_text text s (if P then a else b)"
  by simp

lemma contains_closure [grows]:
  assumes "templ_ok lib text" and "contains_text text s r"
  shows "contains_text text s (closure_template lib r)"
  using assms(2) closure_run [OF assms(1)] unfolding contains_text_def by metis

lemma contains_component [grows]:
  assumes "templ_ok lib text" and "contains_text text s r"
  shows "contains_text text s (component_template lib r)"
  using contains_closure [OF assms] component_run unfolding contains_text_def by metis

section \<open>Renderings that do not fail\<close>

definition templ_up :: "'w templ \<Rightarrow> bool" where
  "templ_up lib \<longleftrightarrow>
     (\<forall>w. ctx_Err lib w = None \<and> fst (templ_ReleaseBuffer lib w) = None
        \<and> (\<forall>n s. fst (templruntime_WriteString lib n s w) = None) \<and> (\<forall>s. fst (templ_WriteString lib s w) = None)
        \<and> (\<forall>cs. fst (templ_RenderCSSItems lib cs w) = None))
     \<and> (\<forall>s. templ_JoinStringErrs lib s = Inr s)"

definition succeeds :: "'w render \<Rightarrow> bool" where
  "succeeds r \<longleftrightarrow> (\<forall>w. fst (r w) = None)"

named_theorems total

lemma succeeds_leaves [total]:
  assumes "templ_up lib"
  shows "succeeds (templruntime_WriteString lib n s)" and "succeeds (templ_RenderCSSItems lib cs)"
    and "succeeds (write_text lib f l c t)" and "succeeds (write_url lib t)"
  using assms by (simp_all add: templ_up_def succeeds_def write_text_def write_url_def)

lemma succeeds_skip [total]: "succeeds skip" "succeeds (steps [])"
  by (simp_all add: succeeds_def skip_def)

lemma succeeds_Cons [total]:
  assumes "succeeds r" and "succeeds (steps rs)"
  shows "succeeds (steps (r # rs))"
proof -
  have "fst (steps (r # rs) w) = None" for w
    using assms by (cases "r w") (auto simp: succeeds_def split: option.splits dest: spec [of _ w])
  then show ?thesis by (simp add: succeeds_def)
qed

lemma succeeds_map [total]: "(\<And>x. succeeds (f x)) \<Longrightarrow> succeeds (steps (map f xs))"
  by (induction xs) (simp_all only: list.map succeeds_skip succeeds_Cons)

lemma succeeds_if [total]: "(P \<Longrightarrow> succeeds a) \<Longrightarrow> (\<not> P \<Longrightarrow> succeeds b) \<Longrightarrow> succeeds (if P then a else b)"
  by simp

lemma closure_succeeds: "templ_up lib \<Longrightarrow> succeeds r \<Longrightarrow> fst (closure_template lib r w) = None"
  by (simp add: templ_up_def succeeds_def closure_template_def split_beta Let_def)

lemma succeeds_templates [total]:
  assumes "templ_up lib" and "succeeds r"
  shows "succeeds (closure_template lib r)" and "succeeds (component_template lib r)"
  using closure_succeeds [OF assms] assms(1)
  by (simp_all add: succeeds_def [of "closure_template lib r"] succeeds_def [of "component_template lib r"]
      component_template_def templ_up_def)

end
