(* ===== verification/Ui.thy ===== *)
theory Ui
  imports Html
begin

text \<open>
  The components of \<open>core/presenter/templ/components/ui\<close> and the layout \<open>core/presenter/templ/layouts\<close>, one
  definition per function of the generated \<open>*_templ.go\<close> files: each element of a list is one statement
  of the generated body with its check of the error, in order, and the numbers are the ones the generated
  code passes. The lemmas say, for every component, that its markup does not depend on its texts, that
  it contains its children, and that it renders whenever the writer accepts everything.
\<close>

section \<open>badge.templ\<close>

definition Variant :: "string \<Rightarrow> string" where
  "Variant status =
     (if status \<in> {''succeeded'', ''success''} then ''border-transparent bg-success/15 text-success''
      else if status = ''running'' then ''border-transparent bg-warning/15 text-warning''
      else if status = ''queued'' then ''border-transparent bg-accent text-accent-foreground''
      else if status \<in> {''failed'', ''error'', ''destructive''}
        then ''border-transparent bg-destructive/15 text-destructive''
      else if status = ''cancelled'' then ''border-transparent bg-muted text-muted-foreground''
      else ''border-border bg-card text-foreground'')"

definition badge_file :: string where
  "badge_file = ''core/presenter/templ/components/ui/badge.templ''"

definition ui_Badge :: "'w templ \<Rightarrow> string \<Rightarrow> 'w component" where
  "ui_Badge lib variant children =
     component_template lib (steps
       [templ_RenderCSSItems lib [''inline-flex items-center rounded-full border px-2.5 py-0.5 text-xs font-medium uppercase tracking-wide'', Variant variant],
        templruntime_WriteString lib 1 ''<span class=\"'',
        write_text lib badge_file 1 0 (templ_CSSClasses lib [''inline-flex items-center rounded-full border px-2.5 py-0.5 text-xs font-medium uppercase tracking-wide'', Variant variant]),
        templruntime_WriteString lib 2 ''\">'',
        children,
        templruntime_WriteString lib 3 ''</span>''])"

section \<open>button.templ\<close>

definition buttonClasses :: "string \<Rightarrow> string" where
  "buttonClasses variant =
     (let base = ''inline-flex items-center justify-center whitespace-nowrap rounded-md text-sm font-medium transition-colors focus-visible:outline-none focus-visible:ring-2 focus-visible:ring-ring disabled:pointer-events-none disabled:opacity-50 h-9 px-4 py-2''
      in if variant = ''secondary'' then base @ '' border border-border bg-card text-foreground hover:bg-accent''
         else if variant = ''ghost'' then base @ '' hover:bg-accent hover:text-accent-foreground''
         else if variant = ''destructive''
           then base @ '' bg-destructive text-destructive-foreground hover:bg-destructive/90''
         else if variant = ''link'' then ''text-sm font-medium text-foreground underline-offset-4 hover:underline''
         else base @ '' bg-primary text-primary-foreground hover:bg-primary/90'')"

definition button_file :: string where
  "button_file = ''core/presenter/templ/components/ui/button.templ''"

definition ui_Button :: "'w templ \<Rightarrow> string \<Rightarrow> string \<Rightarrow> 'w component" where
  "ui_Button lib variant btnType children =
     component_template lib (steps
       [templ_RenderCSSItems lib [buttonClasses variant],
        templruntime_WriteString lib 1 ''<button type=\"'',
        write_text lib button_file 21 26 btnType,
        templruntime_WriteString lib 2 ''\" class=\"'',
        write_text lib button_file 1 0 (templ_CSSClasses lib [buttonClasses variant]),
        templruntime_WriteString lib 3 ''\">'',
        children,
        templruntime_WriteString lib 4 ''</button>''])"

definition ui_LinkButton :: "'w templ \<Rightarrow> string \<Rightarrow> string \<Rightarrow> 'w component" where
  "ui_LinkButton lib href variant children =
     component_template lib (steps
       [templ_RenderCSSItems lib [buttonClasses variant],
        templruntime_WriteString lib 5 ''<a href=\"'',
        write_url lib (SafeURL href),
        templruntime_WriteString lib 6 ''\" class=\"'',
        write_text lib button_file 1 0 (templ_CSSClasses lib [buttonClasses variant]),
        templruntime_WriteString lib 7 ''\">'',
        children,
        templruntime_WriteString lib 8 ''</a>''])"

section \<open>card.templ\<close>

definition ui_Card :: "'w templ \<Rightarrow> 'w component" where
  "ui_Card lib children =
     component_template lib (steps
       [templruntime_WriteString lib 1 ''<div class=\"rounded-lg border border-border bg-card text-card-foreground shadow-sm\">'',
        children,
        templruntime_WriteString lib 2 ''</div>''])"

definition ui_CardHeader :: "'w templ \<Rightarrow> 'w component" where
  "ui_CardHeader lib children =
     component_template lib (steps
       [templruntime_WriteString lib 3 ''<div class=\"flex flex-col space-y-1.5 p-6\">'',
        children,
        templruntime_WriteString lib 4 ''</div>''])"

definition ui_CardTitle :: "'w templ \<Rightarrow> 'w component" where
  "ui_CardTitle lib children =
     component_template lib (steps
       [templruntime_WriteString lib 5 ''<h3 class=\"text-lg font-semibold leading-none tracking-tight\">'',
        children,
        templruntime_WriteString lib 6 ''</h3>''])"

definition ui_CardDescription :: "'w templ \<Rightarrow> 'w component" where
  "ui_CardDescription lib children =
     component_template lib (steps
       [templruntime_WriteString lib 7 ''<p class=\"text-sm text-muted-foreground\">'',
        children,
        templruntime_WriteString lib 8 ''</p>''])"

definition ui_CardContent :: "'w templ \<Rightarrow> 'w component" where
  "ui_CardContent lib children =
     component_template lib (steps
       [templruntime_WriteString lib 9 ''<div class=\"p-6 pt-0\">'',
        children,
        templruntime_WriteString lib 10 ''</div>''])"

definition ui_CardFooter :: "'w templ \<Rightarrow> 'w component" where
  "ui_CardFooter lib children =
     component_template lib (steps
       [templruntime_WriteString lib 11 ''<div class=\"flex items-center p-6 pt-0\">'',
        children,
        templruntime_WriteString lib 12 ''</div>''])"

section \<open>alert.templ\<close>

definition alertClasses :: "string \<Rightarrow> string" where
  "alertClasses variant =
     (let base = ''relative w-full rounded-lg border p-4 text-sm''
      in if variant = ''destructive'' then base @ '' border-destructive/40 bg-destructive/10 text-destructive''
         else if variant = ''success'' then base @ '' border-success/40 bg-success/10 text-success''
         else if variant = ''warning'' then base @ '' border-warning/40 bg-warning/10 text-warning''
         else base @ '' border-border bg-card text-foreground'')"

definition alert_file :: string where
  "alert_file = ''core/presenter/templ/components/ui/alert.templ''"

definition ui_Alert :: "'w templ \<Rightarrow> string \<Rightarrow> 'w component" where
  "ui_Alert lib variant children =
     component_template lib (steps
       [templ_RenderCSSItems lib [alertClasses variant],
        templruntime_WriteString lib 1 ''<div role=\"alert\" class=\"'',
        write_text lib alert_file 1 0 (templ_CSSClasses lib [alertClasses variant]),
        templruntime_WriteString lib 2 ''\">'',
        children,
        templruntime_WriteString lib 3 ''</div>''])"

definition ui_AlertTitle :: "'w templ \<Rightarrow> 'w component" where
  "ui_AlertTitle lib children =
     component_template lib (steps
       [templruntime_WriteString lib 4 ''<h5 class=\"mb-1 font-medium leading-none tracking-tight\">'',
        children,
        templruntime_WriteString lib 5 ''</h5>''])"

definition ui_AlertDescription :: "'w templ \<Rightarrow> 'w component" where
  "ui_AlertDescription lib children =
     component_template lib (steps
       [templruntime_WriteString lib 6 ''<div class=\"text-sm opacity-90\">'',
        children,
        templruntime_WriteString lib 7 ''</div>''])"

section \<open>input.templ\<close>

definition inputClasses :: string where
  "inputClasses = ''flex h-9 w-full rounded-md border border-input bg-background px-3 py-1 text-sm shadow-sm transition-colors placeholder:text-muted-foreground focus-visible:outline-none focus-visible:ring-2 focus-visible:ring-ring disabled:cursor-not-allowed disabled:opacity-50''"

definition input_file :: string where
  "input_file = ''core/presenter/templ/components/ui/input.templ''"

definition ui_Input :: "'w templ \<Rightarrow> string \<Rightarrow> string \<Rightarrow> string \<Rightarrow> bool \<Rightarrow> 'w component" where
  "ui_Input lib name inputType placeholder required children =
     component_template lib (steps
       [if required then steps
           [templ_RenderCSSItems lib [inputClasses],
            templruntime_WriteString lib 1 ''<input name=\"'',
            write_text lib input_file 8 26 name,
            templruntime_WriteString lib 2 ''\" type=\"'',
            write_text lib input_file 8 45 inputType,
            templruntime_WriteString lib 3 ''\" placeholder=\"'',
            write_text lib input_file 8 73 placeholder,
            templruntime_WriteString lib 4 ''\" required class=\"'',
            write_text lib input_file 1 0 (templ_CSSClasses lib [inputClasses]),
            templruntime_WriteString lib 5 ''\">'']
          else steps
           [templ_RenderCSSItems lib [inputClasses],
            templruntime_WriteString lib 6 ''<input name=\"'',
            write_text lib input_file 10 26 name,
            templruntime_WriteString lib 7 ''\" type=\"'',
            write_text lib input_file 10 45 inputType,
            templruntime_WriteString lib 8 ''\" placeholder=\"'',
            write_text lib input_file 10 73 placeholder,
            templruntime_WriteString lib 9 ''\" class=\"'',
            write_text lib input_file 1 0 (templ_CSSClasses lib [inputClasses]),
            templruntime_WriteString lib 10 ''\">'']])"

definition ui_Label :: "'w templ \<Rightarrow> string \<Rightarrow> 'w component" where
  "ui_Label lib forID children =
     component_template lib (steps
       [templruntime_WriteString lib 11 ''<label for=\"'',
        write_text lib input_file 15 22 forID,
        templruntime_WriteString lib 12 ''\" class=\"text-sm font-medium leading-none\">'',
        children,
        templruntime_WriteString lib 13 ''</label>''])"

definition ui_Field :: "'w templ \<Rightarrow> 'w component" where
  "ui_Field lib children =
     component_template lib (steps
       [templruntime_WriteString lib 14 ''<div class=\"space-y-2\">'',
        children,
        templruntime_WriteString lib 15 ''</div>''])"

section \<open>shell.templ\<close>

definition shell_file :: string where
  "shell_file = ''core/presenter/templ/layouts/shell.templ''"

definition layouts_Shell :: "'w templ \<Rightarrow> string \<Rightarrow> 'w component" where
  "layouts_Shell lib title children =
     component_template lib (steps
       [templruntime_WriteString lib 1 ''<!doctype html><html lang=\"en\" class=\"dark\"><head><meta charset=\"utf-8\"><meta name=\"viewport\" content=\"width=device-width, initial-scale=1\"><title>'',
        write_text lib shell_file 10 22 title,
        templruntime_WriteString lib 2 ('' '' @ [CHR 0xE2, CHR 0x80, CHR 0x94] @ '' agentic-delegator</title><script src=\"https://unpkg.com/htmx.org@2.0.4\"></script><link rel=\"preconnect\" href=\"https://rsms.me/\"><link rel=\"stylesheet\" href=\"https://rsms.me/inter/inter.css\"><link rel=\"stylesheet\" href=\"/static/css/app.css\"></head><body class=\"min-h-screen font-sans antialiased\"><header class=\"border-b border-border bg-background/80 backdrop-blur sticky top-0 z-10\"><div class=\"max-w-5xl mx-auto px-6 h-14 flex items-center justify-between\"><a href=\"/\" class=\"flex items-center gap-2 font-semibold tracking-tight\"><span class=\"inline-block w-2 h-2 rounded-full bg-success\"></span> agentic-delegator</a><nav class=\"flex items-center gap-1 text-sm text-muted-foreground\"><a href=\"/dashboard\" class=\"px-3 py-1.5 rounded-md hover:text-foreground hover:bg-accent transition\">Dashboard</a> <a href=\"/settings\" class=\"px-3 py-1.5 rounded-md hover:text-foreground hover:bg-accent transition\">Settings</a></nav></div></header><main class=\"max-w-5xl mx-auto px-6 py-10\">''),
        children,
        templruntime_WriteString lib 3 ''</main></body></html>''])"

section \<open>What every component keeps\<close>

lemmas ui_defs = ui_Badge_def ui_Button_def ui_LinkButton_def ui_Card_def ui_CardHeader_def ui_CardTitle_def
  ui_CardDescription_def ui_CardContent_def ui_CardFooter_def ui_Alert_def ui_AlertTitle_def
  ui_AlertDescription_def ui_Input_def ui_Label_def ui_Field_def layouts_Shell_def

lemma components_markup [markup]:
  assumes "templ_ok lib text" and "same_markup text c d"
  shows "same_markup text (ui_Badge lib v c) (ui_Badge lib v' d)"
    and "same_markup text (ui_Button lib v t c) (ui_Button lib v' t' d)"
    and "same_markup text (ui_LinkButton lib h v c) (ui_LinkButton lib h' v' d)"
    and "same_markup text (ui_Card lib c) (ui_Card lib d)"
    and "same_markup text (ui_CardHeader lib c) (ui_CardHeader lib d)"
    and "same_markup text (ui_CardTitle lib c) (ui_CardTitle lib d)"
    and "same_markup text (ui_CardDescription lib c) (ui_CardDescription lib d)"
    and "same_markup text (ui_CardContent lib c) (ui_CardContent lib d)"
    and "same_markup text (ui_CardFooter lib c) (ui_CardFooter lib d)"
    and "same_markup text (ui_Alert lib v c) (ui_Alert lib v' d)"
    and "same_markup text (ui_AlertTitle lib c) (ui_AlertTitle lib d)"
    and "same_markup text (ui_AlertDescription lib c) (ui_AlertDescription lib d)"
    and "same_markup text (ui_Input lib n t p req c) (ui_Input lib n' t' p' req d)"
    and "same_markup text (ui_Label lib f c) (ui_Label lib f' d)"
    and "same_markup text (ui_Field lib c) (ui_Field lib d)"
    and "same_markup text (layouts_Shell lib ti c) (layouts_Shell lib ti' d)"
  unfolding ui_defs by (intro markup assms refl)+

lemma components_grow:
  assumes "templ_ok lib text" and "contains_text text s c"
  shows "contains_text text s (ui_Badge lib v c)" and "contains_text text s (ui_Button lib v t c)"
    and "contains_text text s (ui_LinkButton lib h v c)" and "contains_text text s (ui_Card lib c)"
    and "contains_text text s (ui_CardHeader lib c)" and "contains_text text s (ui_CardTitle lib c)"
    and "contains_text text s (ui_CardDescription lib c)" and "contains_text text s (ui_CardContent lib c)"
    and "contains_text text s (ui_CardFooter lib c)" and "contains_text text s (ui_Alert lib v c)"
    and "contains_text text s (ui_AlertTitle lib c)" and "contains_text text s (ui_AlertDescription lib c)"
    and "contains_text text s (ui_Label lib f c)" and "contains_text text s (ui_Field lib c)"
    and "contains_text text s (layouts_Shell lib ti c)"
  unfolding ui_defs
  by (intro contains_component [OF assms(1)],
      (rule contains_head [OF assms(2)] | rule contains_tail, rule grows(1-4) [OF assms(1)])+,
      (intro grows assms(1)))+

lemmas components_grow_Nil [grows] = components_grow [where s = "''''"]

lemma components_total [total]:
  assumes "templ_up lib" and "succeeds c"
  shows "succeeds (ui_Badge lib v c)" and "succeeds (ui_Button lib v t c)"
    and "succeeds (ui_LinkButton lib h v c)" and "succeeds (ui_Card lib c)"
    and "succeeds (ui_CardHeader lib c)" and "succeeds (ui_CardTitle lib c)"
    and "succeeds (ui_CardDescription lib c)" and "succeeds (ui_CardContent lib c)"
    and "succeeds (ui_CardFooter lib c)" and "succeeds (ui_Alert lib v c)"
    and "succeeds (ui_AlertTitle lib c)" and "succeeds (ui_AlertDescription lib c)"
    and "succeeds (ui_Input lib n t p req c)" and "succeeds (ui_Label lib f c)"
    and "succeeds (ui_Field lib c)" and "succeeds (layouts_Shell lib ti c)"
  unfolding ui_defs by (intro total assms)+

end
