(* ===== verification/Pages.thy ===== *)
theory Pages
  imports Ui Domain
begin

section \<open>landing.templ\<close>

definition pages_Landing_Var3 :: "'w templ \<Rightarrow> 'w render" where
  "pages_Landing_Var3 lib =
     closure_template lib (steps
       [templruntime_WriteString lib 2 ''Sign in with GitHub''])"

definition pages_Landing_Var2 :: "'w templ \<Rightarrow> 'w render" where
  "pages_Landing_Var2 lib =
     closure_template lib (steps
       [templruntime_WriteString lib 1 ''<section class=\"py-16 text-center space-y-6\"><div class=\"inline-flex items-center gap-2 rounded-full border border-border bg-card px-3 py-1 text-xs text-muted-foreground\"><span class=\"inline-block w-1.5 h-1.5 rounded-full bg-success\"></span> Background coding agent for Claude Code</div><h1 class=\"text-4xl sm:text-5xl font-semibold tracking-tight\">Delegate work. Get a PR back.</h1><p class=\"max-w-xl mx-auto text-muted-foreground text-base sm:text-lg\">Invoke <code class=\"font-mono text-sm bg-muted px-1.5 py-0.5 rounded\">/delegate</code> from any Claude Code session, hand over a spec, and watch the agent open a pull request on your repo.</p><div class=\"flex items-center justify-center gap-3 pt-2\">'',
        ui_LinkButton lib ''/login'' ''primary'' (pages_Landing_Var3 lib),
        templruntime_WriteString lib 3 ''</div></section>''])"

definition pages_Landing :: "'w templ \<Rightarrow> 'w component" where
  "pages_Landing lib children =
     component_template lib (steps
       [layouts_Shell lib ''Welcome'' (pages_Landing_Var2 lib)])"

section \<open>dashboard.templ\<close>

definition dashboard_file :: string where
  "dashboard_file = ''core/presenter/templ/pages/dashboard.templ''"

definition pages_Dashboard_Var3 :: "'w templ \<Rightarrow> 'w render" where
  "pages_Dashboard_Var3 lib =
     closure_template lib (steps
       [templruntime_WriteString lib 2 ''Settings''])"

definition pages_Dashboard_Var5 :: "'w templ \<Rightarrow> 'w render" where
  "pages_Dashboard_Var5 lib =
     closure_template lib (steps
       [templruntime_WriteString lib 4 ''<div class=\"py-16 text-center space-y-2\"><p class=\"text-base font-medium\">No jobs yet</p><p class=\"text-sm text-muted-foreground\">Run <code class=\"font-mono text-xs bg-muted px-1.5 py-0.5 rounded\">/delegate</code> inside any Claude Code session to start one.</p></div>''])"

definition pages_Dashboard_Var4 :: "'w templ \<Rightarrow> 'w render" where
  "pages_Dashboard_Var4 lib =
     closure_template lib (steps
       [ui_CardContent lib (pages_Dashboard_Var5 lib)])"

definition pages_Dashboard_Var11 :: "'w templ \<Rightarrow> Job \<Rightarrow> 'w render" where
  "pages_Dashboard_Var11 lib j =
     closure_template lib (steps
       [write_text lib dashboard_file 46 50 (Job_Status j)])"

definition pages_Dashboard_Var6 :: "'w templ \<Rightarrow> Job list \<Rightarrow> 'w render" where
  "pages_Dashboard_Var6 lib jobs =
     closure_template lib (steps
       [templruntime_WriteString lib 5 ''<div class=\"divide-y divide-border\">'',
        steps (map (\<lambda>j. steps
           [templruntime_WriteString lib 6 ''<a href=\"'',
            write_url lib (SafeURL (''/jobs/'' @ Job_ID j)),
            templruntime_WriteString lib 7 ''\" class=\"flex items-center justify-between gap-4 px-6 py-4 hover:bg-accent/40 transition\"><div class=\"min-w-0 flex-1\"><div class=\"font-mono text-sm truncate\">'',
            write_text lib dashboard_file 40 86 (Job_ID j),
            templruntime_WriteString lib 8 ''</div><div class=\"text-xs text-muted-foreground mt-1 truncate\">'',
            write_text lib dashboard_file 42 44 (Job_Repo j),
            templruntime_WriteString lib 9 ('' '' @ [CHR 0xC2, CHR 0xB7] @ '' <span class=\"font-mono\">''),
            write_text lib dashboard_file 42 88 (Job_WorkBranch j),
            templruntime_WriteString lib 10 ''</span></div></div>'',
            ui_Badge lib (Job_Status j) (pages_Dashboard_Var11 lib j),
            templruntime_WriteString lib 11 ''</a>'']) jobs),
        templruntime_WriteString lib 12 ''</div>''])"

definition pages_Dashboard_Var2 :: "'w templ \<Rightarrow> Job list \<Rightarrow> 'w render" where
  "pages_Dashboard_Var2 lib jobs =
     closure_template lib (steps
       [templruntime_WriteString lib 1 ''<div class=\"flex items-baseline justify-between mb-6\"><div><h1 class=\"text-2xl font-semibold tracking-tight\">Dashboard</h1><p class=\"text-sm text-muted-foreground mt-1\">Recent delegated jobs across your repos.</p></div>'',
        ui_LinkButton lib ''/settings'' ''secondary'' (pages_Dashboard_Var3 lib),
        templruntime_WriteString lib 3 ''</div>'',
        if jobs = [] then steps
           [ui_Card lib (pages_Dashboard_Var4 lib)]
          else steps
           [ui_Card lib (pages_Dashboard_Var6 lib jobs)]])"

definition pages_Dashboard :: "'w templ \<Rightarrow> Job list \<Rightarrow> 'w component" where
  "pages_Dashboard lib jobs children =
     component_template lib (steps
       [layouts_Shell lib ''Dashboard'' (pages_Dashboard_Var2 lib jobs)])"

section \<open>settings.templ\<close>

definition settings_file :: string where
  "settings_file = ''core/presenter/templ/pages/settings.templ''"

definition pages_Settings_Var5 :: "'w templ \<Rightarrow> 'w render" where
  "pages_Settings_Var5 lib =
     closure_template lib (steps
       [templruntime_WriteString lib 2 ''Anthropic API key ''])"

definition pages_Settings_Var6 :: "'w templ \<Rightarrow> 'w render" where
  "pages_Settings_Var6 lib =
     closure_template lib (steps
       [templruntime_WriteString lib 4 ''Used by the runner to call Claude Code on your behalf.''])"

definition pages_Settings_Var4 :: "'w templ \<Rightarrow> 'w render" where
  "pages_Settings_Var4 lib =
     closure_template lib (steps
       [ui_CardTitle lib (pages_Settings_Var5 lib),
        templruntime_WriteString lib 3 '' '',
        ui_CardDescription lib (pages_Settings_Var6 lib)])"

definition pages_Settings_Var9 :: "'w templ \<Rightarrow> 'w render" where
  "pages_Settings_Var9 lib =
     closure_template lib (steps
       [templruntime_WriteString lib 7 ''Configured. Re-submitting below will replace the stored key.''])"

definition pages_Settings_Var8 :: "'w templ \<Rightarrow> 'w render" where
  "pages_Settings_Var8 lib =
     closure_template lib (steps
       [ui_AlertDescription lib (pages_Settings_Var9 lib)])"

definition pages_Settings_Var11 :: "'w templ \<Rightarrow> 'w render" where
  "pages_Settings_Var11 lib =
     closure_template lib (steps
       [templruntime_WriteString lib 8 ''Not yet set. Paste your Anthropic API key to enable job execution.''])"

definition pages_Settings_Var10 :: "'w templ \<Rightarrow> 'w render" where
  "pages_Settings_Var10 lib =
     closure_template lib (steps
       [ui_AlertDescription lib (pages_Settings_Var11 lib)])"

definition pages_Settings_Var12 :: "'w templ \<Rightarrow> 'w render" where
  "pages_Settings_Var12 lib =
     closure_template lib (steps
       [templruntime_WriteString lib 10 ''Save ''])"

definition pages_Settings_Var7 :: "'w templ \<Rightarrow> bool \<Rightarrow> 'w render" where
  "pages_Settings_Var7 lib hasAnthropic =
     closure_template lib (steps
       [templruntime_WriteString lib 6 ''<div class=\"space-y-4\">'',
        if hasAnthropic then steps
           [ui_Alert lib ''success'' (pages_Settings_Var8 lib)]
          else steps
           [ui_Alert lib ''warning'' (pages_Settings_Var10 lib)],
        templruntime_WriteString lib 9 ''<form method=\"POST\" action=\"/settings/anthropic\" hx-post=\"/settings/anthropic\" hx-swap=\"none\" class=\"flex gap-2\">'',
        ui_Input lib ''api_key'' ''password'' ''sk-ant-...'' True skip,
        ui_Button lib ''primary'' ''submit'' (pages_Settings_Var12 lib),
        templruntime_WriteString lib 11 ''</form></div>''])"

definition pages_Settings_Var3 :: "'w templ \<Rightarrow> bool \<Rightarrow> 'w render" where
  "pages_Settings_Var3 lib hasAnthropic =
     closure_template lib (steps
       [ui_CardHeader lib (pages_Settings_Var4 lib),
        templruntime_WriteString lib 5 '' '',
        ui_CardContent lib (pages_Settings_Var7 lib hasAnthropic)])"

definition pages_Settings_Var15 :: "'w templ \<Rightarrow> 'w render" where
  "pages_Settings_Var15 lib =
     closure_template lib (steps
       [templruntime_WriteString lib 12 ''Personal API keys ''])"

definition pages_Settings_Var16 :: "'w templ \<Rightarrow> 'w render" where
  "pages_Settings_Var16 lib =
     closure_template lib (steps
       [templruntime_WriteString lib 14 ''Used by the <code class=\"font-mono text-xs bg-muted px-1.5 py-0.5 rounded\">/delegate</code> skill to authenticate to this server.''])"

definition pages_Settings_Var14 :: "'w templ \<Rightarrow> 'w render" where
  "pages_Settings_Var14 lib =
     closure_template lib (steps
       [ui_CardTitle lib (pages_Settings_Var15 lib),
        templruntime_WriteString lib 13 '' '',
        ui_CardDescription lib (pages_Settings_Var16 lib)])"

definition pages_Settings_Var18 :: "'w templ \<Rightarrow> 'w render" where
  "pages_Settings_Var18 lib =
     closure_template lib (steps
       [templruntime_WriteString lib 17 ''Mint ''])"

definition pages_Settings_Var17 :: "'w templ \<Rightarrow> APIKey list \<Rightarrow> 'w render" where
  "pages_Settings_Var17 lib keys =
     closure_template lib (steps
       [templruntime_WriteString lib 16 ''<form method=\"POST\" action=\"/settings/api-keys\" class=\"flex gap-2 mb-4\">'',
        ui_Input lib ''name'' ''text'' ''laptop, work-machine, ...'' True skip,
        ui_Button lib ''primary'' ''submit'' (pages_Settings_Var18 lib),
        templruntime_WriteString lib 18 ''</form>'',
        if keys \<noteq> [] then steps
           [templruntime_WriteString lib 19 ''<div class=\"rounded-md border border-border divide-y divide-border\">'',
            steps (map (\<lambda>k. steps
               [templruntime_WriteString lib 20 ''<div class=\"flex items-center justify-between px-4 py-3 text-sm\"><code class=\"font-mono text-xs\">'',
                write_text lib settings_file 64 78 (APIKey_Prefix k),
                templruntime_WriteString lib 21 ([CHR 0xE2, CHR 0x80, CHR 0xA6] @ ''</code> <span class=\"text-muted-foreground\">''),
                write_text lib settings_file 65 80 (APIKey_Name k),
                templruntime_WriteString lib 22 ''</span></div>'']) keys),
            templruntime_WriteString lib 23 ''</div>'']
          else steps
           [templruntime_WriteString lib 24 ''<p class=\"text-sm text-muted-foreground\">No keys yet.</p>'']])"

definition pages_Settings_Var13 :: "'w templ \<Rightarrow> APIKey list \<Rightarrow> 'w render" where
  "pages_Settings_Var13 lib keys =
     closure_template lib (steps
       [ui_CardHeader lib (pages_Settings_Var14 lib),
        templruntime_WriteString lib 15 '' '',
        ui_CardContent lib (pages_Settings_Var17 lib keys)])"

definition pages_Settings_Var2 :: "'w templ \<Rightarrow> APIKey list \<Rightarrow> bool \<Rightarrow> 'w render" where
  "pages_Settings_Var2 lib keys hasAnthropic =
     closure_template lib (steps
       [templruntime_WriteString lib 1 ''<div class=\"mb-8\"><h1 class=\"text-2xl font-semibold tracking-tight\">Settings</h1><p class=\"text-sm text-muted-foreground mt-1\">Credentials used by the agent runtime and the delegate skill.</p></div><div class=\"space-y-6\">'',
        ui_Card lib (pages_Settings_Var3 lib hasAnthropic),
        ui_Card lib (pages_Settings_Var13 lib keys),
        templruntime_WriteString lib 25 ''</div>''])"

definition pages_Settings :: "'w templ \<Rightarrow> APIKey list \<Rightarrow> bool \<Rightarrow> 'w component" where
  "pages_Settings lib keys hasAnthropic children =
     component_template lib (steps
       [layouts_Shell lib ''Settings'' (pages_Settings_Var2 lib keys hasAnthropic)])"

section \<open>status.templ\<close>

definition logRefreshTrigger :: "Job \<Rightarrow> string" where
  "logRefreshTrigger j =
     (if Job_Status j = JobStatusRunning \<or> Job_Status j = JobStatusQueued then ''every 2s'' else '''')"

definition status_file :: string where
  "status_file = ''core/presenter/templ/pages/status.templ''"

definition pages_Status_Var4 :: "'w templ \<Rightarrow> Job \<Rightarrow> 'w render" where
  "pages_Status_Var4 lib j =
     closure_template lib (steps
       [write_text lib status_file 18 42 (Job_Status j)])"

definition pages_Status_Var10 :: "'w templ \<Rightarrow> 'w render" where
  "pages_Status_Var10 lib =
     closure_template lib (steps
       [templruntime_WriteString lib 7 ''Pull request opened ''])"

definition pages_Status_Var11 :: "'w templ \<Rightarrow> Job \<Rightarrow> 'w render" where
  "pages_Status_Var11 lib j =
     closure_template lib (steps
       [templruntime_WriteString lib 9 ''<a href=\"'',
        write_url lib (SafeURL (Job_PRURL j)),
        templruntime_WriteString lib 10 ''\" class=\"underline underline-offset-4 break-all\">'',
        write_text lib status_file 32 115 (Job_PRURL j),
        templruntime_WriteString lib 11 ''</a>''])"

definition pages_Status_Var9 :: "'w templ \<Rightarrow> Job \<Rightarrow> 'w render" where
  "pages_Status_Var9 lib j =
     closure_template lib (steps
       [ui_AlertTitle lib (pages_Status_Var10 lib),
        templruntime_WriteString lib 8 '' '',
        ui_AlertDescription lib (pages_Status_Var11 lib j)])"

definition pages_Status_Var15 :: "'w templ \<Rightarrow> 'w render" where
  "pages_Status_Var15 lib =
     closure_template lib (steps
       [templruntime_WriteString lib 12 ''Job failed ''])"

definition pages_Status_Var16 :: "'w templ \<Rightarrow> Job \<Rightarrow> 'w render" where
  "pages_Status_Var16 lib j =
     closure_template lib (steps
       [templruntime_WriteString lib 14 ''<code class=\"font-mono text-xs break-all\">'',
        write_text lib status_file 41 75 (Job_Error j),
        templruntime_WriteString lib 15 ''</code>''])"

definition pages_Status_Var14 :: "'w templ \<Rightarrow> Job \<Rightarrow> 'w render" where
  "pages_Status_Var14 lib j =
     closure_template lib (steps
       [ui_AlertTitle lib (pages_Status_Var15 lib),
        templruntime_WriteString lib 13 '' '',
        ui_AlertDescription lib (pages_Status_Var16 lib j)])"

definition pages_Status_Var20 :: "'w templ \<Rightarrow> 'w render" where
  "pages_Status_Var20 lib =
     closure_template lib (steps
       [templruntime_WriteString lib 17 ''Logs ''])"

definition pages_Status_Var19 :: "'w templ \<Rightarrow> Job \<Rightarrow> 'w render" where
  "pages_Status_Var19 lib j =
     closure_template lib (steps
       [templruntime_WriteString lib 16 ''<div class=\"flex items-center justify-between\">'',
        ui_CardTitle lib (pages_Status_Var20 lib),
        templruntime_WriteString lib 18 ''<span class=\"text-xs text-muted-foreground\">'',
        if Job_Status j = JobStatusRunning \<or> Job_Status j = JobStatusQueued then steps
           [templruntime_WriteString lib 19 ''refreshes every 2s'']
          else steps
           [templruntime_WriteString lib 20 ''final''],
        templruntime_WriteString lib 21 ''</span></div>''])"

definition pages_Status_Var21 :: "'w templ \<Rightarrow> Job \<Rightarrow> string \<Rightarrow> 'w render" where
  "pages_Status_Var21 lib j logTail =
     closure_template lib (steps
       [templruntime_WriteString lib 23 ''<pre class=\"bg-black/60 text-zinc-100 font-mono text-xs p-4 rounded-md max-h-[60vh] overflow-auto\" hx-get=\"'',
        write_text lib status_file 61 66 (''/jobs/'' @ Job_ID j @ ''/log''),
        templruntime_WriteString lib 24 ''\" hx-trigger=\"'',
        write_text lib status_file 62 58 (logRefreshTrigger j),
        templruntime_WriteString lib 25 ''\" hx-swap=\"innerHTML\">'',
        write_text lib status_file 64 33 logTail,
        templruntime_WriteString lib 26 ''</pre>''])"

definition pages_Status_Var18 :: "'w templ \<Rightarrow> Job \<Rightarrow> string \<Rightarrow> 'w render" where
  "pages_Status_Var18 lib j logTail =
     closure_template lib (steps
       [ui_CardHeader lib (pages_Status_Var19 lib j),
        templruntime_WriteString lib 22 '' '',
        ui_CardContent lib (pages_Status_Var21 lib j logTail)])"

definition pages_Status_Var2 :: "'w templ \<Rightarrow> Job \<Rightarrow> string \<Rightarrow> 'w render" where
  "pages_Status_Var2 lib j logTail =
     closure_template lib (steps
       [templruntime_WriteString lib 1 ''<div class=\"space-y-6\"><div><div class=\"flex items-center gap-3 mb-2\"><h1 class=\"text-2xl font-semibold tracking-tight\">Job</h1><code class=\"font-mono text-sm bg-muted px-2 py-0.5 rounded\">'',
        write_text lib status_file 16 95 (Job_ID j),
        templruntime_WriteString lib 2 ''</code>'',
        ui_Badge lib (Job_Status j) (pages_Status_Var4 lib j),
        templruntime_WriteString lib 3 ''</div><p class=\"text-sm text-muted-foreground\"><strong class=\"text-foreground\">'',
        write_text lib status_file 22 60 (Job_Repo j),
        templruntime_WriteString lib 4 (''</strong> '' @ [CHR 0xC2, CHR 0xB7] @ '' branch <code class=\"font-mono\">''),
        write_text lib status_file 23 68 (Job_WorkBranch j),
        templruntime_WriteString lib 5 ''</code> (from <code class=\"font-mono\">'',
        write_text lib status_file 24 64 (Job_BaseBranch j),
        templruntime_WriteString lib 6 ''</code>)</p></div>'',
        if Job_PRURL j \<noteq> '''' then steps
           [ui_Alert lib ''success'' (pages_Status_Var9 lib j)]
          else skip,
        if Job_Error j \<noteq> '''' then steps
           [ui_Alert lib ''destructive'' (pages_Status_Var14 lib j)]
          else skip,
        ui_Card lib (pages_Status_Var18 lib j logTail),
        templruntime_WriteString lib 27 ''</div>''])"

definition pages_Status :: "'w templ \<Rightarrow> Job \<Rightarrow> string \<Rightarrow> 'w component" where
  "pages_Status lib j logTail children =
     component_template lib (steps
       [layouts_Shell lib (''Job '' @ Job_ID j) (pages_Status_Var2 lib j logTail)])"

end
