(* ===== verification/Page_Facts.thy ===== *)
theory Page_Facts
  imports Pages Accounts
begin

text \<open>
  What the rendered pages promise: their markup does not depend on what the texts of users and containers
  say, and where two such texts reach the browser unchecked. \<open>with_pages\<close> is the codec of the HTTP handlers
  whose pages are the generated ones, so that every theorem about the server speaks of them too.
\<close>

section \<open>The pages of the server\<close>

definition render_page :: "('w \<Rightarrow> string) \<Rightarrow> 'w \<Rightarrow> 'w component \<Rightarrow> string" where
  "render_page text w page = text (snd (page skip w))"

definition with_pages :: "'w templ \<Rightarrow> ('w \<Rightarrow> string) \<Rightarrow> 'w \<Rightarrow> http_codec \<Rightarrow> http_codec" where
  "with_pages lib text w c =
     c\<lparr>page_landing := render_page text w (pages_Landing lib),
       page_dashboard := (\<lambda>jobs. render_page text w (pages_Dashboard lib jobs)),
       page_settings := (\<lambda>keys has. render_page text w (pages_Settings lib keys has)),
       page_status := (\<lambda>j logTail. render_page text w (pages_Status lib j logTail))\<rparr>"

section \<open>A concrete library\<close>

definition html_EscapeChar :: "char \<Rightarrow> string" where
  "html_EscapeChar c =
     (if c = CHR ''&'' then ''&amp;'' else if c = CHR 0x27 then ''&#39;'' else if c = CHR ''<'' then ''&lt;''
      else if c = CHR ''>'' then ''&gt;'' else if c = CHR 0x22 then ''&#34;'' else [c])"

definition sample_templ :: "string templ" where
  "sample_templ =
     \<lparr>ctx_Err = (\<lambda>_. None), templ_GetBuffer = (\<lambda>w. (True, w)), templ_ReleaseBuffer = skip,
      templruntime_WriteString = (\<lambda>n s w. (None, w @ s)), templ_WriteString = (\<lambda>s w. (None, w @ s)),
      templ_RenderCSSItems = (\<lambda>_. skip), templ_CSSClasses = str_join '' '', templ_JoinStringErrs = Inr,
      templ_Error = (\<lambda>e _ _ _. e), templ_EscapeString = (\<lambda>s. concat (map html_EscapeChar s))\<rparr>"

lemma html_EscapeChar_markup: "filter is_markup (html_EscapeChar c) = ''''"
  by (simp add: html_EscapeChar_def is_markup_def)

lemma sample_templ_ok: "templ_ok sample_templ id"
proof -
  have "filter is_markup (concat (map html_EscapeChar s)) = ''''" for s
    by (induction s) (simp_all add: html_EscapeChar_markup)
  then show ?thesis by (simp add: templ_ok_def sample_templ_def appends_def skip_def)
qed

lemma sample_templ_up: "templ_up sample_templ"
  by (simp add: templ_up_def sample_templ_def skip_def)

section \<open>Texts cannot change the markup of a page\<close>

lemmas page_defs = pages_Landing_def pages_Landing_Var2_def pages_Landing_Var3_def
  pages_Dashboard_def pages_Dashboard_Var2_def pages_Dashboard_Var3_def pages_Dashboard_Var4_def
  pages_Dashboard_Var5_def pages_Dashboard_Var6_def pages_Dashboard_Var11_def
  pages_Settings_def pages_Settings_Var2_def pages_Settings_Var3_def pages_Settings_Var4_def
  pages_Settings_Var5_def pages_Settings_Var6_def pages_Settings_Var7_def pages_Settings_Var8_def
  pages_Settings_Var9_def pages_Settings_Var10_def pages_Settings_Var11_def pages_Settings_Var12_def
  pages_Settings_Var13_def pages_Settings_Var14_def pages_Settings_Var15_def pages_Settings_Var16_def
  pages_Settings_Var17_def pages_Settings_Var18_def
  pages_Status_def pages_Status_Var2_def pages_Status_Var4_def pages_Status_Var9_def pages_Status_Var10_def
  pages_Status_Var11_def pages_Status_Var14_def pages_Status_Var15_def pages_Status_Var16_def
  pages_Status_Var18_def pages_Status_Var19_def pages_Status_Var20_def pages_Status_Var21_def

text \<open>
  C39. Two successful renderings of the dashboard for as many jobs, of the settings for as many
  keys, or of the status page for jobs with the same presence of a link, an error and a refresh
  write the same markup characters: no text of a user, a repository or a log can open a tag or
  end an attribute of a page.
\<close>

theorem page_markup_fixed:
  assumes "templ_ok lib text" and "length js = length js'" and "length ks = length ks'"
    and "Job_PRURL j = '''' \<longleftrightarrow> Job_PRURL j' = ''''" and "Job_Error j = '''' \<longleftrightarrow> Job_Error j' = ''''"
    and "Job_Status j \<in> {JobStatusRunning, JobStatusQueued} \<longleftrightarrow> Job_Status j' \<in> {JobStatusRunning, JobStatusQueued}"
  shows "same_markup text (pages_Dashboard lib js skip) (pages_Dashboard lib js' skip)
    \<and> same_markup text (pages_Settings lib ks has skip) (pages_Settings lib ks' has skip)
    \<and> same_markup text (pages_Status lib j logTail skip) (pages_Status lib j' logTail' skip)"
proof (intro conjI)
  have empty: "js = [] \<longleftrightarrow> js' = []" "ks \<noteq> [] \<longleftrightarrow> ks' \<noteq> []"
    using assms(2,3) by (metis length_0_conv)+
  have flags: "Job_PRURL j \<noteq> '''' \<longleftrightarrow> Job_PRURL j' \<noteq> ''''" "Job_Error j \<noteq> '''' \<longleftrightarrow> Job_Error j' \<noteq> ''''"
    "Job_Status j = JobStatusRunning \<or> Job_Status j = JobStatusQueued
      \<longleftrightarrow> Job_Status j' = JobStatusRunning \<or> Job_Status j' = JobStatusQueued"
    using assms(4-6) by simp_all
  show "same_markup text (pages_Dashboard lib js skip) (pages_Dashboard lib js' skip)"
    unfolding page_defs by (intro markup assms(1,2) empty)
  show "same_markup text (pages_Settings lib ks has skip) (pages_Settings lib ks' has skip)"
    unfolding page_defs by (intro markup assms(1,3) empty refl)
  show "same_markup text (pages_Status lib j logTail skip) (pages_Status lib j' logTail' skip)"
    unfolding page_defs by (intro markup assms(1) flags)
qed

lemma pages_total:
  assumes "templ_up lib"
  shows "succeeds (pages_Landing lib skip)" and "succeeds (pages_Dashboard lib js skip)"
    and "succeeds (pages_Settings lib ks has skip)" and "succeeds (pages_Status lib j logTail skip)"
  unfolding page_defs by (intro total assms)+

theorem page_markup_fixed_witness:
  "filter is_markup (render_page id '''' (pages_Dashboard sample_templ [sample_queued\<lparr>Job_Repo := ''<script>''\<rparr>]))
   = filter is_markup (render_page id '''' (pages_Dashboard sample_templ [sample_queued]))"
proof -
  have "same_markup id (pages_Dashboard sample_templ [sample_queued\<lparr>Job_Repo := ''<script>''\<rparr>] skip)
      (pages_Dashboard sample_templ [sample_queued] skip)"
    by (rule page_markup_fixed [OF sample_templ_ok, THEN conjunct1]) simp_all
  then show ?thesis
    using pages_total(2) [OF sample_templ_up]
    unfolding same_markup_def succeeds_def render_page_def by (metis append_Nil id_apply prod.collapse)
qed

section \<open>Texts of the container that the status page hands to the browser\<close>

lemma contains_three:
  assumes "appends text a r" and "appends text b q" and "appends text c p" and "contains_text text '''' (steps rs)"
  shows "contains_text text (a @ b @ c) (steps (r # q # p # rs))"
proof -
  have "\<exists>p' q'. text w' = text w @ p' @ (a @ b @ c) @ q'"
    if "steps (r # q # p # rs) w = (None, w')" for w w'
  proof -
    from that obtain w1 w2 w3 where w: "r w = (None, w1)" "q w1 = (None, w2)" "p w2 = (None, w3)" "steps rs w3 = (None, w')"
      unfolding steps_Cons_run by blast
    have "text w3 = text w @ a @ b @ c" using w(1-3) assms(1-3) by (simp add: appends_def)
    moreover obtain q' where "text w' = text w3 @ q'" using assms(4) w(4) unfolding contains_text_def by blast
    ultimately show ?thesis by (intro exI [of _ "''''"] exI [of _ q']) simp
  qed
  then show ?thesis unfolding contains_text_def by blast
qed

lemma status_contains:
  assumes ok: "templ_ok lib text"
  shows "Job_PRURL j \<noteq> '''' \<Longrightarrow> contains_text text s (pages_Status_Var11 lib j)
      \<Longrightarrow> contains_text text s (pages_Status lib j logTail skip)"
    and "contains_text text s (pages_Status_Var21 lib j logTail) \<Longrightarrow> contains_text text s (pages_Status lib j logTail skip)"
proof -
  have shell: "contains_text text s (pages_Status_Var2 lib j logTail) \<Longrightarrow> contains_text text s (pages_Status lib j logTail skip)"
    unfolding pages_Status_def
    by (intro contains_component contains_head components_grow(15) contains_steps_Nil ok)
  {
    assume url: "Job_PRURL j \<noteq> ''''" and link: "contains_text text s (pages_Status_Var11 lib j)"
    have "contains_text text s (pages_Status_Var9 lib j)"
      unfolding pages_Status_Var9_def pages_Status_Var10_def
      by (rule contains_closure [OF ok],
          (rule contains_head [OF components_grow(12) [OF ok link]] | rule contains_tail, (intro grows ok)[1])+,
          intro grows)
    then have alert: "contains_text text s (if Job_PRURL j \<noteq> '''' then steps [ui_Alert lib ''success'' (pages_Status_Var9 lib j)] else skip)"
      unfolding if_P [OF url] by (intro contains_head components_grow(10) contains_steps_Nil ok)
    show "contains_text text s (pages_Status lib j logTail skip)"
      by (rule shell, unfold pages_Status_Var2_def, rule contains_closure [OF ok],
          (rule contains_head [OF alert] | rule contains_tail, ((unfold page_defs)?, intro grows ok)[1])+,
          intro grows)
  }
  {
    assume log: "contains_text text s (pages_Status_Var21 lib j logTail)"
    have "contains_text text s (pages_Status_Var18 lib j logTail)"
      unfolding pages_Status_Var18_def pages_Status_Var19_def pages_Status_Var20_def
      by (rule contains_closure [OF ok],
          (rule contains_head [OF components_grow(8) [OF ok log]] | rule contains_tail, (intro grows ok)[1])+,
          intro grows)
    note card = components_grow(4) [OF ok this]
    show "contains_text text s (pages_Status lib j logTail skip)"
      by (rule shell, unfold pages_Status_Var2_def, rule contains_closure [OF ok],
          (rule contains_head [OF card] | rule contains_tail, ((unfold page_defs)?, intro grows ok)[1])+,
          intro grows)
  }
qed

lemma rendered_contains:
  assumes "contains_text text s (page skip)" and "succeeds (page skip)" and "text w = ''''"
  shows "\<exists>p q. render_page text w page = p @ s @ q"
proof -
  obtain w' where "page skip w = (None, w')" using assms(2) unfolding succeeds_def by (metis prod.collapse)
  then show ?thesis using assms(1,3) unfolding contains_text_def render_page_def by fastforce
qed


definition sample_link_host :: host where
  "sample_link_host = sample_host\<lparr>db_jobs := [fromJob (sample_done\<lparr>Job_PRURL := ''javascript:alert(1)''\<rparr>)]\<rparr>"


end
