(* ===== verification/Gen_Server.thy ===== *)
theory Gen_Server
  imports Server
begin

text \<open>
  The HTTP layer that oapi-codegen generated (\<open>core/adapter/http/gen/server.go\<close>), the adapter \<open>handlerImpl\<close>
  of \<open>jobs_handler.go\<close>, and the table of routes as \<open>NewRouter\<close> of \<open>router.go\<close> and \<open>routeMounter\<close> of
  \<open>main.go\<close> build it. A handler reads the request with its context: the user, the scopes and the
  parameters of the matched pattern. Binding of parameters is in the oapi-codegen runtime and is a
  parameter; the matching of a pattern is what the chi router documents. The last section shows that the
  table answers every request exactly as the function \<open>serve\<close> of the theory \<open>Server\<close> does.
\<close>

section \<open>Enumerations and error types\<close>

definition JobStatus_Valid :: "string \<Rightarrow> bool" where
  "JobStatus_Valid e \<longleftrightarrow>
     (if e = ''cancelled'' then True else if e = ''failed'' then True else if e = ''queued'' then True
      else if e = ''running'' then True else e = ''succeeded'')"

definition SourceType_Valid :: "string \<Rightarrow> bool" where
  "SourceType_Valid e \<longleftrightarrow> (if e = ''inline'' then True else if e = ''path'' then True else e = ''url'')"

datatype gen_error =
    UnescapedCookieParamError string go_error
  | UnmarshalingParamError string go_error
  | RequiredParamError string
  | RequiredHeaderError string go_error
  | InvalidParamFormatError string go_error
  | TooManyValuesForParamError string int

fun gen_error_Error :: "gen_error \<Rightarrow> string" where
  "gen_error_Error (UnescapedCookieParamError p _) =
     ''error unescaping cookie parameter '' @ [CHR 0x27] @ p @ [CHR 0x27]"
| "gen_error_Error (UnmarshalingParamError p e) =
     ''Error unmarshaling parameter '' @ p @ '' as JSON: '' @ error_text e"
| "gen_error_Error (RequiredParamError p) = ''Query argument '' @ p @ '' is required, but not found''"
| "gen_error_Error (RequiredHeaderError p _) = ''Header parameter '' @ p @ '' is required, but not found''"
| "gen_error_Error (InvalidParamFormatError p e) =
     ''Invalid format for parameter '' @ p @ '': '' @ error_text e"
| "gen_error_Error (TooManyValuesForParamError p n) = ''Expected one value for '' @ p @ '', got '' @ Itoa n"

fun gen_error_Unwrap :: "gen_error \<Rightarrow> go_error option" where
  "gen_error_Unwrap (UnescapedCookieParamError _ e) = Some e"
| "gen_error_Unwrap (UnmarshalingParamError _ e) = Some e"
| "gen_error_Unwrap (RequiredHeaderError _ e) = Some e"
| "gen_error_Unwrap (InvalidParamFormatError _ e) = Some e"
| "gen_error_Unwrap _ = None"

section \<open>Requests in their context\<close>

record request_ctx =
  rc_request :: http_in
  rc_UserID :: "UserID option"
  rc_BearerAuthScopes :: "string list option"
  rc_URLParams :: "(string \<times> string) list"

type_synonym 's handler = "request_ctx \<Rightarrow> 's \<Rightarrow> http_out \<times> 's"

definition UserFromContext :: "request_ctx \<Rightarrow> UserID \<times> bool" where
  "UserFromContext r = (case rc_UserID r of Some uid \<Rightarrow> (uid, True) | None \<Rightarrow> ('''', False))"

definition URLParam :: "request_ctx \<Rightarrow> string \<Rightarrow> string" where
  "URLParam r key = get_or_empty (rc_URLParams r) key"

definition with_scopes :: "request_ctx \<Rightarrow> request_ctx" where
  "with_scopes r = r\<lparr>rc_BearerAuthScopes := Some []\<rparr>"

text \<open>The middleware of \<open>middleware.go\<close> on handlers with a context.\<close>

definition session_guard :: "(http_in \<Rightarrow> ('s, UserID) act) \<Rightarrow> 's handler \<Rightarrow> 's handler" where
  "session_guard resolve next r s =
     BearerOrSession resolve (\<lambda>uid req. next (r\<lparr>rc_UserID := Some uid\<rparr>)) (rc_request r) s"

section \<open>The generated wrapper\<close>

datatype bind_error = RequiredParameterError | BindError go_error

record oapi_runtime =
  BindQueryLimit :: "(string \<times> string) list \<Rightarrow> bind_error + int option"
  BindPathId :: "string \<Rightarrow> go_error + string"

record 's ServerInterface =
  si_ListJobs :: "int option \<Rightarrow> 's handler"
  si_EnqueueJob :: "'s handler"
  si_GetJob :: "string \<Rightarrow> 's handler"
  si_SetAnthropicCredentials :: "'s handler"
  si_MintAPIKey :: "'s handler"

definition Unimplemented :: "'s ServerInterface" where
  "Unimplemented =
     \<lparr>si_ListJobs = (\<lambda>params r s. (http_status 501, s)), si_EnqueueJob = (\<lambda>r s. (http_status 501, s)),
      si_GetJob = (\<lambda>i r s. (http_status 501, s)), si_SetAnthropicCredentials = (\<lambda>r s. (http_status 501, s)),
      si_MintAPIKey = (\<lambda>r s. (http_status 501, s))\<rparr>"

type_synonym 's error_handler = "request_ctx \<Rightarrow> gen_error \<Rightarrow> 's \<Rightarrow> http_out \<times> 's"

record 's ServerInterfaceWrapper =
  siw_Handler :: "'s ServerInterface"
  siw_HandlerMiddlewares :: "('s handler \<Rightarrow> 's handler) list"
  siw_ErrorHandlerFunc :: "'s error_handler"

definition apply_middlewares :: "('s handler \<Rightarrow> 's handler) list \<Rightarrow> 's handler \<Rightarrow> 's handler" where
  "apply_middlewares ms handler = foldl (\<lambda>h middleware. middleware h) handler ms"

definition siw_ListJobs :: "oapi_runtime \<Rightarrow> 's ServerInterfaceWrapper \<Rightarrow> 's handler" where
  "siw_ListJobs rt siw r s =
     (let r1 = with_scopes r
      in case BindQueryLimit rt (in_Query (rc_request r1)) of
           Inl RequiredParameterError \<Rightarrow> siw_ErrorHandlerFunc siw r1 (RequiredParamError ''limit'') s
         | Inl (BindError e) \<Rightarrow> siw_ErrorHandlerFunc siw r1 (InvalidParamFormatError ''limit'' e) s
         | Inr limit \<Rightarrow>
             apply_middlewares (siw_HandlerMiddlewares siw) (si_ListJobs (siw_Handler siw) limit) r1 s)"

definition siw_EnqueueJob :: "'s ServerInterfaceWrapper \<Rightarrow> 's handler" where
  "siw_EnqueueJob siw r s =
     apply_middlewares (siw_HandlerMiddlewares siw) (si_EnqueueJob (siw_Handler siw)) (with_scopes r) s"

definition siw_GetJob :: "oapi_runtime \<Rightarrow> 's ServerInterfaceWrapper \<Rightarrow> 's handler" where
  "siw_GetJob rt siw r s =
     (case BindPathId rt (URLParam r ''id'') of
        Inl e \<Rightarrow> siw_ErrorHandlerFunc siw r (InvalidParamFormatError ''id'' e) s
      | Inr i \<Rightarrow>
          apply_middlewares (siw_HandlerMiddlewares siw) (si_GetJob (siw_Handler siw) i) (with_scopes r) s)"

definition siw_SetAnthropicCredentials :: "'s ServerInterfaceWrapper \<Rightarrow> 's handler" where
  "siw_SetAnthropicCredentials siw r s =
     apply_middlewares (siw_HandlerMiddlewares siw) (si_SetAnthropicCredentials (siw_Handler siw)) (with_scopes r) s"

definition siw_MintAPIKey :: "'s ServerInterfaceWrapper \<Rightarrow> 's handler" where
  "siw_MintAPIKey siw r s =
     apply_middlewares (siw_HandlerMiddlewares siw) (si_MintAPIKey (siw_Handler siw)) (with_scopes r) s"

text \<open>A router is the list of what was registered: the method (none for all), the pattern, the handler.\<close>

type_synonym 's router = "(string option \<times> string \<times> 's handler) list"

record 's ChiServerOptions =
  opt_BaseURL :: string
  opt_BaseRouter :: "'s router option"
  opt_Middlewares :: "('s handler \<Rightarrow> 's handler) list"
  opt_ErrorHandlerFunc :: "'s error_handler option"

definition default_error_handler :: "'s error_handler" where
  "default_error_handler r err s = (http_Error (gen_error_Error err) 400, s)"

definition HandlerWithOptions :: "oapi_runtime \<Rightarrow> 's ServerInterface \<Rightarrow> 's ChiServerOptions \<Rightarrow> 's router" where
  "HandlerWithOptions rt si options =
     (let r = (case opt_BaseRouter options of None \<Rightarrow> [] | Some r \<Rightarrow> r);
          errorHandler = (case opt_ErrorHandlerFunc options of None \<Rightarrow> default_error_handler | Some f \<Rightarrow> f);
          wrapper = \<lparr>siw_Handler = si, siw_HandlerMiddlewares = opt_Middlewares options,
                     siw_ErrorHandlerFunc = errorHandler\<rparr>;
          base = opt_BaseURL options
      in r @ [(Some ''GET'', base @ ''/api/jobs'', siw_ListJobs rt wrapper),
              (Some ''POST'', base @ ''/api/jobs'', siw_EnqueueJob wrapper),
              (Some ''GET'', base @ ''/api/jobs/{id}'', siw_GetJob rt wrapper),
              (Some ''POST'', base @ ''/settings/anthropic'', siw_SetAnthropicCredentials wrapper),
              (Some ''POST'', base @ ''/settings/api-keys'', siw_MintAPIKey wrapper)])"

definition no_options :: "'s ChiServerOptions" where
  "no_options = \<lparr>opt_BaseURL = '''', opt_BaseRouter = None, opt_Middlewares = [], opt_ErrorHandlerFunc = None\<rparr>"

definition Handler :: "oapi_runtime \<Rightarrow> 's ServerInterface \<Rightarrow> 's router" where
  "Handler rt si = HandlerWithOptions rt si no_options"

definition HandlerFromMux :: "oapi_runtime \<Rightarrow> 's ServerInterface \<Rightarrow> 's router \<Rightarrow> 's router" where
  "HandlerFromMux rt si r = HandlerWithOptions rt si (no_options\<lparr>opt_BaseRouter := Some r\<rparr>)"

definition HandlerFromMuxWithBaseURL :: "oapi_runtime \<Rightarrow> 's ServerInterface \<Rightarrow> 's router \<Rightarrow> string \<Rightarrow> 's router" where
  "HandlerFromMuxWithBaseURL rt si r baseURL =
     HandlerWithOptions rt si (no_options\<lparr>opt_BaseURL := baseURL, opt_BaseRouter := Some r\<rparr>)"

section \<open>The table of routes\<close>

definition handlerImpl :: "deps \<Rightarrow> Config \<Rightarrow> 'z host_scheme ServerInterface" where
  "handlerImpl D cfg =
     \<lparr>si_ListJobs = (\<lambda>limit r s. JobsHandler_ListJobs (dep_zone D) JobsRepo (fst (UserFromContext r)) limit s),
      si_EnqueueJob = (\<lambda>r s.
        JobsHandler_EnqueueJob (srv_enqueue D cfg) (fst (UserFromContext r)) (rc_request r) s),
      si_GetJob = (\<lambda>i r s. JobsHandler_GetJob (dep_zone D) JobsRepo (fst (UserFromContext r)) i s),
      si_SetAnthropicCredentials = (\<lambda>r s.
        SettingsHandler_SetAnthropic (srv_secrets D cfg) (fst (UserFromContext r)) (rc_request r) s),
      si_MintAPIKey = (\<lambda>r s.
        SettingsHandler_MintAPIKey (srv_mint D) (fst (UserFromContext r)) (rc_request r) s)\<rparr>"

definition RegisterRoutes :: "deps \<Rightarrow> Config \<Rightarrow> 'z host_scheme router" where
  "RegisterRoutes D cfg =
     [(Some ''GET'', ''/login'', \<lambda>r s. OAuth_Login (srv_oauth cfg) s),
      (Some ''GET'', ''/auth/github/callback'', \<lambda>r s. OAuth_Callback (dep_json_errors D) (srv_oauth cfg) (rc_request r) s),
      (Some ''GET'', ''/auth/github-app/install'', \<lambda>r s. (Install_Install (cfg_GHAppSlug cfg), s)),
      (Some ''GET'', ''/auth/github-app/callback'', \<lambda>r s.
         Install_Callback (dep_json_errors D) (dep_ghi D) (srv_app cfg) (srv_sessions cfg) InstallationsRepo_Upsert (rc_request r) s),
      (Some ''POST'', ''/webhooks/github'', \<lambda>r s.
         Webhook_Handle (cfg_GHWebhookSecret cfg) InstallationsRepo_Delete (rc_request r) s)]"

text \<open>The group behind the middleware: the generated routes, then those mounted directly.\<close>

definition api_group :: "oapi_runtime \<Rightarrow> deps \<Rightarrow> Config \<Rightarrow> 'z host_scheme router" where
  "api_group rt D cfg =
     HandlerFromMux rt (handlerImpl D cfg) [] @
     [(Some ''POST'', ''/api/jobs/{id}/cancel'', \<lambda>r s.
         JobsHandler_Cancel (srv_cancel D cfg) (fst (UserFromContext r)) (URLParam r ''id'') s),
      (Some ''DELETE'', ''/settings/api-keys/{id}'', \<lambda>r s.
         SettingsHandler_RevokeAPIKey (srv_keys D) (fst (UserFromContext r)) (URLParam r ''id'') s),
      (Some ''GET'', ''/dashboard'', \<lambda>r s. Dashboard_Dashboard (dep_codec D) JobsRepo (fst (UserFromContext r)) s),
      (Some ''GET'', ''/settings'', \<lambda>r s.
         Dashboard_Settings (dep_codec D) (srv_keys D) (srv_secrets D cfg) (fst (UserFromContext r)) s),
      (Some ''GET'', ''/jobs/{id}'', \<lambda>r s.
         StatusPage_Render (dep_codec D) JobsRepo (fst (UserFromContext r)) (URLParam r ''id'') s),
      (Some ''GET'', ''/jobs/{id}/log'', \<lambda>r s.
         StatusPage_LogTail JobsRepo (fst (UserFromContext r)) (URLParam r ''id'') s)]"

text \<open>\<open>StripPrefix\<close> leaves of the path of a static file what the wildcard of its pattern matched.\<close>

definition NewRouter :: "oapi_runtime \<Rightarrow> deps \<Rightarrow> Config \<Rightarrow> 'z host_scheme router" where
  "NewRouter rt D cfg =
     [(Some ''GET'', ''/healthz'', \<lambda>r s. Healthz s),
      (Some ''GET'', ''/'', \<lambda>r s. Dashboard_Landing (dep_codec D) (Some (srv_resolve D cfg)) (rc_request r) s),
      (None, ''/static/*'', \<lambda>r s. (static_file (dep_codec D) (URLParam r ''*''), s))]
     @ RegisterRoutes D cfg
     @ map (\<lambda>(m, p, h). (m, p, session_guard (srv_resolve D cfg) h)) (api_group rt D cfg)"

section \<open>What chi documents of matching\<close>

text \<open>
  By the segments of pattern and path: a literal matches itself, a parameter in braces any segment (but
  not an empty rest of the path), a final star the rest.
\<close>

fun match_segments :: "string list \<Rightarrow> string list \<Rightarrow> (string \<times> string) list option" where
  "match_segments [] [] = Some []"
| "match_segments (p # ps) (x # xs) =
     (if p = ''*'' then Some [(p, str_join ''/'' (x # xs))]
      else if p \<noteq> '''' \<and> hd p = CHR ''{'' then
        (if x = '''' \<and> xs = [] then None
         else map_option ((#) (butlast (tl p), x)) (match_segments ps xs))
      else if x = p then match_segments ps xs
      else None)"
| "match_segments _ _ = None"

definition chi_matches :: "(string option \<times> string \<times> 'h) list \<Rightarrow> string \<Rightarrow> (string option \<times> (string \<times> string) list \<times> 'h) list" where
  "chi_matches table path =
     List.map_filter (\<lambda>(m, p, h).
       map_option (\<lambda>ps. (m, ps, h)) (match_segments (split_on (CHR ''/'') p) (split_on (CHR ''/'') path))) table"

definition chi_route :: "(string option \<times> string \<times> 'h) list \<Rightarrow> string \<Rightarrow> string \<Rightarrow> int + (string \<times> string) list \<times> 'h" where
  "chi_route table meth path =
     (case chi_matches table path of
        [] \<Rightarrow> Inl 404
      | ms \<Rightarrow> (case find (\<lambda>(m, _). m = None \<or> m = Some meth) ms of
                 None \<Rightarrow> Inl 405
               | Some (_, ps, h) \<Rightarrow> Inr (ps, h)))"

definition ServeHTTP :: "'s router \<Rightarrow> http_in \<Rightarrow> 's \<Rightarrow> http_out \<times> 's" where
  "ServeHTTP table r s =
     (case chi_route table (in_Method r) (in_Path r) of
        Inl code \<Rightarrow> (http_status code, s)
      | Inr (ps, h) \<Rightarrow>
          h \<lparr>rc_request = r, rc_UserID = None, rc_BearerAuthScopes = None, rc_URLParams = ps\<rparr> s)"

section \<open>The table and the function \<open>serve\<close>\<close>

definition gen_codec :: "oapi_runtime \<Rightarrow> http_codec \<Rightarrow> http_codec" where
  "gen_codec rt c =
     c\<lparr>bind_limit := (\<lambda>q. case BindQueryLimit rt q of
          Inl RequiredParameterError \<Rightarrow> Inl (Opaque (gen_error_Error (RequiredParamError ''limit'')))
        | Inl (BindError e) \<Rightarrow> Inl (Opaque (gen_error_Error (InvalidParamFormatError ''limit'' e)))
        | Inr limit \<Rightarrow> Inr limit),
       bind_id := (\<lambda>i. case BindPathId rt i of
          Inl e \<Rightarrow> Inl (Opaque (gen_error_Error (InvalidParamFormatError ''id'' e)))
        | Inr jid \<Rightarrow> Inr jid)\<rparr>"

definition id_param :: "(string \<times> string) list \<Rightarrow> string" where
  "id_param ps = get_or_empty ps ''id''"

definition route_table :: "(string option \<times> string \<times> ((string \<times> string) list \<Rightarrow> route)) list" where
  "route_table =
     [(Some ''GET'', ''/healthz'', \<lambda>ps. R_Healthz), (Some ''GET'', ''/'', \<lambda>ps. R_Landing),
      (None, ''/static/*'', \<lambda>ps. R_Static (get_or_empty ps ''*'')),
      (Some ''GET'', ''/login'', \<lambda>ps. R_Login), (Some ''GET'', ''/auth/github/callback'', \<lambda>ps. R_OAuthCallback),
      (Some ''GET'', ''/auth/github-app/install'', \<lambda>ps. R_Install),
      (Some ''GET'', ''/auth/github-app/callback'', \<lambda>ps. R_InstallCallback),
      (Some ''POST'', ''/webhooks/github'', \<lambda>ps. R_Webhook),
      (Some ''GET'', ''/api/jobs'', \<lambda>ps. R_ListJobs), (Some ''POST'', ''/api/jobs'', \<lambda>ps. R_EnqueueJob),
      (Some ''GET'', ''/api/jobs/{id}'', \<lambda>ps. R_GetJob (id_param ps)),
      (Some ''POST'', ''/settings/anthropic'', \<lambda>ps. R_SetAnthropic),
      (Some ''POST'', ''/settings/api-keys'', \<lambda>ps. R_MintAPIKey),
      (Some ''POST'', ''/api/jobs/{id}/cancel'', \<lambda>ps. R_Cancel (id_param ps)),
      (Some ''DELETE'', ''/settings/api-keys/{id}'', \<lambda>ps. R_RevokeAPIKey (id_param ps)),
      (Some ''GET'', ''/dashboard'', \<lambda>ps. R_Dashboard), (Some ''GET'', ''/settings'', \<lambda>ps. R_Settings),
      (Some ''GET'', ''/jobs/{id}'', \<lambda>ps. R_Status (id_param ps)),
      (Some ''GET'', ''/jobs/{id}/log'', \<lambda>ps. R_LogTail (id_param ps))]"

definition route_handler :: "deps \<Rightarrow> Config \<Rightarrow> ((string \<times> string) list \<Rightarrow> route) \<Rightarrow> 'z host_scheme handler" where
  "route_handler D cfg mk r s = serve_route D cfg (mk (rc_URLParams r)) (rc_request r) s"

lemma route_handler_guard:
  assumes "\<And>ps. authenticated (mk ps)"
    and "\<And>uid r s. next (r\<lparr>rc_UserID := Some uid\<rparr>) s = serve_user D cfg (mk (rc_URLParams r)) uid (rc_request r) s"
  shows "session_guard (srv_resolve D cfg) next = route_handler D cfg mk"
proof -
  have "session_guard (srv_resolve D cfg) next r s = route_handler D cfg mk r s" for r s
    using assms by (simp add: session_guard_def route_handler_def serve_route_def BearerOrSession_def split_beta
        split: sum.split)
  then show ?thesis by (simp add: fun_eq_iff)
qed

lemma route_handler_public:
  assumes "\<And>ps. \<not> authenticated (mk ps)" and "\<And>r s. h r s = serve_public D cfg (mk (rc_URLParams r)) (rc_request r) s"
  shows "h = route_handler D cfg mk"
  using assms by (simp add: fun_eq_iff route_handler_def serve_route_def)

lemma NewRouter_table:
  assumes "dep_codec D = gen_codec rt c"
  shows "NewRouter rt D cfg = map (\<lambda>(m, p, mk). (m, p, route_handler D cfg mk)) route_table"
proof -
  have limit: "bind_limit (dep_codec D) q = (case BindQueryLimit rt q of
          Inl RequiredParameterError \<Rightarrow> Inl (Opaque (gen_error_Error (RequiredParamError ''limit'')))
        | Inl (BindError e) \<Rightarrow> Inl (Opaque (gen_error_Error (InvalidParamFormatError ''limit'' e)))
        | Inr limit \<Rightarrow> Inr limit)" for q
    by (simp add: assms gen_codec_def)
  have jid: "bind_id (dep_codec D) i = (case BindPathId rt i of
          Inl e \<Rightarrow> Inl (Opaque (gen_error_Error (InvalidParamFormatError ''id'' e))) | Inr jid \<Rightarrow> Inr jid)" for i
    by (simp add: assms gen_codec_def)
  note wrapper = handlerImpl_def siw_ListJobs_def siw_EnqueueJob_def siw_GetJob_def siw_SetAnthropicCredentials_def
    siw_MintAPIKey_def with_scopes_def apply_middlewares_def default_error_handler_def UserFromContext_def URLParam_def
    id_param_def limit jid
  show ?thesis
    unfolding NewRouter_def RegisterRoutes_def api_group_def HandlerFromMux_def HandlerWithOptions_def no_options_def
      route_table_def
    by (simp add: Let_def)
      (intro conjI route_handler_guard route_handler_public; simp add: wrapper split: sum.split bind_error.split)
qed

lemma chi_matches_map:
  "chi_matches (map (\<lambda>(m, p, k). (m, p, g k)) t) path = map (\<lambda>(m, ps, k). (m, ps, g k)) (chi_matches t path)"
  by (induction t) (auto simp: chi_matches_def List.map_filter_simps split: option.split)

lemma chi_route_find:
  "chi_route t meth path = (if chi_matches t path = [] then Inl 404
     else case find (\<lambda>(m, _). m = None \<or> m = Some meth) (chi_matches t path) of
       None \<Rightarrow> Inl 405 | Some (_, ps, h) \<Rightarrow> Inr (ps, h))"
  by (cases "chi_matches t path") (simp_all add: chi_route_def)

lemma chi_route_map:
  "chi_route (map (\<lambda>(m, p, k). (m, p, g k)) t) meth path
   = (case chi_route t meth path of Inl code \<Rightarrow> Inl code | Inr (ps, k) \<Rightarrow> Inr (ps, g k))"
proof -
  have "find (\<lambda>(m, _). m = None \<or> m = Some meth) (map (\<lambda>(m, ps, k). (m, ps, g k)) ms)
      = map_option (\<lambda>(m, ps, k). (m, ps, g k)) (find (\<lambda>(m, _). m = None \<or> m = Some meth) ms)" for ms :: "(string option \<times> (string \<times> string) list \<times> 'b) list"
    by (induction ms) auto
  then show ?thesis by (auto simp: chi_route_find chi_matches_map split: option.split)
qed

lemma find_map_of:
  "\<forall>(m, ps, k) \<in> set ms. m \<noteq> None \<Longrightarrow>
   map_of (map (\<lambda>(m, ps, k). (the m, k ps)) ms) meth
   = map_option (\<lambda>(m, ps, k). k ps) (find (\<lambda>(m, _). m = None \<or> m = Some meth) ms)"
  by (induction ms) auto

lemma static_segments:
  "HasPrefix path ''/static/'' \<longleftrightarrow> (\<exists>x xs. split_on (CHR ''/'') path = '''' # ''static'' # x # xs
     \<and> drop (length ''/static/'') path = str_join ''/'' (x # xs))"
proof
  assume "HasPrefix path ''/static/''"
  then obtain rest where path: "path = ''/static/'' @ rest" by (auto simp: HasPrefix_iff)
  obtain x xs where "split_on (CHR ''/'') rest = x # xs" by (metis list.exhaust split_on_not_Nil)
  then show "\<exists>x xs. split_on (CHR ''/'') path = '''' # ''static'' # x # xs
     \<and> drop (length ''/static/'') path = str_join ''/'' (x # xs)"
    using str_join_split [of "CHR ''/''" rest] split_on_append [of "CHR ''/''" "''static''" rest] by (simp add: path)
next
  assume "\<exists>x xs. split_on (CHR ''/'') path = '''' # ''static'' # x # xs
     \<and> drop (length ''/static/'') path = str_join ''/'' (x # xs)"
  then obtain x xs where "split_on (CHR ''/'') path = '''' # ''static'' # x # xs" by blast
  then have "path = ''/static/'' @ str_join ''/'' (x # xs)"
    using str_join_split [of "CHR ''/''" path] by simp
  then show "HasPrefix path ''/static/''" by (simp add: HasPrefix_iff)
qed

definition table_matches :: "string list \<Rightarrow> (string option \<times> (string \<times> string) list \<times> ((string \<times> string) list \<Rightarrow> route)) list" where
  "table_matches ss = List.map_filter (\<lambda>(m, p, h). map_option (\<lambda>ps. (m, ps, h)) (match_segments (split_on (CHR ''/'') p) ss)) route_table"

lemmas table_simps = table_matches_def route_table_def List.map_filter_simps id_param_def

lemma table_one: "map (\<lambda>(m, ps, mk). (the m, mk ps)) (table_matches ['''', x]) =
   (if x = '''' then [(''GET'', R_Landing)] else if x = ''healthz'' then [(''GET'', R_Healthz)]
          else if x = ''login'' then [(''GET'', R_Login)]
          else if x = ''dashboard'' then [(''GET'', R_Dashboard)]
          else if x = ''settings'' then [(''GET'', R_Settings)]
          else [])"
proof -
  consider "x = ''''" | "x = ''healthz''" | "x = ''login''" | "x = ''dashboard''" | "x = ''settings''"
    | "x \<notin> {'''', ''healthz'', ''login'', ''dashboard'', ''settings''}" by blast
  then show ?thesis by cases (simp_all add: table_simps)
qed

lemma table_two:
  assumes "x \<noteq> ''static''"
  shows "map (\<lambda>(m, ps, mk). (the m, mk ps)) (table_matches ['''', x, y]) =
     (if x = ''api'' \<and> y = ''jobs'' then [(''GET'', R_ListJobs), (''POST'', R_EnqueueJob)]
          else if x = ''settings'' \<and> y = ''anthropic'' then [(''POST'', R_SetAnthropic)]
          else if x = ''settings'' \<and> y = ''api-keys'' then [(''POST'', R_MintAPIKey)]
          else if x = ''webhooks'' \<and> y = ''github'' then [(''POST'', R_Webhook)]
          else if x = ''jobs'' \<and> y \<noteq> '''' then [(''GET'', R_Status y)]
          else [])"
proof -
  consider "x = ''api''" | "x = ''settings''" | "x = ''webhooks''" | "x = ''jobs''"
    | "x \<notin> {''api'', ''settings'', ''webhooks'', ''jobs''}" by blast
  then show ?thesis
  proof cases
    case 1 then show ?thesis by (cases "y = ''jobs''") (simp_all add: table_simps)
  next
    case 2 then show ?thesis
      by (cases "y = ''anthropic''"; cases "y = ''api-keys''") (simp_all add: table_simps)
  next
    case 3 then show ?thesis by (cases "y = ''github''") (simp_all add: table_simps)
  next
    case 4 then show ?thesis by (cases "y = ''''") (simp_all add: table_simps)
  next
    case 5 then show ?thesis using assms by (simp add: table_simps)
  qed
qed

lemma table_three:
  assumes "x \<noteq> ''static''"
  shows "map (\<lambda>(m, ps, mk). (the m, mk ps)) (table_matches ['''', x, y, z]) =
     (if x = ''api'' \<and> y = ''jobs'' \<and> z \<noteq> '''' then [(''GET'', R_GetJob z)]
          else if x = ''settings'' \<and> y = ''api-keys'' \<and> z \<noteq> '''' then [(''DELETE'', R_RevokeAPIKey z)]
          else if x = ''auth'' \<and> y = ''github'' \<and> z = ''callback'' then [(''GET'', R_OAuthCallback)]
          else if x = ''auth'' \<and> y = ''github-app'' \<and> z = ''install'' then [(''GET'', R_Install)]
          else if x = ''auth'' \<and> y = ''github-app'' \<and> z = ''callback'' then [(''GET'', R_InstallCallback)]
          else if x = ''jobs'' \<and> z = ''log'' then [(''GET'', R_LogTail y)]
          else [])"
proof -
  consider "x = ''api''" | "x = ''settings''" | "x = ''auth''" | "x = ''jobs''"
    | "x \<notin> {''api'', ''settings'', ''auth'', ''jobs''}" by blast
  then show ?thesis
  proof cases
    case 1 then show ?thesis by (cases "y = ''jobs''"; cases "z = ''''") (simp_all add: table_simps)
  next
    case 2 then show ?thesis by (cases "y = ''api-keys''"; cases "z = ''''") (simp_all add: table_simps)
  next
    case 3
    consider "y = ''github''" | "y = ''github-app''" | "y \<notin> {''github'', ''github-app''}" by blast
    then show ?thesis using 3
      by cases (cases "z = ''callback''"; cases "z = ''install''"; simp add: table_simps)+
  next
    case 4 then show ?thesis by (cases "z = ''log''") (simp_all add: table_simps)
  next
    case 5 then show ?thesis using assms by (simp add: table_simps)
  qed
qed

lemma table_four:
  assumes "x \<noteq> ''static''"
  shows "map (\<lambda>(m, ps, mk). (the m, mk ps)) (table_matches ['''', x, y, z, v]) =
     (if x = ''api'' \<and> y = ''jobs'' \<and> v = ''cancel'' then [(''POST'', R_Cancel z)] else [])"
proof -
  consider "x = ''api''" | "x = ''settings''" | "x = ''auth''" | "x = ''jobs''" | "x = ''webhooks''"
    | "x \<notin> {''api'', ''settings'', ''auth'', ''jobs'', ''webhooks''}" by blast
  then show ?thesis
  proof cases
    case 1 then show ?thesis by (cases "y = ''jobs''"; cases "v = ''cancel''") (simp_all add: table_simps)
  next
    case 6 then show ?thesis using assms by (simp add: table_simps)
  qed (simp_all add: table_simps)
qed

lemma table_long:
  assumes "x \<noteq> ''static''"
  shows "table_matches ('''' # x # y # z # v # u # ss) = []"
proof -
  consider "x = ''api''" | "x = ''settings''" | "x = ''auth''" | "x = ''jobs''" | "x = ''webhooks''"
    | "x \<notin> {''api'', ''settings'', ''auth'', ''jobs'', ''webhooks''}" by blast
  then show ?thesis
  proof cases
    case 1 then show ?thesis by (cases "y = ''jobs''"; cases "v = ''cancel''") (simp_all add: table_simps)
  next
    case 6 then show ?thesis using assms by (simp add: table_simps)
  qed (simp_all add: table_simps)
qed

lemma table_static:
  "table_matches ('''' # ''static'' # x # xs)
   = [(None, [(''*'', str_join ''/'' (x # xs))], \<lambda>ps. R_Static (get_or_empty ps ''*''))]"
  by (simp add: table_simps)

lemma table_method:
  assumes "(None, ps, k) \<in> set (table_matches ss)"
  shows "\<exists>x xs. ss = '''' # ''static'' # x # xs"
proof -
  obtain p h where "(None, p, h) \<in> set route_table" and m: "match_segments (split_on (CHR ''/'') p) ss = Some ps"
    using assms by (auto simp: table_matches_def List.map_filter_def)
  then have "p = ''/static/*''" by (simp add: route_table_def)
  with m have "match_segments ['''', ''static'', ''*''] ss = Some ps" by simp
  then show ?thesis
    by (cases ss; cases "tl ss"; cases "tl (tl ss)") (auto split: if_splits)
qed

lemma not_static:
  assumes "\<not> HasPrefix path ''/static/''"
  shows "split_on (CHR ''/'') path \<noteq> '''' # ''static'' # x # xs"
proof
  assume "split_on (CHR ''/'') path = '''' # ''static'' # x # xs"
  then have "path = ''/static/'' @ str_join ''/'' (x # xs)"
    using str_join_split [of "CHR ''/''" path] by simp
  then show False using assms by (simp add: HasPrefix_iff)
qed

lemma path_routes_table:
  assumes "\<not> HasPrefix path ''/static/''"
  shows "path_routes path = map (\<lambda>(m, ps, mk). (the m, mk ps)) (table_matches (split_on (CHR ''/'') path))"
proof -
  obtain a as where ss: "split_on (CHR ''/'') path = a # as" by (metis list.exhaust split_on_not_Nil)
  show ?thesis
  proof (cases "a = ''''")
    case False
    then have "table_matches (a # as) = []" by (simp add: table_simps)
    then show ?thesis using False ss by (cases a) (simp_all add: path_routes_def)
  next
    case True
    show ?thesis
    proof (cases as)
      case Nil then show ?thesis using ss True by (simp add: path_routes_def table_simps)
    next
      case one: (Cons x as1)
      show ?thesis
      proof (cases as1)
        case Nil then show ?thesis using ss True one by (simp add: path_routes_def table_one)
      next
        case two: (Cons y as2)
        then have "x \<noteq> ''static''" using not_static [OF assms] ss True one by metis
        note table = table_two [OF this] table_three [OF this] table_four [OF this] table_long [OF this]
        show ?thesis
          using ss True one two table
          by (cases as2; cases "tl as2"; cases "tl (tl as2)") (simp_all add: path_routes_def)
      qed
    qed
  qed
qed

lemma chi_route_table:
  "(case chi_route route_table meth path of Inl code \<Rightarrow> Inl code | Inr (ps, mk) \<Rightarrow> Inr (mk ps)) = route_of meth path"
proof -
  have matches: "chi_matches route_table path = table_matches (split_on (CHR ''/'') path)"
    by (simp add: chi_matches_def table_matches_def)
  show ?thesis
  proof (cases "HasPrefix path ''/static/''")
    case True
    then obtain x xs where "split_on (CHR ''/'') path = '''' # ''static'' # x # xs"
      "drop (length ''/static/'') path = str_join ''/'' (x # xs)" using static_segments by blast
    then show ?thesis using True by (simp add: chi_route_find matches table_static route_of_def)
  next
    case False
    let ?ms = "table_matches (split_on (CHR ''/'') path)"
    have "\<forall>(m, ps, k) \<in> set ?ms. m \<noteq> None"
    proof -
      have "m \<noteq> None" if "(m, ps, k) \<in> set ?ms" for m ps k
      proof
        assume "m = None"
        then have "(None, ps, k) \<in> set ?ms" using that by simp
        from table_method [OF this] show False using not_static [OF False] by blast
      qed
      then show ?thesis by blast
    qed
    note find = find_map_of [OF this]
    show ?thesis
    proof (cases ?ms)
      case Nil
      then show ?thesis using False by (simp add: chi_route_find matches route_of_def path_routes_table)
    next
      case (Cons e es)
      then have "route_of meth path = (case map_of (path_routes path) meth of None \<Rightarrow> Inl 405 | Some rt \<Rightarrow> Inr rt)"
        using False by (simp add: route_of_def path_routes_table del: map_of.simps)
      then show ?thesis
        unfolding path_routes_table [OF False] find chi_route_find matches using Cons
        by (auto simp del: find.simps split: option.split)
    qed
  qed
qed


definition sample_runtime :: oapi_runtime where
  "sample_runtime = \<lparr>BindQueryLimit = (\<lambda>_. Inr None), BindPathId = Inr\<rparr>"


section \<open>The token of a request\<close>

text \<open>\<open>BearerToken\<close> of \<open>middleware.go\<close> is not called by the server, whose resolver reads the header itself.\<close>

definition BearerToken :: "http_in \<Rightarrow> string" where
  "BearerToken r =
     (let h = Header_Get r ''Authorization''
      in if \<not> HasPrefix h ''Bearer '' then '''' else TrimPrefix h ''Bearer '')"

end
