(* ===== verification/Db_Pool.thy ===== *)
theory Db_Pool
  imports Go_Base
begin

text \<open>
  The connection pool of \<open>core/adapter/postgres/db.go\<close>: the settings of the \<open>sql.DB\<close> that is handed to
  bun. The setters are those of \<open>database/sql\<close>: zero open connections mean no limit, zero idle
  connections the default of two and a negative number none, and the idle limit follows the open limit.
  The connector itself, which parses the address, is third-party code.
\<close>

record PoolConfig =
  Pool_MaxOpenConns :: int
  Pool_MaxIdleConns :: int

record sql_DB =
  sqldb_DSN :: string
  sqldb_maxOpen :: int
  sqldb_maxIdleCount :: int
  sqldb_maxLifetime :: int
  sqldb_maxIdleTime :: int

definition OpenDB :: "string \<Rightarrow> sql_DB" where
  "OpenDB dsn =
     \<lparr>sqldb_DSN = dsn, sqldb_maxOpen = 0, sqldb_maxIdleCount = 0, sqldb_maxLifetime = 0, sqldb_maxIdleTime = 0\<rparr>"

definition maxIdleConns :: "sql_DB \<Rightarrow> int" where
  "maxIdleConns db =
     (if sqldb_maxIdleCount db = 0 then 2 else if sqldb_maxIdleCount db < 0 then 0 else sqldb_maxIdleCount db)"

definition SetMaxIdleConns :: "int \<Rightarrow> sql_DB \<Rightarrow> sql_DB" where
  "SetMaxIdleConns n db =
     (let db1 = db\<lparr>sqldb_maxIdleCount := (if n > 0 then n else -1)\<rparr>
      in if sqldb_maxOpen db1 > 0 \<and> maxIdleConns db1 > sqldb_maxOpen db1
         then db1\<lparr>sqldb_maxIdleCount := sqldb_maxOpen db1\<rparr> else db1)"

definition SetMaxOpenConns :: "int \<Rightarrow> sql_DB \<Rightarrow> sql_DB" where
  "SetMaxOpenConns n db =
     (let db1 = db\<lparr>sqldb_maxOpen := max 0 n\<rparr>
      in if sqldb_maxOpen db1 > 0 \<and> maxIdleConns db1 > sqldb_maxOpen db1 then SetMaxIdleConns n db1 else db1)"

definition OpenWithPool :: "string \<Rightarrow> PoolConfig \<Rightarrow> go_error + sql_DB" where
  "OpenWithPool dsn pool =
     (let db = OpenDB dsn;
          db1 = (if Pool_MaxOpenConns pool > 0 then SetMaxOpenConns (Pool_MaxOpenConns pool) db else db);
          db2 = (if Pool_MaxIdleConns pool > 0 then SetMaxIdleConns (Pool_MaxIdleConns pool) db1 else db1)
      in Inr (db2\<lparr>sqldb_maxLifetime := Hour, sqldb_maxIdleTime := 15 * Minute\<rparr>))"

definition Open :: "string \<Rightarrow> go_error + sql_DB" where
  "Open dsn = OpenWithPool dsn \<lparr>Pool_MaxOpenConns = 20, Pool_MaxIdleConns = 5\<rparr>"

text \<open>
  Opening never fails. A positive limit of open connections is the one asked for and bounds the idle
  ones; a limit that is zero or negative means no limit at all.
\<close>

lemma OpenWithPool_limits:
  assumes "OpenWithPool dsn pool = r"
  obtains db where "r = Inr db" and "sqldb_DSN db = dsn"
    and "sqldb_maxOpen db = max 0 (Pool_MaxOpenConns pool)"
    and "Pool_MaxOpenConns pool > 0 \<Longrightarrow> maxIdleConns db \<le> Pool_MaxOpenConns pool"
    and "Pool_MaxOpenConns pool \<le> 0 \<Longrightarrow> maxIdleConns db = (if Pool_MaxIdleConns pool > 0 then Pool_MaxIdleConns pool else 2)"
proof
  let ?db = "projr (OpenWithPool dsn pool)"
  note defs = OpenWithPool_def OpenDB_def SetMaxOpenConns_def SetMaxIdleConns_def maxIdleConns_def Let_def
  show "r = Inr ?db" using assms by (auto simp: OpenWithPool_def Let_def)
  show "sqldb_DSN ?db = dsn" by (simp add: defs)
  show "sqldb_maxOpen ?db = max 0 (Pool_MaxOpenConns pool)" by (simp add: defs)
  show "maxIdleConns ?db \<le> Pool_MaxOpenConns pool" if "Pool_MaxOpenConns pool > 0"
    using that by (simp add: defs)
  show "maxIdleConns ?db = (if Pool_MaxIdleConns pool > 0 then Pool_MaxIdleConns pool else 2)"
    if "Pool_MaxOpenConns pool \<le> 0"
    using that by (simp add: defs)
qed

lemma Open_default:
  "Open dsn = Inr \<lparr>sqldb_DSN = dsn, sqldb_maxOpen = 20, sqldb_maxIdleCount = 5, sqldb_maxLifetime = Hour,
     sqldb_maxIdleTime = 15 * Minute\<rparr>"
  by (simp add: Open_def OpenWithPool_def OpenDB_def SetMaxOpenConns_def SetMaxIdleConns_def maxIdleConns_def Let_def)

end
