(* ===== verification/Commands.thy ===== *)
theory Commands
  imports Server Db_Pool
begin

text \<open>
  The command line of \<open>cmd/agentic-delegator/main.go\<close>: \<open>main\<close> and \<open>runMigrate\<close>. The pool is opened
  lazily with the settings of \<open>Db_Pool\<close>; the migrator that works on it is in the bun library and is a
  parameter. A command ends with the text of a fatal error
  or with the lines it printed; that \<open>serve\<close> then listens until a signal is in the events of \<open>Server\<close>.
\<close>

record 's bun_lib =
  bun_Close :: "'s \<Rightarrow> 's"
  mig_Init :: "('s, unit) act"
  mig_Migrate :: "('s, string option) act"
  mig_Rollback :: "('s, string) act"
  mig_Status :: "('s, (string \<times> bool) list) act"

type_synonym 's command = "'s \<Rightarrow> (string + string list) \<times> 's"

definition show_bool :: "bool \<Rightarrow> string" where
  "show_bool b = (if b then ''true'' else ''false'')"

definition runMigrate :: "(nat \<Rightarrow> bool) \<Rightarrow> 's bun_lib \<Rightarrow> string list \<Rightarrow> 's command" where
  "runMigrate isprint lib args s =
     (let cmd = (case args of [] \<Rightarrow> ''up'' | a # _ \<Rightarrow> a)
      in if cmd = ''init'' then
           (case mig_Init lib s of
              (Inl e, s1) \<Rightarrow> (Inl (must ''init'' e), s1)
            | (Inr _, s1) \<Rightarrow> (Inr [''migration tables initialized''], s1))
         else if cmd = ''up'' then
           (case mig_Init lib s of
              (Inl e, s1) \<Rightarrow> (Inl (must ''init'' e), s1)
            | (Inr _, s1) \<Rightarrow>
                (case mig_Migrate lib s1 of
                   (Inl e, s2) \<Rightarrow> (Inl (must ''migrate'' e), s2)
                 | (Inr None, s2) \<Rightarrow> (Inr [''no new migrations''], s2)
                 | (Inr (Some applied), s2) \<Rightarrow> (Inr [''applied: '' @ applied], s2)))
         else if cmd = ''down'' then
           (case mig_Rollback lib s of
              (Inl e, s1) \<Rightarrow> (Inl (must ''rollback'' e), s1)
            | (Inr undone, s1) \<Rightarrow> (Inr [''rolled back: '' @ undone], s1))
         else if cmd = ''status'' then
           (case mig_Status lib s of
              (Inl e, s1) \<Rightarrow> (Inl (must ''status'' e), s1)
            | (Inr ms, s1) \<Rightarrow> (Inr (map (\<lambda>(name, applied). name @ ''  applied='' @ show_bool applied) ms), s1))
         else (Inl (''unknown migrate cmd '' @ Quote isprint cmd), s))"

definition main_command ::
  "(sql_DB \<Rightarrow> 'z host_scheme bun_lib) \<Rightarrow> deps \<Rightarrow> environment \<Rightarrow> string list \<Rightarrow> 'z host_scheme command" where
  "main_command lib D env args s =
     (case args of
        [] \<Rightarrow> (Inl ''usage: agentic-delegator <serve|migrate>'', s)
      | cmdName # rest \<Rightarrow>
          (case Config_Load env of
             Inl e \<Rightarrow> (Inl (must ''config'' e), s)
           | Inr cfg \<Rightarrow>
               (case OpenWithPool (cfg_DSN cfg) \<lparr>Pool_MaxOpenConns = cfg_DBMaxOpenConns cfg,
                       Pool_MaxIdleConns = cfg_DBMaxIdleConns cfg\<rparr> of
                  Inl e \<Rightarrow> (Inl (must ''db'' e), s)
                | Inr db \<Rightarrow>
                    if cmdName = ''migrate'' then
                      (let (r, s2) = runMigrate (dep_IsPrint D) (lib db) rest s
                       in (r, case r of Inl _ \<Rightarrow> s2 | Inr _ \<Rightarrow> bun_Close (lib db) s2))
                    else if cmdName = ''serve'' then
                      (case runServe D cfg s of
                         (Inl fatal, s2) \<Rightarrow> (Inl fatal, s2)
                       | (Inr _, s2) \<Rightarrow> (Inr [], s2))
                    else (Inl (''unknown cmd: '' @ cmdName), s))))"

text \<open>
  A migration that fails leaves the migrator where it stopped; only its two steps of \<open>up\<close> can have run, in
  order, and the migrations run only on initialised tables.
\<close>

lemma runMigrate_up_order:
  assumes "runMigrate isprint lib [] s = (r, s')"
  shows "(\<exists>e. mig_Init lib s = (Inl e, s') \<and> r = Inl (must ''init'' e))
    \<or> (\<exists>s1 u g. mig_Init lib s = (Inr u, s1) \<and> mig_Migrate lib s1 = (g, s')
        \<and> (isl r \<longleftrightarrow> isl g))"
  using assms by (auto simp: runMigrate_def Let_def split: sum.splits prod.splits option.splits)

end
