(* ===== verification/Json_Facts.thy ===== *)
theory Json_Facts
  imports Server
begin

text \<open>
  The JSON answers of the server: what a client that reads them finds.
\<close>

section \<open>Every answer labelled JSON is JSON\<close>

definition json_type :: "string \<times> string" where
  "json_type = (''Content-Type'', ''application/json'')"

text \<open>The body is one JSON value, or nothing when the value to send had no JSON text.\<close>

definition sound_json :: "http_out \<Rightarrow> bool" where
  "sound_json out \<longleftrightarrow>
     json_type \<in> set (out_Header out) \<longrightarrow> out_Body out = '''' \<or> json_Decode (out_Body out) \<noteq> None"

named_theorems sound_intros "answers that are labelled correctly"

lemma sound_text [sound_intros]:
  "sound_json (http_Error m c)" "sound_json (http_status c)" "sound_json (http_Redirect u c)" "sound_json (html_page t)"
  "sound_json out \<Longrightarrow> sound_json (with_cookies cs out)"
  by (simp_all add: sound_json_def json_type_def http_Error_def http_status_def http_Redirect_def html_page_def)

lemma sound_writeJSON:
  "(\<And>v. d = Inr v \<Longrightarrow> plain_json v \<and> json_depth v \<le> 10000) \<Longrightarrow> sound_json (writeJSON c d)"
  by (cases d) (simp_all add: sound_json_def writeJSON_def json_Decode_text)

lemma sound_values [sound_intros]:
  "sound_json (writeJSON c (Inr (json_map kvs)))" "sound_json (writeJSON c (Job_json tz j))"
  "sound_json (writeJSON c (Jobs_json tz js))"
  using json_map_plain [of kvs] Job_json_plain [of tz j] Jobs_json_plain [of tz js]
  by (fastforce intro!: sound_writeJSON)+

lemma sound_errors [sound_intros]: "sound_json (writeJSONError c m)" "sound_json (writeDomainError e)"
  by (auto simp: writeJSONError_def writeDomainError_def intro: sound_intros)

text \<open>A handler answers soundly when each of its branches does.\<close>

definition sound :: "('s \<Rightarrow> http_out \<times> 's) \<Rightarrow> bool" where
  "sound f \<longleftrightarrow> (\<forall>s. sound_json (fst (f s)))"

lemma sound_bind [sound_intros]: "(\<And>x. sound (g x)) \<Longrightarrow> sound (\<lambda>s. case f s of (x, s') \<Rightarrow> g x s')"
  by (simp add: sound_def split: prod.split)

lemma sound_done [sound_intros]: "sound_json out \<Longrightarrow> sound (\<lambda>s. (out, f s))"
  by (simp add: sound_def)

lemma sound_sum [sound_intros]:
  "(\<And>e. sound (f e)) \<Longrightarrow> (\<And>x. sound (g x)) \<Longrightarrow> sound (\<lambda>s. case r of Inl e \<Rightarrow> f e s | Inr x \<Rightarrow> g x s)"
  by (cases r) simp_all

lemma sound_option [sound_intros]:
  "sound f \<Longrightarrow> (\<And>x. sound (g x)) \<Longrightarrow> sound (\<lambda>s. case r of None \<Rightarrow> f s | Some x \<Rightarrow> g x s)"
  by (cases r) simp_all

lemma sound_if [sound_intros]: "sound f \<Longrightarrow> sound g \<Longrightarrow> sound (\<lambda>s. if b then f s else g s)"
  by (cases b) simp_all

lemma sound_pair [sound_intros]: "(\<And>a b. sound (f a b)) \<Longrightarrow> sound (\<lambda>s. case p s of (a, b) \<Rightarrow> f a b s)"
  by (simp add: sound_def split_beta)

lemma sound_unit [sound_intros]: "sound f \<Longrightarrow> sound (\<lambda>s. case x of () \<Rightarrow> f s)"
  unfolding case_unit_Unity .

text \<open>A handler that adds cookies to the answer of another.\<close>

lemma sound_wrap: "sound f \<Longrightarrow> sound (\<lambda>s. case f s of (out, s') \<Rightarrow> (with_cookies cs out, s'))"
  by (simp add: sound_def sound_text split_beta)

lemma sound_other [sound_intros]:
  "sound_json \<lparr>out_Status = c, out_Header = [(''Content-Type'', ''text/plain; charset=utf-8'')], out_Cookies = cs,
     out_Body = t\<rparr>"
  "sound_json ((http_status c)\<lparr>out_Body := t\<rparr>)"
  by (simp_all add: sound_json_def json_type_def http_status_def)

lemma sound_handlers [sound_intros]:
  "sound (JobsHandler_ListJobs tz jobs uid limit)" "sound (JobsHandler_GetJob tz jobs uid i)"
  "sound (JobsHandler_EnqueueJob enq uid r)" "sound (JobsHandler_Cancel can uid i)"
  "sound (SettingsHandler_SetAnthropic secrets uid r)" "sound (SettingsHandler_MintAPIKey mint uid r)"
  "sound (SettingsHandler_RevokeAPIKey keys uid i)" "sound (Dashboard_Landing c res r)"
  "sound (Dashboard_Dashboard c jobs uid)" "sound (Dashboard_Settings c keys secrets uid)"
  "sound (StatusPage_Render c jobs2 uid i)" "sound (StatusPage_LogTail jobs2 uid i)" "sound Healthz"
  unfolding JobsHandler_ListJobs_def [abs_def] JobsHandler_GetJob_def [abs_def] JobsHandler_EnqueueJob_def [abs_def]
    JobsHandler_Cancel_def [abs_def] SettingsHandler_SetAnthropic_def [abs_def] SettingsHandler_MintAPIKey_def [abs_def]
    SettingsHandler_RevokeAPIKey_def [abs_def] Dashboard_Landing_def [abs_def] Dashboard_Dashboard_def [abs_def]
    Dashboard_Settings_def [abs_def] StatusPage_Render_def [abs_def] StatusPage_LogTail_def [abs_def]
    Healthz_def [abs_def] Let_def
  by (intro sound_intros)+

lemma sound_sign_in [sound_intros]: "sound (OAuth_sign_in oa r u)"
  unfolding OAuth_sign_in_def [abs_def] Let_def by (intro sound_intros)

lemma sound_public [sound_intros]:
  "sound (OAuth_Login oa)" "sound (OAuth_Callback js oa r)" "sound (Install_Callback js lib creds ss upsert r)"
  "sound (Webhook_Handle secret delete r)" "sound_json (Install_Install slug)"
  unfolding OAuth_Login_def [abs_def] OAuth_Callback_def [abs_def] Install_Callback_def [abs_def]
    Webhook_Handle_def [abs_def] Install_Install_def Let_def
  by (intro sound_wrap [OF sound_sign_in] sound_intros)+

section \<open>The whole server\<close>

lemma sound_served:
  "sound (serve_user D cfg rt uid r)"
  "(\<forall>f. rt \<noteq> R_Static f) \<Longrightarrow> sound (serve_public D cfg rt r)"
proof -
  show "sound (serve_user D cfg rt uid r)"
    by (cases rt) (simp_all only: serve_user.simps [abs_def], (intro sound_intros)+)
  show "sound (serve_public D cfg rt r)" if "\<forall>f. rt \<noteq> R_Static f"
    using that by (cases rt) (simp_all only: serve_public.simps [abs_def], (intro sound_intros | simp)+)
qed

lemma sound_auth: "(\<And>uid. sound (next uid r)) \<Longrightarrow> sound (BearerOrSession resolve next r)"
  by (simp add: sound_def BearerOrSession_def sound_text split: prod.split sum.split)

text \<open>
  C36. Every answer of the server that is labelled application/json, the style sheet aside, has
  an empty body or one that the decoder of encoding/json accepts.
\<close>

theorem json_answers_parse:
  assumes "serve D cfg r s = (out, s')" and "(''Content-Type'', ''application/json'') \<in> set (out_Header out)"
    and "\<forall>f. route_of (in_Method r) (in_Path r) \<noteq> Inr (R_Static f)"
  shows "out_Body out = '''' \<or> (\<exists>v. json_Decode (out_Body out) = Some v)"
proof -
  have "\<forall>f. rt \<noteq> R_Static f" if "route_of (in_Method r) (in_Path r) = Inr rt" for rt
    using that assms(3) by auto
  then have "sound (serve_route D cfg rt r)" if "route_of (in_Method r) (in_Path r) = Inr rt" for rt
    using that by (cases "authenticated rt") (simp_all add: serve_route_def [abs_def] sound_auth sound_served)
  then have "sound (serve D cfg r)"
    by (auto simp: sound_def serve_def sound_text split: sum.split)
  then have "sound_json out" using assms(1) by (auto simp: sound_def dest!: spec [of _ s])
  then show ?thesis using assms(2) by (auto simp: sound_json_def json_type_def)
qed

definition sample_list :: http_in where
  "sample_list = (sample_request ''GET'' ''/api/jobs'')\<lparr>in_Cookies := [(cookieName, encodeCookieValue (replicate 32 7))]\<rparr>"

theorem json_answers_parse_witness:
  "let out = fst (serve sample_deps sample_config sample_list (sample_host\<lparr>db_sessions :=
       [\<lparr>sessionRow_ID = replicate 32 7, sessionRow_UserID = ''u1'', sessionRow_ExpiresAt = 1000\<rparr>]\<rparr>))
   in out_Body out = '''' \<or> (\<exists>v. json_Decode (out_Body out) = Some v)"
proof -
  let ?h = "sample_host\<lparr>db_sessions :=
       [\<lparr>sessionRow_ID = replicate 32 7, sessionRow_UserID = ''u1'', sessionRow_ExpiresAt = 1000\<rparr>]\<rparr>"
  let ?out = "fst (serve sample_deps sample_config sample_list ?h)"
  have r: "route_of (in_Method sample_list) (in_Path sample_list) = Inr R_ListJobs"
    by (simp add: sample_list_def sample_request_def route_of_def path_routes_def HasPrefix_def)
  have u: "srv_resolve sample_deps sample_config sample_list ?h = (Inr ''u1'', ?h\<lparr>env_clock_reads := 1\<rparr>)"
    by (simp add: srv_resolve_def Resolver_Resolve_def Sessions_UserFromRequest_def sample_list_def request_Cookie_def
        srv_sessions_def SessionsRepo_def SessionsRepo_ResolveUser_def pg_stmt_run sql_select_def time_Now_def After_def
        cookie_roundtrip sample_request_def Header_Get_def HasPrefix_def bearer_prefix_def)
  have "bind_limit (dep_codec sample_deps) q = Inr None" for q
    by (simp add: sample_deps_def sample_codec_def)
  then have "(''Content-Type'', ''application/json'') \<in> set (out_Header ?out)"
    by (simp add: serve_def r serve_route_def BearerOrSession_def u
        JobsHandler_ListJobs_def writeJSON_def writeJSONError_def split: sum.split prod.split)
  from json_answers_parse [OF prod.collapse [symmetric] this] show ?thesis by (simp add: r)
qed

section \<open>A job as a client reads it\<close>

text \<open>
  C35. The answer to a request for a job parses as an object with the Go names of the fields,
  in order: no tag of the Job schema of the API description is a member of it, and even
  ignoring case only error, id, repo and status are.
\<close>

theorem job_answer_names:
  fixes s :: "'s"
  assumes "GetJob_Execute jobs i uid s = (Inr j, s')" and "Job_json tz j = Inr v"
  shows "\<exists>kvs. json_Decode (out_Body (fst (JobsHandler_GetJob tz jobs uid i s))) = Some (JObj kvs)
    \<and> map fst kvs = job_keys
    \<and> (\<forall>tag \<in> set gen_Job_tags. map_of kvs tag = None)
    \<and> filter (\<lambda>tag. fold_name tag \<in> fold_name ` set (map fst kvs)) gen_Job_tags = [''error'', ''id'', ''repo'', ''status'']"
proof -
  obtain kvs where kvs: "v = JObj kvs" "map fst kvs = job_keys" using Job_json_keys [OF assms(2)] .
  define n where "n = map (map_prod json_bytes json_norm) kvs"
  have "map fst n = map json_bytes (map fst kvs)" by (simp add: n_def)
  then have keys: "map fst n = job_keys" by (simp only: kvs(2) job_keys_norm)
  have "json_Decode (json_text v @ [CHR 0x0A]) = Some (JObj n)"
    using json_Decode_text [of v] Job_json_plain [OF assms(2)] kvs(1) by (simp add: n_def)
  moreover have "map_of n tag = None" if "tag \<in> set gen_Job_tags" for tag
    using that tags_not_keys keys by (metis disjoint_iff list.set_map map_of_eq_None_iff)
  moreover have "fold_name ` set (map fst n) = set (map fold_name job_keys)" by (simp add: keys)
  ultimately show ?thesis
    using keys tags_selected assms by (auto simp: JobsHandler_GetJob_def writeJSON_def simp del: set_map)
qed

lemma first_day_json: "0 \<le> t \<Longrightarrow> t < 24 * Hour \<Longrightarrow> \<not> isl (Time_MarshalJSON (\<lambda>_. 0) t)"
  by (simp add: Time_MarshalJSON_def civil_def year_and_day_def)

lemma sample_done_json: "\<exists>v. Job_json (\<lambda>_. 0) sample_done = Inr v"
  by (rule Job_json_total, rule first_day_json)
    (auto simp: sample_jobs NewJob_def Hour_def Minute_def Second_def)

theorem job_answer_names_witness:
  "\<exists>kvs. json_Decode (out_Body (fst (JobsHandler_GetJob (\<lambda>_. 0) JobsRepo ''u1'' ''j_done'' sample_host))) = Some (JObj kvs)
      \<and> map_of kvs ''created_at'' = None"
proof -
  have get: "GetJob_Execute JobsRepo ''j_done'' ''u1'' sample_host = (Inr sample_done, sample_host)"
    by (simp add: GetJob_Execute_def JobsRepo_def JobsRepo_GetForUser_def JobsRepo_Get_eq sample_host_jobs sample_db_jobs)
  obtain v where v: "Job_json (\<lambda>_. 0) sample_done = Inr v"
    using sample_done_json by blast
  have "''created_at'' \<in> set gen_Job_tags" by (simp add: gen_Job_tags_def)
  with job_answer_names [OF get v] show ?thesis by auto
qed

end
