(* ===== verification/Liveness.thy ===== *)
theory Liveness
  imports Server_Facts
begin

text \<open>
  What eventually happens: runs of the server as infinite sequences of events, and the end of a running
  job once the event of its container occurs.
\<close>

type_synonym 'z run = "nat \<Rightarrow> 'z host_scheme"

definition srv_run :: "deps \<Rightarrow> Config \<Rightarrow> 'z run \<Rightarrow> bool" where
  "srv_run D cfg \<sigma> \<longleftrightarrow> (\<forall>n. srv_step D cfg (\<sigma> n) (\<sigma> (Suc n)))"

lemma srv_run_steps: "srv_run D cfg \<sigma> \<Longrightarrow> m \<le> n \<Longrightarrow> srv_steps D cfg (\<sigma> m) (\<sigma> n)"
proof (induction n)
  case (Suc n)
  then show ?case
    by (metis le_Suc_eq rtranclp.rtrancl_into_rtrancl rtranclp.rtrancl_refl srv_run_def)
qed simp

text \<open>The supervisor of a container reports its end, on a database that answers.\<close>

definition container_ends :: "deps \<Rightarrow> Config \<Rightarrow> 'z run \<Rightarrow> supervision \<Rightarrow> nat \<Rightarrow> bool" where
  "container_ends D cfg \<sigma> sv m \<longleftrightarrow>
     sv \<in> set (supervised (\<sigma> m)) \<and> db_faults (\<sigma> m) = []
     \<and> \<sigma> (Suc m) = snd (runner_done D cfg sv ((\<sigma> m)\<lparr>supervised := remove1 sv (supervised (\<sigma> m))\<rparr>))"

lemma runner_done_terminal:
  fixes s :: "'z host_scheme"
  assumes "pg_ok s" and "wf_store (pg_jobs_of s)" and "db_faults s = []"
    and "pg_jobs_of s (sup_JobID sv) = Some j" and "sup_JobID sv \<noteq> ''''"
    and "Job_Status j = JobStatusRunning" and "user_exists (Job_UserID j) s"
    and "runner_done D cfg sv s = (r, s')"
  shows "\<exists>j'. pg_jobs_of s' (sup_JobID sv) = Some j' \<and> IsTerminal j'"
proof -
  obtain res s1 where sup: "supervise (srv_docker D cfg) sv s = (res, s1)" by fastforce
  have k: "pg_ok s1" "pg_jobs_of s1 = pg_jobs_of s"
    using keepsD [OF supervise_keeps assms(1) sup] by simp_all
  have f: "db_faults s1 = []" "db_users s1 = db_users s"
    using supervise_frames [of "srv_docker D cfg" sv s] assms(3) sup by simp_all
  have res: "RunnerResult_JobID res = sup_JobID sv"
    using supervise_JobID [of "srv_docker D cfg" sv s] sup by simp
  have "HandleRunnerCompletion_Execute (dep_zone D) (srv_complete D) res s1 = (r, s')"
    using assms(8) sup by (simp add: runner_done_def)
  moreover have "Job_ID j = sup_JobID sv" using assms(2,4) by (simp add: wf_store_def)
  moreover have "user_exists (Job_UserID j) s1" using assms(7) f(2) by (simp add: user_exists_def)
  ultimately show ?thesis
    using completion_run [OF k(1) _ f(1), of res j "dep_zone D" D r s'] k(2) res assms(2,4-6)
    by (auto simp: IsTerminal_def split: if_splits)
qed

lemma after_running:
  "lifecycle\<^sup>*\<^sup>* JobStatusRunning b \<Longrightarrow>
     b \<in> {JobStatusRunning, JobStatusSucceeded, JobStatusFailed, JobStatusCancelled}"
  by (induction rule: rtranclp_induct) (auto simp: lifecycle_simps)


text \<open>A run of the sample server: the container of the running job ends, and then nothing happens.\<close>

definition sample_run :: "nat \<Rightarrow> host" where
  "sample_run n =
     (let h = sample_host\<lparr>supervised := [sample_supervision]\<rparr>
      in if n = 0 then h
         else snd (runner_done sample_deps sample_config sample_supervision (h\<lparr>supervised := []\<rparr>)))"

lemma sample_srv_run: "srv_run sample_deps sample_config sample_run"
  unfolding srv_run_def
proof
  fix n
  let ?h = "sample_host\<lparr>supervised := [sample_supervision]\<rparr>"
  show "srv_step sample_deps sample_config (sample_run n) (sample_run (Suc n))"
  proof (cases "n = 0")
    case True
    then show ?thesis
      using srv_step.container [of sample_supervision ?h sample_deps sample_config] by (simp add: sample_run_def Let_def)
  next
    case False
    then show ?thesis
      using srv_step.outside [of sample_deps sample_config "sample_run n" "fs_entries (sample_run n)"]
      by (simp add: sample_run_def Let_def)
  qed
qed


end
