(* ===== verification/Log_Facts.thy ===== *)
theory Log_Facts
  imports Http_Api
begin

text \<open>
  The tail of a log that the status page shows: the loop over runes, as the code has it, against the
  lines of the text.
\<close>

text \<open>The lines of a text: the pieces between line feeds, without an empty one at the end.\<close>

definition text_lines :: "string \<Rightarrow> string list" where
  "text_lines s = (let ls = split_on newline s in if last ls = '''' then butlast ls else ls)"

lemma split_on_absent: "d \<notin> set s \<Longrightarrow> split_on d s = [s]"
  by (induction s) auto

lemma text_lines_break: "newline \<notin> set l \<Longrightarrow> text_lines (l @ newline # s) = l # text_lines s"
  by (simp add: text_lines_def split_on_append Let_def)

lemma split_runes_lines:
  assumes "\<forall>r \<in> set rs. fst r \<and> (snd r = [newline] \<or> newline \<notin> set (snd r))" and "newline \<notin> set cur"
  shows "split_runes rs cur = text_lines (cur @ concat (map snd rs))"
  using assms
proof (induction rs arbitrary: cur)
  case Nil
  then show ?case by (simp add: text_lines_def split_on_absent)
next
  case (Cons r rs)
  then show ?case by (cases "snd r = [newline]") (simp_all add: text_lines_break rune_string_def)
qed

lemma splitLines_text:
  assumes "ValidString s"
  shows "splitLines s = text_lines s"
proof -
  have "fst r \<and> (snd r = [newline] \<or> newline \<notin> set (snd r))" if r: "r \<in> set (runes s)" for r
  proof -
    have "fst r" using assms r by (simp add: ValidString_def)
    then have "(True, snd r) \<in> set (runes s)" using r by (metis prod.collapse)
    then show ?thesis
    proof (cases rule: runes_cases)
      case (single c)
      then show ?thesis using \<open>fst r\<close> by auto
    next
      case many
      moreover have "byte newline < 128" by (simp add: newline_def byte_def)
      ultimately show ?thesis using \<open>fst r\<close> by force
    qed
  qed
  then show ?thesis by (simp add: splitLines_def split_runes_lines concat_runes)
qed

lemma joinLines_join: "joinLines ls = str_join [newline] ls"
  by (induction ls rule: joinLines.induct) simp_all

definition last_of :: "nat \<Rightarrow> 'a list \<Rightarrow> 'a list" where
  "last_of n xs = drop (length xs - n) xs"

lemma replacement_no_break: "newline \<notin> set replacement_char"
  by code_simp

lemma runes_lines:
  assumes "r \<in> set (runes s)"
  shows "snd r = [newline] \<or> newline \<notin> set (rune_string r)"
proof (cases "fst r")
  case True
  then have "(True, snd r) \<in> set (runes s)" using assms by (metis prod.collapse)
  then show ?thesis
  proof (cases rule: runes_cases)
    case (single c)
    then show ?thesis using True by (auto simp: rune_string_def)
  next
    case many
    moreover have "byte newline < 128" by (simp add: newline_def byte_def)
    ultimately show ?thesis using True by (force simp: rune_string_def)
  qed
next
  case False
  then show ?thesis by (simp add: rune_string_def replacement_no_break)
qed

text \<open>Each line has no line feed, so a text of so many lines has one line feed fewer.\<close>

abbreviation breaks :: "string \<Rightarrow> nat" where
  "breaks s \<equiv> length (filter (\<lambda>c. c = newline) s)"

lemma split_runes_breaks:
  assumes "\<forall>r \<in> set rs. snd r = [newline] \<or> newline \<notin> set (rune_string r)" and "newline \<notin> set cur"
  shows "\<forall>l \<in> set (split_runes rs cur). breaks l = 0"
  using assms by (induction rs cur rule: split_runes.induct) (auto simp: filter_empty_conv)

lemma joinLines_breaks: "\<forall>l \<in> set ls. breaks l = 0 \<Longrightarrow> breaks (joinLines ls) = length ls - 1"
  by (induction ls rule: joinLines.induct) simp_all

lemma log_tail_breaks: "breaks (log_tail n s) \<le> n - 1"
proof -
  define s' where "s' = (if length s > maxLogReadBytes then drop (length s - maxLogReadBytes) s else s)"
  define ls where "ls = (if length (splitLines s') > n then drop (length (splitLines s') - n) (splitLines s')
    else splitLines s')"
  have "\<forall>l \<in> set (splitLines s'). breaks l = 0"
    unfolding splitLines_def by (rule split_runes_breaks) (auto dest: runes_lines)
  then have "\<forall>l \<in> set ls. breaks l = 0" by (auto simp: ls_def dest: in_set_dropD)
  then have "breaks (joinLines ls) = length ls - 1" by (rule joinLines_breaks)
  moreover have "length ls \<le> n" by (simp add: ls_def)
  moreover have "log_tail n s = joinLines ls" by (simp add: log_tail_def s'_def ls_def Let_def)
  ultimately show ?thesis by simp
qed

lemma log_tail_text:
  assumes "ValidString s" and "length s \<le> maxLogReadBytes"
  shows "log_tail n s = str_join [newline] (last_of n (text_lines s))"
  using assms by (simp add: log_tail_def splitLines_text joinLines_join last_of_def Let_def)

lemma log_tail_long:
  "length s > maxLogReadBytes \<Longrightarrow> log_tail n s = log_tail n (last_of maxLogReadBytes s)"
  by (simp add: log_tail_def last_of_def Let_def)

text \<open>
  C38. The log tail of a text in UTF-8 that fits the read limit is its last lines, as many as
  asked for, joined by line feeds; a longer log is read from its last 256 KiB on; and whatever
  the bytes of the log are, the tail has no more lines than asked for.
\<close>

theorem log_tail_lines:
  "(ValidString s \<and> length s \<le> maxLogReadBytes \<longrightarrow>
      log_tail n s = str_join [newline] (last_of n (text_lines s)))
   \<and> (length s > maxLogReadBytes \<longrightarrow> log_tail n s = log_tail n (last_of maxLogReadBytes s))
   \<and> breaks (log_tail n s) \<le> n - 1"
  by (intro conjI impI log_tail_breaks) (simp_all add: log_tail_text log_tail_long)

theorem log_tail_lines_witness:
  "log_tail 2 (''a'' @ [newline] @ ''bc'' @ [newline] @ ''d'' @ [newline]) = ''bc'' @ [newline] @ ''d''"
proof -
  have "ValidString (''a'' @ [newline] @ ''bc'' @ [newline] @ ''d'' @ [newline])" by code_simp
  then have "ValidString (''a'' @ [newline] @ ''bc'' @ [newline] @ ''d'' @ [newline])
    \<and> length (''a'' @ [newline] @ ''bc'' @ [newline] @ ''d'' @ [newline]) \<le> maxLogReadBytes"
    by (simp add: maxLogReadBytes_def)
  from conjunct1 [OF log_tail_lines [of _ 2], rule_format, OF this] show ?thesis
    by (simp add: text_lines_def last_of_def newline_def)
qed

end
