(* ===== verification/Notifications.thy ===== *)
theory Notifications
  imports Server_Facts Json_Facts
begin

text \<open>
  The end of a container as a whole: the supervisor collects the result, the completion stores the
  final job, and the notification address that the container left is told the job as it was stored.
\<close>

section \<open>How often the address is requested\<close>

lemma dispatch_requests:
  fixes h :: "'z host_scheme"
  shows "\<exists>n \<le> 3. http_log (snd (Webhook_Dispatch isprint (\<lambda>_. None) Webhook_New url body h)) =
      http_log h @ replicate n (webhook_request url body) \<and> (n = 0 \<longleftrightarrow> isl (url_Parse isprint url))"
proof (cases "url_Parse isprint url")
  case (Inl e)
  then show ?thesis by (intro exI [of _ 0]) (simp add: delivery_unparsed)
next
  case (Inr u)
  then have parsed: "\<not> isl (url_Parse isprint url)" by simp
  obtain h1 h2 h3 :: "'z host_scheme" and e where steps:
    "http_log h1 = http_log h @ replicate 1 (webhook_request url body)" "waits h1 = waits h"
    "http_log h2 = http_log h @ replicate 2 (webhook_request url body)" "waits h2 = waits h @ [word_of_int Second]"
    "http_log h3 = http_log h @ replicate 3 (webhook_request url body)"
    "waits h3 = waits h @ [word_of_int Second, 2 * word_of_int Second]"
    "Webhook_Dispatch isprint (\<lambda>_. None) Webhook_New url body h =
      (if delivered h (webhook_request url body) 0 then (Inr (), h1)
       else if delivered h (webhook_request url body) 1 then (Inr (), h2)
       else if delivered h (webhook_request url body) 2 then (Inr (), h3) else (Inl e, h3))"
    by (rule delivery_steps [OF parsed])
  then show ?thesis
    by (intro exI [of _ "if delivered h (webhook_request url body) 0 then 1
        else if delivered h (webhook_request url body) 1 then 2 else 3"]) (simp add: parsed)
qed

text \<open>The webhook of a completion: the payload has the job as it is given.\<close>

lemma completion_webhook_requests:
  fixes s :: "'z host_scheme"
  assumes "completion_payload tz j (RunnerResult_LogTail res) = Inr v"
  shows "\<exists>n \<le> 3. http_log (completion_webhook tz (srv_complete D) j res s) =
      http_log s @ replicate n (webhook_request (RunnerResult_NotificationWebhook res) (json_text v))
    \<and> (n = 0 \<longleftrightarrow> RunnerResult_NotificationWebhook res = ''''
        \<or> isl (url_Parse (dep_IsPrint D) (RunnerResult_NotificationWebhook res)))"
proof (cases "RunnerResult_NotificationWebhook res = ''''")
  case True
  then show ?thesis
    by (intro exI [of _ 0]) (simp add: completion_webhook_def srv_complete_def wire_complete_def)
next
  case False
  then show ?thesis
    using dispatch_requests [of "dep_IsPrint D" "RunnerResult_NotificationWebhook res" "json_text v" s] assms
    by (simp add: completion_webhook_def srv_complete_def wire_complete_def srv_hooks_def Marshal_def
        DispatchCompletionWebhook_Execute_def HTTPWebhookDispatcher_def)
qed

lemma completion_payload_total:
  assumes "\<And>t. t = Job_CreatedAt j \<or> Some t = Job_StartedAt j \<or> Some t = Job_FinishedAt j \<Longrightarrow>
    \<not> isl (Time_MarshalJSON tz t)"
  obtains v where "completion_payload tz j tail = Inr v"
  using Job_json_total [of j tz, OF assms] that by (auto simp: completion_payload_def encode_struct_def)

text \<open>What a completion keeps of the instants of a running job, and the one it adds.\<close>

lemma completion_mark_times:
  assumes "completion_mark j res t = (None, j')"
  shows "Job_CreatedAt j' = Job_CreatedAt j" "Job_StartedAt j' = Job_StartedAt j" "Job_FinishedAt j' = Some t" "IsTerminal j'"
  using assms
  by (auto simp: completion_mark_def MarkSucceeded_def MarkFailed_def IsTerminal_def split: if_splits)

section \<open>The end of a container\<close>


text \<open>A container that leaves an address, and whose address is told.\<close>

definition sample_left :: host where
  "sample_left = sample_host\<lparr>fs_entries := [(''/work'', Dir 0x1C0), (''/work/j_run'', Dir 0x1C0),
     (''/work/j_run/.notification-webhook'', File 0x1A4 ''https://h/x'')]\<rparr>"

text \<open>Commands that write no file, and a log without a directory to be in, leave the files as they are.\<close>

definition same_files :: "(string \<times> fs_entry) list \<Rightarrow> 'z host_scheme \<Rightarrow> bool" where
  "same_files es h \<longleftrightarrow> fs_entries h = es \<and> fs_faults h = [] \<and> (\<forall>n args. exec_files (exec_answer h n args) = [])"

lemma same_files_exec: "same_files es h \<Longrightarrow> same_files es (snd (exec_Command args h))"
  by (simp add: same_files_def exec_Command_def)

lemma same_files_supervision:
  assumes "same_files es h"
  shows "same_files es (snd (docker_wait cfg c h))" "same_files es (snd (docker_exit_code t c h))"
    "\<not> is_dir (map_of es (parent_dir p)) \<Longrightarrow> same_files es (docker_logs c p h)"
    "same_files es (snd (readTrimmed q h))"
    "fst (readTrimmed q h) = (case map_of es q of Some (File _ b) \<Rightarrow> TrimSpace b | _ \<Rightarrow> '''')"
  using assms same_files_exec [OF assms] same_files_exec [OF same_files_exec [OF assms]]
  by (auto simp: docker_wait_def docker_exit_code_def docker_logs_def readTrimmed_def ReadFile_def WriteFile_def
      fs_call_def fs_lookup_def same_files_def Let_def split_beta split: option.split fs_entry.split)

lemma sample_left_address:
  "RunnerResult_NotificationWebhook (fst (supervise (srv_docker sample_deps sample_config) sample_supervision sample_left)) = ''https://h/x''"
proof -
  have names: "filepath_Join [''/work/j_run'', ''.notification-webhook''] = ''/work/j_run/.notification-webhook''"
    "parent_dir ''/work/logs/j_run.log'' = ''/work/logs''" "TrimSpace ''https://h/x'' = ''https://h/x''"
    by code_simp+
  have start: "same_files (fs_entries sample_left) sample_left"
    by (simp add: same_files_def sample_left_def)
  have log: "\<not> is_dir (map_of (fs_entries sample_left) (parent_dir (sup_LogPath sample_supervision)))"
    by (simp add: names sample_left_def sample_supervision_def)
  show ?thesis
    by (simp add: supervise_def Let_def split_beta
        same_files_supervision [where es = "fs_entries sample_left"] start log)
      (simp add: names sample_left_def sample_supervision_def)
qed

lemma sample_left_parsed: "\<not> isl (url_Parse (\<lambda>_. False) ''https://h/x'')"
proof -
  have "plain_address ''https'' ''h'' '''' ''/x''"
    by (simp add: plain_address_def) code_simp
  then show ?thesis using url_Parse_plain [of "''https''" "''h''" "''''" "''/x''"] by simp
qed


end
