(* ===== verification/Spec2Isabelle.thy ===== *)
theory Spec2Isabelle
  imports Races Fakes Accounts Runner_Facts Server_Facts Page_Facts Gen_Server Commands Json_Facts Liveness Log_Facts
    Notifications
begin

text \<open>
  A verification library of the agentic-delegator service: an HTTP server, written in Go, that
  takes coding jobs from users, runs each in a docker container with the user's own credentials,
  and keeps the jobs, API keys, secrets, sessions and GitHub installations in Postgres.

  \<^bold>\<open>The program's parts.\<close> The domain entities (\<open>core/domain\<close>) are used by the use cases
  (\<open>core/usecase\<close>), which know the rest of the system only through the interfaces of
  \<open>core/usecase/ports\<close>. The adapters (\<open>core/adapter\<close>) implement those interfaces: \<open>postgres\<close>,
  \<open>docker\<close>, \<open>crypto\<close>, \<open>credentials\<close>, \<open>keyhash\<close>, \<open>idgen\<close>, \<open>clock\<close>, \<open>ghapp\<close>, \<open>webhook\<close>; the
  package \<open>http\<close> turns requests into use cases. \<open>cmd/agentic-delegator/main.go\<close> wires them
  together and serves. \<open>core/testutil\<close> has in-memory fakes of the same interfaces.

  \<^bold>\<open>Theories.\<close>
  \<^item> \<open>Prelude\<close>: generic lemmas and the predicates \<open>keeps\<close> and \<open>keyed\<close> the components share.
  \<^item> \<open>Go_Base\<close>, \<open>Go_Text\<close>: what the code uses of Go: errors as values, \<open>errors.Is\<close>,
    instants and durations, strings as bytes, UTF-8, \<open>strconv\<close>, \<open>strings\<close>, \<open>filepath\<close>.
  \<^item> \<open>Json\<close>, \<open>Go_Time\<close>: \<open>encoding/json\<close> (escaping, the grammar with its depth limit, decoding of documents
    into structs with case folding and repeated members) and the JSON text of an instant; what is written
    parses to the same value (\<open>json_text_parses\<close>).
  \<^item> \<open>Go_Url\<close>: \<open>strconv.Quote\<close> and \<open>url.Parse\<close> with the texts of its errors, as of the Go version of
    \<open>go.mod\<close>; a plain address is taken apart as it was put together (\<open>url_Parse_plain\<close>).
  \<^item> \<open>Domain\<close>: \<open>core/domain\<close>, entity by entity; the life cycle of a job as a relation.
  \<^item> \<open>Api_Json\<close>: the JSON documents of the program: jobs, webhook payloads, request bodies and the types
    generated from the API description.
  \<^item> \<open>Ports\<close>: every interface of \<open>core/usecase/ports\<close> as a record of operations, and the
    contracts that a provider promises as locales.
  \<^item> \<open>Job_Store\<close>: the abstract specification: a map from identifiers to jobs with the steps
    submit, start and finish, its invariant and what reachability gives.
  \<^item> \<open>Job_UseCases\<close>: \<open>EnqueueJob\<close>, \<open>GetJob\<close>, \<open>ListJobs\<close>, \<open>CancelJob\<close>,
    \<open>HandleRunnerCompletion\<close>, \<open>ReattachRunningJobs\<close>, \<open>DispatchCompletionWebhook\<close>.
  \<^item> \<open>Job_Refinement\<close>: the locale \<open>job_env\<close> of the laws the job use cases rely on, and in it
    the refinement of the abstract store by each use case.
  \<^item> \<open>Tables\<close>, \<open>Postgres\<close>, \<open>Postgres_Auth\<close>: tables with their keys, and the repositories of
    \<open>core/adapter/postgres\<close>; interpretations of the contracts of \<open>Ports\<close>.
  \<^item> \<open>Fakes\<close>: \<open>core/testutil\<close>; interpretations of the same contracts.
  \<^item> \<open>Digests\<close>, \<open>Crypto\<close>, \<open>Aes\<close>, \<open>Api_Keys\<close>: SHA-256 and HMAC, GCM over a block function and the encrypted
    secrets, the AES block function the server runs it with, random identifiers and the hashed API keys.
  \<^item> \<open>Host\<close>, \<open>Docker_Runner\<close>, \<open>Webhook_Out\<close>: the state of the machine the server runs on (files,
    executed commands, requests sent), the runner and the outbound webhook.
  \<^item> \<open>Http_Base\<close>, \<open>Http_Auth\<close>, \<open>Ghapp\<close>, \<open>Http_Api\<close>, \<open>Config\<close>: requests and responses, sign-in,
    the GitHub App, the handlers and the routes, the configuration.
  \<^item> \<open>Server\<close>, \<open>Server_Invariant\<close>, \<open>Races\<close>: the wiring of \<open>main.go\<close>, the step relation of the
    running server, its refinement of the abstract store, and what interleavings can do.
  \<^item> \<open>Gen_Server\<close>, \<open>Commands\<close>: the generated \<open>gen/server.go\<close> and the table of routes as \<open>NewRouter\<close>
    registers it, shown to answer as \<open>serve\<close> does; the command line and the migrate command; \<open>Db_Pool\<close>: the
    limits of the connection pool.
  \<^item> \<open>Accounts\<close>, \<open>Runner_Facts\<close>, \<open>Server_Facts\<close>: what composed components do for a user: the life of a
    key and of a session, who sees a job; what the runner leaves in commands and files; what the
    configuration, the docker daemon and GitHub can make the whole server do.
  \<^item> \<open>Json_Facts\<close>, \<open>Log_Facts\<close>, \<open>Liveness\<close>, \<open>Notifications\<close>: what clients read (every JSON answer parses, under
    which names a job is answered, which lines of a log are shown), that a running job ends when its container
    does, and who is told of its end.
  \<^item> \<open>Html\<close>, \<open>Ui\<close>, \<open>Pages\<close>, \<open>Page_Facts\<close>: the generated pages of \<open>core/presenter/templ\<close>. A component is
    its Go function and every nested closure \<open>Var\<close>\<open>n\<close> of it, with the statements in order; a relation
    on renderings (\<open>same_markup\<close>) that every component keeps shows that texts cannot add markup.

  \<^bold>\<open>State and effects.\<close> An operation with effects is a function \<open>'s \<Rightarrow> (go_error + 'a) \<times> 's\<close>
  (type \<open>act\<close>): \<open>Inl\<close> is the error the Go code returns, and the state is returned also then. The
  records \<open>go_env\<close> (clock and entropy), \<open>db\<close> (the tables) and \<open>host\<close> (files, commands, requests)
  extend one another. Whether a statement of the database, a system call, a command or a request
  fails, and what it then answers, is read from a field of the state that the theorems leave
  arbitrary: so each error path of the code is a branch that a theorem has to cover.

  \<^bold>\<open>Integers.\<close> Go's \<open>int\<close>, \<open>int64\<close> and \<open>time.Duration\<close> are \<open>int\<close> where the code only compares or
  counts, and 64-bit words where it multiplies (\<open>Config.job_duration\<close>). Instants are integers in
  nanoseconds; that a Postgres \<open>TIMESTAMPTZ\<close> keeps only microseconds is not modelled.

  \<^bold>\<open>Termination.\<close> Every loop of the modelled code is a structural recursion or has a proved
  measure; no definition takes fuel. The wait for the end of a container is not a loop: the end
  is an event of the step relation.

  \<^bold>\<open>Parameters.\<close> Code that is not in the repository is an argument: bcrypt, the ghinstallation library, the
  templ library, the binding of parameters by the runtime of the generated server, the migrator of bun. Of
  the standard library, AES, SHA-256, base32, \<open>encoding/json\<close> and \<open>url.Parse\<close> are definitions; the texts of the
  decoder's errors, Unicode's table of printable characters and the time zone of the machine are
  arguments. What a theorem needs of an argument is a hypothesis of it, with a witness. The handlers take their pages from
  the record \<open>http_codec\<close>, so the theorems about the server hold for any pages; \<open>with_pages\<close> is the
  codec with the generated ones.

  \<^bold>\<open>Runs.\<close> \<open>Liveness\<close> speaks of infinite runs of the step relation; that the container of a job ends at some
  point of the run, with a database that answers, is the fairness hypothesis of its theorem.

  \<^bold>\<open>Not modelled.\<close> The driver that connects to the database (an address it refuses panics) and bun's
  migrator; the listener, its timeouts and the signals; the file server of the style sheet; the answer
  405 that chi gives to methods it does not know; the recovery from panics and the tagging of requests with
  identifiers by chi's middleware. These are calls of third-party packages.
  HTTP is modelled from the request the router sees to the response the handler writes.
\<close>

section \<open>The server as a whole\<close>

lemma sample_wf: "wf_store (pg_jobs_of sample_host)"
  by (auto simp: sample_host_jobs sample_db_jobs wf_store_def)

lemma sample_event:
  "srv_steps sample_deps sample_config sample_host
     (snd (serve sample_deps sample_config (sample_request ''POST'' ''/api/jobs/j_run/cancel'') sample_host))"
  by (rule r_into_rtranclp, rule srv_step.request)






lemma sample_running_jobs: "running_jobs (pg_jobs_of sample_host) P \<subseteq> {''j_run''}"
  by (auto simp: running_jobs_def sample_host_jobs sample_db_jobs split: if_splits)

lemma sample_running_card: "card (running_jobs (pg_jobs_of sample_host) P) \<le> 1"
  using card_mono [OF _ sample_running_jobs] by fastforce




text \<open>
  C5. EnqueueJob on the production adapters either fails and leaves the jobs as they were, or
  adds exactly one new job that carries the request: an answer names that job with its stored
  status, queued or running; an error leaves it queued, or failed with the text of the error.
\<close>

theorem enqueue_result:
  fixes s :: "'z host_scheme"
  assumes "EnqueueJob_Execute (srv_enqueue D cfg) inp s = (r, s')" and "pg_ok s"
  shows "enqueue_effect (srv_enqueue D cfg :: 'z host_scheme EnqueueJob) inp r (pg_jobs_of s) (pg_jobs_of s')"
  by (rule prod.enqueue_outcome [OF assms(2) _ assms(1)])
    (simp add: srv_enqueue_def srv_repo_creds_def srv_anthropic_def srv_secrets_def srv_runner_def)

theorem enqueue_result_witness:
  "let inp = \<lparr>EnqueueJobInput_UserID = ''u2'', EnqueueJobInput_Repo = ''o/r'', EnqueueJobInput_BaseBranch = ''main'',
        EnqueueJobInput_WorkBranch = ''w'', EnqueueJobInput_Spec = sample_spec, EnqueueJobInput_ModelOverride = '''',
        EnqueueJobInput_LogPath = ''''\<rparr>;
      uc = srv_enqueue sample_deps sample_config;
      out = EnqueueJob_Execute uc inp sample_host
   in enqueue_effect uc inp (fst out) (pg_jobs_of sample_host) (pg_jobs_of (snd out))"
  unfolding Let_def by (rule enqueue_result [OF prod.collapse [symmetric] sample_host_ok])

text \<open>
  C6. A user who asks to cancel a job of another user gets an error; no job changes and no
  docker command is executed.
\<close>

theorem cancel_isolation:
  assumes "pg_ok s" and "pg_jobs_of s i = Some j" and "Job_UserID j \<noteq> u"
    and "CancelJob_Execute (srv_cancel D cfg) i u s = (r, s')"
  shows "isl r \<and> pg_jobs_of s' = pg_jobs_of s \<and> exec_log s' = exec_log s"
proof (cases "i = '''' \<or> u = ''''")
  case True
  then show ?thesis using assms(4) by (auto simp: CancelJob_Execute_def)
next
  case False
  obtain g s1 where g: "JobsRepo_GetForUser i u s = (g, s1)" by fastforce
  then obtain fs where s1: "s1 = s\<lparr>db_faults := fs\<rparr>" by (rule JobsRepo_GetForUser_state)
  have "isl g" using pg.GetForUser_isolates [OF assms(1-3)] g by (simp add: JobsRepo_def)
  then show ?thesis
    using assms(4) False g s1 by (auto simp: CancelJob_Execute_def srv_cancel_def wire_cancel_def JobsRepo_def
        split: sum.splits)
qed

theorem cancel_isolation_witness:
  "isl (fst (CancelJob_Execute (srv_cancel sample_deps sample_config) ''j_run'' ''u2'' sample_host))"
proof -
  have "pg_jobs_of sample_host ''j_run'' = Some sample_running"
    by (simp add: sample_host_jobs sample_db_jobs)
  from cancel_isolation [OF sample_host_ok this _ prod.collapse [symmetric], of "''u2''"]
  show ?thesis by simp
qed

text \<open>
  C7. A cancellation that succeeds was asked by the owner of an active job; exactly that job is
  now cancelled, with its time of finishing, and its container, when it has one, was killed.
\<close>

theorem cancel_effect:
  assumes "pg_ok s" and "wf_store (pg_jobs_of s)"
    and "CancelJob_Execute (srv_cancel D cfg) i u s = (Inr (), s')"
  shows "\<exists>j j'. pg_jobs_of s i = Some j \<and> Job_UserID j = u \<and> active_status (Job_Status j)
    \<and> pg_jobs_of s' = (pg_jobs_of s)(i \<mapsto> j') \<and> same_request j j'
    \<and> Job_Status j' = JobStatusCancelled \<and> Job_FinishedAt j' \<noteq> None
    \<and> exec_log s' = exec_log s @
        (if Job_ContainerID j = '''' then [] else [[''docker'', ''kill'', Job_ContainerID j]])"
proof -
  let ?uc = "srv_cancel D cfg :: 'a host_scheme CancelJob"
  have w: "CancelJob_Jobs ?uc = JobsRepo" "CancelJob_Clock ?uc = SystemClock"
    "Runner_Stop (CancelJob_Runner ?uc) = Docker_Stop"
    by (simp_all add: srv_cancel_def wire_cancel_def srv_runner_def Docker_Runner_def)
  obtain g s1 where g: "JobsRepo_GetForUser i u s = (g, s1)" by fastforce
  then obtain fs where s1: "s1 = s\<lparr>db_faults := fs\<rparr>" by (rule JobsRepo_GetForUser_state)
  note unf = assms(3) [unfolded CancelJob_Execute_def w]
  obtain j where gj: "g = Inr j" and nt: "\<not> IsTerminal j"
    using unf g by (auto simp: JobsRepo_def split: sum.splits if_splits)
  have j: "pg_jobs_of s i = Some j" "Job_UserID j = u"
    using pg.GetForUser_ok [OF assms(1), of i u j s1] g gj by (simp_all add: JobsRepo_def)
  then have wf: "wf_job j" "Job_ID j = i" using assms(2) by (simp_all add: wf_store_def)
  define s2 where "s2 = (if Job_ContainerID j \<noteq> '''' then snd (Docker_Stop (Job_ContainerID j) s1) else s1)"
  have s2: "pg_ok s2" "pg_jobs_of s2 = pg_jobs_of s" "exec_log s2 = exec_log s @
        (if Job_ContainerID j = '''' then [] else [[''docker'', ''kill'', Job_ContainerID j]])"
    using assms(1) by (simp_all add: s2_def s1 Docker_Stop_def exec_Command_def Let_def)
  obtain t s3 where t: "time_Now s2 = (t, s3)" by fastforce
  have s3: "pg_ok s3" "pg_jobs_of s3 = pg_jobs_of s" "exec_log s3 = exec_log s2"
    using t s2 by (auto simp: time_Now_def)
  obtain e j' where m: "MarkCancelled j t = (e, j')" by fastforce
  have m': "e = None" "same_request j j'" "Job_Status j' = JobStatusCancelled" "Job_FinishedAt j' \<noteq> None"
    "active_status (Job_Status j)"
    using m nt wf_job_known [OF wf(1)]
    by (auto simp: MarkCancelled_def active_status_def known_status_def IsTerminal_def same_request_def split: if_splits)
  have up: "JobsRepo_Update j' s3 = (Inr (), s')"
    using unf g gj nt t m m'(1) by (simp add: JobsRepo_def SystemClock_def s2_def split: if_splits)
  then obtain fs' rows where s': "s' = s3\<lparr>db_faults := fs', db_jobs := rows\<rparr>" by (rule JobsRepo_Update_state)
  have "pg_jobs_of s' = (pg_jobs_of s)(i \<mapsto> j')"
    using pg.Update_ok [OF s3(1), of j' "()" s'] up s3(2) wf(2) same_requestD(1) [OF m'(2)] by (simp add: JobsRepo_def)
  then show ?thesis using j m' s2(3) s3(3) s' by auto
qed

lemma sample_cancel:
  "CancelJob_Execute (srv_cancel sample_deps sample_config) ''j_run'' ''u1'' sample_host
     = (Inr (), snd (CancelJob_Execute (srv_cancel sample_deps sample_config) ''j_run'' ''u1'' sample_host))"
proof -
  have ok: "pg_ok sample_host" "db_faults sample_host = []" by simp_all
  have get: "JobsRepo_GetForUser ''j_run'' ''u1'' sample_host = (Inr sample_running, sample_host)"
    by (simp add: JobsRepo_GetForUser_def JobsRepo_Get_eq [OF ok] sample_host_jobs sample_db_jobs)
  have user1: "user_exists ''u1'' sample_host" by (simp add: user_exists_def sample_db_def)
  define t where "t = snd (Docker_Stop (Job_ContainerID sample_running) sample_host)"
  define s where "s = snd (time_Now t)"
  let ?j = "snd (MarkCancelled sample_running (fst (time_Now t)))"
  have t: "pg_ok t" "db_faults t = []" "pg_jobs_of t = pg_jobs_of sample_host" "db_users t = db_users sample_host"
    using ok by (simp_all add: t_def Docker_Stop_def exec_Command_def Let_def)
  have s: "pg_ok s" "db_faults s = []" "pg_jobs_of s (Job_ID ?j) \<noteq> None" "user_exists (Job_UserID ?j) s"
    using t user1 by (auto simp: s_def time_Now_def MarkCancelled_def sample_host_jobs sample_db_jobs user_exists_def)
  obtain rows where "JobsRepo_Update ?j s = (Inr (), s\<lparr>db_jobs := rows\<rparr>)"
    by (rule JobsRepo_Update_eq [OF s])
  moreover have "Job_ContainerID sample_running \<noteq> ''''" by (simp add: sample_jobs)
  ultimately show ?thesis
    using get
    by (simp add: CancelJob_Execute_def srv_cancel_def wire_cancel_def JobsRepo_def IsTerminal_def
        SystemClock_def MarkCancelled_def srv_runner_def Docker_Runner_def t_def [symmetric] s_def
        time_Now_def)
qed

theorem cancel_effect_witness:
  "\<exists>j'. pg_jobs_of (snd (CancelJob_Execute (srv_cancel sample_deps sample_config) ''j_run'' ''u1'' sample_host))
      = (pg_jobs_of sample_host)(''j_run'' \<mapsto> j') \<and> Job_Status j' = JobStatusCancelled"
  using cancel_effect [OF sample_host_ok sample_wf sample_cancel] by blast

text \<open>
  C8. The completion of a stored job, on a database that answers: a running job becomes
  succeeded with the pull request address, or failed with the reason, by the exit code; a
  queued job can only fail; any other case is an invalid transition that changes no job and
  sends no webhook.
\<close>

theorem completion_outcome:
  assumes ok: "pg_ok s" and wf: "wf_store (pg_jobs_of s)" and db: "db_faults s = []"
    and res: "RunnerResult_JobID res \<noteq> ''''" and j: "pg_jobs_of s (RunnerResult_JobID res) = Some j"
    and user: "user_exists (Job_UserID j) s"
    and run: "HandleRunnerCompletion_Execute tz (srv_complete D) res s = (r, s')"
  shows "if Job_Status j = JobStatusRunning \<or> Job_Status j = JobStatusQueued \<and> RunnerResult_ExitCode res \<noteq> 0
    then r = Inr () \<and> (\<exists>j'. pg_jobs_of s' = (pg_jobs_of s)(Job_ID j \<mapsto> j') \<and> same_request j j'
      \<and> (if RunnerResult_ExitCode res = 0
         then Job_Status j' = JobStatusSucceeded \<and> Job_PRURL j' = RunnerResult_PRURL res
         else Job_Status j' = JobStatusFailed \<and> Job_Error j' = completion_reason res)
      \<and> Job_FinishedAt j' = Some (env_clock s (env_clock_reads s)))
    else r = Inl ErrInvalidState \<and> pg_jobs_of s' = pg_jobs_of s \<and> http_log s' = http_log s"
  by (rule completion_run [OF assms])

theorem completion_outcome_witness:
  "\<exists>j'. pg_jobs_of (snd (HandleRunnerCompletion_Execute (\<lambda>_. 0) (srv_complete sample_deps)
       \<lparr>RunnerResult_JobID = ''j_run'', RunnerResult_ExitCode = 0, RunnerResult_PRURL = ''pr'',
        RunnerResult_Error = '''', RunnerResult_NotificationWebhook = '''', RunnerResult_LogTail = ''''\<rparr>
       sample_host)) = (pg_jobs_of sample_host)(''j_run'' \<mapsto> j')
     \<and> Job_Status j' = JobStatusSucceeded \<and> Job_PRURL j' = ''pr''"
proof -
  have "pg_jobs_of sample_host ''j_run'' = Some sample_running" and "wf_store (pg_jobs_of sample_host)"
    by (auto simp: sample_host_jobs sample_db_jobs wf_store_def)
  moreover have "db_faults sample_host = []" and "user_exists ''u1'' sample_host"
    by (simp_all add: sample_host_def user_exists_def sample_db_def)
  ultimately show ?thesis
    using completion_outcome [OF sample_host_ok _ _ _ _ _ prod.collapse [symmetric], of
      "\<lparr>RunnerResult_JobID = ''j_run'', RunnerResult_ExitCode = 0, RunnerResult_PRURL = ''pr'',
        RunnerResult_Error = '''', RunnerResult_NotificationWebhook = '''', RunnerResult_LogTail = ''''\<rparr>"
      sample_running "\<lambda>_. 0" sample_deps] by auto
qed



end
